(* ===== verification/Prelude.thy ===== *)
theory Prelude
  imports Complex_Main "HOL-Library.List_Lexorder" "HOL-Library.Char_ord"
    "HOL-Library.Product_Lexorder" "HOL-Library.Multiset"
begin

text \<open>
  Shared vocabulary of the development: the exceptions of the Python program as values, the
  result type of fallible code and its sequencing operators, Python's dictionary and
  \<open>max(..., key=...)\<close> built-ins, and the generic lemmas on lists, sorting and results that the
  component theories use.
\<close>

section \<open>Exceptions and results\<close>

text \<open>
  One constructor per exception class the modelled code raises; the string is the message
  (without the parts formatted at run time).
\<close>

datatype exc =
    ValueError string
  | TypeError string
  | KeyError string
  | NoResultFound string
  | MultipleResultsFound string
  | IntegrityError string
  | ProjectionConflictError string
  | OfficialStateMutationError string
  | IllegalLifecycleTransitionError string
  | SnapshotNotSealedError string
  | UnknownFactRuleError string
  | UnknownFactCodeError string
  | ThresholdUnavailableError string
  | ThresholdActivationError string
  | ThresholdLineageError string
  | OfficialThresholdGateError string
  | ArtifactError string
  | CalibrationInputError string
  | OverflowError string
  | IndexError string
  | StructError string
  | TdxProtocolError string
  | InvalidOperation string
  | TdxBlockParseError string
  | LookupError string
  | SnapshotError string
  | FutureInputError string
  | RequiredCapabilityError string
  | SnapshotSkewError string
  | SnapshotFreshnessError string

type_synonym 'a result = "exc + 'a"

named_theorems result_simps "equations for sequencing results and commands"

definition bindR :: "'a result \<Rightarrow> ('a \<Rightarrow> 'b result) \<Rightarrow> 'b result" where
  "bindR m f = (case m of Inl e \<Rightarrow> Inl e | Inr x \<Rightarrow> f x)"

definition guardR :: "bool \<Rightarrow> exc \<Rightarrow> 'a result \<Rightarrow> 'a result" where
  "guardR bad e k = (if bad then Inl e else k)"

lemma bindR_simps [simp, result_simps]:
  "bindR (Inl e) f = Inl e"
  "bindR (Inr x) f = f x"
  by (simp_all add: bindR_def)

lemma bindR_eq_Inr [result_simps]:
  "bindR m f = Inr y \<longleftrightarrow> (\<exists>x. m = Inr x \<and> f x = Inr y)"
  by (cases m) simp_all

lemma bindR_eq_Inl [result_simps]:
  "bindR m f = Inl e \<longleftrightarrow> m = Inl e \<or> (\<exists>x. m = Inr x \<and> f x = Inl e)"
  by (cases m) simp_all

lemma guardR_eq_Inr [simp, result_simps]: "guardR b e k = Inr y \<longleftrightarrow> \<not> b \<and> k = Inr y"
  by (simp add: guardR_def)

lemma guardR_simps [simp]:
  "guardR True e k = Inl e"
  "guardR False e k = k"
  by (simp_all add: guardR_def)

lemma guardR_eq_Inl [result_simps]:
  "guardR b e k = Inl e' \<longleftrightarrow> (b \<and> e' = e) \<or> (\<not> b \<and> k = Inl e')"
  by (auto simp: guardR_def)

text \<open>\<open>option\<close> read as a lookup that raises.\<close>

definition require :: "exc \<Rightarrow> 'a option \<Rightarrow> 'a result" where
  "require e m = (case m of None \<Rightarrow> Inl e | Some x \<Rightarrow> Inr x)"

lemma require_simps [simp]:
  "require e None = Inl e"
  "require e (Some x) = Inr x"
  by (simp_all add: require_def)

lemma require_eq_Inr [simp, result_simps]: "require e m = Inr x \<longleftrightarrow> m = Some x"
  by (cases m) simp_all

text \<open>A comprehension whose element expression may raise.\<close>

fun mapR :: "('a \<Rightarrow> 'b result) \<Rightarrow> 'a list \<Rightarrow> 'b list result" where
  "mapR f [] = Inr []"
| "mapR f (x # xs) = bindR (f x) (\<lambda>y. bindR (mapR f xs) (\<lambda>ys. Inr (y # ys)))"

lemma mapR_Inr_iff: "mapR f xs = Inr ys \<longleftrightarrow> map f xs = map Inr ys"
proof (induction xs arbitrary: ys)
  case Nil
  then show ?case by auto
next
  case (Cons x xs)
  then show ?case by (cases ys) (auto simp: bindR_eq_Inr)
qed

lemma mapR_total:
  "(\<And>x. x \<in> set xs \<Longrightarrow> f x = Inr (g x)) \<Longrightarrow> mapR f xs = Inr (map g xs)"
  by (induction xs) simp_all

lemma mapR_require:
  "set xs \<subseteq> dom m \<Longrightarrow> mapR (\<lambda>x. require (e x) (m x)) xs = Inr (map (\<lambda>x. the (m x)) xs)"
  by (rule mapR_total) (auto simp: subset_iff domIff require_def split: option.splits)

text \<open>A comprehension whose condition may raise: \<open>[x for x in xs if p(x)]\<close>.\<close>

fun filterR :: "('a \<Rightarrow> bool result) \<Rightarrow> 'a list \<Rightarrow> 'a list result" where
  "filterR p [] = Inr []"
| "filterR p (x # xs) =
     bindR (p x) (\<lambda>b. bindR (filterR p xs) (\<lambda>ys. Inr (if b then x # ys else ys)))"

lemma filterR_total:
  "(\<And>x. x \<in> set xs \<Longrightarrow> p x = Inr (q x)) \<Longrightarrow> filterR p xs = Inr (filter q xs)"
  by (induction xs) simp_all

section \<open>Python built-ins\<close>

text \<open>\<open>dict(pairs)\<close>: a later pair overwrites an earlier one with the same key.\<close>

definition pydict :: "('k \<times> 'v) list \<Rightarrow> 'k \<rightharpoonup> 'v" where
  "pydict ps = map_of (rev ps)"

lemma map_of_perm:
  assumes "distinct (map fst ps)" and "mset ps = mset qs"
  shows "map_of ps = map_of qs"
proof
  fix k
  have "mset (map fst ps) = mset (map fst qs)" using assms(2) by simp
  then have d: "distinct (map fst qs)" using assms(1) mset_eq_imp_distinct_iff by blast
  have s: "set ps = set qs" using assms(2) by (rule mset_eq_setD)
  show "map_of ps k = map_of qs k"
  proof (cases "map_of ps k")
    case None
    then show ?thesis using s by (metis map_of_eq_None_iff)
  next
    case (Some v)
    then show ?thesis using assms(1) d s by (metis map_of_eq_Some_iff)
  qed
qed

lemma pydict_distinct: "distinct (map fst ps) \<Longrightarrow> pydict ps = map_of ps"
  unfolding pydict_def by (rule map_of_perm [symmetric]) simp_all

lemma dom_pydict: "dom (pydict ps) = fst ` set ps"
  by (simp add: pydict_def dom_map_of_conv_image_fst)

text \<open>\<open>max(xs, key=f)\<close> keeps the first of several maximal elements.\<close>

fun pymax_key :: "('a \<Rightarrow> 'k::linorder) \<Rightarrow> 'a \<Rightarrow> 'a list \<Rightarrow> 'a" where
  "pymax_key f best [] = best"
| "pymax_key f best (x # xs) = pymax_key f (if f best < f x then x else best) xs"

lemma pymax_key_in: "pymax_key f b xs \<in> set (b # xs)"
  by (induction xs arbitrary: b) (simp, fastforce)

lemma pymax_key_ge_start: "f b \<le> f (pymax_key f b xs)"
proof (induction xs arbitrary: b)
  case (Cons y ys)
  have "f b \<le> f (if f b < f y then y else b)" by (simp add: less_imp_le)
  also have "\<dots> \<le> f (pymax_key f b (y # ys))" using Cons.IH by simp
  finally show ?case .
qed simp

lemma pymax_key_ge: "x \<in> set (b # xs) \<Longrightarrow> f x \<le> f (pymax_key f b xs)"
proof (induction xs arbitrary: b)
  case (Cons y ys)
  let ?b = "if f b < f y then y else b"
  show ?case
  proof (cases "x \<in> set ys")
    case True
    then show ?thesis using Cons.IH [of ?b] by simp
  next
    case False
    then have "f x \<le> f ?b" using Cons.prems by auto
    also have "\<dots> \<le> f (pymax_key f b (y # ys))" using pymax_key_ge_start [of f ?b ys] by simp
    finally show ?thesis .
  qed
qed simp

text \<open>\<open>max(xs, key=f) if xs else default\<close>.\<close>

definition pymax_or :: "('a \<Rightarrow> 'k::linorder) \<Rightarrow> 'a \<Rightarrow> 'a list \<Rightarrow> 'a" where
  "pymax_or f d xs = (case xs of [] \<Rightarrow> d | x # ys \<Rightarrow> pymax_key f x ys)"

lemma pymax_or_in: "xs \<noteq> [] \<Longrightarrow> pymax_or f d xs \<in> set xs"
  using pymax_key_in by (cases xs) (simp_all only: pymax_or_def list.case, simp)

lemma pymax_or_ge: "x \<in> set xs \<Longrightarrow> f x \<le> f (pymax_or f d xs)"
  using pymax_key_ge [of x _ _ f] by (cases xs) (simp_all add: pymax_or_def)

text \<open>\<open>str.strip()\<close> leaves an empty string exactly when every character is white space; the
  source only tests the stripped string for emptiness. Text is UTF-8 bytes; the ASCII white space
  characters are modelled.\<close>

definition py_space :: "char \<Rightarrow> bool" where
  "py_space c = (of_char c \<in> {9, 10, 11, 12, 13, 28, 29, 30, 31, 32 :: nat})"

definition blank :: "string \<Rightarrow> bool" where
  "blank s = list_all py_space s"

lemma blank_Nil [simp]: "blank []"
  by (simp add: blank_def)

section \<open>Sorting\<close>

lemma sort_key_perm:
  assumes "mset xs = mset ys" and "inj_on f (set xs)"
  shows "sort_key f xs = sort_key f ys"
proof (rule sort_key_inj_key_eq)
  show "mset xs = mset (sort_key f ys)" using assms(1) by simp
  show "inj_on f (set xs)" by (fact assms(2))
  show "sorted (map f (sort_key f ys))" by simp
qed

lemma sort_perm: "mset xs = mset ys \<Longrightarrow> sort xs = sort ys"
  by (rule sort_key_perm) simp_all

lemma inj_on_map_fst: "distinct (map fst ps) \<Longrightarrow> inj_on fst (set ps)"
  by (simp add: distinct_map)

text \<open>A row found by a unique key is found alone.\<close>

lemma filter_unique:
  assumes "distinct (map f xs)" and "x \<in> set xs"
  shows "filter (\<lambda>y. f y = f x) xs = [x]"
  using assms
proof (induction xs)
  case (Cons z zs)
  show ?case
  proof (cases "z = x")
    case True
    then have "f y \<noteq> f x" if "y \<in> set zs" for y using Cons.prems that by (auto simp: image_iff)
    then have "filter (\<lambda>y. f y = f x) zs = []" by (simp add: filter_empty_conv)
    then show ?thesis using True by simp
  next
    case False
    then have "f z \<noteq> f x" using Cons.prems by (auto simp: image_iff)
    then show ?thesis using False Cons by simp
  qed
qed simp

end
