(* ===== verification/Rounding.thy ===== *)
theory Rounding
  imports Prelude
begin

text \<open>
  Correctly rounded arithmetic to a fixed number of significant digits, in any base, with ties to
  even. Base 10 with 28 digits is the default context of Python's \<open>decimal\<close> module; base 2 with
  53 digits is the arithmetic of \<open>float\<close>. A finite number is its exact value, a \<open>rat\<close>; exponent
  overflow and underflow (far outside market data) and the special values are not modelled.

  The main facts are \<open>round_sig_mono\<close> (rounding is monotone) and \<open>round_sig_exact\<close>
  (a number that fits the precision is unchanged).
\<close>

section \<open>Rounding to an integer, ties to even\<close>

definition half_even :: "rat \<Rightarrow> int" where
  "half_even x =
     (let f = \<lfloor>x\<rfloor>; r = x - of_int f
      in if r < 1 / 2 then f else if r > 1 / 2 then f + 1 else if even f then f else f + 1)"

lemma half_even_floor: "half_even x = \<lfloor>x\<rfloor> \<or> half_even x = \<lfloor>x\<rfloor> + 1"
  by (simp add: half_even_def Let_def)

lemma half_even_int [simp]: "half_even (of_int n) = n"
  by (simp add: half_even_def Let_def)

lemma half_even_0 [simp]: "half_even 0 = 0"
  using half_even_int [of 0] by simp

lemma half_even_1 [simp]: "half_even 1 = 1"
  using half_even_int [of 1] by simp

lemma half_even_numeral [simp]: "half_even (numeral n) = numeral n"
  using half_even_int [of "numeral n"] by simp

lemma half_even_mono:
  assumes "x \<le> y"
  shows "half_even x \<le> half_even y"
proof (cases "\<lfloor>x\<rfloor> = \<lfloor>y\<rfloor>")
  case True
  then show ?thesis using assms by (auto simp: half_even_def Let_def)
next
  case False
  then have "\<lfloor>x\<rfloor> + 1 \<le> \<lfloor>y\<rfloor>" using assms floor_mono [of x y] by linarith
  then show ?thesis using half_even_floor [of x] half_even_floor [of y] by linarith
qed

lemma half_even_ge: "of_int n \<le> x \<Longrightarrow> n \<le> half_even x"
  using half_even_mono [of "of_int n" x] by simp

lemma half_even_le: "x \<le> of_int n \<Longrightarrow> half_even x \<le> n"
  using half_even_mono [of x "of_int n"] by simp

lemma half_even_nonneg: "0 \<le> x \<Longrightarrow> 0 \<le> half_even x"
  using half_even_ge [of 0] by simp

lemma half_even_error: "\<bar>of_int (half_even x) - x\<bar> \<le> 1 / 2"
proof -
  have "of_int \<lfloor>x\<rfloor> \<le> x" "x < of_int \<lfloor>x\<rfloor> + 1" by linarith+
  then show ?thesis unfolding half_even_def Let_def by (auto simp: abs_le_iff field_simps)
qed

section \<open>The leading digit position\<close>

text \<open>\<open>ndigits b n\<close> is the number of base-\<open>b\<close> digits of \<open>n\<close> (0 for 0); \<open>adjusted b x\<close> is
  the exponent of the leading digit, as \<open>Decimal.adjusted()\<close>.\<close>

function ndigits :: "nat \<Rightarrow> nat \<Rightarrow> nat" where
  "ndigits b n = (if n = 0 \<or> b < 2 then 0 else Suc (ndigits b (n div b)))"
  by pat_completeness auto
termination
  by (relation "measure snd") (auto intro: div_less_dividend)

declare ndigits.simps [simp del]

lemma ndigits_0 [simp]: "ndigits b 0 = 0"
  by (simp add: ndigits.simps)

lemma ndigits_upper: "2 \<le> b \<Longrightarrow> n < b ^ ndigits b n"
proof (induction b n rule: ndigits.induct)
  case (1 b n)
  show ?case
  proof (cases "n = 0")
    case False
    with 1 have "n div b < b ^ ndigits b (n div b)" by simp
    then have "n < b * b ^ ndigits b (n div b)"
      using 1(2) by (simp add: div_less_iff_less_mult mult.commute)
    then show ?thesis using False 1(2) by (subst ndigits.simps) simp
  qed simp
qed

lemma ndigits_lower: "2 \<le> b \<Longrightarrow> 0 < n \<Longrightarrow> b ^ (ndigits b n - 1) \<le> n"
proof (induction b n rule: ndigits.induct)
  case (1 b n)
  show ?case
  proof (cases "n div b = 0")
    case True
    then show ?thesis using 1 by (subst ndigits.simps) simp
  next
    case False
    with 1 have ih: "b ^ (ndigits b (n div b) - 1) \<le> n div b" by simp
    have pos: "ndigits b (n div b) \<noteq> 0" using False 1(2) by (subst ndigits.simps) simp
    then obtain d where d: "ndigits b (n div b) = Suc d" by (cases "ndigits b (n div b)") auto
    have "b * b ^ d \<le> b * (n div b)" using ih d by simp
    also have "\<dots> \<le> n" by simp
    finally have "b ^ ndigits b (n div b) \<le> n" using d by simp
    moreover have "ndigits b n = Suc (ndigits b (n div b))"
      using 1(2,3) by (subst ndigits.simps) simp
    ultimately show ?thesis by simp
  qed
qed

definition adjusted :: "nat \<Rightarrow> rat \<Rightarrow> int" where
  "adjusted b x =
     (if 1 \<le> x then int (ndigits b (nat \<lfloor>x\<rfloor>)) - 1
      else - int (ndigits b (nat (\<lceil>1 / x\<rceil> - 1))))"

lemma of_nat_power_int: "(of_nat b :: rat) ^ n = of_nat b powi int n"
  by simp

lemma less_inverseI: "0 < c \<Longrightarrow> 0 < x \<Longrightarrow> c < 1 / x \<Longrightarrow> x < inverse (c :: rat)"
  by (simp add: pos_less_divide_eq inverse_eq_divide mult.commute)

lemma inverse_leI: "0 < c \<Longrightarrow> 0 < x \<Longrightarrow> 1 / x \<le> c \<Longrightarrow> inverse (c :: rat) \<le> x"
  by (simp add: pos_divide_le_eq inverse_eq_divide mult.commute)

lemma adjusted_bounds:
  assumes b: "2 \<le> b" and x: "0 < x"
  shows "of_nat b powi adjusted b x \<le> x" and "x < of_nat b powi (adjusted b x + 1)"
proof -
  have b0: "(of_nat b :: rat) \<noteq> 0" using b by simp
  have "of_nat b powi adjusted b x \<le> x \<and> x < of_nat b powi (adjusted b x + 1)"
  proof (cases "1 \<le> x")
    case True
    let ?n = "nat \<lfloor>x\<rfloor>" and ?d = "ndigits b (nat \<lfloor>x\<rfloor>)"
    have n: "0 < ?n" using True by simp
    have d: "0 < ?d" using n b by (subst ndigits.simps) simp
    have "b ^ (?d - 1) \<le> ?n" by (rule ndigits_lower [OF b n])
    then have "(of_nat b :: rat) ^ (?d - 1) \<le> of_nat ?n"
      by (metis of_nat_le_iff of_nat_power)
    also have "\<dots> \<le> x" using True by simp
    finally have lo: "(of_nat b :: rat) ^ (?d - 1) \<le> x" .
    have "Suc ?n \<le> b ^ ?d" using ndigits_upper [OF b, of ?n] by simp
    then have "(of_nat (Suc ?n) :: rat) \<le> of_nat b ^ ?d"
      by (metis of_nat_le_iff of_nat_power)
    moreover have "x < of_nat (Suc ?n)" using True by (simp add: less_floor_iff) linarith
    ultimately have hi: "x < of_nat b ^ ?d" by simp
    have "adjusted b x = int (?d - 1)" "int (?d - 1) + 1 = int ?d"
      using True d by (simp_all add: adjusted_def)
    with lo hi show ?thesis by (simp only: power_int_of_nat simp_thms)
  next
    case False
    let ?m = "nat (\<lceil>1 / x\<rceil> - 1)" and ?k = "ndigits b (nat (\<lceil>1 / x\<rceil> - 1))"
    have inv: "1 < 1 / x" using False x by simp
    have m: "0 < ?m" using inv by (simp add: less_ceiling_iff)
    have k: "0 < ?k" using m b by (subst ndigits.simps) simp
    have "Suc ?m \<le> b ^ ?k" using ndigits_upper [OF b, of ?m] by simp
    then have "(of_nat (Suc ?m) :: rat) \<le> of_nat b ^ ?k"
      by (metis of_nat_le_iff of_nat_power)
    moreover have "1 / x \<le> of_nat (Suc ?m)"
    proof -
      have "int (Suc ?m) = \<lceil>1 / x\<rceil>" using m by linarith
      then have "rat_of_nat (Suc ?m) = of_int \<lceil>1 / x\<rceil>" by (metis of_int_of_nat_eq)
      then show ?thesis by (simp only: le_of_int_ceiling)
    qed
    ultimately have "1 / x \<le> of_nat b ^ ?k" by simp
    then have lo: "inverse (of_nat b ^ ?k) \<le> x"
      using x b by (intro inverse_leI) simp_all
    have "b ^ (?k - 1) \<le> ?m" by (rule ndigits_lower [OF b m])
    then have "(of_nat b :: rat) ^ (?k - 1) \<le> of_nat ?m"
      by (metis of_nat_le_iff of_nat_power)
    moreover have "of_nat ?m < 1 / x"
    proof -
      have "int ?m = \<lceil>1 / x\<rceil> - 1" using m by linarith
      then have "rat_of_nat ?m = of_int (\<lceil>1 / x\<rceil> - 1)" by (metis of_int_of_nat_eq)
      then show ?thesis by linarith
    qed
    ultimately have "of_nat b ^ (?k - 1) < 1 / x" by (rule le_less_trans)
    then have hi: "x < inverse (of_nat b ^ (?k - 1))"
      using x b by (intro less_inverseI) simp_all
    have e: "adjusted b x = - int ?k" using False by (simp add: adjusted_def)
    have e1: "adjusted b x + 1 = - int (?k - 1)" unfolding e using k by linarith
    show ?thesis unfolding e1 unfolding e using lo hi
      by (simp only: power_int_minus power_int_of_nat simp_thms)
  qed
  then show "of_nat b powi adjusted b x \<le> x" "x < of_nat b powi (adjusted b x + 1)"
    by simp_all
qed

lemma powi_less_iff:
  assumes "1 < (a :: rat)"
  shows "a powi m < a powi n \<longleftrightarrow> m < n"
proof
  assume l: "a powi m < a powi n"
  show "m < n"
  proof (rule ccontr)
    assume "\<not> m < n"
    then have "a powi n \<le> a powi m" using assms by (intro power_int_increasing) simp_all
    with l show False by simp
  qed
next
  assume "m < n"
  then show "a powi m < a powi n" using assms by (intro power_int_strict_increasing) simp_all
qed

lemma adjusted_eqI:
  assumes b: "2 \<le> b" and lo: "of_nat b powi e \<le> x" and hi: "x < of_nat b powi (e + 1)"
  shows "adjusted b x = e"
proof -
  have b1: "1 < (of_nat b :: rat)" using b by simp
  have x: "0 < x" using lo b1 by (metis less_le_trans zero_less_power_int less_trans zero_less_one)
  have "of_nat b powi adjusted b x < (of_nat b powi (e + 1) :: rat)"
    using adjusted_bounds(1) [OF b x] hi by simp
  then have "adjusted b x < e + 1" using b1 by (simp add: powi_less_iff)
  moreover have "of_nat b powi e < (of_nat b powi (adjusted b x + 1) :: rat)"
    using adjusted_bounds(2) [OF b x] lo by simp
  then have "e < adjusted b x + 1" using b1 by (simp add: powi_less_iff)
  ultimately show ?thesis by simp
qed

lemma adjusted_mono:
  assumes b: "2 \<le> b" and x: "0 < x" and xy: "x \<le> y"
  shows "adjusted b x \<le> adjusted b y"
proof -
  have b1: "1 < (of_nat b :: rat)" using b by simp
  have "of_nat b powi adjusted b x < (of_nat b powi (adjusted b y + 1) :: rat)"
    using adjusted_bounds(1) [OF b x] adjusted_bounds(2) [OF b, of y] x xy by linarith
  then show ?thesis using b1 by (simp add: powi_less_iff)
qed

section \<open>Rounding to significant digits\<close>

text \<open>\<open>quantum b p x\<close> is the weight of the last of the \<open>p\<close> digits kept.\<close>

definition quantum :: "nat \<Rightarrow> nat \<Rightarrow> rat \<Rightarrow> rat" where
  "quantum b p x = of_nat b powi (adjusted b x - (int p - 1))"

definition round_pos :: "nat \<Rightarrow> nat \<Rightarrow> rat \<Rightarrow> rat" where
  "round_pos b p x = of_int (half_even (x / quantum b p x)) * quantum b p x"

definition round_sig :: "nat \<Rightarrow> nat \<Rightarrow> rat \<Rightarrow> rat" where
  "round_sig b p x =
     (if x = 0 then 0 else if 0 < x then round_pos b p x else - round_pos b p (- x))"

lemma round_sig_0 [simp]: "round_sig b p 0 = 0"
  by (simp add: round_sig_def)

lemma round_sig_minus: "round_sig b p (- x) = - round_sig b p x"
  by (simp add: round_sig_def)

lemma quantum_pos: "2 \<le> b \<Longrightarrow> 0 < quantum b p x"
  by (simp add: quantum_def zero_less_power_int)

lemma round_pos_bounds:
  assumes b: "2 \<le> b" and p: "0 < p" and x: "0 < x"
  shows "of_nat b powi adjusted b x \<le> round_pos b p x"
    and "round_pos b p x \<le> of_nat b powi (adjusted b x + 1)"
proof -
  let ?q = "quantum b p x"
  have q: "0 < ?q" by (rule quantum_pos [OF b])
  have b0: "(of_nat b :: rat) \<noteq> 0" using b by simp
  have lo: "of_nat b powi adjusted b x = of_int (int b ^ (p - 1)) * ?q"
    using b0 p by (simp add: quantum_def power_int_add [symmetric] of_nat_power_int of_nat_diff
        del: power_int_of_nat)
  have hi: "of_nat b powi (adjusted b x + 1) = of_int (int b ^ p) * ?q"
    using b0 p by (simp add: quantum_def power_int_add [symmetric] of_nat_power_int
        del: power_int_of_nat)
  have "of_int (int b ^ (p - 1)) \<le> x / ?q"
    using adjusted_bounds(1) [OF b x] lo q by (simp add: pos_le_divide_eq)
  then have "int b ^ (p - 1) \<le> half_even (x / ?q)" by (rule half_even_ge)
  then have "rat_of_int (int b ^ (p - 1)) \<le> of_int (half_even (x / ?q))"
    by (simp only: of_int_le_iff)
  then show "of_nat b powi adjusted b x \<le> round_pos b p x"
    unfolding lo round_pos_def using q by (simp only: mult_le_cancel_right_pos)
  have "x / ?q \<le> of_int (int b ^ p)"
    using adjusted_bounds(2) [OF b x] hi q by (simp add: pos_divide_le_eq)
  then have "half_even (x / ?q) \<le> int b ^ p" by (rule half_even_le)
  then have "rat_of_int (half_even (x / ?q)) \<le> of_int (int b ^ p)"
    by (simp only: of_int_le_iff)
  then show "round_pos b p x \<le> of_nat b powi (adjusted b x + 1)"
    unfolding hi round_pos_def using q by (simp only: mult_le_cancel_right_pos)
qed

lemma round_pos_pos:
  assumes "2 \<le> b" "0 < p" "0 < x"
  shows "0 < round_pos b p x"
  using round_pos_bounds(1) [OF assms] zero_less_power_int [of "of_nat b :: rat" "adjusted b x"]
    assms(1) by linarith

lemma round_pos_mono:
  assumes b: "2 \<le> b" and p: "0 < p" and x: "0 < x" and xy: "x \<le> y"
  shows "round_pos b p x \<le> round_pos b p y"
proof (cases "adjusted b x = adjusted b y")
  case True
  then have q: "quantum b p x = quantum b p y" by (simp add: quantum_def)
  have "half_even (x / quantum b p y) \<le> half_even (y / quantum b p y)"
    using xy quantum_pos [OF b, of p y] by (intro half_even_mono divide_right_mono) simp_all
  then show ?thesis
    unfolding round_pos_def q using quantum_pos [OF b, of p y]
    by (simp add: mult_le_cancel_right_pos)
next
  case False
  then have "adjusted b x + 1 \<le> adjusted b y" using adjusted_mono [OF b x xy] by simp
  then have "(of_nat b powi (adjusted b x + 1) :: rat) \<le> of_nat b powi adjusted b y"
    using b by (intro power_int_increasing) simp_all
  then show ?thesis
    using round_pos_bounds(2) [OF b p x] round_pos_bounds(1) [OF b p, of y] x xy by linarith
qed

theorem round_sig_mono:
  assumes "2 \<le> b" "0 < p" "x \<le> y"
  shows "round_sig b p x \<le> round_sig b p y"
  using assms round_pos_mono [of b p x y] round_pos_mono [of b p "- y" "- x"]
    round_pos_pos [of b p y] round_pos_pos [of b p "- x"]
  by (auto simp: round_sig_def)

text \<open>A number of at most \<open>p\<close> digits is unchanged.\<close>

lemma round_pos_exact:
  assumes b: "2 \<le> b" and p: "0 < p" and m: "0 < m" "m \<le> int b ^ p"
    and x: "x = of_int m * of_nat b powi k"
  shows "round_pos b p x = x"
proof -
  have b0: "(of_nat b :: rat) \<noteq> 0" and b1: "1 < (of_nat b :: rat)" using b by simp_all
  have pos: "0 < (of_nat b :: rat) powi k" using b by (simp add: zero_less_power_int)
  have x0: "0 < x" unfolding x using m pos by (simp add: zero_less_mult_iff)
  have "rat_of_int m \<le> of_int (int b ^ p)" using m by (simp only: of_int_le_iff)
  then have "x \<le> of_int (int b ^ p) * of_nat b powi k"
    unfolding x using pos by (simp only: mult_le_cancel_right_pos)
  then have le: "x \<le> of_nat b powi (int p + k)"
    using b0 by (simp add: power_int_add)
  show ?thesis
  proof (cases "x = of_nat b powi (int p + k)")
    case True
    have "adjusted b x = int p + k"
      by (rule adjusted_eqI [OF b]) (simp_all add: True b1 powi_less_iff [OF b1])
    then have "x / quantum b p x = of_int (int b ^ (p - 1))"
      unfolding quantum_def True using b0 p
      by (simp add: power_int_diff [symmetric] of_nat_power_int of_nat_diff del: power_int_of_nat)
    then have "round_pos b p x = x / quantum b p x * quantum b p x"
      by (simp only: round_pos_def half_even_int)
    then show ?thesis using quantum_pos [OF b, of p x] by simp
  next
    case False
    with le have "x < of_nat b powi (int p + k)" by simp
    then have "(of_nat b powi adjusted b x :: rat) < of_nat b powi (int p + k)"
      using adjusted_bounds(1) [OF b x0] by simp
    then have "adjusted b x < int p + k" using b1 by (simp add: powi_less_iff)
    then have d: "0 \<le> k - (adjusted b x - (int p - 1))" by simp
    define j where "j = nat (k - (adjusted b x - (int p - 1)))"
    have "x / quantum b p x = of_int m * of_nat b powi (k - (adjusted b x - (int p - 1)))"
      unfolding quantum_def using b0 by (subst x) (simp add: power_int_diff)
    also have "\<dots> = of_int (m * int b ^ j)"
      using d by (simp add: j_def power_int_def)
    finally have e: "x / quantum b p x = of_int (m * int b ^ j)" .
    have "round_pos b p x = x / quantum b p x * quantum b p x"
      unfolding round_pos_def e by (simp only: half_even_int)
    then show ?thesis using quantum_pos [OF b, of p x] by simp
  qed
qed

theorem round_sig_exact:
  assumes b: "2 \<le> b" and p: "0 < p" and m: "\<bar>m\<bar> \<le> int b ^ p"
    and x: "x = of_int m * of_nat b powi k"
  shows "round_sig b p x = x"
proof (cases m "0 :: int" rule: linorder_cases)
  case less
  have pos: "0 < (of_nat b :: rat) powi k" using b by (simp add: zero_less_power_int)
  then have "x < 0" unfolding x using less by (simp add: mult_less_0_iff)
  moreover have "round_pos b p (- x) = - x"
    by (rule round_pos_exact [OF b p, of "- m" _ k]) (use less m x in simp_all)
  ultimately show ?thesis by (simp add: round_sig_def)
next
  case equal
  then show ?thesis by (simp add: x)
next
  case greater
  have pos: "0 < (of_nat b :: rat) powi k" using b by (simp add: zero_less_power_int)
  then have "0 < x" unfolding x using greater by (simp add: zero_less_mult_iff)
  moreover have "round_pos b p x = x"
    by (rule round_pos_exact [OF b p, of m _ k]) (use greater m x in simp_all)
  ultimately show ?thesis by (simp add: round_sig_def)
qed


text \<open>Evaluation from the position of the leading digit and the nearest multiple of the quantum.\<close>

lemma half_even_near: "\<bar>x - of_int n\<bar> < 1 / 2 \<Longrightarrow> half_even x = n"
proof -
  assume a: "\<bar>x - of_int n\<bar> < 1 / 2"
  then have "\<bar>of_int (half_even x) - of_int n :: rat\<bar> < 1" using half_even_error [of x] by linarith
  then have "\<bar>of_int (half_even x - n) :: rat\<bar> < 1" by simp
  then have "\<bar>half_even x - n\<bar> < 1" by (simp only: of_int_abs [symmetric] of_int_less_1_iff)
  then show ?thesis by simp
qed

lemma round_sig_near:
  assumes b: "2 \<le> b" and lo: "of_nat b powi e \<le> x" and hi: "x < of_nat b powi (e + 1)"
    and n: "\<bar>x / of_nat b powi (e - (int p - 1)) - of_int n\<bar> < 1 / 2"
  shows "round_sig b p x = of_int n * of_nat b powi (e - (int p - 1))"
proof -
  have "0 < (of_nat b :: rat) powi e" using b by (simp add: zero_less_power_int)
  then have x: "0 < x" using lo by simp
  show ?thesis
    using x by (simp add: round_sig_def round_pos_def quantum_def adjusted_eqI [OF b lo hi]
        half_even_near [OF n])
qed

end
