(* ===== verification/Decimal_Arith.thy ===== *)
theory Decimal_Arith
  imports Rounding
begin

text \<open>
  The arithmetic of Python's \<open>decimal.Decimal\<close> in its default context (28 digits, ties to even),
  and the scalar helpers at the end of \<open>market_metrics.py\<close> built on it: \<open>_return\<close>,
  \<open>_ratio\<close>, \<open>_linear\<close>, \<open>_clamp01\<close>, \<open>_ppm_value\<close>, \<open>_from_ppm\<close>, \<open>_median\<close>,
  \<open>_percentile\<close> and \<open>robust_return\<close>. Comparisons, \<open>min\<close> and \<open>max\<close> are exact;
  every arithmetic operator rounds its exact result.
\<close>

section \<open>The contract of a rounding mode\<close>

locale rounding =
  fixes rnd :: "rat \<Rightarrow> rat"
  assumes mono: "x \<le> y \<Longrightarrow> rnd x \<le> rnd y"
    and zero: "rnd 0 = 0"
    and one: "rnd 1 = 1"
    and minus: "rnd (- x) = - rnd x"
begin

lemma nonneg: "0 \<le> x \<Longrightarrow> 0 \<le> rnd x"
  using mono [of 0 x] zero by simp

lemma nonpos: "x \<le> 0 \<Longrightarrow> rnd x \<le> 0"
  using mono [of x 0] zero by simp

lemma le_one: "x \<le> 1 \<Longrightarrow> rnd x \<le> 1"
  using mono [of x 1] one by simp

lemma ge_one: "1 \<le> x \<Longrightarrow> 1 \<le> rnd x"
  using mono [of 1 x] one by simp

lemma unit: "0 \<le> x \<Longrightarrow> x \<le> 1 \<Longrightarrow> 0 \<le> rnd x \<and> rnd x \<le> 1"
  using nonneg le_one by simp

lemma between: "rnd l = l \<Longrightarrow> rnd h = h \<Longrightarrow> l \<le> x \<Longrightarrow> x \<le> h \<Longrightarrow> l \<le> rnd x \<and> rnd x \<le> h"
  using mono [of l x] mono [of x h] by simp

text \<open>A rounded running sum, from the left, grows with its terms.\<close>

lemma sum_mono:
  "list_all2 (\<le>) xs ys \<Longrightarrow> a \<le> b \<Longrightarrow>
   foldl (\<lambda>s x. rnd (s + x)) a xs \<le> foldl (\<lambda>s x. rnd (s + x)) b ys"
  by (induction xs ys arbitrary: a b rule: list_all2_induct) (simp_all add: mono add_mono)

lemma sum_nonneg:
  "\<forall>x \<in> set xs. 0 \<le> x \<Longrightarrow> 0 \<le> a \<Longrightarrow> 0 \<le> foldl (\<lambda>s x. rnd (s + x)) a xs"
  by (induction xs arbitrary: a) (simp_all add: nonneg)

end

section \<open>The two arithmetics of the program\<close>

definition dround :: "rat \<Rightarrow> rat" where
  "dround x = round_sig 10 28 x"

definition fround :: "rat \<Rightarrow> rat" where
  "fround x = round_sig 2 53 x"

lemma dround_exact: "\<bar>m\<bar> \<le> 10 ^ 28 \<Longrightarrow> x = of_int m * 10 powi k \<Longrightarrow> dround x = x"
  unfolding dround_def by (rule round_sig_exact [of 10 28 m _ k]) simp_all

lemma fround_exact: "\<bar>m\<bar> \<le> 2 ^ 53 \<Longrightarrow> x = of_int m * 2 powi k \<Longrightarrow> fround x = x"
  unfolding fround_def by (rule round_sig_exact [of 2 53 m _ k]) simp_all

interpretation dec: rounding dround
proof unfold_locales
  show "dround x \<le> dround y" if "x \<le> y" for x y
    unfolding dround_def by (rule round_sig_mono) (simp_all add: that)
  show "dround 1 = 1" by (rule dround_exact [of 1 _ 0]) simp_all
qed (simp_all add: dround_def round_sig_minus)

interpretation flt: rounding fround
proof unfold_locales
  show "fround x \<le> fround y" if "x \<le> y" for x y
    unfolding fround_def by (rule round_sig_mono) (simp_all add: that)
  show "fround 1 = 1" by (rule fround_exact [of 1 _ 0]) simp_all
qed (simp_all add: fround_def round_sig_minus)

lemma dround_int: "\<bar>n\<bar> \<le> 10 ^ 28 \<Longrightarrow> dround (of_int n) = of_int n"
  by (rule dround_exact [of n _ 0]) simp_all

lemma dround_0 [simp]: "dround 0 = 0" and dround_1 [simp]: "dround 1 = 1"
  by (simp_all add: dec.zero dec.one)

definition dadd :: "rat \<Rightarrow> rat \<Rightarrow> rat" where
  "dadd x y = dround (x + y)"

definition dsub :: "rat \<Rightarrow> rat \<Rightarrow> rat" where
  "dsub x y = dround (x - y)"

definition dmul :: "rat \<Rightarrow> rat \<Rightarrow> rat" where
  "dmul x y = dround (x * y)"

definition ddiv :: "rat \<Rightarrow> rat \<Rightarrow> rat" where
  "ddiv x y = dround (x / y)"

definition dneg :: "rat \<Rightarrow> rat" where
  "dneg x = dround (- x)"

definition dabs :: "rat \<Rightarrow> rat" where
  "dabs x = dround \<bar>x\<bar>"

text \<open>\<open>sum(values, Decimal("0"))\<close>\<close>

definition dsum :: "rat list \<Rightarrow> rat" where
  "dsum xs = foldl dadd 0 xs"

named_theorems dec_mono "monotonicity of decimal operations"

lemma dadd_mono [dec_mono]: "x \<le> x' \<Longrightarrow> y \<le> y' \<Longrightarrow> dadd x y \<le> dadd x' y'"
  unfolding dadd_def by (rule dec.mono) simp

lemma dsub_mono [dec_mono]: "x \<le> x' \<Longrightarrow> y' \<le> y \<Longrightarrow> dsub x y \<le> dsub x' y'"
  unfolding dsub_def by (rule dec.mono) simp

lemma dmul_mono [dec_mono]: "x \<le> x' \<Longrightarrow> y \<le> y' \<Longrightarrow> 0 \<le> x \<Longrightarrow> 0 \<le> y' \<Longrightarrow> dmul x y \<le> dmul x' y'"
  unfolding dmul_def
  by (rule dec.mono) (metis mult_mono mult_nonneg_nonneg order_trans nle_le mult_left_mono mult_right_mono)

lemma ddiv_mono [dec_mono]: "x \<le> x' \<Longrightarrow> 0 < y \<Longrightarrow> ddiv x y \<le> ddiv x' y"
  unfolding ddiv_def by (rule dec.mono) (simp add: divide_right_mono)

lemma dneg_mono [dec_mono]: "x' \<le> x \<Longrightarrow> dneg x \<le> dneg x'"
  unfolding dneg_def by (rule dec.mono) simp

lemma dadd_nonneg: "0 \<le> x \<Longrightarrow> 0 \<le> y \<Longrightarrow> 0 \<le> dadd x y"
  by (simp add: dadd_def dec.nonneg)

lemma dmul_nonneg: "0 \<le> x \<Longrightarrow> 0 \<le> y \<Longrightarrow> 0 \<le> dmul x y"
  by (simp add: dmul_def dec.nonneg)

lemma ddiv_nonneg: "0 \<le> x \<Longrightarrow> 0 \<le> y \<Longrightarrow> 0 \<le> ddiv x y"
  by (simp add: ddiv_def dec.nonneg)

lemma ddiv_le_one: "x \<le> y \<Longrightarrow> 0 < y \<Longrightarrow> ddiv x y \<le> 1"
  by (simp add: ddiv_def dec.le_one)

lemma dsum_nonneg: "\<forall>x \<in> set xs. 0 \<le> x \<Longrightarrow> 0 \<le> dsum xs"
  unfolding dsum_def dadd_def by (rule dec.sum_nonneg) simp_all

lemma dsum_mono: "list_all2 (\<le>) xs ys \<Longrightarrow> dsum xs \<le> dsum ys"
  unfolding dsum_def dadd_def by (rule dec.sum_mono) simp_all

section \<open>Scalar helpers of \<open>market_metrics.py\<close>\<close>

definition return_of :: "rat option \<Rightarrow> rat option \<Rightarrow> rat option" where
  "return_of numerator denominator =
     (case (numerator, denominator) of
        (Some n, Some d) \<Rightarrow> if n \<le> 0 \<or> d \<le> 0 then None else Some (dsub (ddiv n d) 1)
      | _ \<Rightarrow> None)"

definition ratio :: "rat option \<Rightarrow> rat option \<Rightarrow> rat option" where
  "ratio numerator denominator =
     (case (numerator, denominator) of
        (Some n, Some d) \<Rightarrow> if d \<le> 0 then None else Some (ddiv n d)
      | _ \<Rightarrow> None)"

definition clamp01 :: "rat \<Rightarrow> rat" where
  "clamp01 value = min 1 (max 0 value)"

definition linear :: "rat \<Rightarrow> rat \<Rightarrow> rat \<Rightarrow> rat" where
  "linear value low high = clamp01 (ddiv (dsub value low) (dsub high low))"

definition ppm_value :: "rat \<Rightarrow> int" where
  "ppm_value value = half_even (dmul (clamp01 value) 1000000)"

definition from_ppm :: "int \<Rightarrow> rat" where
  "from_ppm value = ddiv (of_int value) 1000000"

definition median :: "rat list \<Rightarrow> rat option" where
  "median values =
     (if values = [] then None
      else let ordered = sort values; middle = length ordered div 2
           in if odd (length ordered) then Some (ordered ! middle)
              else Some (ddiv (dadd (ordered ! (middle - 1)) (ordered ! middle)) 2))"

definition percentile :: "rat list \<Rightarrow> rat \<Rightarrow> rat" where
  "percentile values proportion =
     (let position = dmul (of_nat (length values - 1)) proportion;
          lower = nat \<lfloor>position\<rfloor>;
          upper = min (lower + 1) (length values - 1)
      in dadd (values ! lower)
           (dmul (dsub (values ! upper) (values ! lower)) (dsub position (of_nat lower))))"

definition robust_return :: "rat list \<Rightarrow> rat option" where
  "robust_return values =
     (if values = [] then None
      else let ordered = sort values
           in if length ordered < 20 then median ordered
              else let lower = percentile ordered (5 / 100); upper = percentile ordered (95 / 100)
                   in Some (ddiv (dsum (map (\<lambda>value. min upper (max lower value)) ordered))
                              (of_nat (length ordered))))"

text \<open>Bounds and monotonicity of the helpers.\<close>

lemma clamp01_bounds [simp]: "0 \<le> clamp01 x" "clamp01 x \<le> 1"
  by (simp_all add: clamp01_def)

lemma clamp01_mono [dec_mono]: "x \<le> y \<Longrightarrow> clamp01 x \<le> clamp01 y"
  by (auto simp: clamp01_def)

lemma clamp01_id: "0 \<le> x \<Longrightarrow> x \<le> 1 \<Longrightarrow> clamp01 x = x"
  by (simp add: clamp01_def)

lemma linear_bounds [simp]: "0 \<le> linear v l h" "linear v l h \<le> 1"
  by (simp_all add: linear_def)

lemma linear_mono [dec_mono]: "v \<le> v' \<Longrightarrow> 0 < dsub h l \<Longrightarrow> linear v l h \<le> linear v' l h"
  by (simp add: linear_def clamp01_mono ddiv_mono dsub_mono)

lemma linear_low: "v \<le> l \<Longrightarrow> 0 < dsub h l \<Longrightarrow> linear v l h = 0"
  using ddiv_mono [of "dsub v l" 0 "dsub h l"]
  by (simp add: linear_def clamp01_def ddiv_def dsub_def dec.nonpos divide_nonpos_pos)

lemma linear_high: "h \<le> v \<Longrightarrow> 0 < dsub h l \<Longrightarrow> linear v l h = 1"
  using dsub_mono [of h v l l] dec.ge_one [of "dsub v l / dsub h l"]
  by (simp add: linear_def clamp01_def ddiv_def)

lemma ppm_value_bounds [simp]: "0 \<le> ppm_value x" "ppm_value x \<le> 1000000"
proof -
  have "0 \<le> dmul (clamp01 x) 1000000" by (simp add: dmul_nonneg)
  then show "0 \<le> ppm_value x" by (simp add: ppm_value_def half_even_nonneg)
  have "dmul (clamp01 x) 1000000 \<le> dround (1000000 :: rat)"
    unfolding dmul_def using clamp01_bounds(2) [of x] by (intro dec.mono) simp
  also have "dround (1000000 :: rat) = of_int 1000000"
    using dround_int [of 1000000] by simp
  finally show "ppm_value x \<le> 1000000" unfolding ppm_value_def by (rule half_even_le)
qed

lemma ppm_value_mono [dec_mono]: "x \<le> y \<Longrightarrow> ppm_value x \<le> ppm_value y"
  unfolding ppm_value_def by (intro half_even_mono dmul_mono clamp01_mono) simp_all

lemma ppm_value_0: "x \<le> 0 \<Longrightarrow> ppm_value x = 0"
  by (simp add: ppm_value_def clamp01_def dmul_def)

lemma ppm_value_1: "1 \<le> x \<Longrightarrow> ppm_value x = 1000000"
  using dround_int [of 1000000] by (simp add: ppm_value_def clamp01_def dmul_def)

lemma from_ppm_bounds: "0 \<le> n \<Longrightarrow> n \<le> 1000000 \<Longrightarrow> 0 \<le> from_ppm n \<and> from_ppm n \<le> 1"
  by (simp add: from_ppm_def ddiv_nonneg ddiv_le_one)

lemma from_ppm_mono [dec_mono]: "m \<le> n \<Longrightarrow> from_ppm m \<le> from_ppm n"
  by (simp add: from_ppm_def ddiv_mono)

lemma from_ppm_exact: "0 \<le> n \<Longrightarrow> n \<le> 1000000 \<Longrightarrow> from_ppm n = of_int n / 1000000"
  unfolding from_ppm_def ddiv_def
  by (rule dround_exact [of n _ "- 6"]) (simp_all add: power_int_minus)

lemma ppm_from_ppm: "0 \<le> n \<Longrightarrow> n \<le> 1000000 \<Longrightarrow> ppm_value (from_ppm n) = n"
proof -
  assume n: "0 \<le> n" "n \<le> 1000000"
  have "clamp01 (from_ppm n) = of_int n / 1000000"
    using from_ppm_bounds [OF n] by (simp add: clamp01_id from_ppm_exact n)
  then show "ppm_value (from_ppm n) = n"
    using dround_int [of n] n by (simp add: ppm_value_def dmul_def)
qed

lemma sort_eq_Nil [simp]: "sort xs = [] \<longleftrightarrow> xs = []"
  by (metis length_0_conv length_sort)

lemma median_perm: "mset xs = mset ys \<Longrightarrow> median xs = median ys"
  using sort_perm [of xs ys] by (auto simp: median_def Let_def dest: mset_eq_length)

lemma robust_return_perm: "mset xs = mset ys \<Longrightarrow> robust_return xs = robust_return ys"
  using sort_perm [of xs ys] by (auto simp: robust_return_def)

lemma robust_return_None [simp]: "robust_return xs = None \<longleftrightarrow> xs = []"
  by (simp add: robust_return_def median_def Let_def)

lemma median_None [simp]: "median xs = None \<longleftrightarrow> xs = []"
  by (simp add: median_def Let_def)

end
