(* ===== verification/Metric_Input.thy ===== *)
theory Metric_Input
  imports Decimal_Arith
begin

text \<open>
  The input and output types of \<open>market_metrics.py\<close> with the checks of their
  \<open>__post_init__\<close> methods, the member predicates, and \<open>date.fromisoformat\<close> as far as the
  checks use it. Status fields hold the source's string literals.
\<close>

section \<open>ISO dates\<close>

text \<open>\<open>date.fromisoformat\<close> accepts \<open>YYYY-MM-DD\<close>, \<open>YYYYMMDD\<close> and the ISO week forms
  \<open>YYYY-Www\<close>, \<open>YYYYWww\<close>, \<open>YYYY-Www-D\<close>, \<open>YYYYWwwD\<close>; it raises \<open>ValueError\<close> otherwise.\<close>

definition digits_value :: "string \<Rightarrow> nat option" where
  "digits_value s =
     (if s \<noteq> [] \<and> list_all (\<lambda>c. 48 \<le> (of_char c :: nat) \<and> of_char c \<le> (57 :: nat)) s
      then Some (foldl (\<lambda>n c. 10 * n + (of_char c - 48)) 0 s) else None)"

definition leap_year :: "nat \<Rightarrow> bool" where
  "leap_year y = (y mod 4 = 0 \<and> (y mod 100 \<noteq> 0 \<or> y mod 400 = 0))"

definition days_in_month :: "nat \<Rightarrow> nat \<Rightarrow> nat" where
  "days_in_month y m =
     (if m = 2 then (if leap_year y then 29 else 28) else if m \<in> {4, 6, 9, 11} then 30 else 31)"

text \<open>Weekday of January 1st, Monday = 0; a year has 53 ISO weeks when it starts on a Thursday, or
  on a Wednesday in a leap year.\<close>

definition jan1_weekday :: "nat \<Rightarrow> nat" where
  "jan1_weekday y = (let p = y - 1 in (p * 365 + p div 4 - p div 100 + p div 400) mod 7)"

definition iso_weeks :: "nat \<Rightarrow> nat" where
  "iso_weeks y = (if jan1_weekday y = 3 \<or> jan1_weekday y = 2 \<and> leap_year y then 53 else 52)"

definition valid_ymd :: "nat option \<Rightarrow> nat option \<Rightarrow> nat option \<Rightarrow> bool" where
  "valid_ymd y m d = (case (y, m, d) of
     (Some y, Some m, Some d) \<Rightarrow> 1 \<le> y \<and> 1 \<le> m \<and> m \<le> 12 \<and> 1 \<le> d \<and> d \<le> days_in_month y m
   | _ \<Rightarrow> False)"

definition valid_week :: "nat option \<Rightarrow> nat option \<Rightarrow> nat option \<Rightarrow> bool" where
  "valid_week y w d = (case (y, w, d) of
     (Some y, Some w, Some d) \<Rightarrow> 1 \<le> y \<and> 1 \<le> w \<and> w \<le> iso_weeks y \<and> 1 \<le> d \<and> d \<le> 7
       \<and> \<not> (y = 9999 \<and> w = 52 \<and> 5 < d)
   | _ \<Rightarrow> False)"

definition iso_date :: "string \<Rightarrow> bool" where
  "iso_date s =
     (let y = digits_value (take 4 s); r = drop 4 s
      in (length s = 10 \<and> r ! 0 = CHR ''-'' \<and> r ! 3 = CHR ''-'' \<and>
            valid_ymd y (digits_value (take 2 (drop 1 r))) (digits_value (drop 4 r))) \<or>
         (length s = 8 \<and> valid_ymd y (digits_value (take 2 r)) (digits_value (drop 2 r))) \<or>
         (length s = 8 \<and> take 2 r = ''-W'' \<and> valid_week y (digits_value (drop 2 r)) (Some 1)) \<or>
         (length s = 7 \<and> take 1 r = ''W'' \<and> valid_week y (digits_value (drop 1 r)) (Some 1)) \<or>
         (length s = 10 \<and> take 2 r = ''-W'' \<and> r ! 4 = CHR ''-'' \<and>
            valid_week y (digits_value (take 2 (drop 2 r))) (digits_value (drop 5 r))) \<or>
         (length s = 8 \<and> take 1 r = ''W'' \<and>
            valid_week y (digits_value (take 2 (drop 1 r))) (digits_value (drop 3 r))))"

section \<open>Input records\<close>

record metric_member =
  instrument_uid :: string
  quote_status :: string
  price :: "rat option"
  pre_close :: "rat option"
  close_5m :: "rat option"
  close_10m :: "rat option"
  close_15m :: "rat option"
  amount_5m :: "rat option"
  amount_15m :: "rat option"
  previous_amount_5m :: "rat option"
  trailing_daily_amounts :: "rat list"
  known_suspended :: bool

definition metric_member_check :: "metric_member \<Rightarrow> unit result" where
  "metric_member_check m =
     guardR (instrument_uid m = []) (ValueError ''metric member requires an instrument UID'')
     (guardR (quote_status m \<notin> {''VALID'', ''MISSING'', ''SUSPENDED'', ''NO_VALID_QUOTE''})
        (ValueError ''invalid canonical quote status'') (Inr ()))"

record same_clock_window =
  window_date :: string
  member_amounts :: "(string \<times> rat) list"

definition same_clock_window_check :: "same_clock_window \<Rightarrow> unit result" where
  "same_clock_window_check w =
     guardR (\<not> iso_date (window_date w)) (ValueError ''Invalid isoformat string'')
     (guardR (card (set (map fst (member_amounts w))) \<noteq> length (member_amounts w))
        (ValueError ''historical same-clock member amounts must be unique'') (Inr ()))"

record context_metric =
  context_return_5m :: "rat option"

record early_evidence =
  early_trading_date :: string
  market_minutes_ago :: int
  early_return_day :: rat
  early_breadth :: rat
  early_turnover_ratio :: rat
  is_qualifying :: bool
  is_official :: bool

text \<open>\<open>observed_at\<close> is an aware instant, in microseconds, or a naive datetime, whose construction is
  refused.\<close>

datatype py_datetime = Naive int | Aware int

fun instant :: "py_datetime \<Rightarrow> int" where
  "instant (Naive t) = t"
| "instant (Aware t) = t"

record continuity_observation =
  observation_uid :: string
  observed_at :: py_datetime
  observation_date :: string
  market_minute_index :: int
  observation_fitness :: string
  relative_strength_5m :: "rat option"
  breadth_5m_up :: "rat option"
  turnover_ratio_5m :: "rat option"

definition continuity_observation_check :: "continuity_observation \<Rightarrow> unit result" where
  "continuity_observation_check ob =
     guardR (observation_uid ob = [])
       (ValueError ''continuity observation requires an identity'')
     (guardR (case observed_at ob of Naive _ \<Rightarrow> True | Aware _ \<Rightarrow> False)
       (ValueError ''continuity observation time must be timezone-aware'')
     (guardR (\<not> iso_date (observation_date ob)) (ValueError ''Invalid isoformat string'')
     (guardR (market_minute_index ob < 0)
       (ValueError ''continuity observation market minute must not be negative'')
     (guardR (observation_fitness ob \<notin> {''FIT'', ''FIT_WITH_LIMITATIONS'', ''UNFIT''})
       (ValueError ''invalid continuity observation fitness'') (Inr ())))))"

record metric_input =
  sector_uid :: string
  sector_member_uids :: "string list"
  primary_members :: "metric_member list"
  same_clock_windows :: "same_clock_window list"
  historical_coverage :: rat
  provider_capability_fit :: bool
  trading_date :: string
  market_phase :: string
  has_complete_minute :: bool
  provider_capability_limited :: bool
  is_final_trading_snapshot :: bool
  etf_context :: "context_metric option"
  style_context :: "context_metric option"
  early_evidence_input :: "early_evidence option"
  context_fit :: bool
  continuity_observations :: "continuity_observation list"

definition primary_uids :: "metric_input \<Rightarrow> string list" where
  "primary_uids mi = map instrument_uid (primary_members mi)"

definition metric_input_check :: "metric_input \<Rightarrow> unit result" where
  "metric_input_check mi =
     guardR (sector_uid mi = []) (ValueError ''metric input requires a sector UID'')
     (guardR (\<not> iso_date (trading_date mi)) (ValueError ''Invalid isoformat string'')
     (guardR (card (set (primary_uids mi)) \<noteq> length (primary_uids mi))
       (ValueError ''primary metric members must be unique'')
     (guardR (card (set (sector_member_uids mi)) \<noteq> length (sector_member_uids mi))
       (ValueError ''sector metric members must be unique'')
     (guardR (\<not> set (sector_member_uids mi) \<subseteq> set (primary_uids mi))
       (ValueError ''sector metric members must belong to the Primary Universe'')
     (guardR (\<not> (0 \<le> historical_coverage mi \<and> historical_coverage mi \<le> 1))
       (ValueError ''historical coverage must be between zero and one'')
     (guardR (card (set (map window_date (same_clock_windows mi)))
           \<noteq> length (map window_date (same_clock_windows mi)))
       (ValueError ''same-clock trading dates must be unique'')
     (guardR (card (set (map observation_uid (continuity_observations mi)))
           \<noteq> length (continuity_observations mi))
       (ValueError ''continuity observations must be unique'')
     (guardR (\<exists>ob \<in> set (continuity_observations mi). observation_date ob \<noteq> trading_date mi)
       (ValueError ''continuity observations must use the evaluation trading day'')
       (Inr ())))))))))"

text \<open>An input whose construction, and that of its parts, raised nothing.\<close>

definition constructed :: "metric_input \<Rightarrow> bool" where
  "constructed mi \<longleftrightarrow>
     metric_input_check mi = Inr () \<and>
     (\<forall>m \<in> set (primary_members mi). metric_member_check m = Inr ()) \<and>
     (\<forall>w \<in> set (same_clock_windows mi). same_clock_window_check w = Inr ()) \<and>
     (\<forall>ob \<in> set (continuity_observations mi). continuity_observation_check ob = Inr ())"

lemma card_distinct_iff [simp]: "card (f ` set xs) = length xs \<longleftrightarrow> distinct (map f xs)"
  using card_distinct [of "map f xs"] distinct_card [of "map f xs"] by auto

lemma card_set_iff [simp]: "card (set xs) = length xs \<longleftrightarrow> distinct xs"
  using card_distinct distinct_card by blast

lemma constructed_primary: "constructed mi \<Longrightarrow> distinct (map instrument_uid (primary_members mi))"
  by (simp add: constructed_def metric_input_check_def primary_uids_def)

lemma constructed_sector:
  "constructed mi \<Longrightarrow> distinct (sector_member_uids mi) \<and>
     set (sector_member_uids mi) \<subseteq> instrument_uid ` set (primary_members mi)"
  by (simp add: constructed_def metric_input_check_def primary_uids_def)

lemma constructed_windows: "constructed mi \<Longrightarrow> distinct (map window_date (same_clock_windows mi))"
  by (simp add: constructed_def metric_input_check_def)

lemma constructed_window:
  "constructed mi \<Longrightarrow> w \<in> set (same_clock_windows mi) \<Longrightarrow> distinct (map fst (member_amounts w))"
  by (simp add: constructed_def same_clock_window_check_def)

lemma constructed_observations:
  "constructed mi \<Longrightarrow> distinct (map observation_uid (continuity_observations mi))"
  by (simp add: constructed_def metric_input_check_def)

section \<open>Output types\<close>

datatype metric_status = VALUE | MISSING | NOT_APPLICABLE

record metric_value =
  code :: string
  status :: metric_status
  value_ppm :: "int option"

definition metric_value_check :: "metric_value \<Rightarrow> unit result" where
  "metric_value_check v =
     (if status v = VALUE then
        guardR (case value_ppm v of None \<Rightarrow> True | Some n \<Rightarrow> \<not> (0 \<le> n \<and> n \<le> 1000000))
          (ValueError ''VALUE metrics require a PPM value'') (Inr ())
      else guardR (value_ppm v \<noteq> None)
          (ValueError ''missing or not-applicable metrics cannot carry a PPM value'') (Inr ()))"

record metric_quality =
  fitness_status :: string
  quote_coverage_ppm :: int
  historical_coverage_ppm :: int
  valid_member_count :: nat
  tradable_expected_count :: nat
  reason_codes :: "string list"

definition the_value :: "string \<Rightarrow> int \<Rightarrow> metric_value" where
  "the_value c n = \<lparr>code = c, status = VALUE, value_ppm = Some n\<rparr>"

definition missing :: "string \<Rightarrow> metric_value" where
  "missing c = \<lparr>code = c, status = MISSING, value_ppm = None\<rparr>"

definition not_applicable :: "string \<Rightarrow> metric_value" where
  "not_applicable c = \<lparr>code = c, status = NOT_APPLICABLE, value_ppm = None\<rparr>"

lemmas metric_value_makers = the_value_def missing_def not_applicable_def

section \<open>Member predicates\<close>

definition valid_quote :: "metric_member \<Rightarrow> bool" where
  "valid_quote m =
     (quote_status m = ''VALID'' \<and>
      (case price m of None \<Rightarrow> False | Some p \<Rightarrow> 0 < p) \<and>
      (case pre_close m of None \<Rightarrow> False | Some p \<Rightarrow> 0 < p))"

definition suspended :: "metric_member \<Rightarrow> bool" where
  "suspended m = (known_suspended m \<or> quote_status m = ''SUSPENDED'')"

definition early_applicable :: "early_evidence option \<Rightarrow> string \<Rightarrow> bool" where
  "early_applicable evidence date =
     (case evidence of None \<Rightarrow> False
      | Some e \<Rightarrow> is_official e \<and> is_qualifying e \<and> early_trading_date e = date \<and>
          0 \<le> market_minutes_ago e \<and> market_minutes_ago e \<le> 30)"

end
