(* ===== verification/Metric_Formulas.thy ===== *)
theory Metric_Formulas
  imports Metric_Input
begin

text \<open>
  The aggregates over member facts and the eighteen metric formulas of \<open>market_metrics.py\<close>, with
  their range, monotonicity and order-independence lemmas. A formula returns \<open>None\<close> where the source
  does, that is where an input is missing.
\<close>

section \<open>Member facts and aggregates\<close>

record member_facts =
  member :: metric_member
  return_day :: "rat option"
  return_5m :: "rat option"
  return_15m :: "rat option"
  previous_return_5m :: "rat option"

definition member_facts_of :: "metric_member \<Rightarrow> member_facts" where
  "member_facts_of m =
     \<lparr>member = m,
      return_day = return_of (price m) (pre_close m),
      return_5m = return_of (price m) (close_5m m),
      return_15m = return_of (price m) (close_15m m),
      previous_return_5m = return_of (close_5m m) (close_10m m)\<rparr>"

text \<open>The list of present values, or \<open>None\<close> when one is missing.\<close>

fun all_some :: "'a option list \<Rightarrow> 'a list option" where
  "all_some [] = Some []"
| "all_some (None # xs) = None"
| "all_some (Some x # xs) = map_option (Cons x) (all_some xs)"

definition count_if :: "('a \<Rightarrow> bool) \<Rightarrow> 'a list \<Rightarrow> rat" where
  "count_if p xs = of_nat (length (filter p xs))"

definition return_and_breadth ::
    "(member_facts \<Rightarrow> rat option) \<Rightarrow> member_facts list \<Rightarrow> rat option \<times> rat option" where
  "return_and_breadth attribute facts =
     (case all_some (map attribute facts) of
        None \<Rightarrow> (None, None)
      | Some returns \<Rightarrow>
          if returns = [] then (None, None)
          else (robust_return returns,
                ratio (Some (count_if (\<lambda>v. 0 < v) returns)) (Some (of_nat (length returns)))))"

text \<open>The nonnegative amounts of all members, or \<open>None\<close>: the guard the amount aggregates share.\<close>

definition amounts_of :: "(metric_member \<Rightarrow> rat option) \<Rightarrow> member_facts list \<Rightarrow> rat list option" where
  "amounts_of attribute facts =
     (if facts = [] then None
      else case all_some (map (\<lambda>f. attribute (member f)) facts) of
             None \<Rightarrow> None
           | Some amounts \<Rightarrow> if \<exists>a \<in> set amounts. a < 0 then None else Some amounts)"

definition current_amounts :: "member_facts list \<Rightarrow> rat option \<times> rat option" where
  "current_amounts facts =
     (case amounts_of amount_5m facts of
        None \<Rightarrow> (None, None)
      | Some amounts \<Rightarrow>
          (Some (dsum amounts),
           ratio (Some (count_if (\<lambda>a. a = 0) amounts)) (Some (of_nat (length amounts)))))"

definition previous_amount :: "member_facts list \<Rightarrow> rat option" where
  "previous_amount facts = map_option dsum (amounts_of previous_amount_5m facts)"

definition sector_amount_15m :: "member_facts list \<Rightarrow> rat option" where
  "sector_amount_15m facts = map_option dsum (amounts_of amount_15m facts)"

text \<open>\<open>min(5, max(1, ceil(n * 0.10)))\<close>, where \<open>n * 0.10\<close> is a product of binary floats.\<close>

definition head_size :: "nat \<Rightarrow> nat" where
  "head_size n = nat (min 5 (max 1 \<lceil>fround (of_nat n * fround (1 / 10))\<rceil>))"

definition top_amounts :: "nat \<Rightarrow> (string \<times> rat) list \<Rightarrow> rat list" where
  "top_amounts k current = map snd (take k (sort_key (\<lambda>item. (dneg (snd item), fst item)) current))"

definition window_total_share ::
    "string list \<Rightarrow> same_clock_window \<Rightarrow> (rat \<times> rat) option" where
  "window_total_share member_uids window =
     (let by_uid = pydict (member_amounts window)
      in if \<exists>uid \<in> set member_uids. case by_uid uid of None \<Rightarrow> True | Some a \<Rightarrow> a < 0 then None
         else let current = map (\<lambda>uid. (uid, the (by_uid uid))) member_uids;
                  total = dsum (map snd current)
              in if total \<le> 0 then None
                 else Some (total,
                   ddiv (dsum (top_amounts (head_size (length member_uids)) current)) total))"

definition historical_baselines ::
    "same_clock_window list \<Rightarrow> member_facts list \<Rightarrow> rat option \<times> rat option" where
  "historical_baselines windows facts =
     (let member_uids = map (\<lambda>f. instrument_uid (member f)) facts
      in if member_uids = [] then (None, None)
         else let pairs = List.map_filter (window_total_share member_uids)
                            (sort_key window_date windows)
              in if length pairs < 3 then (None, None)
                 else (median (map fst pairs), median (map snd pairs)))"

definition head_share :: "member_facts list \<Rightarrow> rat option" where
  "head_share facts =
     (case amounts_of amount_5m facts of
        None \<Rightarrow> None
      | Some amounts \<Rightarrow>
          (let total = dsum amounts
           in if total \<le> 0 then None
              else Some (ddiv (dsum (top_amounts (head_size (length amounts))
                      (zip (map (\<lambda>f. instrument_uid (member f)) facts) amounts))) total)))"

record core_stats =
  member_uids :: "string list"
  core_return_5m :: "rat option"
  noncore_return_5m :: "rat option"
  core_breadth_5m :: "rat option"

text \<open>\<open>xs[-20:]\<close>\<close>

definition last_20 :: "'a list \<Rightarrow> 'a list" where
  "last_20 xs = drop (length xs - 20) xs"

definition core_eligible :: "member_facts \<Rightarrow> bool" where
  "core_eligible f =
     (20 \<le> length (trailing_daily_amounts (member f)) \<and>
      (\<forall>a \<in> set (last_20 (trailing_daily_amounts (member f))). 0 < a) \<and>
      return_5m f \<noteq> None)"

definition core_rank :: "member_facts \<Rightarrow> rat \<times> string" where
  "core_rank f = (dneg (dsum (last_20 (trailing_daily_amounts (member f)))),
                  instrument_uid (member f))"

definition core_size :: "nat \<Rightarrow> nat" where
  "core_size n = nat (min 10 (max 3 \<lceil>dmul (of_nat n) (20 / 100)\<rceil>))"

definition core_stats_of :: "member_facts list \<Rightarrow> core_stats option" where
  "core_stats_of facts =
     (let eligible = filter core_eligible facts
      in if length eligible < 3 then None
         else let core = take (core_size (length eligible)) (sort_key core_rank eligible);
                  core_uids = map (\<lambda>f. instrument_uid (member f)) core;
                  noncore = filter (\<lambda>f. instrument_uid (member f) \<notin> set core_uids) facts
              in if noncore = [] \<or> (\<exists>f \<in> set noncore. return_5m f = None) then None
                 else let core_returns = List.map_filter return_5m core;
                          noncore_returns = List.map_filter return_5m noncore
                      in Some \<lparr>member_uids = sort (remdups core_uids),
                               core_return_5m = robust_return core_returns,
                               noncore_return_5m = robust_return noncore_returns,
                               core_breadth_5m = ratio (Some (count_if (\<lambda>v. 0 < v) core_returns))
                                 (Some (of_nat (length core_returns)))\<rparr>)"

section \<open>Guardian formulas\<close>

definition rising_too_fast :: "rat option \<Rightarrow> rat option \<Rightarrow> int option" where
  "rising_too_fast current previous =
     (case (current, previous) of
        (Some c, Some p) \<Rightarrow> Some (ppm_value
          (dadd (dmul (65 / 100) (linear c (15 / 1000) (40 / 1000)))
                (dmul (35 / 100) (linear (dsub c p) (8 / 1000) (25 / 1000)))))
      | _ \<Rightarrow> None)"

definition head_concentration :: "rat option \<Rightarrow> rat option \<Rightarrow> int option" where
  "head_concentration current baseline =
     (case (current, baseline) of
        (Some c, Some b) \<Rightarrow> if b \<le> 0 then None else Some (ppm_value
          (dadd (dmul (60 / 100) (linear c (35 / 100) (60 / 100)))
                (dmul (40 / 100) (linear (ddiv c b) (120 / 100) (180 / 100)))))
      | _ \<Rightarrow> None)"

definition internal_divergence :: "member_facts list \<Rightarrow> rat option \<Rightarrow> int option" where
  "internal_divergence facts sector_return =
     (case (sector_return, all_some (map return_5m facts)) of
        (Some s, Some values) \<Rightarrow>
          (case median values of None \<Rightarrow> None
           | Some mid \<Rightarrow>
             (case median (map (\<lambda>v. dabs (dsub v mid)) values) of None \<Rightarrow> None
              | Some dispersion \<Rightarrow>
                (case (if dabs s < 2 / 1000 then Some 0
                       else ratio (Some (count_if (\<lambda>v. dmul v s < 0) values))
                              (Some (of_nat (length values)))) of
                   None \<Rightarrow> None
                 | Some opposite \<Rightarrow> Some (ppm_value
                     (dadd (dmul (55 / 100) (linear dispersion (6 / 1000) (20 / 1000)))
                           (dmul (45 / 100) (linear opposite (30 / 100) (60 / 100))))))))
      | _ \<Rightarrow> None)"

definition crowding_ppm :: "int option \<Rightarrow> rat option \<Rightarrow> int option \<Rightarrow> int option" where
  "crowding_ppm rise turnover_ratio head =
     (case (rise, turnover_ratio, head) of
        (Some r, Some t, Some h) \<Rightarrow> Some (ppm_value
          (dadd (dadd (dmul (35 / 100) (from_ppm r))
                      (dmul (35 / 100) (linear t (130 / 100) (250 / 100))))
                (dmul (30 / 100) (from_ppm h))))
      | _ \<Rightarrow> None)"

definition liquidity_weakening :: "rat option \<Rightarrow> rat option \<Rightarrow> rat option \<Rightarrow> int option" where
  "liquidity_weakening current previous inactive =
     (case (current, previous, inactive) of
        (Some c, Some p, Some i) \<Rightarrow> if p \<le> 0 then None else Some (ppm_value
          (dadd (dmul (70 / 100) (linear (dsub 1 (ddiv c p)) (20 / 100) (60 / 100)))
                (dmul (30 / 100) (linear i (10 / 100) (35 / 100)))))
      | _ \<Rightarrow> None)"

definition core_weakening_ppm :: "core_stats option \<Rightarrow> int option" where
  "core_weakening_ppm core =
     (case core of None \<Rightarrow> None
      | Some c \<Rightarrow>
        (case (core_return_5m c, noncore_return_5m c, core_breadth_5m c) of
           (Some r, Some n, Some b) \<Rightarrow> Some (ppm_value
             (dadd (dmul (65 / 100) (linear (dsub n r) (5 / 1000) (25 / 1000)))
                   (dmul (35 / 100) (linear (dsub (50 / 100) b) 0 (30 / 100)))))
         | _ \<Rightarrow> None))"

definition breadth_collapse_ppm :: "rat option \<Rightarrow> rat option \<Rightarrow> int option" where
  "breadth_collapse_ppm current previous =
     (case (current, previous) of
        (Some c, Some p) \<Rightarrow> Some (ppm_value
          (dadd (dmul (60 / 100) (linear (dsub p c) (15 / 100) (40 / 100)))
                (dmul (40 / 100) (linear (dsub (45 / 100) c) 0 (25 / 100)))))
      | _ \<Rightarrow> None)"

definition stampede_ppm :: "rat option \<Rightarrow> rat option \<Rightarrow> int option \<Rightarrow> int option" where
  "stampede_ppm sector_5m turnover_ratio collapse =
     (case (sector_5m, turnover_ratio, collapse) of
        (Some s, Some t, Some c) \<Rightarrow> Some (ppm_value
          (dadd (dadd (dmul (45 / 100) (from_ppm c))
                      (dmul (35 / 100) (linear (dneg s) (15 / 1000) (40 / 1000))))
                (dmul (20 / 100) (linear t (130 / 100) (250 / 100)))))
      | _ \<Rightarrow> None)"

definition t1_chasing_ppm ::
    "rat option \<Rightarrow> int option \<Rightarrow> int option \<Rightarrow> int option \<Rightarrow> int option" where
  "t1_chasing_ppm sector_day rise crowding head =
     (case (sector_day, rise, crowding, head) of
        (Some d, Some r, Some c, Some h) \<Rightarrow> Some (ppm_value
          (dadd (dadd (dadd (dmul (35 / 100) (from_ppm r)) (dmul (25 / 100) (from_ppm c)))
                      (dmul (20 / 100) (from_ppm h)))
                (dmul (20 / 100) (linear d (25 / 1000) (70 / 1000)))))
      | _ \<Rightarrow> None)"

definition early_failure_ppm ::
    "early_evidence option \<Rightarrow> string \<Rightarrow> rat option \<Rightarrow> rat option \<Rightarrow> rat option \<Rightarrow> int option" where
  "early_failure_ppm evidence date sector_day breadth turnover_ratio =
     (if \<not> early_applicable evidence date then None
      else case (evidence, sector_day, breadth, turnover_ratio) of
        (Some e, Some d, Some b, Some t) \<Rightarrow> Some (ppm_value
          (dadd (dadd (dmul (45 / 100) (linear (dsub (early_return_day e) d) (10 / 1000) (35 / 1000)))
                      (dmul (35 / 100) (linear (dsub (early_breadth e) b) (15 / 100) (40 / 100))))
                (dmul (20 / 100) (linear (dsub (early_turnover_ratio e) t) (30 / 100) 1))))
      | _ \<Rightarrow> None)"

section \<open>Scout formulas\<close>

definition early_activity_ppm :: "rat option \<Rightarrow> rat option \<Rightarrow> rat option \<Rightarrow> int option" where
  "early_activity_ppm sector_5m breadth_5m turnover_ratio =
     (case (sector_5m, breadth_5m, turnover_ratio) of
        (Some s, Some b, Some t) \<Rightarrow>
          (let positive_start = linear s (3 / 1000) (12 / 1000);
               overextended = linear s (25 / 1000) (45 / 1000)
           in Some (ppm_value
             (dadd (dadd (dmul (dmul (35 / 100) positive_start) (dsub 1 overextended))
                         (dmul (35 / 100) (linear b (52 / 100) (72 / 100))))
                   (dmul (30 / 100) (linear t (120 / 100) 2)))))
      | _ \<Rightarrow> None)"

definition healthy_breadth_ppm :: "rat option \<Rightarrow> int option \<Rightarrow> int option" where
  "healthy_breadth_ppm breadth_5m head =
     (case (breadth_5m, head) of
        (Some b, Some h) \<Rightarrow> Some (ppm_value
          (dmul (linear b (50 / 100) (75 / 100)) (dsub 1 (dmul (40 / 100) (from_ppm h)))))
      | _ \<Rightarrow> None)"

definition relative_strength_ppm ::
    "rat option \<Rightarrow> rat option \<Rightarrow> rat option \<Rightarrow> rat option \<Rightarrow> int option" where
  "relative_strength_ppm sector_5m sector_15m market_5m market_15m =
     (case (sector_5m, sector_15m, market_5m, market_15m) of
        (Some s5, Some s15, Some m5, Some m15) \<Rightarrow> Some (ppm_value
          (dadd (dmul (60 / 100) (linear (dsub s5 m5) (2 / 1000) (15 / 1000)))
                (dmul (40 / 100) (linear (dsub s15 m15) (3 / 1000) (25 / 1000)))))
      | _ \<Rightarrow> None)"

definition turnover_confirmation_ppm :: "rat option \<Rightarrow> int option" where
  "turnover_confirmation_ppm turnover_ratio =
     map_option (\<lambda>t. ppm_value (linear t (110 / 100) (220 / 100))) turnover_ratio"

definition etf_confirmation_ppm :: "rat \<Rightarrow> rat \<Rightarrow> int" where
  "etf_confirmation_ppm context_return market_return =
     ppm_value (dadd (dmul (55 / 100) (linear context_return (1 / 1000) (10 / 1000)))
       (dmul (45 / 100) (linear (dsub context_return market_return) (1 / 1000) (8 / 1000))))"

definition style_support_ppm :: "rat \<Rightarrow> rat \<Rightarrow> int" where
  "style_support_ppm context_return market_return =
     ppm_value (linear (dsub context_return market_return) (1 / 1000) (10 / 1000))"

section \<open>Continuity\<close>

definition continuity_component :: "rat \<times> rat \<times> rat \<Rightarrow> rat \<Rightarrow> rat \<Rightarrow> rat" where
  "continuity_component values positive_floor tolerance =
     (case values of (v0, v1, v2) \<Rightarrow>
        if v0 \<le> positive_floor \<or> v1 \<le> positive_floor \<or> v2 \<le> positive_floor then 0
        else let first_step = dsub v1 v0; second_step = dsub v2 v1
             in if 0 \<le> first_step \<and> 0 \<le> second_step then 1
                else let negative_steps = filter (\<lambda>s. s < 0) [first_step, second_step]
                     in if length negative_steps = 1 \<and> dabs (negative_steps ! 0) \<le> tolerance \<and> v0 \<le> v2
                        then 5 / 10 else 0)"

definition observation_key :: "continuity_observation \<Rightarrow> int \<times> int \<times> string" where
  "observation_key ob = (market_minute_index ob, instant (observed_at ob), observation_uid ob)"

definition ordered_observations :: "continuity_observation list \<Rightarrow> continuity_observation list" where
  "ordered_observations obs = sort_key observation_key obs"

text \<open>One weighted component over the three ordered observations; \<open>None\<close> when a value is missing.\<close>

definition component_score ::
    "(continuity_observation \<Rightarrow> rat option) \<Rightarrow> rat \<Rightarrow> rat \<Rightarrow> rat \<Rightarrow> continuity_observation list \<Rightarrow> rat option" where
  "component_score attribute positive_floor tolerance weight ordered =
     (case map attribute ordered of
        [Some v0, Some v1, Some v2] \<Rightarrow>
          Some (dmul (continuity_component (v0, v1, v2) positive_floor tolerance) weight)
      | _ \<Rightarrow> None)"

definition continuity_eligible :: "continuity_observation list \<Rightarrow> bool" where
  "continuity_eligible ordered =
     (distinct (map observation_uid ordered) \<and>
      distinct (map (\<lambda>ob. instant (observed_at ob)) ordered) \<and>
      length (remdups (map observation_date ordered)) = 1 \<and>
      10 \<le> market_minute_index (last ordered) - market_minute_index (hd ordered) \<and>
      (\<forall>ob \<in> set ordered. observation_fitness ob = ''FIT''))"

definition continuity_strengthening :: "continuity_observation list \<Rightarrow> int option" where
  "continuity_strengthening observations =
     (if length observations \<noteq> 3 then None
      else let ordered = ordered_observations observations
           in if \<not> continuity_eligible ordered then None
              else map_option (\<lambda>scores. ppm_value (dsum scores))
                (all_some [component_score relative_strength_5m 0 (15 / 10000) (40 / 100) ordered,
                           component_score breadth_5m_up (50 / 100) (3 / 100) (35 / 100) ordered,
                           component_score turnover_ratio_5m 1 (10 / 100) (25 / 100) ordered]))"

end
