(* ===== verification/Metric_Producer.thy ===== *)
theory Metric_Producer
  imports Metric_Formulas
begin

text \<open>
  \<open>MarketMetricProducer.evaluate\<close> of \<open>market_metrics.py\<close>: the quality gate \<open>_quality\<close>, the
  calculation \<open>_calculate\<close> and the assembly of the output, with the evidence document before its
  decimals are rendered as text. The rendering and the SHA-256 of the rendered document are the
  argument \<open>doc_hash\<close>.
\<close>

section \<open>Metric codes\<close>

definition guardian_codes :: "string list" where
  "guardian_codes =
     [''RISE_RATE_PPM'', ''HEAD_CONCENTRATION_PPM'', ''INTERNAL_DIVERGENCE_PPM'', ''CROWDING_PPM'',
      ''LIQUIDITY_WEAKENING_PPM'', ''CORE_WEAKENING_PPM'', ''BREADTH_COLLAPSE_PPM'',
      ''STAMPEDE_RISK_PPM'', ''T1_CHASING_RISK_PPM'', ''EARLY_SIGNAL_FAILURE_PPM'']"

definition scout_codes :: "string list" where
  "scout_codes =
     [''EARLY_ACTIVITY_PPM'', ''HEALTHY_BREADTH_PPM'', ''RELATIVE_STRENGTH_PPM'',
      ''TURNOVER_CONFIRMATION_PPM'', ''ETF_CONFIRMATION_PPM'', ''STYLE_SUPPORT_PPM'',
      ''LOW_CROWDING_PPM'', ''CONTINUITY_STRENGTHENING_PPM'']"

definition all_codes :: "string list" where
  "all_codes = sort (guardian_codes @ scout_codes)"

lemma codes_distinct: "distinct (guardian_codes @ scout_codes)"
  by (simp add: guardian_codes_def scout_codes_def)

lemma set_all_codes: "set all_codes = set guardian_codes \<union> set scout_codes"
  by (simp add: all_codes_def)

lemma codes_disjoint: "c \<in> set guardian_codes \<Longrightarrow> c \<notin> set scout_codes"
  using codes_distinct by auto

lemma distinct_all_codes: "distinct all_codes"
  using codes_distinct by (simp add: all_codes_def)

definition continuous_phases :: "string list" where
  "continuous_phases = [''CONTINUOUS_AM'', ''CONTINUOUS_PM'']"

section \<open>The quality gate\<close>

definition quote_coverage :: "metric_member list \<Rightarrow> metric_member list \<Rightarrow> rat" where
  "quote_coverage active_sector valid_sector =
     (if active_sector = [] then 0
      else ddiv (of_nat (length valid_sector)) (of_nat (length active_sector)))"

definition evaluable_phase :: "metric_input \<Rightarrow> bool" where
  "evaluable_phase mi =
     (market_phase mi \<in> set continuous_phases \<or>
      market_phase mi = ''CLOSED'' \<and> is_final_trading_snapshot mi)"

definition unfit_reasons :: "metric_input \<Rightarrow> metric_member list \<Rightarrow> metric_member list \<Rightarrow> string list" where
  "unfit_reasons mi active_sector valid_sector =
     (if active_sector = [] then [''NO_TRADABLE_MEMBERS''] else []) @
     (if quote_coverage active_sector valid_sector < 70 / 100 then [''QUOTE_COVERAGE_UNFIT''] else []) @
     (if length valid_sector < 3 then [''INSUFFICIENT_VALID_MEMBERS''] else []) @
     (if historical_coverage mi < 70 / 100 then [''HISTORICAL_COVERAGE_UNFIT''] else []) @
     (if \<not> provider_capability_fit mi then [''PRIMARY_PROVIDER_UNFIT''] else [])"

definition limited_reasons :: "metric_input \<Rightarrow> metric_member list \<Rightarrow> metric_member list \<Rightarrow> string list" where
  "limited_reasons mi active_sector valid_sector =
     (if quote_coverage active_sector valid_sector < 85 / 100 then [''QUOTE_COVERAGE_LIMITED''] else []) @
     (if historical_coverage mi < 80 / 100 then [''HISTORICAL_COVERAGE_LIMITED''] else []) @
     (if provider_capability_limited mi then [''PRIMARY_PROVIDER_LIMITED''] else []) @
     (if \<not> context_fit mi then [''CONTEXT_LIMITED''] else []) @
     (if length valid_sector < 5 then [''VALID_MEMBER_COUNT_LIMITED''] else [])"

definition quality_of :: "metric_input \<Rightarrow> metric_member list \<Rightarrow> metric_member list \<Rightarrow> metric_quality" where
  "quality_of mi active_sector valid_sector =
     (let coverage_ppm = ppm_value (quote_coverage active_sector valid_sector);
          historical_ppm = ppm_value (historical_coverage mi);
          result = (\<lambda>fitness reasons.
            \<lparr>fitness_status = fitness, quote_coverage_ppm = coverage_ppm,
             historical_coverage_ppm = historical_ppm, valid_member_count = length valid_sector,
             tradable_expected_count = length active_sector, reason_codes = reasons\<rparr>)
      in if \<not> evaluable_phase mi \<or> \<not> has_complete_minute mi
           then result ''UNFIT'' [''MARKET_PHASE_NOT_EVALUABLE'']
         else if unfit_reasons mi active_sector valid_sector \<noteq> []
           then result ''UNFIT'' (sort (unfit_reasons mi active_sector valid_sector))
         else if limited_reasons mi active_sector valid_sector \<noteq> []
           then result ''FIT_WITH_LIMITATIONS'' (sort (limited_reasons mi active_sector valid_sector))
         else result ''FIT'' [])"

section \<open>The value table\<close>

type_synonym value_table = "string \<rightharpoonup> metric_value"

definition empty_values :: "metric_input \<Rightarrow> value_table" where
  "empty_values mi =
     (let v0 = (\<lambda>c. if c \<in> set all_codes then Some (missing c) else None);
          v1 = (if etf_context mi = None
                then v0(''ETF_CONFIRMATION_PPM'' \<mapsto> not_applicable ''ETF_CONFIRMATION_PPM'') else v0);
          v2 = (if style_context mi = None
                then v1(''STYLE_SUPPORT_PPM'' \<mapsto> not_applicable ''STYLE_SUPPORT_PPM'') else v1)
      in if \<not> early_applicable (early_evidence_input mi) (trading_date mi)
         then v2(''EARLY_SIGNAL_FAILURE_PPM'' \<mapsto> not_applicable ''EARLY_SIGNAL_FAILURE_PPM'') else v2)"

definition remove_values :: "string list \<Rightarrow> value_table \<Rightarrow> value_table" where
  "remove_values codes values = (\<lambda>c. map_option
     (\<lambda>v. if c \<in> set codes \<and> status v = VALUE then missing c else v) (values c))"

definition set_value :: "string \<Rightarrow> int option \<Rightarrow> value_table \<Rightarrow> value_table" where
  "set_value c v values = values(c \<mapsto> (case v of None \<Rightarrow> missing c | Some n \<Rightarrow> the_value c n))"

definition set_context_value ::
    "string \<Rightarrow> context_metric option \<Rightarrow> rat option \<Rightarrow> (rat \<Rightarrow> rat \<Rightarrow> int) \<Rightarrow> value_table \<Rightarrow> value_table" where
  "set_context_value c ctx market_5m formula values =
     values(c \<mapsto>
       (case ctx of None \<Rightarrow> not_applicable c
        | Some x \<Rightarrow>
          (case (context_return_5m x, market_5m) of
             (Some r, Some m) \<Rightarrow> the_value c (formula r m)
           | _ \<Rightarrow> missing c)))"

section \<open>The calculation\<close>

record base_facts =
  sector_return_day :: "rat option"
  sector_return_5m :: "rat option"
  sector_return_15m :: "rat option"
  market_return_day :: "rat option"
  market_return_5m :: "rat option"
  market_return_15m :: "rat option"
  breadth_day :: "rat option"
  breadth_5m :: "rat option"
  previous_breadth_5m :: "rat option"
  turnover_ratio :: "rat option"
  sector_amount_5m :: "rat option"
  sector_amount_15m_fact :: "rat option"
  turnover_baseline :: "rat option"
  head_share_fact :: "rat option"
  head_share_baseline :: "rat option"
  core_member_uids :: "string list"
  continuity_evidence :: "continuity_observation list option"

definition legacy_rule_version :: string where
  "legacy_rule_version = ''cr004-market-metrics-v1''"

definition current_rule_version :: string where
  "current_rule_version = ''cr004-market-metrics-v2''"

definition make_producer :: "string \<Rightarrow> string result" where
  "make_producer rule_version =
     guardR (rule_version \<notin> {legacy_rule_version, current_rule_version})
       (ValueError ''unsupported CR-004 metric producer version'') (Inr rule_version)"

definition facts_of_market :: "metric_input \<Rightarrow> member_facts list" where
  "facts_of_market mi =
     map member_facts_of (filter (\<lambda>m. \<not> suspended m \<and> valid_quote m) (primary_members mi))"

text \<open>The body of \<open>_calculate\<close> after its first two statements, over the facts of the valid sector
  members and of the whole market.\<close>

definition calculate_from ::
    "string \<Rightarrow> metric_input \<Rightarrow> member_facts list \<Rightarrow> member_facts list \<Rightarrow> value_table \<times> base_facts" where
  "calculate_from rule_version mi sector market =
     (let (sector_day, b_day) = return_and_breadth return_day sector;
          (sector_5m, b_5m) = return_and_breadth return_5m sector;
          sector_15m = fst (return_and_breadth return_15m sector);
          market_day = fst (return_and_breadth return_day market);
          market_5m = fst (return_and_breadth return_5m market);
          market_15m = fst (return_and_breadth return_15m market);
          (previous_sector_5m, previous_b_5m) = return_and_breadth previous_return_5m sector;
          (current_amount, inactive) = current_amounts sector;
          amount_15 = sector_amount_15m sector;
          previous = previous_amount sector;
          (t_baseline, h_baseline) = historical_baselines (same_clock_windows mi) sector;
          t_ratio = ratio current_amount t_baseline;
          h_share = head_share sector;
          core = core_stats_of sector;
          rise = rising_too_fast sector_5m previous_sector_5m;
          head = head_concentration h_share h_baseline;
          divergence = internal_divergence sector sector_5m;
          crowding = crowding_ppm rise t_ratio head;
          liquidity = liquidity_weakening current_amount previous inactive;
          core_weakening = core_weakening_ppm core;
          collapse = breadth_collapse_ppm b_5m previous_b_5m;
          stampede = stampede_ppm sector_5m t_ratio collapse;
          t1_chasing = t1_chasing_ppm sector_day rise crowding head;
          early_failure = early_failure_ppm (early_evidence_input mi) (trading_date mi)
                            sector_day b_day t_ratio;
          v = empty_values mi;
          v = set_value ''RISE_RATE_PPM'' rise v;
          v = set_value ''HEAD_CONCENTRATION_PPM'' head v;
          v = set_value ''INTERNAL_DIVERGENCE_PPM'' divergence v;
          v = set_value ''CROWDING_PPM'' crowding v;
          v = set_value ''LIQUIDITY_WEAKENING_PPM'' liquidity v;
          v = set_value ''CORE_WEAKENING_PPM'' core_weakening v;
          v = set_value ''BREADTH_COLLAPSE_PPM'' collapse v;
          v = set_value ''STAMPEDE_RISK_PPM'' stampede v;
          v = set_value ''T1_CHASING_RISK_PPM'' t1_chasing v;
          v = (if early_applicable (early_evidence_input mi) (trading_date mi)
               then set_value ''EARLY_SIGNAL_FAILURE_PPM'' early_failure v else v);
          v = set_value ''EARLY_ACTIVITY_PPM'' (early_activity_ppm sector_5m b_5m t_ratio) v;
          v = set_value ''HEALTHY_BREADTH_PPM'' (healthy_breadth_ppm b_5m head) v;
          v = set_value ''RELATIVE_STRENGTH_PPM''
                (relative_strength_ppm sector_5m sector_15m market_5m market_15m) v;
          v = set_value ''TURNOVER_CONFIRMATION_PPM'' (turnover_confirmation_ppm t_ratio) v;
          v = set_context_value ''ETF_CONFIRMATION_PPM'' (etf_context mi) market_5m
                etf_confirmation_ppm v;
          v = set_context_value ''STYLE_SUPPORT_PPM'' (style_context mi) market_5m
                style_support_ppm v;
          v = set_value ''LOW_CROWDING_PPM'' (map_option (\<lambda>c. 1000000 - c) crowding) v;
          v = (if rule_version = current_rule_version
               then set_value ''CONTINUITY_STRENGTHENING_PPM''
                      (continuity_strengthening (continuity_observations mi)) v
               else v(''CONTINUITY_STRENGTHENING_PPM'' \<mapsto> missing ''CONTINUITY_STRENGTHENING_PPM''))
      in (v,
          \<lparr>sector_return_day = sector_day, sector_return_5m = sector_5m,
           sector_return_15m = sector_15m, market_return_day = market_day,
           market_return_5m = market_5m, market_return_15m = market_15m,
           breadth_day = b_day, breadth_5m = b_5m, previous_breadth_5m = previous_b_5m,
           turnover_ratio = t_ratio, sector_amount_5m = current_amount,
           sector_amount_15m_fact = amount_15, turnover_baseline = t_baseline,
           head_share_fact = h_share, head_share_baseline = h_baseline,
           core_member_uids = (case core of None \<Rightarrow> [] | Some c \<Rightarrow> member_uids c),
           continuity_evidence =
             (if rule_version = current_rule_version
              then Some (ordered_observations (continuity_observations mi)) else None)\<rparr>))"

definition calculate ::
    "string \<Rightarrow> metric_input \<Rightarrow> metric_member list \<Rightarrow> value_table \<times> base_facts" where
  "calculate rule_version mi valid_sector =
     calculate_from rule_version mi (map member_facts_of valid_sector) (facts_of_market mi)"

section \<open>The evaluation\<close>

record evidence_payload =
  evidence_rule_version :: string
  evidence_sector_uid :: string
  primary_member_count :: nat
  evidence_sector_members :: "string list"
  same_clock_dates :: "string list"
  evidence_final_snapshot :: bool
  evidence_quality :: metric_quality
  evidence_base_facts :: "base_facts option"
  evidence_metrics :: "metric_value list"

record metric_output =
  output_sector_uid :: string
  output_rule_version :: string
  output_values :: "metric_value list"
  output_quality :: metric_quality
  output_evidence :: evidence_payload
  evidence_sha256 :: string

definition sector_members :: "metric_input \<Rightarrow> metric_member list result" where
  "sector_members mi =
     mapR (\<lambda>uid. require (KeyError uid)
             (pydict (map (\<lambda>m. (instrument_uid m, m)) (primary_members mi)) uid))
       (sort (sector_member_uids mi))"

definition final_values ::
    "string \<Rightarrow> metric_input \<Rightarrow> metric_quality \<Rightarrow> metric_member list \<Rightarrow> value_table \<times> base_facts option" where
  "final_values rule_version mi quality valid_sector =
     (let (values, evidence) =
            (if fitness_status quality \<noteq> ''UNFIT''
             then let (calculated, facts) = calculate rule_version mi valid_sector
                  in (empty_values mi ++ calculated, Some facts)
             else (empty_values mi, None))
      in if fitness_status quality = ''UNFIT'' then (remove_values all_codes values, evidence)
         else if fitness_status quality = ''FIT_WITH_LIMITATIONS''
           then (remove_values scout_codes values, evidence)
         else (values, evidence))"

definition evaluate ::
    "(evidence_payload \<Rightarrow> string) \<Rightarrow> string \<Rightarrow> metric_input \<Rightarrow> metric_output result" where
  "evaluate doc_hash rule_version mi =
     bindR (sector_members mi) (\<lambda>members.
       let active_sector = filter (\<lambda>m. \<not> suspended m) members;
           valid_sector = filter valid_quote active_sector;
           quality = quality_of mi active_sector valid_sector;
           (values, facts) = final_values rule_version mi quality valid_sector
       in bindR (mapR (\<lambda>c. require (KeyError c) (values c)) all_codes) (\<lambda>ordered_values.
            let payload =
              \<lparr>evidence_rule_version = rule_version, evidence_sector_uid = sector_uid mi,
               primary_member_count = length (primary_members mi),
               evidence_sector_members = sort (sector_member_uids mi),
               same_clock_dates = sort (map window_date (same_clock_windows mi)),
               evidence_final_snapshot = is_final_trading_snapshot mi,
               evidence_quality = quality, evidence_base_facts = facts,
               evidence_metrics = ordered_values\<rparr>
            in Inr \<lparr>output_sector_uid = sector_uid mi, output_rule_version = rule_version,
                    output_values = ordered_values, output_quality = quality,
                    output_evidence = payload, evidence_sha256 = doc_hash payload\<rparr>))"

text \<open>The properties \<open>guardian_metrics\<close>, \<open>scout_metrics\<close> and \<open>status_by_metric\<close> of the output.\<close>

definition metrics_among :: "string list \<Rightarrow> metric_output \<Rightarrow> (string \<times> int) list" where
  "metrics_among codes out = List.map_filter
     (\<lambda>v. if code v \<in> set codes \<and> status v = VALUE
          then map_option (Pair (code v)) (value_ppm v) else None) (output_values out)"

definition guardian_metrics :: "metric_output \<Rightarrow> (string \<times> int) list" where
  "guardian_metrics out = metrics_among guardian_codes out"

definition scout_metrics :: "metric_output \<Rightarrow> (string \<times> int) list" where
  "scout_metrics out = metrics_among scout_codes out"

definition status_by_metric :: "metric_output \<Rightarrow> (string \<times> metric_status) list" where
  "status_by_metric out = map (\<lambda>v. (code v, status v)) (output_values out)"

end
