(* ===== verification/Metric_Properties.thy ===== *)
theory Metric_Properties
  imports Metric_Producer
begin

text \<open>
  Correctness of the metric producer: every value it emits is well formed and in range, evaluation
  of a constructed input never raises, the quality gate removes the values it must, and the result
  does not depend on the order in which the caller lists members, windows and observations.
\<close>

section \<open>Ranges of the formulas\<close>

definition ppm_range :: "int option \<Rightarrow> bool" where
  "ppm_range v = (case v of None \<Rightarrow> True | Some n \<Rightarrow> 0 \<le> n \<and> n \<le> 1000000)"

named_theorems ppm_ranges "the formulas yield PPM values"

lemma ppm_range_simps [simp]:
  "ppm_range None" "ppm_range (Some (ppm_value x))"
  by (simp_all add: ppm_range_def)

lemma formula_ranges [ppm_ranges]:
  "ppm_range (rising_too_fast a b)"
  "ppm_range (head_concentration a b)"
  "ppm_range (internal_divergence facts a)"
  "ppm_range (crowding_ppm m a n)"
  "ppm_range (liquidity_weakening a b c)"
  "ppm_range (core_weakening_ppm core)"
  "ppm_range (breadth_collapse_ppm a b)"
  "ppm_range (stampede_ppm a b m)"
  "ppm_range (t1_chasing_ppm a m n k)"
  "ppm_range (early_failure_ppm ev date a b c)"
  "ppm_range (early_activity_ppm a b c)"
  "ppm_range (healthy_breadth_ppm a m)"
  "ppm_range (relative_strength_ppm a b c d)"
  "ppm_range (turnover_confirmation_ppm a)"
  "ppm_range (continuity_strengthening obs)"
  by (auto simp: rising_too_fast_def head_concentration_def internal_divergence_def
      crowding_ppm_def liquidity_weakening_def core_weakening_ppm_def breadth_collapse_ppm_def
      stampede_ppm_def t1_chasing_ppm_def early_failure_ppm_def early_activity_ppm_def
      healthy_breadth_ppm_def relative_strength_ppm_def turnover_confirmation_ppm_def
      continuity_strengthening_def Let_def ppm_range_def
      split: option.splits)

lemma context_ranges [ppm_ranges]:
  "ppm_range (Some (etf_confirmation_ppm r m))"
  "ppm_range (Some (style_support_ppm r m))"
  by (simp_all add: etf_confirmation_ppm_def style_support_ppm_def)

lemma complement_range [ppm_ranges]:
  "ppm_range v \<Longrightarrow> ppm_range (map_option (\<lambda>c. 1000000 - c) v)"
  by (auto simp: ppm_range_def split: option.splits)

section \<open>Well-formed value tables\<close>

definition table_ok :: "value_table \<Rightarrow> bool" where
  "table_ok values \<longleftrightarrow>
     set all_codes \<subseteq> dom values \<and>
     (\<forall>c v. values c = Some v \<longrightarrow> code v = c \<and> metric_value_check v = Inr ())"

lemma metric_value_check_makers [simp]:
  "metric_value_check (missing c) = Inr ()"
  "metric_value_check (not_applicable c) = Inr ()"
  "metric_value_check (the_value c n) = Inr () \<longleftrightarrow> 0 \<le> n \<and> n \<le> 1000000"
  by (simp_all add: metric_value_check_def metric_value_makers)

lemma maker_fields [simp]:
  "code (missing c) = c" "code (not_applicable c) = c" "code (the_value c n) = c"
  "status (missing c) = MISSING" "status (not_applicable c) = NOT_APPLICABLE"
  "status (the_value c n) = VALUE" "value_ppm (the_value c n) = Some n"
  by (simp_all add: metric_value_makers)

lemma table_ok_update:
  "table_ok t \<Longrightarrow> code v = c \<Longrightarrow> metric_value_check v = Inr () \<Longrightarrow> table_ok (t(c \<mapsto> v))"
  by (auto simp: table_ok_def)

lemma table_ok_empty: "table_ok (empty_values mi)"
proof -
  have "table_ok (\<lambda>c. if c \<in> set all_codes then Some (missing c) else None)"
    by (auto simp: table_ok_def split: if_splits)
  then show ?thesis by (simp add: empty_values_def Let_def table_ok_update)
qed

lemma table_ok_set_value: "table_ok t \<Longrightarrow> ppm_range v \<Longrightarrow> table_ok (set_value c v t)"
  unfolding set_value_def
  by (rule table_ok_update) (auto simp: ppm_range_def split: option.splits)

lemma table_ok_set_context_value:
  "table_ok t \<Longrightarrow> (\<And>r m. ppm_range (Some (f r m))) \<Longrightarrow> table_ok (set_context_value c ctx mk f t)"
  unfolding set_context_value_def
  by (rule table_ok_update) (auto simp: ppm_range_def split: option.splits)

lemma table_ok_remove: "table_ok t \<Longrightarrow> table_ok (remove_values codes t)"
  by (auto simp: table_ok_def remove_values_def map_option_case split: option.splits)

lemma table_ok_add: "table_ok s \<Longrightarrow> table_ok t \<Longrightarrow> table_ok (s ++ t)"
  by (auto simp: table_ok_def map_add_def split: option.splits)

lemma table_ok_if:
  "(b \<Longrightarrow> table_ok s) \<Longrightarrow> (\<not> b \<Longrightarrow> table_ok t) \<Longrightarrow> table_ok (if b then s else t)"
  by simp

lemma table_ok_missing: "table_ok t \<Longrightarrow> table_ok (t(c \<mapsto> missing c))"
  by (simp add: table_ok_update)

lemmas table_ok_intros =
  table_ok_empty table_ok_set_value table_ok_set_context_value table_ok_remove table_ok_add
  table_ok_if table_ok_missing

lemma table_ok_calculate: "table_ok (fst (calculate rv mi vs))"
  unfolding calculate_def calculate_from_def Let_def split_beta fst_conv
  by (intro table_ok_intros ppm_ranges)

lemma table_ok_final: "table_ok (fst (final_values rv mi q vs))"
  using table_ok_calculate [of rv mi vs]
  by (simp add: final_values_def Let_def split_beta table_ok_intros)

section \<open>Evaluation\<close>

lemma sector_members_total:
  assumes "constructed mi"
  shows "\<exists>members. sector_members mi = Inr members"
proof -
  have "set (sort (sector_member_uids mi)) \<subseteq>
      dom (pydict (map (\<lambda>m. (instrument_uid m, m)) (primary_members mi)))"
    using constructed_sector [OF assms] unfolding dom_pydict by (auto simp: image_image)
  then show ?thesis unfolding sector_members_def by (simp add: mapR_require)
qed

lemma ordered_values_total:
  "table_ok t \<Longrightarrow>
   mapR (\<lambda>c. require (KeyError c) (t c)) all_codes = Inr (map (\<lambda>c. the (t c)) all_codes)"
  by (rule mapR_require) (simp add: table_ok_def)

text \<open>The shape of a successful evaluation.\<close>

lemma evaluate_Inr:
  assumes "evaluate h rv mi = Inr out"
  obtains members valid where
    "sector_members mi = Inr members"
    and "valid = filter valid_quote (filter (\<lambda>m. \<not> suspended m) members)"
    and "output_quality out = quality_of mi (filter (\<lambda>m. \<not> suspended m) members) valid"
    and "output_values out =
           map (\<lambda>c. the (fst (final_values rv mi (output_quality out) valid) c)) all_codes"
proof -
  obtain members where m: "sector_members mi = Inr members"
    using assms by (auto simp: evaluate_def result_simps)
  let ?a = "filter (\<lambda>m. \<not> suspended m) members"
  let ?v = "filter valid_quote ?a"
  let ?q = "quality_of mi ?a ?v"
  have t: "table_ok (fst (final_values rv mi ?q ?v))" by (rule table_ok_final)
  show thesis
    by (rule that [OF m refl]) (use assms m ordered_values_total [OF t] in
        \<open>auto simp: evaluate_def Let_def split_beta\<close>)
qed

lemma evaluate_total:
  assumes "constructed mi"
  shows "\<exists>out. evaluate h rv mi = Inr out"
proof -
  obtain members where "sector_members mi = Inr members"
    using sector_members_total [OF assms] by blast
  then show ?thesis
    using ordered_values_total [OF table_ok_final] by (simp add: evaluate_def Let_def split_beta)
qed

lemma evaluate_values_ok:
  assumes "evaluate h rv mi = Inr out"
  shows "map code (output_values out) = all_codes"
    and "\<forall>v \<in> set (output_values out). metric_value_check v = Inr ()"
proof -
  obtain valid where v: "output_values out =
      map (\<lambda>c. the (fst (final_values rv mi (output_quality out) valid) c)) all_codes"
    using assms by (rule evaluate_Inr)
  let ?t = "fst (final_values rv mi (output_quality out) valid)"
  have ok: "table_ok ?t" by (rule table_ok_final)
  have each: "code (the (?t c)) = c \<and> metric_value_check (the (?t c)) = Inr ()"
    if "c \<in> set all_codes" for c
  proof -
    have "c \<in> dom ?t" using ok that by (auto simp: table_ok_def)
    then obtain w where "?t c = Some w" by blast
    then show ?thesis using ok by (simp add: table_ok_def)
  qed
  then show "map code (output_values out) = all_codes"
    unfolding v by (simp add: map_idI)
  show "\<forall>v \<in> set (output_values out). metric_value_check v = Inr ()"
    unfolding v using each by simp
qed

section \<open>The quality gate\<close>

lemma remove_values_status:
  "c \<in> set codes \<Longrightarrow> remove_values codes t c = Some v \<Longrightarrow> status v \<noteq> VALUE"
  by (auto simp: remove_values_def split: if_splits)

lemma metrics_among_Nil:
  "(\<forall>v \<in> set (output_values out). code v \<in> set codes \<longrightarrow> status v \<noteq> VALUE) \<Longrightarrow> metrics_among codes out = []"
  by (auto simp: metrics_among_def map_filter_def filter_empty_conv)

lemma gate_removes:
  assumes ev: "evaluate h rv mi = Inr out"
    and codes: "set codes \<subseteq> set all_codes"
    and fit: "\<And>vs. fst (final_values rv mi (output_quality out) vs) =
      remove_values codes (t vs)"
  shows "metrics_among codes out = []"
proof (rule metrics_among_Nil, intro ballI impI)
  fix v assume v: "v \<in> set (output_values out)" and c: "code v \<in> set codes"
  obtain valid where o: "output_values out =
      map (\<lambda>c. the (fst (final_values rv mi (output_quality out) valid) c)) all_codes"
    using ev by (rule evaluate_Inr)
  let ?f = "fst (final_values rv mi (output_quality out) valid)"
  obtain d where d: "d \<in> set all_codes" "v = the (?f d)" using v o by auto
  obtain w where w: "?f d = Some w" using d(1) table_ok_final [of rv mi] by (fastforce simp: table_ok_def)
  then have "code w = d" using table_ok_final [of rv mi] by (fastforce simp: table_ok_def)
  with d w c have "d \<in> set codes" "v = w" by auto
  with w fit [of valid] show "status v \<noteq> VALUE" by (simp add: remove_values_status)
qed

lemma scout_codes_subset: "set scout_codes \<subseteq> set all_codes"
  and guardian_codes_subset: "set guardian_codes \<subseteq> set all_codes"
  by (auto simp: set_all_codes)

lemma metrics_among_mono:
  "set codes \<subseteq> set codes' \<Longrightarrow> metrics_among codes' out = [] \<Longrightarrow> metrics_among codes out = []"
  by (fastforce simp: metrics_among_def map_filter_def filter_empty_conv split: if_splits)

lemma unfit_removes_all:
  assumes "evaluate h rv mi = Inr out" and "fitness_status (output_quality out) = ''UNFIT''"
  shows "metrics_among all_codes out = []"
  by (rule gate_removes [OF assms(1) order_refl, where t = "\<lambda>_. empty_values mi"])
    (simp add: final_values_def assms(2))

lemma limited_removes_scout:
  assumes "evaluate h rv mi = Inr out"
    and "fitness_status (output_quality out) = ''FIT_WITH_LIMITATIONS''"
  shows "metrics_among scout_codes out = []"
  by (rule gate_removes [OF assms(1) scout_codes_subset,
        where t = "\<lambda>vs. empty_values mi ++ fst (calculate rv mi vs)"])
    (simp add: final_values_def assms(2) split_beta)

text \<open>The gate as a specification: which inputs are fit.\<close>

definition fit_for_guardian :: "metric_input \<Rightarrow> metric_member list \<Rightarrow> metric_member list \<Rightarrow> bool" where
  "fit_for_guardian mi active valid \<longleftrightarrow>
     evaluable_phase mi \<and> has_complete_minute mi \<and> active \<noteq> [] \<and>
     70 / 100 \<le> quote_coverage active valid \<and> 3 \<le> length valid \<and>
     70 / 100 \<le> historical_coverage mi \<and> provider_capability_fit mi"

definition fit_for_scout :: "metric_input \<Rightarrow> metric_member list \<Rightarrow> metric_member list \<Rightarrow> bool" where
  "fit_for_scout mi active valid \<longleftrightarrow>
     fit_for_guardian mi active valid \<and> 85 / 100 \<le> quote_coverage active valid \<and>
     80 / 100 \<le> historical_coverage mi \<and> \<not> provider_capability_limited mi \<and>
     context_fit mi \<and> 5 \<le> length valid"

lemma unfit_reasons_Nil:
  "unfit_reasons mi a v = [] \<longleftrightarrow>
     a \<noteq> [] \<and> 70 / 100 \<le> quote_coverage a v \<and> 3 \<le> length v \<and>
     70 / 100 \<le> historical_coverage mi \<and> provider_capability_fit mi"
  by (auto simp: unfit_reasons_def)

lemma limited_reasons_Nil:
  "limited_reasons mi a v = [] \<longleftrightarrow>
     85 / 100 \<le> quote_coverage a v \<and> 80 / 100 \<le> historical_coverage mi \<and>
     \<not> provider_capability_limited mi \<and> context_fit mi \<and> 5 \<le> length v"
  by (auto simp: limited_reasons_def)

lemma fit_for_guardian_iff:
  "fit_for_guardian mi a v \<longleftrightarrow> evaluable_phase mi \<and> has_complete_minute mi \<and> unfit_reasons mi a v = []"
  by (auto simp: fit_for_guardian_def unfit_reasons_Nil)

lemma fit_for_scout_iff:
  "fit_for_scout mi a v \<longleftrightarrow> fit_for_guardian mi a v \<and> limited_reasons mi a v = []"
  by (auto simp: fit_for_scout_def limited_reasons_Nil)

lemma quality_spec:
  "fitness_status (quality_of mi a v) =
     (if \<not> fit_for_guardian mi a v then ''UNFIT''
      else if \<not> fit_for_scout mi a v then ''FIT_WITH_LIMITATIONS'' else ''FIT'')"
  by (simp add: quality_of_def Let_def fit_for_guardian_iff fit_for_scout_iff)

lemma quality_reasons:
  "reason_codes (quality_of mi a v) = [] \<longleftrightarrow> fitness_status (quality_of mi a v) = ''FIT''"
  by (auto simp: quality_of_def Let_def)

end
