(* ===== verification/Metric_Order.thy ===== *)
theory Metric_Order
  imports Metric_Properties
begin

text \<open>
  Order independence of the metric producer, the size of the head group under binary floating
  point, monotonicity of the risk formulas and their saturation points.
\<close>

section \<open>Order independence\<close>

lemma all_some_None: "all_some xs = None \<longleftrightarrow> None \<in> set xs"
  by (induction xs rule: all_some.induct) auto

lemma all_some_Some: "all_some xs = Some ys \<longleftrightarrow> xs = map Some ys"
  by (induction xs arbitrary: ys rule: all_some.induct) (auto simp: Cons_eq_map_conv)

lemma mset_map_Some: "mset (map Some xs) = mset (map Some ys) \<Longrightarrow> mset xs = mset ys"
proof -
  assume "mset (map Some xs) = mset (map Some ys)"
  then have "image_mset the (image_mset Some (mset xs)) = image_mset the (image_mset Some (mset ys))"
    by (simp only: mset_map)
  then show "mset xs = mset ys" by (simp add: multiset.map_comp comp_def)
qed

lemma all_some_perm:
  assumes "mset xs = mset ys"
  shows "rel_option (\<lambda>a b. mset a = mset b) (all_some xs) (all_some ys)"
proof (cases "None \<in> set xs")
  case True
  then have "None \<in> set ys" using mset_eq_setD [OF assms] by blast
  with True have "all_some xs = None" "all_some ys = None" by (simp_all only: all_some_None)
  then show ?thesis by simp
next
  case False
  then have "None \<notin> set ys" using mset_eq_setD [OF assms] by blast
  then obtain bs where bs: "all_some ys = Some bs"
    using all_some_None [of ys] by (cases "all_some ys") blast+
  obtain as where as: "all_some xs = Some as"
    using False all_some_None [of xs] by (cases "all_some xs") blast+
  have x: "xs = map Some as" and y: "ys = map Some bs" using as bs by (simp_all only: all_some_Some)
  have "mset as = mset bs" using assms unfolding x y by (rule mset_map_Some)
  with as bs show ?thesis by simp
qed

lemma count_if_perm: "mset xs = mset ys \<Longrightarrow> count_if p xs = count_if p ys"
  unfolding count_if_def by (metis mset_filter size_mset)

lemma return_and_breadth_perm:
  assumes "mset fs = mset gs"
  shows "return_and_breadth attr fs = return_and_breadth attr gs"
proof -
  have "mset (map attr fs) = mset (map attr gs)" using assms by simp
  then have r: "rel_option (\<lambda>a b. mset a = mset b) (all_some (map attr fs)) (all_some (map attr gs))"
    by (rule all_some_perm)
  show ?thesis
  proof (cases "all_some (map attr fs)")
    case None
    with r have "all_some (map attr gs) = None" by (simp add: option_rel_Some1)
    with None show ?thesis by (simp add: return_and_breadth_def)
  next
    case (Some as)
    with r obtain bs where bs: "all_some (map attr gs) = Some bs" and m: "mset as = mset bs"
      by (auto simp: option_rel_Some1)
    show ?thesis
      unfolding return_and_breadth_def Some bs
      using robust_return_perm [OF m] count_if_perm [OF m, of "\<lambda>v. 0 < v"] mset_eq_length [OF m]
      by auto
  qed
qed

lemma facts_of_market_perm:
  "mset (primary_members mi') = mset (primary_members mi) \<Longrightarrow>
   mset (facts_of_market mi') = mset (facts_of_market mi)"
  by (simp add: facts_of_market_def)

lemma historical_baselines_perm:
  assumes "mset ws = mset ws'" and "distinct (map window_date ws)"
  shows "historical_baselines ws facts = historical_baselines ws' facts"
proof -
  have "sort_key window_date ws = sort_key window_date ws'"
    using assms by (intro sort_key_perm) (simp_all add: distinct_map)
  then show ?thesis by (simp add: historical_baselines_def)
qed

lemma ordered_observations_perm:
  assumes "mset obs = mset obs'" and "distinct (map observation_uid obs)"
  shows "ordered_observations obs = ordered_observations obs'"
  unfolding ordered_observations_def
proof (rule sort_key_perm [OF assms(1)])
  show "inj_on observation_key (set obs)"
    using assms(2) by (auto simp: distinct_map inj_on_def observation_key_def)
qed

lemma continuity_strengthening_perm:
  assumes "mset obs = mset obs'" and "distinct (map observation_uid obs)"
  shows "continuity_strengthening obs = continuity_strengthening obs'"
  unfolding continuity_strengthening_def ordered_observations_perm [OF assms]
    mset_eq_length [OF assms(1)] by (rule refl)

definition reorder ::
    "string list \<Rightarrow> metric_member list \<Rightarrow> same_clock_window list \<Rightarrow> continuity_observation list \<Rightarrow>
     metric_input \<Rightarrow> metric_input" where
  "reorder uids members windows obs mi =
     mi\<lparr>sector_member_uids := uids, primary_members := members, same_clock_windows := windows,
        continuity_observations := obs\<rparr>"

lemma reorder_select [simp]:
  "sector_member_uids (reorder us ms ws obs mi) = us"
  "primary_members (reorder us ms ws obs mi) = ms"
  "same_clock_windows (reorder us ms ws obs mi) = ws"
  "continuity_observations (reorder us ms ws obs mi) = obs"
  "etf_context (reorder us ms ws obs mi) = etf_context mi"
  "style_context (reorder us ms ws obs mi) = style_context mi"
  "early_evidence_input (reorder us ms ws obs mi) = early_evidence_input mi"
  "trading_date (reorder us ms ws obs mi) = trading_date mi"
  "sector_uid (reorder us ms ws obs mi) = sector_uid mi"
  "is_final_trading_snapshot (reorder us ms ws obs mi) = is_final_trading_snapshot mi"
  "historical_coverage (reorder us ms ws obs mi) = historical_coverage mi"
  "market_phase (reorder us ms ws obs mi) = market_phase mi"
  "has_complete_minute (reorder us ms ws obs mi) = has_complete_minute mi"
  "provider_capability_fit (reorder us ms ws obs mi) = provider_capability_fit mi"
  "provider_capability_limited (reorder us ms ws obs mi) = provider_capability_limited mi"
  "context_fit (reorder us ms ws obs mi) = context_fit mi"
  by (simp_all add: reorder_def)

lemma quality_of_reorder: "quality_of (reorder us ms ws obs mi) a v = quality_of mi a v"
  unfolding quality_of_def evaluable_phase_def unfit_reasons_def limited_reasons_def reorder_select
  by (rule refl)

lemma empty_values_reorder: "empty_values (reorder us ms ws obs mi) = empty_values mi"
  by (simp add: empty_values_def)

lemma calculate_reorder:
  assumes "mset ms = mset (primary_members mi)"
    and "mset ws = mset (same_clock_windows mi)" "distinct (map window_date ws)"
    and "mset obs = mset (continuity_observations mi)" "distinct (map observation_uid obs)"
  shows "calculate rv (reorder us ms ws obs mi) vs = calculate rv mi vs"
proof -
  have m: "return_and_breadth a (facts_of_market (reorder us ms ws obs mi)) =
      return_and_breadth a (facts_of_market mi)" for a
    using assms(1) by (intro return_and_breadth_perm facts_of_market_perm) simp
  show ?thesis
    unfolding calculate_def calculate_from_def m reorder_select empty_values_reorder
      historical_baselines_perm [OF assms(2,3)] ordered_observations_perm [OF assms(4,5)]
      continuity_strengthening_perm [OF assms(4,5)]
    by (simp only:)
qed

lemma pydict_keyed_perm:
  assumes "mset ms = mset ns" and "distinct (map f ms)"
  shows "pydict (map (\<lambda>m. (f m, m)) ms) = pydict (map (\<lambda>m. (f m, m)) ns)"
proof -
  have "mset (map f ms) = mset (map f ns)" using assms(1) by simp
  then have "distinct (map f ns)" using assms(2) mset_eq_imp_distinct_iff by blast
  then have "map_of (map (\<lambda>m. (f m, m)) ms) = map_of (map (\<lambda>m. (f m, m)) ns)"
    using assms by (intro map_of_perm) (simp_all add: comp_def)
  then show ?thesis
    using assms(2) \<open>distinct (map f ns)\<close> by (simp add: pydict_distinct comp_def)
qed

lemma sector_members_reorder:
  assumes "mset us = mset (sector_member_uids mi)"
    and "mset ms = mset (primary_members mi)" "distinct (map instrument_uid ms)"
  shows "sector_members (reorder us ms ws obs mi) = sector_members mi"
  unfolding sector_members_def reorder_select sort_perm [OF assms(1)]
    pydict_keyed_perm [OF assms(2,3)] by (rule refl)

lemma mset_map_distinct:
  assumes "mset xs = mset ys"
  shows "distinct (map f xs) \<longleftrightarrow> distinct (map f ys)"
proof (rule mset_eq_imp_distinct_iff)
  show "mset (map f xs) = mset (map f ys)" using assms by simp
qed

lemma evaluate_reorder:
  assumes c: "constructed mi"
    and us: "mset us = mset (sector_member_uids mi)"
    and ms: "mset ms = mset (primary_members mi)"
    and ws: "mset ws = mset (same_clock_windows mi)"
    and obs: "mset obs = mset (continuity_observations mi)"
  shows "evaluate h rv (reorder us ms ws obs mi) = evaluate h rv mi"
proof -
  have d: "distinct (map instrument_uid ms)"
    using constructed_primary [OF c] mset_map_distinct [OF ms] by blast
  have dw: "distinct (map window_date ws)"
    using constructed_windows [OF c] mset_map_distinct [OF ws] by blast
  have dob: "distinct (map observation_uid obs)"
    using constructed_observations [OF c] mset_map_distinct [OF obs] by blast
  have dates: "sort (map window_date ws) = sort (map window_date (same_clock_windows mi))"
    using ws by (intro sort_perm) simp
  have "final_values rv (reorder us ms ws obs mi) q vs = final_values rv mi q vs" for q vs
    unfolding final_values_def calculate_reorder [OF ms ws dw obs dob] empty_values_reorder
    by (rule refl)
  then show ?thesis
    unfolding evaluate_def sector_members_reorder [OF us ms d] quality_of_reorder reorder_select
      mset_eq_length [OF ms] sort_perm [OF us] dates
    by (simp only:)
qed

section \<open>The head group\<close>

text \<open>The product by the float \<open>0.10\<close> never moves the ceiling: the head group is a tenth of the
  members, rounded up, between one and five.\<close>

lemma head_size_mono: "m \<le> n \<Longrightarrow> head_size m \<le> head_size n"
proof -
  assume "m \<le> n"
  then have "fround (of_nat m * fround (1 / 10)) \<le> fround (of_nat n * fround (1 / 10))"
    using flt.nonneg [of "1 / 10"] by (intro flt.mono mult_right_mono) simp_all
  then have "\<lceil>fround (of_nat m * fround (1 / 10))\<rceil> \<le> \<lceil>fround (of_nat n * fround (1 / 10))\<rceil>"
    by (rule ceiling_mono)
  then show ?thesis unfolding head_size_def by (intro nat_mono min.mono max.mono) simp_all
qed

lemma head_size_range: "1 \<le> head_size n" "head_size n \<le> 5"
  by (simp_all add: head_size_def)

lemma fround_tenth: "fround (1 / 10) = 3602879701896397 / 36028797018963968"
  using round_sig_near [of 2 "- 4" "1 / 10" 53 7205759403792794]
  by (simp add: fround_def power_int_minus)

lemma head_size_tens: "head_size 10 = 1" "head_size 20 = 2" "head_size 30 = 3" "head_size 40 = 4"
  using round_sig_near [of 2 0 "10 * fround (1 / 10)" 53 "2 ^ 52"]
    round_sig_near [of 2 1 "20 * fround (1 / 10)" 53 "2 ^ 52"]
    round_sig_near [of 2 1 "30 * fround (1 / 10)" 53 "3 * 2 ^ 51"]
    round_sig_near [of 2 2 "40 * fround (1 / 10)" 53 "2 ^ 52"]
  by (simp_all add: head_size_def fround_tenth power_int_minus) (simp_all add: fround_def)

text \<open>Past a multiple of ten the product is past the whole number: 51/512 is an exact float below
  one tenth.\<close>

lemma head_size_past:
  assumes "10 * m < n" and "m \<le> 4"
  shows "m + 1 \<le> head_size n"
proof -
  let ?l = "of_int (int (10 * m + 1) * 51) * (2 :: rat) powi (- 9)"
  have l: "?l = of_nat (10 * m + 1) * (51 / 512)" by (simp add: power_int_minus)
  have "51 / 512 = of_int 51 * (2 :: rat) powi (- 9)" by (simp add: power_int_minus)
  then have "fround (51 / 512) = 51 / 512" by (intro fround_exact [of 51 _ "- 9"]) simp_all
  then have c: "51 / 512 \<le> fround (1 / 10)" using flt.mono [of "51 / 512" "1 / 10"] by simp
  have "of_nat (10 * m + 1) * (51 / 512) \<le> of_nat n * fround (1 / 10)"
    using assms(1) c by (intro mult_mono) simp_all
  then have "fround ?l \<le> fround (of_nat n * fround (1 / 10))" unfolding l by (rule flt.mono)
  moreover have "fround ?l = ?l" using assms(2) by (intro fround_exact [OF _ refl]) simp
  moreover have "of_nat m < ?l" unfolding l using assms(2) by (simp add: field_simps)
  ultimately have "of_nat m < fround (of_nat n * fround (1 / 10))" by simp
  then have "int m < \<lceil>fround (of_nat n * fround (1 / 10))\<rceil>" by (simp add: less_ceiling_iff)
  then show ?thesis using assms(2) by (simp add: head_size_def nat_le_iff le_nat_iff)
qed

lemma head_size_exact: "head_size n = min 5 (max 1 ((n + 9) div 10))"
proof -
  note m = head_size_mono and p = head_size_tens and r = head_size_range [of n]
  consider "n \<le> 10" | "11 \<le> n" "n \<le> 20" | "21 \<le> n" "n \<le> 30" | "31 \<le> n" "n \<le> 40" | "41 \<le> n"
    by linarith
  then show ?thesis
  proof cases
    case 1
    then show ?thesis using m [of n 10] p(1) r by linarith
  next
    case 2
    then show ?thesis using m [of n 20] head_size_past [of 1 n] p(2) by linarith
  next
    case 3
    then show ?thesis using m [of n 30] head_size_past [of 2 n] p(3) by linarith
  next
    case 4
    then show ?thesis using m [of n 40] head_size_past [of 3 n] p(4) by linarith
  next
    case 5
    then show ?thesis using head_size_past [of 4 n] r by linarith
  qed
qed

section \<open>Monotonicity and saturation\<close>

text \<open>The calibration spans of the formulas are exact decimals.\<close>

lemma dround_decimal:
  "\<bar>m\<bar> \<le> 10 ^ 28 \<Longrightarrow> dround (of_int m / 10 ^ k) = of_int m / 10 ^ k"
  by (rule dround_exact [of m _ "- int k"]) (simp_all add: power_int_minus field_simps)

lemma spans [simp]:
  "dsub (1 / 25) (3 / 200) = 1 / 40"
  "dsub (1 / 40) (1 / 125) = 17 / 1000"
  "dsub (5 / 2) (13 / 10) = 6 / 5"
  "dsub (11 / 5) (11 / 10) = 11 / 10"
  "dsub (7 / 100) (1 / 40) = 9 / 200"
  "dsub (2 / 5) (3 / 20) = 1 / 4"
  "dsub (1 / 4) 0 = 1 / 4"
  using dround_decimal [of 25 3] dround_decimal [of 17 3] dround_decimal [of 12 1]
    dround_decimal [of 11 1] dround_decimal [of 45 3] dround_decimal [of 25 2]
  by (simp_all add: dsub_def)

lemma rising_too_fast_mono:
  assumes "c \<le> c'" and "p' \<le> p"
  shows "the (rising_too_fast (Some c) (Some p)) \<le> the (rising_too_fast (Some c') (Some p'))"
  unfolding rising_too_fast_def
  by (simp, intro ppm_value_mono dadd_mono dmul_mono linear_mono dsub_mono) (simp_all add: assms)

lemma turnover_confirmation_saturates:
  "turnover_confirmation_ppm (Some t) = Some 0" if "t \<le> 110 / 100"
  using linear_low [of t "11 / 10" "11 / 5"] that
  by (simp add: turnover_confirmation_ppm_def ppm_value_0)

lemma turnover_confirmation_full:
  "turnover_confirmation_ppm (Some t) = Some 1000000" if "220 / 100 \<le> t"
  using linear_high [of "11 / 5" t "11 / 10"] that
  by (simp add: turnover_confirmation_ppm_def ppm_value_1)

end
