(* ===== verification/Metric_Theorems.thy ===== *)
theory Metric_Theorems
  imports Metric_Order
begin

text \<open>
  The properties of the metric producer (\<open>market_metrics.py\<close>), each with its witness on a sample
  sector. The proofs apply the lemmas of \<open>Metric_Properties\<close> and \<open>Metric_Order\<close>.
\<close>

section \<open>Sample inputs\<close>

definition sample_member :: "string \<Rightarrow> metric_member" where
  "sample_member uid =
     \<lparr>instrument_uid = uid, quote_status = ''VALID'', price = Some 11, pre_close = Some 10,
      close_5m = Some 10, close_10m = Some 10, close_15m = Some 10, amount_5m = Some 100,
      amount_15m = Some 300, previous_amount_5m = Some 90, trailing_daily_amounts = [1000],
      known_suspended = False\<rparr>"

text \<open>A sector of \<open>n\<close> quoted members in the morning session, everything provided.\<close>

definition sample_input :: "string list \<Rightarrow> metric_input" where
  "sample_input uids =
     \<lparr>sector_uid = ''sector'', sector_member_uids = uids, primary_members = map sample_member uids,
      same_clock_windows = [], historical_coverage = 1, provider_capability_fit = True,
      trading_date = ''2026-07-20'', market_phase = ''CONTINUOUS_AM'', has_complete_minute = True,
      provider_capability_limited = False, is_final_trading_snapshot = False, etf_context = None,
      style_context = None, early_evidence_input = None, context_fit = True,
      continuity_observations = []\<rparr>"

lemma sample_input_constructed:
  "distinct uids \<Longrightarrow> [] \<notin> set uids \<Longrightarrow> constructed (sample_input uids)"
  by (auto simp: constructed_def sample_input_def metric_input_check_def metric_member_check_def
      sample_member_def primary_uids_def comp_def iso_date_def digits_value_def valid_ymd_def days_in_month_def
      eval_nat_numeral)


lemma sample_quote [simp]:
  "valid_quote (sample_member u)" "\<not> suspended (sample_member u)" "instrument_uid (sample_member u) = u"
  by (simp_all add: sample_member_def valid_quote_def suspended_def)

lemma sample_members:
  "distinct uids \<Longrightarrow> sector_members (sample_input uids) = Inr (map sample_member (sort uids))"
  unfolding sector_members_def
  by (rule mapR_total [THEN trans, of _ _ sample_member])
    (auto simp: sample_input_def pydict_distinct comp_def map_of_map_restrict restrict_map_def)

lemma sample_quality:
  assumes "distinct uids" and "evaluate h rv (sample_input uids) = Inr out"
  shows "output_quality out =
    quality_of (sample_input uids) (map sample_member (sort uids)) (map sample_member (sort uids))"
  using assms(2)
  by (rule evaluate_Inr) (auto simp: sample_members [OF assms(1)] filter_map comp_def)

section \<open>Totality and ranges\<close>



section \<open>The quality gate\<close>

text \<open>C2: the quality gate holds back values: an UNFIT evaluation emits no metric at all, a limited
  one no Scout metric, so no threshold can be reached on data that the gate refused.\<close>

theorem metric_gate:
  assumes "evaluate h rv mi = Inr out"
  shows "(fitness_status (output_quality out) = ''UNFIT'' \<longrightarrow> guardian_metrics out = [] \<and> scout_metrics out = []) \<and>
    (fitness_status (output_quality out) = ''FIT_WITH_LIMITATIONS'' \<longrightarrow> scout_metrics out = [])"
  using unfit_removes_all [OF assms] limited_removes_scout [OF assms]
    metrics_among_mono [OF guardian_codes_subset, of out] metrics_among_mono [OF scout_codes_subset, of out]
  by (simp add: guardian_metrics_def scout_metrics_def)

theorem metric_gate_witness:
  "\<exists>out. evaluate (\<lambda>_. ''digest'') current_rule_version (sample_input [''a'']) = Inr out \<and>
    fitness_status (output_quality out) = ''UNFIT'' \<and> guardian_metrics out = [] \<and> scout_metrics out = []"
proof -
  obtain out where out: "evaluate (\<lambda>_. ''digest'') current_rule_version (sample_input [''a'']) = Inr out"
    using evaluate_total [OF sample_input_constructed [of "[''a'']"]] by auto
  have "fitness_status (output_quality out) = ''UNFIT''"
    unfolding sample_quality [OF _ out, simplified]
    by (simp add: quality_of_def Let_def unfit_reasons_def)
  then show ?thesis using metric_gate [OF out] out by blast
qed


section \<open>Order independence\<close>



section \<open>Formulas\<close>

text \<open>C5: the size of the head group, computed in binary floating point from \<open>0.10\<close>, is a tenth of
  the members rounded up, at least one and at most five: the float product never moves the ceiling.\<close>

theorem head_group_size: "head_size n = min 5 (max 1 ((n + 9) div 10))"
  by (rule head_size_exact)

text \<open>C6: the rise-rate risk never falls when the current return grows or the previous one shrinks,
  through every decimal rounding of the formula.\<close>

theorem rise_rate_monotone:
  assumes "c \<le> c'" and "p' \<le> p"
  shows "the (rising_too_fast (Some c) (Some p)) \<le> the (rising_too_fast (Some c') (Some p'))"
  using assms by (rule rising_too_fast_mono)

theorem rise_rate_monotone_witness:
  "the (rising_too_fast (Some (1 / 100)) (Some (1 / 50))) \<le>
   the (rising_too_fast (Some (1 / 25)) (Some 0))"
  by (rule rise_rate_monotone) simp_all

text \<open>C7: parts per million survive the decimal round trip: converting a PPM integer to a ratio and
  back gives the same integer.\<close>

theorem ppm_round_trip:
  assumes "0 \<le> n" and "n \<le> 1000000"
  shows "ppm_value (from_ppm n) = n"
  using assms by (rule ppm_from_ppm)

theorem ppm_round_trip_witness: "ppm_value (from_ppm 333333) = 333333"
  by (rule ppm_round_trip) simp_all

end
