(* ===== verification/Guardian_Rules.thy ===== *)
theory Guardian_Rules
  imports Prelude
begin

text \<open>
  \<open>guardian.py\<close> without its database access, and \<open>guardian_view.py\<close>: the frozen rule table, the
  threshold comparison, the decision that the Guardian takes from metrics, thresholds and data
  quality, and its view. The locale \<open>threshold_family\<close> is the interface that the Guardian and the
  Scout comparison share; it is interpreted here for the Guardian.
\<close>

section \<open>Effects and severities\<close>

datatype guardian_effect = ALLOW | ALLOW_WITH_WARNING | DOWNGRADE | SUPPRESS | PAUSE

datatype severity = SEV_NONE | SEV_INFO | SEV_WARNING | SEV_HIGH | SEV_CRITICAL

fun effect_order :: "guardian_effect \<Rightarrow> nat" where
  "effect_order ALLOW = 0"
| "effect_order ALLOW_WITH_WARNING = 1"
| "effect_order DOWNGRADE = 2"
| "effect_order SUPPRESS = 3"
| "effect_order PAUSE = 4"

fun severity_order :: "severity \<Rightarrow> nat" where
  "severity_order SEV_NONE = 0"
| "severity_order SEV_INFO = 1"
| "severity_order SEV_WARNING = 2"
| "severity_order SEV_HIGH = 3"
| "severity_order SEV_CRITICAL = 4"

lemma effect_order_inject: "effect_order x = effect_order y \<Longrightarrow> x = y"
  by (cases x; cases y; simp)

lemma severity_order_inject: "severity_order x = severity_order y \<Longrightarrow> x = y"
  by (cases x; cases y; simp)

instantiation guardian_effect :: linorder
begin

definition less_eq_guardian_effect :: "guardian_effect \<Rightarrow> guardian_effect \<Rightarrow> bool" where
  "x \<le> y \<longleftrightarrow> effect_order x \<le> effect_order y"

definition less_guardian_effect :: "guardian_effect \<Rightarrow> guardian_effect \<Rightarrow> bool" where
  "x < y \<longleftrightarrow> effect_order x < effect_order y"

instance
  by standard
    (auto simp: less_eq_guardian_effect_def less_guardian_effect_def intro: effect_order_inject)

end

instantiation severity :: linorder
begin

definition less_eq_severity :: "severity \<Rightarrow> severity \<Rightarrow> bool" where
  "x \<le> y \<longleftrightarrow> severity_order x \<le> severity_order y"

definition less_severity :: "severity \<Rightarrow> severity \<Rightarrow> bool" where
  "x < y \<longleftrightarrow> severity_order x < severity_order y"

instance
  by standard (auto simp: less_eq_severity_def less_severity_def intro: severity_order_inject)

end

fun effect_name :: "guardian_effect \<Rightarrow> string" where
  "effect_name ALLOW = ''ALLOW''"
| "effect_name ALLOW_WITH_WARNING = ''ALLOW_WITH_WARNING''"
| "effect_name DOWNGRADE = ''DOWNGRADE''"
| "effect_name SUPPRESS = ''SUPPRESS''"
| "effect_name PAUSE = ''PAUSE''"

fun severity_name :: "severity \<Rightarrow> string" where
  "severity_name SEV_NONE = ''NONE''"
| "severity_name SEV_INFO = ''INFO''"
| "severity_name SEV_WARNING = ''WARNING''"
| "severity_name SEV_HIGH = ''HIGH''"
| "severity_name SEV_CRITICAL = ''CRITICAL''"

section \<open>Threshold families\<close>

text \<open>
  What the Guardian and the Scout promise of their threshold comparison: with a threshold for
  every code, it returns the codes, in the order of the rules, whose metric is present and has
  reached its threshold.
\<close>

locale threshold_family =
  fixes codes :: "string list"
    and matches :: "(string \<rightharpoonup> int) \<Rightarrow> (string \<rightharpoonup> int) \<Rightarrow> string list result"
  assumes codes_distinct: "distinct codes"
    and matches_spec: "set codes \<subseteq> dom t \<Longrightarrow>
      matches m t = Inr (filter (\<lambda>c. \<exists>v. m c = Some v \<and> the (t c) \<le> v) codes)"
begin

lemma matches_set:
  "set codes \<subseteq> dom t \<Longrightarrow> matches m t = Inr cs \<Longrightarrow>
   c \<in> set cs \<longleftrightarrow> c \<in> set codes \<and> (\<exists>v. m c = Some v \<and> the (t c) \<le> v)"
  by (auto simp: matches_spec)

lemma matches_distinct: "set codes \<subseteq> dom t \<Longrightarrow> matches m t = Inr cs \<Longrightarrow> distinct cs"
  using codes_distinct by (auto simp: matches_spec)

text \<open>Raising metrics or lowering thresholds never loses a match.\<close>

lemma matches_mono:
  assumes "set codes \<subseteq> dom t" and "set codes \<subseteq> dom t'"
    and "\<And>c v. c \<in> set codes \<Longrightarrow> m c = Some v \<Longrightarrow> \<exists>v'. m' c = Some v' \<and> v \<le> v'"
    and "\<And>c. c \<in> set codes \<Longrightarrow> the (t' c) \<le> the (t c)"
    and "matches m t = Inr cs" and "matches m' t' = Inr cs'"
  shows "set cs \<subseteq> set cs'"
proof
  fix c assume "c \<in> set cs"
  then obtain v where c: "c \<in> set codes" and v: "m c = Some v" "the (t c) \<le> v"
    using assms(1,5) matches_set by blast
  obtain v' where "m' c = Some v'" "v \<le> v'" using assms(3) [OF c v(1)] by blast
  moreover have "the (t' c) \<le> v" using assms(4) [OF c] v(2) by simp
  ultimately have "\<exists>v'. m' c = Some v' \<and> the (t' c) \<le> v'" by (intro exI [of _ v']) simp
  then show "c \<in> set cs'" using matches_set [OF assms(2,6)] c by blast
qed

end

text \<open>The comparison itself, for a rule table's codes.\<close>

definition reached :: "(string \<rightharpoonup> int) \<Rightarrow> (string \<rightharpoonup> int) \<Rightarrow> string \<Rightarrow> bool result" where
  "reached metrics thresholds fact_code =
     (case metrics fact_code of
        None \<Rightarrow> Inr False
      | Some v \<Rightarrow> bindR (require (KeyError fact_code) (thresholds fact_code)) (\<lambda>t. Inr (t \<le> v)))"

lemma filterR_reached:
  "set cs \<subseteq> dom t \<Longrightarrow>
   filterR (reached m t) cs = Inr (filter (\<lambda>c. \<exists>v. m c = Some v \<and> the (t c) \<le> v) cs)"
  by (rule filterR_total) (auto simp: reached_def subset_iff domIff split: option.splits)

section \<open>The Guardian's rules\<close>

definition guardian_rules :: "(string \<times> string \<times> severity \<times> guardian_effect) list" where
  "guardian_rules =
     [(''RISE_RATE_PPM'', ''RISING_TOO_FAST'', SEV_HIGH, DOWNGRADE),
      (''HEAD_CONCENTRATION_PPM'', ''HEAD_CONCENTRATION_HIGH'', SEV_HIGH, DOWNGRADE),
      (''INTERNAL_DIVERGENCE_PPM'', ''INTERNAL_DIVERGENCE'', SEV_HIGH, DOWNGRADE),
      (''CROWDING_PPM'', ''CROWDING_INCREASING'', SEV_HIGH, DOWNGRADE),
      (''LIQUIDITY_WEAKENING_PPM'', ''LIQUIDITY_WEAKENING'', SEV_WARNING, ALLOW_WITH_WARNING),
      (''CORE_WEAKENING_PPM'', ''CORE_MEMBERS_WEAKENING'', SEV_HIGH, DOWNGRADE),
      (''BREADTH_COLLAPSE_PPM'', ''BREADTH_COLLAPSING'', SEV_CRITICAL, SUPPRESS),
      (''STAMPEDE_RISK_PPM'', ''STAMPEDE_RISK'', SEV_CRITICAL, SUPPRESS),
      (''T1_CHASING_RISK_PPM'', ''T1_CHASING_RISK'', SEV_CRITICAL, SUPPRESS),
      (''EARLY_SIGNAL_FAILURE_PPM'', ''EARLY_SIGNAL_FAILED'', SEV_WARNING, DOWNGRADE)]"

definition guardian_codes :: "string list" where
  "guardian_codes = map fst guardian_rules"

definition guardian_threshold_matches ::
    "(string \<rightharpoonup> int) \<Rightarrow> (string \<rightharpoonup> int) \<Rightarrow> string list result" where
  "guardian_threshold_matches metrics thresholds =
     filterR (reached metrics thresholds) (map (\<lambda>(fact_code, _, _, _). fact_code) guardian_rules)"

lemma guardian_codes_eq: "map (\<lambda>(fact_code, _, _, _). fact_code) guardian_rules = guardian_codes"
  by (simp add: guardian_codes_def guardian_rules_def)

lemma guardian_codes_list:
  "guardian_codes = [''RISE_RATE_PPM'', ''HEAD_CONCENTRATION_PPM'', ''INTERNAL_DIVERGENCE_PPM'',
     ''CROWDING_PPM'', ''LIQUIDITY_WEAKENING_PPM'', ''CORE_WEAKENING_PPM'', ''BREADTH_COLLAPSE_PPM'',
     ''STAMPEDE_RISK_PPM'', ''T1_CHASING_RISK_PPM'', ''EARLY_SIGNAL_FAILURE_PPM'']"
  by (simp add: guardian_codes_def guardian_rules_def)

lemma guardian_codes_distinct: "distinct guardian_codes"
  unfolding guardian_codes_list by simp

interpretation gf: threshold_family guardian_codes guardian_threshold_matches
  by unfold_locales
    (simp_all add: guardian_codes_distinct guardian_threshold_matches_def guardian_codes_eq
      filterR_reached)

definition guardian_rule_metadata :: "string \<Rightarrow> (string \<times> guardian_effect) option" where
  "guardian_rule_metadata fact_code =
     map_option (\<lambda>(_, tag, _, effect). (tag, effect)) (find (\<lambda>(code, _, _, _). code = fact_code) guardian_rules)"

section \<open>The decision\<close>

record risk_finding =
  risk_tag :: string
  severity :: severity
  reason_code :: string
  primary_fact_uid :: "string option"

record guardian_decision_record =
  threshold_matches :: "string list"
  risks :: "risk_finding list"
  guardian_effect :: guardian_effect
  blocking :: bool
  max_severity :: severity
  unavailable :: bool

definition missing_metrics :: "(string \<rightharpoonup> int) \<Rightarrow> bool" where
  "missing_metrics metrics = list_ex (\<lambda>code. metrics code = None) guardian_codes"

definition is_unavailable :: "bool \<Rightarrow> string \<Rightarrow> string \<Rightarrow> string \<Rightarrow> bool" where
  "is_unavailable missing availability_state data_health_status fitness_status =
     (availability_state \<noteq> ''AVAILABLE'' \<or>
      data_health_status \<in> {''UNKNOWN'', ''UNHEALTHY''} \<or>
      fitness_status \<in> {''UNKNOWN'', ''UNFIT''} \<or>
      missing)"

definition is_limited :: "string \<Rightarrow> string \<Rightarrow> bool" where
  "is_limited data_health_status fitness_status =
     (data_health_status = ''DEGRADED'' \<or> fitness_status = ''FIT_WITH_LIMITATIONS'')"

definition limitation_finding :: "bool \<Rightarrow> bool \<Rightarrow> risk_finding" where
  "limitation_finding is_unavail missing =
     \<lparr>risk_tag = ''DATA_LIMITATION'',
      severity = (if is_unavail then SEV_CRITICAL else SEV_WARNING),
      reason_code = (if missing then ''REQUIRED_GUARDIAN_FACTS_MISSING''
        else if is_unavail then ''QUALITY_REQUIRES_PAUSE'' else ''QUALITY_LIMITED''),
      primary_fact_uid = None\<rparr>"

definition rule_finding :: "(string \<rightharpoonup> string) \<Rightarrow> string \<times> string \<times> severity \<times> guardian_effect \<Rightarrow> risk_finding" where
  "rule_finding uids rule =
     (case rule of (fact_code, tag, sev, _) \<Rightarrow>
        \<lparr>risk_tag = tag, severity = sev, reason_code = tag @ ''_THRESHOLD_MET'',
         primary_fact_uid = uids fact_code\<rparr>)"

text \<open>Effect, blocking flag and maximal severity from the collected findings and effects.\<close>

definition conclude ::
    "string list \<Rightarrow> risk_finding list \<Rightarrow> guardian_effect list \<Rightarrow> bool \<Rightarrow> guardian_decision_record" where
  "conclude matches findings effects is_unavail =
     (let effect = pymax_or effect_order ALLOW effects
      in \<lparr>threshold_matches = matches,
          risks = findings,
          guardian_effect = effect,
          blocking = (effect \<in> {SUPPRESS, PAUSE}),
          max_severity = pymax_or severity_order SEV_NONE (map severity findings),
          unavailable = is_unavail\<rparr>)"

definition guardian_decision ::
    "(string \<rightharpoonup> int) \<Rightarrow> (string \<rightharpoonup> int) option \<Rightarrow> string \<Rightarrow> string \<Rightarrow> string \<Rightarrow>
     (string \<rightharpoonup> string) option \<Rightarrow> guardian_decision_record result" where
  "guardian_decision metrics thresholds availability_state data_health_status fitness_status fact_uids =
     (let missing = missing_metrics metrics;
          unavail = is_unavailable missing availability_state data_health_status fitness_status;
          limited = is_limited data_health_status fitness_status;
          findings = (if unavail \<or> limited then [limitation_finding unavail missing] else []);
          effects = (if unavail \<or> limited then [if unavail then PAUSE else ALLOW_WITH_WARNING] else []);
          uids = (case fact_uids of None \<Rightarrow> Map.empty | Some u \<Rightarrow> u)
      in case thresholds of
           None \<Rightarrow> Inr (conclude [] findings effects unavail)
         | Some t \<Rightarrow>
             if unavail then Inr (conclude [] findings effects unavail)
             else bindR (guardian_threshold_matches metrics t) (\<lambda>matches.
               let hit = filter (\<lambda>(fact_code, _, _, _). fact_code \<in> set matches) guardian_rules
               in Inr (conclude matches (findings @ map (rule_finding uids) hit)
                    (effects @ map (\<lambda>(_, _, _, effect). effect) hit) unavail)))"

section \<open>What the decision guarantees\<close>

lemma set_guardian_rules_codes: "fst ` set guardian_rules = set guardian_codes"
  by (simp add: guardian_codes_def)

lemma guardian_rule_ex: "c \<in> set guardian_codes \<Longrightarrow> \<exists>tag sev eff. (c, tag, sev, eff) \<in> set guardian_rules"
  by (fastforce simp: guardian_codes_def)

lemma missing_metrics_iff: "missing_metrics m \<longleftrightarrow> \<not> set guardian_codes \<subseteq> dom m"
  by (auto simp: missing_metrics_def list_ex_iff domIff)

lemma pymax_effect_ge: "e \<in> set es \<Longrightarrow> e \<le> pymax_or effect_order ALLOW es"
  by (simp add: less_eq_guardian_effect_def pymax_or_ge)

lemma pymax_effect_in: "pymax_or effect_order ALLOW es \<in> insert ALLOW (set es)"
proof (cases "es = []")
  case False
  then show ?thesis using pymax_or_in [of es effect_order ALLOW] by blast
qed (simp add: pymax_or_def)

lemma effect_ALLOW_least: "ALLOW \<le> e"
  by (simp add: less_eq_guardian_effect_def)

lemma pymax_effect_Max: "pymax_or effect_order ALLOW es = Max (insert ALLOW (set es))"
proof (rule Max_eqI [symmetric])
  fix e assume "e \<in> insert ALLOW (set es)"
  then show "e \<le> pymax_or effect_order ALLOW es" using pymax_effect_ge effect_ALLOW_least by blast
next
  show "pymax_or effect_order ALLOW es \<in> insert ALLOW (set es)" by (rule pymax_effect_in)
qed simp

lemma severity_NONE_least: "SEV_NONE \<le> v"
  by (simp add: less_eq_severity_def)

lemma pymax_severity_Max: "pymax_or severity_order SEV_NONE vs = Max (insert SEV_NONE (set vs))"
proof (rule Max_eqI [symmetric])
  show "pymax_or severity_order SEV_NONE vs \<in> insert SEV_NONE (set vs)"
  proof (cases "vs = []")
    case False
    then show ?thesis using pymax_or_in [of vs severity_order SEV_NONE] by blast
  qed (simp add: pymax_or_def)
  fix v assume "v \<in> insert SEV_NONE (set vs)"
  then show "v \<le> pymax_or severity_order SEV_NONE vs"
    by (auto simp: severity_NONE_least less_eq_severity_def pymax_or_ge)
qed simp

lemma blocking_iff_ge: "e \<in> {SUPPRESS, PAUSE} \<longleftrightarrow> SUPPRESS \<le> e"
  by (cases e) (simp_all add: less_eq_guardian_effect_def)

text \<open>An unavailable evaluation stops everything, whatever the metrics say.\<close>

lemma decision_unavailable:
  assumes "is_unavailable (missing_metrics m) av dh fit"
  shows "guardian_decision m t av dh fit u =
    Inr \<lparr>threshold_matches = [], risks = [limitation_finding True (missing_metrics m)],
      guardian_effect = PAUSE, blocking = True, max_severity = SEV_CRITICAL, unavailable = True\<rparr>"
  using assms
  by (cases t) (simp_all add: guardian_decision_def Let_def conclude_def pymax_or_def limitation_finding_def)

text \<open>The rules whose threshold the metrics reach, and the effects in force.\<close>

definition rules_hit :: "(string \<rightharpoonup> int) \<Rightarrow> (string \<rightharpoonup> int) \<Rightarrow>
    (string \<times> string \<times> severity \<times> guardian_effect) list" where
  "rules_hit m t =
     filter (\<lambda>(c, _, _, _). \<exists>v. m c = Some v \<and> the (t c) \<le> v) guardian_rules"

definition base_effects :: "bool \<Rightarrow> guardian_effect list" where
  "base_effects limited = (if limited then [ALLOW_WITH_WARNING] else [])"

lemma decision_available:
  assumes "\<not> is_unavailable (missing_metrics m) av dh fit" and t: "set guardian_codes \<subseteq> dom t"
  shows "guardian_decision m (Some t) av dh fit u =
    Inr (conclude (map fst (rules_hit m t))
      ((if is_limited dh fit then [limitation_finding False False] else []) @
        map (rule_finding (case u of None \<Rightarrow> Map.empty | Some u \<Rightarrow> u)) (rules_hit m t))
      (base_effects (is_limited dh fit) @ map (\<lambda>(_, _, _, e). e) (rules_hit m t)) False)"
proof -
  have nm: "\<not> missing_metrics m" using assms(1) by (simp add: is_unavailable_def)
  define cs where "cs = filter (\<lambda>c. \<exists>v. m c = Some v \<and> the (t c) \<le> v) guardian_codes"
  have matches: "guardian_threshold_matches m t = Inr cs"
    unfolding cs_def by (rule gf.matches_spec [OF t])
  have hit: "filter (\<lambda>(c, _, _, _). c \<in> set cs) guardian_rules = rules_hit m t"
    unfolding rules_hit_def cs_def
    by (rule filter_cong [OF refl]) (force simp: guardian_codes_def)
  have codes: "map fst (rules_hit m t) = cs"
    unfolding rules_hit_def cs_def guardian_codes_def filter_map
    by (rule arg_cong [where f = "map fst"], rule filter_cong) (auto simp: comp_def)
  show ?thesis
    using assms(1) nm by (simp add: guardian_decision_def Let_def matches hit codes base_effects_def)
qed

lemma decision_total:
  assumes "set guardian_codes \<subseteq> dom t"
  obtains d where "guardian_decision m (Some t) av dh fit u = Inr d"
  using decision_unavailable decision_available [OF _ assms] that
  by (cases "is_unavailable (missing_metrics m) av dh fit") blast+

lemma decision_effect:
  assumes "set guardian_codes \<subseteq> dom t" and "guardian_decision m (Some t) av dh fit u = Inr d"
  shows "guardian_effect d =
    (if is_unavailable (missing_metrics m) av dh fit then PAUSE
     else Max (insert ALLOW (set (base_effects (is_limited dh fit)) \<union>
       (\<lambda>(_, _, _, e). e) ` set (rules_hit m t))))"
  using assms decision_unavailable decision_available [of m av dh fit t u]
  by (auto simp: conclude_def Let_def pymax_effect_Max Un_commute)

lemma decision_conclude:
  assumes "guardian_decision m t av dh fit u = Inr d"
  obtains ms fs es un where "d = conclude ms fs es un"
  using assms
  by (auto simp: guardian_decision_def Let_def bindR_eq_Inr split: option.splits if_splits)

lemma decision_severity:
  assumes "guardian_decision m t av dh fit u = Inr d"
  shows "max_severity d = Max (insert SEV_NONE (severity ` set (risks d)))"
  using assms by (rule decision_conclude) (simp add: conclude_def Let_def pymax_severity_Max)

lemma decision_blocking:
  assumes "guardian_decision m t av dh fit u = Inr d"
  shows "blocking d \<longleftrightarrow> guardian_effect d \<in> {SUPPRESS, PAUSE}"
  using assms by (rule decision_conclude) (simp add: conclude_def Let_def)

text \<open>The decision is monotone: raising a metric or lowering a threshold never weakens it.\<close>

lemma rules_hit_mono:
  assumes "\<And>c v. c \<in> set guardian_codes \<Longrightarrow> m c = Some v \<Longrightarrow> \<exists>v'. m' c = Some v' \<and> v \<le> v'"
    and "\<And>c. c \<in> set guardian_codes \<Longrightarrow> the (t' c) \<le> the (t c)"
  shows "set (rules_hit m t) \<subseteq> set (rules_hit m' t')"
proof
  fix r assume "r \<in> set (rules_hit m t)"
  then obtain c tag sev e v where r: "r = (c, tag, sev, e)" "(c, tag, sev, e) \<in> set guardian_rules"
    and v: "m c = Some v" "the (t c) \<le> v"
    by (auto simp: rules_hit_def)
  have c: "c \<in> set guardian_codes" using r(2) by (force simp: guardian_codes_def)
  obtain v' where "m' c = Some v'" "v \<le> v'" using assms(1) [OF c v(1)] by blast
  moreover have "the (t' c) \<le> v" using assms(2) [OF c] v(2) by simp
  ultimately have "\<exists>v'. m' c = Some v' \<and> the (t' c) \<le> v'" by (intro exI [of _ v']) simp
  then show "r \<in> set (rules_hit m' t')" using r by (simp add: rules_hit_def)
qed

lemma decision_mono:
  assumes "set guardian_codes \<subseteq> dom t" and "set guardian_codes \<subseteq> dom t'"
    and "\<And>c v. c \<in> set guardian_codes \<Longrightarrow> m c = Some v \<Longrightarrow> \<exists>v'. m' c = Some v' \<and> v \<le> v'"
    and "set guardian_codes \<subseteq> dom m"
    and "\<And>c. c \<in> set guardian_codes \<Longrightarrow> the (t' c) \<le> the (t c)"
    and d: "guardian_decision m (Some t) av dh fit u = Inr d"
    and d': "guardian_decision m' (Some t') av dh fit u' = Inr d'"
  shows "guardian_effect d \<le> guardian_effect d'"
proof -
  have "set guardian_codes \<subseteq> dom m'"
  proof
    fix c assume c: "c \<in> set guardian_codes"
    then obtain v where "m c = Some v" using assms(4) by blast
    then show "c \<in> dom m'" using assms(3) [OF c] by blast
  qed
  then have mm: "missing_metrics m = missing_metrics m'" using assms(4) by (simp add: missing_metrics_iff)
  have sub: "set (rules_hit m t) \<subseteq> set (rules_hit m' t')"
    by (rule rules_hit_mono) (fact assms(3), fact assms(5))
  define base where "base = set (base_effects (is_limited dh fit))"
  have "insert ALLOW base \<union> (\<lambda>(_, _, _, e). e) ` set (rules_hit m t) \<subseteq>
      insert ALLOW base \<union> (\<lambda>(_, _, _, e). e) ` set (rules_hit m' t')"
    using sub by blast
  then have "Max (insert ALLOW base \<union> (\<lambda>(_, _, _, e). e) ` set (rules_hit m t)) \<le>
      Max (insert ALLOW base \<union> (\<lambda>(_, _, _, e). e) ` set (rules_hit m' t'))"
    by (rule Max_mono) (simp_all add: base_def)
  then show ?thesis
    unfolding decision_effect [OF assms(1) d] decision_effect [OF assms(2) d'] mm base_def
    by (simp only: Un_insert_left split: if_split) (blast intro: order_refl)
qed

text \<open>Exactly three metrics can block an available subject.\<close>

lemma blocking_rules:
  "r \<in> set guardian_rules \<Longrightarrow> (case r of (c, _, _, e) \<Rightarrow>
     e \<in> {SUPPRESS, PAUSE} \<longleftrightarrow>
     c \<in> {''BREADTH_COLLAPSE_PPM'', ''STAMPEDE_RISK_PPM'', ''T1_CHASING_RISK_PPM''})"
  by (auto simp: guardian_rules_def)

section \<open>The view\<close>

record guardian_reason_view =
  grv_risk_tag :: string
  grv_severity :: severity
  grv_reason_code :: string
  grv_fact_uid :: "string option"

record guardian_view =
  gv_status :: string
  gv_blocking :: bool
  gv_effect :: guardian_effect
  gv_reasons :: "guardian_reason_view list"

fun view_status :: "guardian_effect \<Rightarrow> string" where
  "view_status ALLOW = ''NORMAL''"
| "view_status ALLOW_WITH_WARNING = ''CAUTION''"
| "view_status DOWNGRADE = ''WARNING''"
| "view_status SUPPRESS = ''BLOCKED''"
| "view_status PAUSE = ''BLOCKED''"

definition map_guardian_view :: "guardian_effect \<Rightarrow> bool \<Rightarrow> risk_finding list \<Rightarrow> guardian_view" where
  "map_guardian_view effect block rs =
     \<lparr>gv_status = view_status effect, gv_blocking = block, gv_effect = effect,
      gv_reasons = map (\<lambda>item.
        \<lparr>grv_risk_tag = risk_tag item, grv_severity = severity item,
         grv_reason_code = reason_code item, grv_fact_uid = primary_fact_uid item\<rparr>) rs\<rparr>"

lemma view_status_blocked: "view_status e = ''BLOCKED'' \<longleftrightarrow> e \<in> {SUPPRESS, PAUSE}"
  by (cases e) simp_all

end
