(* ===== verification/Scout_Rules.thy ===== *)
theory Scout_Rules
  imports Guardian_Rules
begin

text \<open>
  \<open>scout.py\<close> without its database access, and \<open>scout_view.py\<close>: the opportunity rules, their
  threshold comparison (a second interpretation of \<open>threshold_family\<close>), the findings, the status
  and the strength derived from their number, and the view.
\<close>

definition scout_rules :: "(string \<times> string) list" where
  "scout_rules =
     [(''EARLY_ACTIVITY_PPM'', ''EARLY_ACTIVITY''),
      (''HEALTHY_BREADTH_PPM'', ''HEALTHY_BREADTH''),
      (''RELATIVE_STRENGTH_PPM'', ''RELATIVE_STRENGTH''),
      (''TURNOVER_CONFIRMATION_PPM'', ''TURNOVER_CONFIRMATION''),
      (''ETF_CONFIRMATION_PPM'', ''ETF_CONFIRMATION''),
      (''STYLE_SUPPORT_PPM'', ''STYLE_SUPPORT''),
      (''LOW_CROWDING_PPM'', ''LOW_CROWDING''),
      (''CONTINUITY_STRENGTHENING_PPM'', ''CONTINUITY_STRENGTHENING'')]"

definition scout_codes :: "string list" where
  "scout_codes = map fst scout_rules"

lemma scout_codes_list:
  "scout_codes = [''EARLY_ACTIVITY_PPM'', ''HEALTHY_BREADTH_PPM'', ''RELATIVE_STRENGTH_PPM'',
     ''TURNOVER_CONFIRMATION_PPM'', ''ETF_CONFIRMATION_PPM'', ''STYLE_SUPPORT_PPM'',
     ''LOW_CROWDING_PPM'', ''CONTINUITY_STRENGTHENING_PPM'']"
  by (simp add: scout_codes_def scout_rules_def)

lemma scout_codes_distinct: "distinct scout_codes"
  unfolding scout_codes_list by simp

definition scout_threshold_matches ::
    "(string \<rightharpoonup> int) \<Rightarrow> (string \<rightharpoonup> int) \<Rightarrow> string list result" where
  "scout_threshold_matches metrics thresholds =
     filterR (reached metrics thresholds) (map (\<lambda>(fact_code, _). fact_code) scout_rules)"

lemma scout_codes_eq: "map (\<lambda>(fact_code, _). fact_code) scout_rules = scout_codes"
  by (simp add: scout_codes_def scout_rules_def)

interpretation sf: threshold_family scout_codes scout_threshold_matches
  by unfold_locales
    (simp_all add: scout_codes_distinct scout_threshold_matches_def scout_codes_eq filterR_reached)

definition scout_rule_metadata :: "string \<Rightarrow> string option" where
  "scout_rule_metadata fact_code =
     map_option (\<lambda>(_, tag). tag) (find (\<lambda>(code, _). code = fact_code) scout_rules)"

record opportunity_finding =
  opportunity_tag :: string
  opp_reason_code :: string
  opp_primary_fact_uid :: string

definition opportunity :: "string \<Rightarrow> string \<Rightarrow> opportunity_finding" where
  "opportunity tag fact_uid =
     \<lparr>opportunity_tag = tag, opp_reason_code = tag @ ''_OBJECTIVE_THRESHOLD_MET'',
      opp_primary_fact_uid = fact_uid\<rparr>"

definition scout_status :: "nat \<Rightarrow> string" where
  "scout_status k = (if k = 0 then ''NONE'' else if k < 3 then ''OBSERVING'' else ''ACTIVE'')"

definition scout_strength :: "nat \<Rightarrow> string" where
  "scout_strength k = (if k < 3 then ''LOW'' else if k < 6 then ''MEDIUM'' else ''HIGH'')"

text \<open>The findings over facts given as \<open>code \<mapsto> (fact uid, value)\<close>.\<close>

definition scout_findings ::
    "(string \<rightharpoonup> string \<times> int) \<Rightarrow> (string \<rightharpoonup> int) \<Rightarrow> opportunity_finding list result" where
  "scout_findings by_code thresholds =
     bindR (filterR (\<lambda>(code, tag). reached (\<lambda>c. map_option snd (by_code c)) thresholds code) scout_rules)
       (\<lambda>hit. mapR (\<lambda>(code, tag).
          bindR (require (KeyError code) (by_code code)) (\<lambda>(uid, _). Inr (opportunity tag uid))) hit)"

lemma scout_findings_total:
  assumes "set scout_codes \<subseteq> dom t"
  shows "scout_findings f t =
    Inr (map (\<lambda>(code, tag). opportunity tag (fst (the (f code))))
      (filter (\<lambda>(code, tag). \<exists>u v. f code = Some (u, v) \<and> the (t code) \<le> v) scout_rules))"
proof -
  let ?q = "\<lambda>(code, tag). \<exists>u v. f code = Some (u, v) \<and> the (t code) \<le> v"
  have "filterR (\<lambda>(code, tag). reached (\<lambda>c. map_option snd (f c)) t code) scout_rules =
      Inr (filter ?q scout_rules)"
  proof (rule filterR_total)
    fix r assume r: "r \<in> set scout_rules"
    obtain c tag where [simp]: "r = (c, tag)" by (cases r)
    have "c \<in> dom t" using r assms by (force simp: scout_codes_def)
    then show "(case r of (code, tag) \<Rightarrow> reached (\<lambda>c. map_option snd (f c)) t code) = Inr (?q r)"
      by (auto simp: reached_def split: option.splits)
  qed
  moreover have "mapR (\<lambda>(code, tag).
        bindR (require (KeyError code) (f code)) (\<lambda>(uid, _). Inr (opportunity tag uid)))
      (filter ?q scout_rules) =
      Inr (map (\<lambda>(code, tag). opportunity tag (fst (the (f code)))) (filter ?q scout_rules))"
    by (rule mapR_total) (auto simp: bindR_def)
  ultimately show ?thesis by (simp add: scout_findings_def)
qed

lemma scout_findings_bound:
  assumes "set scout_codes \<subseteq> dom t" and "scout_findings f t = Inr fs"
  shows "length fs \<le> 8"
proof -
  have "length fs \<le> length scout_rules"
    using assms(2) unfolding scout_findings_total [OF assms(1)] by (auto intro: length_filter_le)
  then show ?thesis by (simp add: scout_rules_def)
qed

record scout_reason_view =
  srv_opportunity_tag :: string
  srv_reason_code :: string
  srv_fact_uid :: string

record scout_view =
  sv_status :: string
  sv_strength :: string
  sv_suppressed_by_guardian :: bool
  sv_guardian_uid :: string
  sv_guardian_effect :: guardian_effect
  sv_suppression_reason :: "string option"
  sv_reasons :: "scout_reason_view list"

definition map_scout_view ::
    "string \<Rightarrow> string \<Rightarrow> bool \<Rightarrow> string \<Rightarrow> guardian_effect \<Rightarrow> opportunity_finding list \<Rightarrow> scout_view" where
  "map_scout_view status strength suppressed guardian_uid effect tags =
     \<lparr>sv_status = status, sv_strength = strength, sv_suppressed_by_guardian = suppressed,
      sv_guardian_uid = guardian_uid, sv_guardian_effect = effect,
      sv_suppression_reason = (if suppressed then Some ''SUPPRESSED_BY_GUARDIAN'' else None),
      sv_reasons = map (\<lambda>item.
        \<lparr>srv_opportunity_tag = opportunity_tag item, srv_reason_code = opp_reason_code item,
         srv_fact_uid = opp_primary_fact_uid item\<rparr>) tags\<rparr>"

end
