(* ===== verification/Canonical.thy ===== *)
theory Canonical
  imports Prelude
begin

text \<open>
  \<open>canonical.py\<close>: canonical JSON bytes and their SHA-256. A JSON document is a value of the
  datatype \<open>json\<close>; \<open>canonical_bytes\<close> is \<open>json.dumps\<close> with sorted keys, compact separators and
  \<open>ensure_ascii=False\<close>, followed by UTF-8 encoding. Text is kept as its UTF-8 bytes, on which the
  escaping of \<open>json\<close> (only quotes, backslashes and control characters) works byte by byte and whose
  order is the order of code points. Floats do not occur in the documents modelled here. The hash
  function is the argument \<open>sha\<close>.

  The main theorem, \<open>canonical_bytes_inj\<close>: the bytes determine the document up to the order of keys.
\<close>

datatype json =
    JNull
  | JBool bool
  | JInt int
  | JStr string
  | JArr "json list"
  | JObj "(string \<times> json) list"

section \<open>Rendering\<close>

fun nat_digits :: "nat \<Rightarrow> string" where
  "nat_digits n =
     (if n < 10 then [char_of (48 + n)] else nat_digits (n div 10) @ [char_of (48 + n mod 10)])"

declare nat_digits.simps [simp del]

definition render_int :: "int \<Rightarrow> string" where
  "render_int i = (if i < 0 then CHR ''-'' # nat_digits (nat (- i)) else nat_digits (nat i))"

definition hex_digit :: "nat \<Rightarrow> char" where
  "hex_digit n = (if n < 10 then char_of (48 + n) else char_of (87 + n))"

text \<open>The character codes with a short escape are 8, 9, 10, 12, 13.\<close>

definition escape_char :: "char \<Rightarrow> string" where
  "escape_char c =
     (let n = (of_char c :: nat) in
      if n = 34 then [CHR 0x5C, CHR 0x22]
      else if n = 92 then [CHR 0x5C, CHR 0x5C]
      else if n = 8 then [CHR 0x5C, CHR ''b'']
      else if n = 9 then [CHR 0x5C, CHR ''t'']
      else if n = 10 then [CHR 0x5C, CHR ''n'']
      else if n = 12 then [CHR 0x5C, CHR ''f'']
      else if n = 13 then [CHR 0x5C, CHR ''r'']
      else if n < 32 then
        [CHR 0x5C, CHR ''u'', CHR ''0'', CHR ''0'', hex_digit (n div 16), hex_digit (n mod 16)]
      else [c])"

definition render_string :: "string \<Rightarrow> string" where
  "render_string s = CHR 0x22 # concat (map escape_char s) @ [CHR 0x22]"

fun join :: "string list \<Rightarrow> string" where
  "join [] = []"
| "join [x] = x"
| "join (x # y # zs) = x @ CHR '','' # join (y # zs)"

fun render :: "json \<Rightarrow> string" where
  "render JNull = ''null''"
| "render (JBool b) = (if b then ''true'' else ''false'')"
| "render (JInt i) = render_int i"
| "render (JStr s) = render_string s"
| "render (JArr xs) = CHR ''['' # join (map render xs) @ '']''"
| "render (JObj ps) =
     CHR ''{'' # join (map (\<lambda>(k, v). render_string k @ CHR '':'' # render v) ps) @ ''}''"

text \<open>\<open>sort_keys=True\<close>, at every level.\<close>

fun sort_keys :: "json \<Rightarrow> json" where
  "sort_keys (JArr xs) = JArr (map sort_keys xs)"
| "sort_keys (JObj ps) = JObj (sort_key fst (map (\<lambda>(k, v). (k, sort_keys v)) ps))"
| "sort_keys j = j"

definition canonical_bytes :: "json \<Rightarrow> string" where
  "canonical_bytes value = render (sort_keys value)"

definition canonical_hash :: "(string \<Rightarrow> string) \<Rightarrow> json \<Rightarrow> string" where
  "canonical_hash sha value = sha (canonical_bytes value)"

definition JOpt :: "string option \<Rightarrow> json" where
  "JOpt v = (case v of None \<Rightarrow> JNull | Some s \<Rightarrow> JStr s)"

lemma JOpt_inject [simp]: "JOpt v = JOpt w \<longleftrightarrow> v = w"
  by (simp add: JOpt_def split: option.splits)

section \<open>The rendering is injective\<close>

text \<open>A text that may follow a value inside a document.\<close>

definition stops :: "string \<Rightarrow> bool" where
  "stops r \<longleftrightarrow> (case r of [] \<Rightarrow> True | c # _ \<Rightarrow> c \<in> {CHR '','', CHR '']'', CHR ''}''})"

lemma stops_simps [simp]: "stops []" "stops (CHR '','' # r)" "stops (CHR '']'' # r)" "stops (CHR ''}'' # r)"
  by (simp_all add: stops_def)

definition is_digit :: "char \<Rightarrow> bool" where
  "is_digit c \<longleftrightarrow> 48 \<le> (of_char c :: nat) \<and> (of_char c :: nat) \<le> 57"

lemma of_char_digit: "n < 10 \<Longrightarrow> (of_char (char_of (48 + n)) :: nat) = 48 + n"
  by simp

lemma nat_digits_all: "\<forall>c \<in> set (nat_digits n). is_digit c"
proof (induction n rule: nat_digits.induct)
  case (1 n)
  show ?case
  proof (cases "n < 10")
    case True
    then show ?thesis by (simp add: nat_digits.simps [of n] is_digit_def)
  next
    case False
    then have "is_digit (char_of (48 + n mod 10))" by (simp add: is_digit_def)
    with False 1 show ?thesis by (simp add: nat_digits.simps [of n])
  qed
qed

lemma nat_digits_nonempty [simp]: "nat_digits n \<noteq> []"
  by (subst nat_digits.simps) simp

definition digits_nat :: "string \<Rightarrow> nat" where
  "digits_nat s = foldl (\<lambda>n c. 10 * n + (of_char c - 48)) 0 s"

lemma digits_nat_inverse: "digits_nat (nat_digits n) = n"
proof (induction n rule: nat_digits.induct)
  case (1 n)
  then show ?case by (cases "n < 10") (simp_all add: nat_digits.simps [of n] digits_nat_def)
qed

lemma takeWhile_stops: "stops r \<Longrightarrow> \<forall>c \<in> set s. is_digit c \<Longrightarrow> takeWhile is_digit (s @ r) = s"
  by (auto simp: stops_def is_digit_def takeWhile_append split: list.splits)

lemma digits_parse:
  assumes "nat_digits m @ r = nat_digits n @ r'" and "stops r" and "stops r'"
  shows "m = n \<and> r = r'"
proof -
  have "nat_digits m = takeWhile is_digit (nat_digits m @ r)"
    by (rule takeWhile_stops [OF assms(2) nat_digits_all, symmetric])
  also have "\<dots> = nat_digits n"
    unfolding assms(1) by (rule takeWhile_stops [OF assms(3) nat_digits_all])
  finally have e: "nat_digits m = nat_digits n" .
  have "m = digits_nat (nat_digits m)" by (rule digits_nat_inverse [symmetric])
  also have "\<dots> = n" unfolding e by (rule digits_nat_inverse)
  finally show ?thesis using assms(1) by simp
qed

lemma hd_nat_digits: "is_digit (hd (nat_digits n))"
  using nat_digits_all [of n] by (simp add: list.set_sel(1))

lemma minus_not_digit: "\<not> is_digit CHR ''-''"
  by (simp add: is_digit_def)

lemma digits_not_minus: "nat_digits m @ t \<noteq> CHR ''-'' # u"
proof
  assume "nat_digits m @ t = CHR ''-'' # u"
  then have "hd (nat_digits m) = CHR ''-''" by (cases "nat_digits m") simp_all
  then show False using hd_nat_digits [of m] minus_not_digit by simp
qed

lemma int_parse:
  assumes eq: "render_int i @ r = render_int j @ r'" and s: "stops r" "stops r'"
  shows "i = j \<and> r = r'"
proof (cases "i < 0"; cases "j < 0")
  assume "i < 0" "j < 0"
  with eq digits_parse [OF _ s, of "nat (- i)" "nat (- j)"] show ?thesis
    by (simp add: render_int_def eq_nat_nat_iff)
next
  assume "i < 0" "\<not> j < 0"
  with eq show ?thesis using digits_not_minus [of "nat j" r'] by (simp add: render_int_def) metis
next
  assume "\<not> i < 0" "j < 0"
  with eq show ?thesis using digits_not_minus [of "nat i" r] by (simp add: render_int_def)
next
  assume "\<not> i < 0" "\<not> j < 0"
  with eq digits_parse [OF _ s, of "nat i" "nat j"] show ?thesis
    by (simp add: render_int_def eq_nat_nat_iff)
qed

text \<open>Strings: an escaped body is decoded from the left, one character at a time.\<close>

definition decode_escape :: "string \<Rightarrow> (char \<times> string) option" where
  "decode_escape s =
     (case s of
        [] \<Rightarrow> None
      | c # t \<Rightarrow>
          if c = CHR 0x22 then None
          else if c \<noteq> CHR 0x5C then Some (c, t)
          else (case t of
              [] \<Rightarrow> None
            | d # u \<Rightarrow>
                if d = CHR ''b'' then Some (CHR 0x08, u)
                else if d = CHR ''t'' then Some (CHR 0x09, u)
                else if d = CHR ''n'' then Some (CHR 0x0A, u)
                else if d = CHR ''f'' then Some (CHR 0x0C, u)
                else if d = CHR ''r'' then Some (CHR 0x0D, u)
                else if d = CHR ''u'' then
                  (let h = (\<lambda>x. if is_digit x then of_char x - 48 else of_char x - (87 :: nat))
                   in Some (char_of (16 * h (u ! 2) + h (u ! 3)), drop 4 u))
                else Some (d, u)))"

lemma decode_escape_char: "decode_escape (escape_char c @ r) = Some (c, r)"
proof -
  have "decode_escape (escape_char (char_of n) @ r) = Some (char_of n, r)" if "n < 256" for n :: nat
  proof (cases "n < 32 \<or> n = 34 \<or> n = 92")
    case True
    then have "n = 92 \<or> n = 34 \<or> n = 31 \<or> n = 30 \<or> n = 29 \<or> n = 28 \<or> n = 27 \<or> n = 26
      \<or> n = 25 \<or> n = 24 \<or> n = 23 \<or> n = 22 \<or> n = 21 \<or> n = 20 \<or> n = 19 \<or> n =
      18 \<or> n = 17 \<or> n = 16 \<or> n = 15 \<or> n = 14 \<or> n = 13 \<or> n = 12 \<or> n = 11 \<or>
      n = 10 \<or> n = 9 \<or> n = 8 \<or> n = 7 \<or> n = 6 \<or> n = 5 \<or> n = 4 \<or> n = 3 \<or> n =
      2 \<or> n = 1 \<or> n = 0" by presburger
    then show ?thesis
      by (elim disjE; simp add: escape_char_def decode_escape_def hex_digit_def is_digit_def Let_def)
        (simp_all add: char_of_def bit_0)
  next
    case False
    have code: "(of_char (char_of n) :: nat) = n" using that by simp
    have "char_of n \<noteq> CHR 0x22"
    proof
      assume "char_of n = CHR 0x22"
      then have "n = of_char CHR 0x22" using code by metis
      then show False using False by simp
    qed
    moreover have "char_of n \<noteq> CHR 0x5C"
    proof
      assume "char_of n = CHR 0x5C"
      then have "n = of_char CHR 0x5C" using code by metis
      then show False using False by simp
    qed
    ultimately show ?thesis
      using False code by (auto simp: escape_char_def decode_escape_def Let_def)
  qed
  from this [of "of_char c"] show ?thesis by simp
qed

lemma escape_nonempty: "escape_char c \<noteq> []"
  by (simp add: escape_char_def Let_def)

lemma body_parse:
  "concat (map escape_char s) @ CHR 0x22 # r = concat (map escape_char t) @ CHR 0x22 # r' \<Longrightarrow>
   s = t \<and> r = r'"
proof (induction s arbitrary: t)
  case Nil
  show ?case
  proof (cases t)
    case (Cons d t')
    have "decode_escape (CHR 0x22 # r) = None" by (simp add: decode_escape_def)
    with Nil Cons decode_escape_char [of d "concat (map escape_char t') @ CHR 0x22 # r'"]
    show ?thesis by simp
  qed (use Nil in simp)
next
  case (Cons c s)
  show ?case
  proof (cases t)
    case Nil
    have "decode_escape (CHR 0x22 # r') = None" by (simp add: decode_escape_def)
    with Cons.prems Nil decode_escape_char [of c "concat (map escape_char s) @ CHR 0x22 # r"]
    show ?thesis by simp
  next
    case t: (Cons d t')
    have "decode_escape (concat (map escape_char (c # s)) @ CHR 0x22 # r) =
        Some (c, concat (map escape_char s) @ CHR 0x22 # r)"
      by (simp add: decode_escape_char)
    moreover have "decode_escape (concat (map escape_char (d # t')) @ CHR 0x22 # r') =
        Some (d, concat (map escape_char t') @ CHR 0x22 # r')"
      by (simp add: decode_escape_char)
    ultimately have e: "c = d" "concat (map escape_char s) @ CHR 0x22 # r =
        concat (map escape_char t') @ CHR 0x22 # r'"
      using Cons.prems unfolding t by (simp_all only: option.inject prod.inject)
    from e(2) have "s = t' \<and> r = r'" by (rule Cons.IH)
    then show ?thesis using e(1) t by simp
  qed
qed

lemma string_parse: "render_string s @ r = render_string t @ r' \<Longrightarrow> s = t \<and> r = r'"
  using body_parse [of s r t r'] by (simp add: render_string_def)


text \<open>Comma-separated sequences up to a closing bracket.\<close>

definition opens :: "string \<Rightarrow> bool" where
  "opens s \<longleftrightarrow> s \<noteq> [] \<and> hd s \<notin> {CHR '','', CHR '']'', CHR ''}''}"

lemma opens_not_close: "opens s \<Longrightarrow> c \<in> {CHR '','', CHR '']'', CHR ''}''} \<Longrightarrow> s @ r \<noteq> c # r'"
  by (cases s) (auto simp: opens_def)

lemma join_Cons: "xs \<noteq> [] \<Longrightarrow> join (x # xs) = x @ CHR '','' # join xs"
  by (cases xs) simp_all

lemma join_opens: "opens (f x) \<Longrightarrow> opens (join (map f (x # xs)))"
  by (cases xs) (auto simp: opens_def)

lemma join_parse:
  assumes elem: "\<And>x y r r'. x \<in> set xs \<Longrightarrow> stops r \<Longrightarrow> stops r' \<Longrightarrow> f x @ r = f y @ r' \<Longrightarrow> x = y \<and> r = r'"
    and f: "\<And>x. opens (f x)" and c: "c = CHR '']'' \<or> c = CHR ''}''"
    and eq: "join (map f xs) @ c # r = join (map f ys) @ c # r'"
  shows "xs = ys \<and> r = r'"
  using elem eq
proof (induction xs arbitrary: ys)
  case Nil
  have "join (map f (y # zs)) @ c # r' \<noteq> c # r" for y zs
    by (rule opens_not_close [OF join_opens [where f = f, OF f]]) (use c in auto)
  then show ?case using Nil.prems(2) by (cases ys) fastforce+
next
  case (Cons x xs)
  show ?case
  proof (cases ys)
    case Nil
    have "join (map f (x # xs)) @ c # r \<noteq> c # r'"
      by (rule opens_not_close [OF join_opens [where f = f, OF f]]) (use c in auto)
    then show ?thesis using Cons.prems(2) Nil by fastforce
  next
    case ys: (Cons y zs)
    define rest where "rest us t = (if us = [] then c # t else CHR '','' # join (map f us) @ c # t)" for us t
    have split: "join (map f (u # us)) @ c # t = f u @ rest us t" for u us t
      by (cases us) (simp_all add: rest_def)
    have st: "stops (rest us t)" for us t using c by (auto simp: rest_def)
    have "x = y \<and> rest xs r = rest zs r'"
      using Cons.prems unfolding ys split by (intro Cons.prems(1)) (simp_all add: st)
    moreover have "xs = zs \<and> r = r'" if "rest xs r = rest zs r'"
    proof -
      have "xs = [] \<longleftrightarrow> zs = []" using that c by (auto simp: rest_def split: if_splits)
      then show ?thesis
        using that Cons.IH [of zs] Cons.prems(1) by (auto simp: rest_def split: if_splits)
    qed
    ultimately show ?thesis by (simp add: ys)
  qed
qed

lemma render_string_opens [simp]: "opens (render_string s @ t)"
  by (simp add: opens_def render_string_def)

lemma digit_opens: "is_digit c \<Longrightarrow> c \<notin> {CHR '','', CHR '']'', CHR ''}''}"
  by (auto simp: is_digit_def)

lemma render_int_opens: "opens (render_int i)"
  using digit_opens [OF hd_nat_digits, of "nat i"] by (auto simp: opens_def render_int_def)

lemma render_opens: "opens (render j)"
proof (cases j)
  case (JStr s)
  then show ?thesis using render_string_opens [of s "[]"] by simp
next
  case (JInt i)
  then show ?thesis by (simp add: render_int_opens)
qed (simp_all add: opens_def)

text \<open>The first character tells the constructor.\<close>

definition kind_of :: "json \<Rightarrow> nat" where
  "kind_of j = (case j of JNull \<Rightarrow> 0 | JBool b \<Rightarrow> if b then 1 else 2 | JInt _ \<Rightarrow> 3 | JStr _ \<Rightarrow> 4 | JArr _ \<Rightarrow> 5 | JObj _ \<Rightarrow> 6)"

definition kind_char :: "char \<Rightarrow> nat" where
  "kind_char c = (if c = CHR ''n'' then 0 else if c = CHR ''t'' then 1 else if c = CHR ''f'' then 2
     else if c = CHR 0x22 then 4 else if c = CHR ''['' then 5 else if c = CHR ''{'' then 6 else 3)"

lemma letters_not_digit: "\<not> is_digit CHR ''n''" "\<not> is_digit CHR ''t''" "\<not> is_digit CHR ''f''"
    "\<not> is_digit CHR 0x22" "\<not> is_digit CHR ''[''" "\<not> is_digit CHR ''{''"
  by (simp_all add: is_digit_def)

lemma kind_char_digit:
  assumes "is_digit c"
  shows "kind_char c = 3"
proof -
  have "c \<noteq> CHR ''n''" "c \<noteq> CHR ''t''" "c \<noteq> CHR ''f''" "c \<noteq> CHR 0x22" "c \<noteq> CHR ''[''" "c \<noteq> CHR ''{''"
    using assms letters_not_digit by blast+
  then show ?thesis by (simp only: kind_char_def if_False)
qed

lemma kind_render: "kind_char (hd (render j @ r)) = kind_of j"
proof (cases j)
  case (JInt i)
  then show ?thesis
    using kind_char_digit [OF hd_nat_digits, of "nat i"]
    by (auto simp: render_int_def kind_of_def kind_char_def hd_append)
qed (simp_all add: kind_of_def kind_char_def render_string_def)

lemma kind_eq: "render i @ r = render j @ r' \<Longrightarrow> kind_of j = kind_of i"
proof -
  assume eq: "render i @ r = render j @ r'"
  have "kind_of j = kind_char (hd (render j @ r'))" by (rule kind_render [symmetric])
  also have "\<dots> = kind_char (hd (render i @ r))" by (simp only: eq)
  also have "\<dots> = kind_of i" by (rule kind_render)
  finally show ?thesis .
qed

lemma render_parse:
  "render i @ r = render j @ r' \<Longrightarrow> stops r \<Longrightarrow> stops r' \<Longrightarrow> i = j \<and> r = r'"
proof (induction i arbitrary: j r r')
  case JNull
  have "kind_of j = 0"
    using kind_eq [OF JNull.prems(1)] by (simp add: kind_of_def)
  then have "j = JNull" by (auto simp: kind_of_def split: json.splits if_splits)
  then show ?case using JNull.prems by simp
next
  case (JBool b)
  have "kind_of j = (if b then 1 else 2)"
    using kind_eq [OF JBool.prems(1)] by (simp add: kind_of_def)
  then have "j = JBool b" by (auto simp: kind_of_def split: json.splits if_splits)
  then show ?case using JBool.prems by simp
next
  case (JInt i)
  have "kind_of j = 3"
    using kind_eq [OF JInt.prems(1)] by (simp add: kind_of_def)
  then obtain i' where "j = JInt i'" by (auto simp: kind_of_def split: json.splits if_splits)
  then show ?case using JInt.prems int_parse [of i r i' r'] by simp
next
  case (JStr s)
  have "kind_of j = 4"
    using kind_eq [OF JStr.prems(1)] by (simp add: kind_of_def)
  then obtain t where "j = JStr t" by (auto simp: kind_of_def split: json.splits if_splits)
  then show ?case using JStr.prems string_parse [of s r t r'] by simp
next
  case (JArr xs)
  have "kind_of j = 5"
    using kind_eq [OF JArr.prems(1)] by (simp add: kind_of_def)
  then obtain ys where j: "j = JArr ys" by (auto simp: kind_of_def split: json.splits if_splits)
  have "join (map render xs) @ CHR '']'' # r = join (map render ys) @ CHR '']'' # r'"
    using JArr.prems(1) by (simp add: j)
  then have "xs = ys \<and> r = r'"
    by (rule join_parse [rotated -1]) (use JArr.IH render_opens in auto)
  then show ?case by (simp add: j)
next
  case (JObj ps)
  let ?f = "\<lambda>(k, v). render_string k @ CHR '':'' # render v"
  have "kind_of j = 6"
    using kind_eq [OF JObj.prems(1)] by (simp add: kind_of_def)
  then obtain qs where j: "j = JObj qs" by (auto simp: kind_of_def split: json.splits if_splits)
  have elem: "p = q \<and> t = t'"
    if p: "p \<in> set ps" and s: "stops t" "stops t'" and e: "?f p @ t = ?f q @ t'" for p q t t'
  proof -
    obtain k v l w where pq: "p = (k, v)" "q = (l, w)" by (cases p, cases q) auto
    have "render_string k @ (CHR '':'' # render v @ t) = render_string l @ (CHR '':'' # render w @ t')"
      using e by (simp add: pq)
    then have "k = l" "render v @ t = render w @ t'" by (auto dest: string_parse)
    moreover have "v = w \<and> t = t'"
      by (rule JObj.IH [OF p]) (use s pq calculation in simp_all)
    ultimately show ?thesis by (simp add: pq)
  qed
  have "join (map ?f ps) @ CHR ''}'' # r = join (map ?f qs) @ CHR ''}'' # r'"
    using JObj.prems(1) by (simp add: j)
  then have "ps = qs \<and> r = r'"
    by (rule join_parse [rotated -1]) (use elem in \<open>auto simp: split_beta\<close>)
  then show ?case by (simp add: j)
qed

lemma render_inj: "render i = render j \<Longrightarrow> i = j"
  using render_parse [of i "[]" j "[]"] by simp

theorem canonical_bytes_inj: "canonical_bytes i = canonical_bytes j \<longleftrightarrow> sort_keys i = sort_keys j"
  by (auto simp: canonical_bytes_def dest: render_inj)

text \<open>The order of an object's keys does not matter.\<close>

lemma sort_keys_object_perm:
  assumes "mset ps = mset qs" and "distinct (map fst ps)"
  shows "canonical_bytes (JObj ps) = canonical_bytes (JObj qs)"
proof -
  let ?g = "map (\<lambda>(k, v). (k, sort_keys v))"
  have f: "map fst (?g ps) = map fst ps" by (induction ps) auto
  have "sort_key fst (?g ps) = sort_key fst (?g qs)"
    using assms by (intro sort_key_perm inj_on_map_fst) (simp_all only: f mset_map)
  then show ?thesis by (simp add: canonical_bytes_def)
qed

end
