(* ===== verification/Store.thy ===== *)
theory Store
  imports Scout_Rules Canonical
begin

text \<open>
  The database as the analysis services see it: one row record per table, the record \<open>db\<close> of all
  tables, and one insert or update operation per statement the services execute. The operations
  check the primary keys, UNIQUE and CHECK constraints, foreign keys and triggers that the
  migrations declare, and fail with \<open>IntegrityError\<close> where SQLite does. CHECKs on the length of
  digests and of generated uids are left out: those columns only ever hold a SHA-256 digest or a
  generated uid. Instants are integers (microseconds since the epoch); the columns hold their
  canonical RFC 3339 text, whose order is the order of the instants. A command runs in one
  transaction (\<open>writer.py\<close>): it returns a value and the new database, or an exception and no
  database, which is the rollback. Tables are lists in insertion order.
\<close>

section \<open>Rows\<close>

record snapshot_row =
  snap_uid :: string
  snap_subject :: string
  snap_manifest :: string
  snap_bundle :: string
  snap_quality :: string
  snap_as_of :: int
  snap_disposition :: string
  snap_status :: string
  snap_hash :: string

record quality_row =
  qc_uid :: string
  qc_health :: string
  qc_fitness :: string
  qc_sufficiency :: string

record limitation_row =
  lim_quality :: string
  lim_code :: string
  lim_detail :: string

record manifest_row =
  man_uid :: string
  man_hash :: string
  man_artifact :: string

record bundle_row =
  bun_uid :: string
  bun_hash :: string

record reference_entry_row =
  ref_bundle :: string
  ref_kind :: string
  ref_entity :: string
  ref_version :: string

record capability_row =
  cap_snapshot :: string
  cap_name :: string
  cap_epoch :: string

record rule_execution_row =
  rx_uid :: string
  rx_snapshot :: string
  rx_key :: string
  rx_version :: string
  rx_threshold :: "string option"
  rx_status :: string
  rx_input :: string
  rx_output :: string
  rx_started :: int
  rx_finished :: int

record fact_row =
  f_uid :: string
  f_snapshot :: string
  f_exec :: string
  f_quality :: string
  f_code :: string
  f_value :: "int option"
  f_scale :: int
  f_status :: string
  f_unit :: string
  f_hash :: string

record baseline_row =
  bl_uid :: string
  bl_subject :: string
  bl_code :: string
  bl_period_kind :: string
  bl_period_key :: string
  bl_version :: int
  bl_value :: "int option"
  bl_scale :: int
  bl_status :: string
  bl_snapshot :: string
  bl_created :: int

record quote_row =
  q_uid :: string
  q_price_status :: string
  q_price_scaled :: "int option"
  q_price_scale :: int
  q_volume_status :: string

record state_row =
  se_uid :: string
  se_snapshot :: string
  se_subject :: string
  se_disposition :: string
  se_availability :: string
  se_lifecycle :: "string option"
  se_hash :: string
  se_created :: int

record transition_row =
  tr_uid :: string
  tr_subject :: string
  tr_from :: "string option"
  tr_to :: string
  tr_evaluation :: string
  tr_occurred :: int

record projection_row =
  pr_subject :: string
  pr_availability :: string
  pr_effective :: "string option"
  pr_last_valid :: "string option"
  pr_last_valid_at :: "int option"
  pr_evaluation :: string
  pr_as_of :: int
  pr_version :: int
  pr_rewarm :: bool

record guardian_row =
  g_uid :: string
  g_state :: string
  g_subject :: string
  g_snapshot :: string
  g_rule_version :: string
  g_effect :: guardian_effect
  g_blocking :: bool
  g_severity :: severity
  g_hash :: string
  g_created :: int

record risk_row =
  rk_guardian :: string
  rk_tag :: string
  rk_severity :: severity
  rk_reason :: string
  rk_fact :: "string option"

record tag_evidence_row =
  te_owner :: string
  te_tag :: string
  te_fact :: string
  te_role :: string

record scout_row =
  s_uid :: string
  s_guardian :: string
  s_state :: string
  s_subject :: string
  s_snapshot :: string
  s_rule_version :: string
  s_status :: string
  s_strength :: string
  s_suppressed :: bool
  s_effect :: guardian_effect
  s_hash :: string
  s_created :: int

record opportunity_row =
  op_scout :: string
  op_tag :: string
  op_reason :: string
  op_fact :: string

record commit_row =
  ac_uid :: string
  ac_snapshot :: string
  ac_state :: string
  ac_guardian :: string
  ac_scout :: string
  ac_disposition :: string
  ac_hash :: string
  ac_committed :: int

record event_row =
  ev_uid :: string
  ev_subject :: string
  ev_kind :: string
  ev_related :: string
  ev_created :: int

record event_version_row =
  vv_uid :: string
  vv_event :: string
  vv_version :: int
  vv_status :: string
  vv_change :: string
  vv_commit :: string
  vv_state :: string
  vv_guardian :: string
  vv_scout :: string
  vv_hash :: string
  vv_created :: int

record event_projection_row =
  ep_related :: string
  ep_event :: string
  ep_version_uid :: string
  ep_status :: string
  ep_version :: int
  ep_updated :: int

record intent_row =
  in_uid :: string
  in_version :: string
  in_channel :: string
  in_kind :: string
  in_key :: string
  in_context :: json
  in_context_hash :: string
  in_created :: int
  in_expires :: int
  in_generation :: int

record delivery_row =
  dl_intent :: string
  dl_status :: string
  dl_attempts :: int
  dl_next :: "int option"
  dl_owner :: "string option"
  dl_lease :: "int option"
  dl_error :: "string option"
  dl_version :: int
  dl_updated :: int

record attempt_row =
  at_uid :: string
  at_intent :: string
  at_number :: int
  at_outcome :: string
  at_started :: int
  at_completed :: int
  at_reference :: "string option"
  at_error :: "string option"

record audit_row =
  au_uid :: string
  au_action :: string
  au_subject :: "string option"
  au_commit :: "string option"
  au_detail :: string
  au_created :: int

record threshold_version_row =
  tv_uid :: string
  tv_family :: string
  tv_version :: string
  tv_approval :: string
  tv_reference :: string
  tv_hash :: string
  tv_created :: int

record threshold_entry_row =
  ten_uid :: string
  ten_version :: string
  ten_code :: string
  ten_ppm :: int
  ten_created :: int

record validation_row =
  va_uid :: string
  va_version :: string
  va_kind :: string
  va_status :: string
  va_reference :: string
  va_sha :: string
  va_observed :: int
  va_created :: int

record activation_row =
  an_uid :: string
  an_family :: string
  an_version :: string
  an_effective :: int
  an_key :: string
  an_reference :: string
  an_evidence :: string
  an_created :: int

record activation_evidence_row =
  ae_uid :: string
  ae_sha :: string
  ae_replay :: string
  ae_guardian :: string
  ae_scout :: string
  ae_scope :: string
  ae_observed :: int
  ae_created :: int

text \<open>
  A file of the artifact store: bytes that no longer match their digest, or bytes that are (or are
  not) a JSON document.
\<close>

datatype artifact_file = Tampered | NotJson | JsonFile json

section \<open>The database\<close>

record db =
  uid_source :: "nat \<Rightarrow> string"
  uid_count :: nat
  artifact_files :: "string \<rightharpoonup> artifact_file"
  artifact_objects :: "string list"
  system_metadata :: "string \<rightharpoonup> string"
  webhook_enabled :: bool
  snapshots :: "snapshot_row list"
  qualities :: "quality_row list"
  limitations :: "limitation_row list"
  manifests :: "manifest_row list"
  bundles :: "bundle_row list"
  reference_entries :: "reference_entry_row list"
  capabilities :: "capability_row list"
  quotes :: "quote_row list"
  rule_executions :: "rule_execution_row list"
  facts :: "fact_row list"
  baselines :: "baseline_row list"
  states :: "state_row list"
  state_facts :: "(string \<times> string) list"
  transitions :: "transition_row list"
  projections :: "projection_row list"
  guardians :: "guardian_row list"
  risk_tags :: "risk_row list"
  risk_evidence :: "tag_evidence_row list"
  scouts :: "scout_row list"
  opportunities :: "opportunity_row list"
  opportunity_evidence :: "tag_evidence_row list"
  commits :: "commit_row list"
  events :: "event_row list"
  event_versions :: "event_version_row list"
  event_evidence :: "(string \<times> string) list"
  event_projections :: "event_projection_row list"
  intents :: "intent_row list"
  deliveries :: "delivery_row list"
  attempts :: "attempt_row list"
  audits :: "audit_row list"
  threshold_versions :: "threshold_version_row list"
  threshold_entries :: "threshold_entry_row list"
  validations :: "validation_row list"
  activations :: "activation_row list"
  activation_evidence :: "activation_evidence_row list"

section \<open>Commands\<close>

type_synonym 'a cmd = "db \<Rightarrow> ('a \<times> db) result"

definition returnC :: "'a \<Rightarrow> 'a cmd" where
  "returnC x = (\<lambda>d. Inr (x, d))"

definition raiseC :: "exc \<Rightarrow> 'a cmd" where
  "raiseC e = (\<lambda>d. Inl e)"

definition bindC :: "'a cmd \<Rightarrow> ('a \<Rightarrow> 'b cmd) \<Rightarrow> 'b cmd" where
  "bindC m k = (\<lambda>d. case m d of Inl e \<Rightarrow> Inl e | Inr (x, d') \<Rightarrow> k x d')"

text \<open>Reading: a query, and a result computed from the database.\<close>

definition getC :: "(db \<Rightarrow> 'a) \<Rightarrow> 'a cmd" where
  "getC q = (\<lambda>d. Inr (q d, d))"

definition readC :: "(db \<Rightarrow> 'a result) \<Rightarrow> 'a cmd" where
  "readC q = (\<lambda>d. bindR (q d) (\<lambda>x. Inr (x, d)))"

text \<open>\<open>if bad: raise e\<close>.\<close>

definition checkC :: "bool \<Rightarrow> exc \<Rightarrow> unit cmd" where
  "checkC bad e = (\<lambda>d. if bad then Inl e else Inr ((), d))"

text \<open>A statement that changes the tables unless a constraint is violated.\<close>

definition execC :: "(db \<Rightarrow> bool) \<Rightarrow> string \<Rightarrow> (db \<Rightarrow> db) \<Rightarrow> unit cmd" where
  "execC ok table f = (\<lambda>d. if ok d then Inr ((), f d) else Inl (IntegrityError table))"

fun forC :: "('a \<Rightarrow> unit cmd) \<Rightarrow> 'a list \<Rightarrow> unit cmd" where
  "forC f [] = returnC ()"
| "forC f (x # xs) = bindC (f x) (\<lambda>_. forC f xs)"

fun mapC :: "('a \<Rightarrow> 'b cmd) \<Rightarrow> 'a list \<Rightarrow> 'b list cmd" where
  "mapC f [] = returnC []"
| "mapC f (x # xs) = bindC (f x) (\<lambda>y. bindC (mapC f xs) (\<lambda>ys. returnC (y # ys)))"

definition new_uid :: "string cmd" where
  "new_uid = (\<lambda>d. Inr (uid_source d (uid_count d), d\<lparr>uid_count := Suc (uid_count d)\<rparr>))"

text \<open>\<open>.one()\<close> and \<open>.one_or_none()\<close>.\<close>

definition one :: "'a list \<Rightarrow> 'a result" where
  "one rows = (case rows of
     [] \<Rightarrow> Inl (NoResultFound ''No row was found when one was required'')
   | [r] \<Rightarrow> Inr r
   | _ \<Rightarrow> Inl (MultipleResultsFound ''Multiple rows were found when exactly one was required''))"

definition one_or_none :: "'a list \<Rightarrow> 'a option result" where
  "one_or_none rows = (case rows of
     [] \<Rightarrow> Inr None
   | [r] \<Rightarrow> Inr (Some r)
   | _ \<Rightarrow> Inl (MultipleResultsFound ''Multiple rows were found when one or none was required''))"

lemma bindC_eq_Inr [result_simps]:
  "bindC m k d = Inr (y, d'') \<longleftrightarrow> (\<exists>x d'. m d = Inr (x, d') \<and> k x d' = Inr (y, d''))"
  by (cases "m d") (auto simp: bindC_def)

lemma bindC_eq_Inl [result_simps]:
  "bindC m k d = Inl e \<longleftrightarrow> m d = Inl e \<or> (\<exists>x d'. m d = Inr (x, d') \<and> k x d' = Inl e)"
  by (cases "m d") (auto simp: bindC_def)

lemma returnC_eq [result_simps]: "returnC x d = Inr (y, d') \<longleftrightarrow> x = y \<and> d = d'"
  by (simp add: returnC_def)

lemma raiseC_eq [result_simps]: "raiseC e d = Inr z \<longleftrightarrow> False"
  by (simp add: raiseC_def)

lemma getC_eq [result_simps]: "getC q d = Inr (y, d') \<longleftrightarrow> q d = y \<and> d = d'"
  by (simp add: getC_def)

lemma readC_eq [result_simps]: "readC q d = Inr (y, d') \<longleftrightarrow> q d = Inr y \<and> d' = d"
  by (auto simp: readC_def bindR_eq_Inr)

lemma checkC_eq [result_simps]: "checkC b e d = Inr (u, d') \<longleftrightarrow> \<not> b \<and> d' = d"
  by (auto simp: checkC_def)

lemma execC_eq [result_simps]: "execC ok t f d = Inr (u, d') \<longleftrightarrow> ok d \<and> d' = f d"
  by (auto simp: execC_def)

lemma new_uid_eq [result_simps]:
  "new_uid d = Inr (u, d') \<longleftrightarrow>
    u = uid_source d (uid_count d) \<and> d' = d\<lparr>uid_count := Suc (uid_count d)\<rparr>"
  by (auto simp: new_uid_def)

lemma one_eq_Inr [result_simps]: "one rows = Inr r \<longleftrightarrow> rows = [r]"
  by (auto simp: one_def split: list.splits)

lemma one_or_none_eq_Some [result_simps]: "one_or_none rows = Inr (Some r) \<longleftrightarrow> rows = [r]"
  by (auto simp: one_or_none_def split: list.splits)

lemma one_or_none_eq_None [result_simps]: "one_or_none rows = Inr None \<longleftrightarrow> rows = []"
  by (auto simp: one_or_none_def split: list.splits)

text \<open>
  An invariant of a command's steps is an invariant of the command: what \<open>forC\<close> and \<open>mapC\<close> keep.
\<close>

definition keeps :: "(db \<Rightarrow> db \<Rightarrow> bool) \<Rightarrow> 'a cmd \<Rightarrow> bool" where
  "keeps R m \<longleftrightarrow> (\<forall>d x d'. m d = Inr (x, d') \<longrightarrow> R d d')"

lemma keepsI: "(\<And>d x d'. m d = Inr (x, d') \<Longrightarrow> R d d') \<Longrightarrow> keeps R m"
  by (auto simp: keeps_def)

lemma keepsD: "keeps R m \<Longrightarrow> m d = Inr (x, d') \<Longrightarrow> R d d'"
  by (auto simp: keeps_def)

lemma keeps_bind:
  assumes "transp R" and "keeps R m" and "\<And>x. keeps R (k x)"
  shows "keeps R (bindC m k)"
proof (rule keepsI)
  fix d y d''
  assume "bindC m k d = Inr (y, d'')"
  then obtain x d' where "m d = Inr (x, d')" "k x d' = Inr (y, d'')" by (auto simp: bindC_eq_Inr)
  then show "R d d''" using keepsD [OF assms(2)] keepsD [OF assms(3)] transpD [OF assms(1)] by blast
qed

lemma keeps_return: "reflp R \<Longrightarrow> keeps R (returnC x)"
  by (auto simp: keeps_def returnC_eq reflpD)

lemma keeps_raise: "keeps R (raiseC e)"
  by (simp add: keeps_def raiseC_eq)

lemma keeps_get: "reflp R \<Longrightarrow> keeps R (getC q)"
  by (auto simp: keeps_def getC_eq reflpD)

lemma keeps_read: "reflp R \<Longrightarrow> keeps R (readC q)"
  by (auto simp: keeps_def readC_eq reflpD)

lemma keeps_check: "reflp R \<Longrightarrow> keeps R (checkC b e)"
  by (auto simp: keeps_def checkC_eq reflpD)

lemma keeps_exec: "(\<And>d. ok d \<Longrightarrow> R d (f d)) \<Longrightarrow> keeps R (execC ok t f)"
  by (auto simp: keeps_def execC_eq)

lemma keeps_for:
  assumes "reflp R" "transp R" "\<And>x. x \<in> set xs \<Longrightarrow> keeps R (f x)"
  shows "keeps R (forC f xs)"
  using assms(3)
proof (induction xs)
  case (Cons x xs)
  then show ?case using assms by (simp add: keeps_bind)
qed (simp add: keeps_return assms)

lemma keeps_map:
  assumes "reflp R" "transp R" "\<And>x. x \<in> set xs \<Longrightarrow> keeps R (f x)"
  shows "keeps R (mapC f xs)"
  using assms(3)
proof (induction xs)
  case (Cons x xs)
  then show ?case using assms by (simp add: keeps_bind keeps_return)
qed (simp add: keeps_return assms)

lemma keeps_option:
  "keeps R m \<Longrightarrow> (\<And>x. keeps R (k x)) \<Longrightarrow> keeps R (case v of None \<Rightarrow> m | Some x \<Rightarrow> k x)"
  by (cases v) simp_all

lemma keeps_prod: "(\<And>x y. keeps R (k x y)) \<Longrightarrow> keeps R (case p of (x, y) \<Rightarrow> k x y)"
  by (cases p) simp

lemma keeps_if: "keeps R m \<Longrightarrow> keeps R n \<Longrightarrow> keeps R (if b then m else n)"
  by simp

lemmas keeps_cases = keeps_option keeps_prod keeps_if

text \<open>
  A relation that commands keep is a preorder that tolerates the next identifier; the rows they write
  are named by the locales that extend this one.
\<close>

locale command_order =
  fixes R :: "db \<Rightarrow> db \<Rightarrow> bool"
  assumes order_refl: "reflp R" and order_trans: "transp R"
    and tick: "R d (d\<lparr>uid_count := Suc (uid_count d)\<rparr>)"
begin

lemma new_uid: "keeps R new_uid"
  by (rule keepsI) (simp add: new_uid_eq tick)

lemmas monad =
  keeps_bind [OF order_trans] keeps_return [OF order_refl] keeps_raise keeps_get [OF order_refl]
  keeps_read [OF order_refl] keeps_check [OF order_refl] keeps_for [OF order_refl order_trans]
  keeps_map [OF order_refl order_trans] keeps_cases new_uid

end

end
