(* ===== verification/Tables.thy ===== *)
theory Tables
  imports Store "HOL-Library.Sublist"
begin

text \<open>
  The statements that write the tables, with the constraints of the migrations \<open>0003\<close> to \<open>0006\<close>
  (the threshold registry's are in \<open>Thresholds\<close>). No statement updates or deletes a row of a table
  whose migration declares it immutable; \<open>grows\<close> states that, and the lemmas in the collection
  \<open>grows_intros\<close> show that each statement keeps it.
\<close>

definition absent :: "('r \<Rightarrow> 'k) \<Rightarrow> 'r list \<Rightarrow> 'k \<Rightarrow> bool" where
  "absent key rows x = list_all (\<lambda>r. key r \<noteq> x) rows"

definition present :: "('r \<Rightarrow> 'k) \<Rightarrow> 'r list \<Rightarrow> 'k \<Rightarrow> bool" where
  "present key rows x = list_ex (\<lambda>r. key r = x) rows"

lemma absent_iff: "absent key rows x \<longleftrightarrow> x \<notin> key ` set rows"
  by (auto simp: absent_def list_all_iff)

lemma present_iff: "present key rows x \<longleftrightarrow> x \<in> key ` set rows"
  by (auto simp: present_def list_ex_iff)

definition dispositions :: "string list" where
  "dispositions = [''OFFICIAL'', ''STALE_AUDIT'', ''USER_QUERY'', ''SHADOW'', ''HISTORICAL_REPLAY'',
     ''CORRECTED_RESEARCH'']"

definition availability_states :: "string list" where
  "availability_states = [''AVAILABLE'', ''WARMING_UP'', ''SUSPENDED'', ''UNAVAILABLE'']"

definition lifecycle_states :: "string list" where
  "lifecycle_states = [''OBSERVING'', ''STARTING'', ''EXPANDING'', ''ACCELERATING'', ''DIVERGING'',
     ''DECLINING'']"

definition value_statuses :: "string list" where
  "value_statuses = [''VALUE'', ''MISSING'', ''NOT_APPLICABLE'', ''STALE'', ''INVALID'']"

definition lifecycle_ok :: "string option \<Rightarrow> bool" where
  "lifecycle_ok l = (case l of None \<Rightarrow> True | Some s \<Rightarrow> s \<in> set lifecycle_states)"

section \<open>Rules and facts\<close>

definition insert_rule_execution :: "rule_execution_row \<Rightarrow> unit cmd" where
  "insert_rule_execution r = execC
     (\<lambda>d. absent rx_uid (rule_executions d) (rx_uid r) \<and>
          present snap_uid (snapshots d) (rx_snapshot r) \<and>
          rx_status r \<in> {''VALID'', ''INVALID'', ''UNFIT''} \<and>
          absent (\<lambda>x. (rx_snapshot x, rx_key x, rx_version x, rx_input x)) (rule_executions d)
            (rx_snapshot r, rx_key r, rx_version r, rx_input r) \<and>
          (case rx_threshold r of None \<Rightarrow> True
           | Some t \<Rightarrow> present tv_uid (threshold_versions d) t))
     ''rule_execution'' (\<lambda>d. d\<lparr>rule_executions := rule_executions d @ [r]\<rparr>)"

definition insert_fact :: "fact_row \<Rightarrow> unit cmd" where
  "insert_fact r = execC
     (\<lambda>d. absent f_uid (facts d) (f_uid r) \<and>
          present snap_uid (snapshots d) (f_snapshot r) \<and>
          present rx_uid (rule_executions d) (f_exec r) \<and>
          present qc_uid (qualities d) (f_quality r) \<and>
          0 \<le> f_scale r \<and> f_status r \<in> set value_statuses \<and>
          absent f_hash (facts d) (f_hash r) \<and>
          (f_status r = ''VALUE'') = (f_value r \<noteq> None) \<and>
          absent (\<lambda>x. (f_snapshot x, f_exec x, f_code x)) (facts d) (f_snapshot r, f_exec r, f_code r))
     ''fact_record'' (\<lambda>d. d\<lparr>facts := facts d @ [r]\<rparr>)"

definition insert_baseline :: "baseline_row \<Rightarrow> unit cmd" where
  "insert_baseline r = execC
     (\<lambda>d. absent bl_uid (baselines d) (bl_uid r) \<and>
          bl_period_kind r \<in> {''DAILY'', ''PHASE''} \<and> 0 < bl_version r \<and> 0 \<le> bl_scale r \<and>
          bl_status r \<in> set value_statuses \<and>
          present snap_uid (snapshots d) (bl_snapshot r) \<and>
          (bl_status r = ''VALUE'') = (bl_value r \<noteq> None) \<and>
          absent (\<lambda>x. (bl_subject x, bl_code x, bl_period_kind x, bl_period_key x, bl_version x))
            (baselines d) (bl_subject r, bl_code r, bl_period_kind r, bl_period_key r, bl_version r))
     ''historical_baseline'' (\<lambda>d. d\<lparr>baselines := baselines d @ [r]\<rparr>)"

section \<open>State\<close>

definition insert_state_evaluation :: "state_row \<Rightarrow> unit cmd" where
  "insert_state_evaluation r = execC
     (\<lambda>d. absent se_uid (states d) (se_uid r) \<and>
          present snap_uid (snapshots d) (se_snapshot r) \<and>
          se_disposition r \<in> set dispositions \<and> se_availability r \<in> set availability_states \<and>
          lifecycle_ok (se_lifecycle r) \<and> absent se_hash (states d) (se_hash r) \<and>
          (se_availability r = ''AVAILABLE'') = (se_lifecycle r \<noteq> None))
     ''state_evaluation'' (\<lambda>d. d\<lparr>states := states d @ [r]\<rparr>)"

definition insert_state_fact :: "string \<Rightarrow> string \<Rightarrow> unit cmd" where
  "insert_state_fact e f = execC
     (\<lambda>d. present se_uid (states d) e \<and> present f_uid (facts d) f \<and> absent id (state_facts d) (e, f))
     ''state_evaluation_fact'' (\<lambda>d. d\<lparr>state_facts := state_facts d @ [(e, f)]\<rparr>)"

definition insert_transition :: "transition_row \<Rightarrow> unit cmd" where
  "insert_transition r = execC
     (\<lambda>d. absent tr_uid (transitions d) (tr_uid r) \<and> lifecycle_ok (tr_from r) \<and>
          tr_to r \<in> set lifecycle_states \<and> present se_uid (states d) (tr_evaluation r) \<and>
          absent tr_evaluation (transitions d) (tr_evaluation r) \<and> tr_from r \<noteq> Some (tr_to r))
     ''state_transition'' (\<lambda>d. d\<lparr>transitions := transitions d @ [r]\<rparr>)"

definition projection_ok :: "db \<Rightarrow> projection_row \<Rightarrow> bool" where
  "projection_ok d r \<longleftrightarrow>
     pr_availability r \<in> set availability_states \<and> lifecycle_ok (pr_effective r) \<and>
     lifecycle_ok (pr_last_valid r) \<and> present se_uid (states d) (pr_evaluation r) \<and>
     0 < pr_version r \<and> (pr_availability r = ''AVAILABLE'') = (pr_effective r \<noteq> None) \<and>
     (pr_last_valid r = None) = (pr_last_valid_at r = None)"

definition insert_projection :: "projection_row \<Rightarrow> unit cmd" where
  "insert_projection r = execC
     (\<lambda>d. absent pr_subject (projections d) (pr_subject r) \<and> projection_ok d r)
     ''current_state_projection'' (\<lambda>d. d\<lparr>projections := projections d @ [r]\<rparr>)"

text \<open>\<open>UPDATE ... WHERE subject_uid=? AND version=?\<close>; the value is the row count.\<close>

definition update_projection :: "projection_row \<Rightarrow> int \<Rightarrow> nat cmd" where
  "update_projection r version =
     bindC (getC (\<lambda>d. length (filter (\<lambda>p. pr_subject p = pr_subject r \<and> pr_version p = version)
         (projections d)))) (\<lambda>n.
     bindC (execC (\<lambda>d. n = 0 \<or> projection_ok d r) ''current_state_projection''
       (\<lambda>d. d\<lparr>projections :=
          map (\<lambda>p. if pr_subject p = pr_subject r \<and> pr_version p = version then r else p)
            (projections d)\<rparr>)) (\<lambda>_.
     returnC n))"

section \<open>Guardian and Scout\<close>

definition risk_tag_names :: "string list" where
  "risk_tag_names = [''RISING_TOO_FAST'', ''HEAD_CONCENTRATION_HIGH'', ''INTERNAL_DIVERGENCE'',
     ''CROWDING_INCREASING'', ''LIQUIDITY_WEAKENING'', ''CORE_MEMBERS_WEAKENING'',
     ''BREADTH_COLLAPSING'', ''STAMPEDE_RISK'', ''T1_CHASING_RISK'', ''DATA_LIMITATION'',
     ''EARLY_SIGNAL_FAILED'']"

definition opportunity_tag_names :: "string list" where
  "opportunity_tag_names = [''EARLY_ACTIVITY'', ''HEALTHY_BREADTH'', ''RELATIVE_STRENGTH'',
     ''TURNOVER_CONFIRMATION'', ''ETF_CONFIRMATION'', ''STYLE_SUPPORT'', ''LOW_CROWDING'',
     ''CONTINUITY_STRENGTHENING'']"

definition insert_guardian_evaluation :: "guardian_row \<Rightarrow> unit cmd" where
  "insert_guardian_evaluation r = execC
     (\<lambda>d. absent g_uid (guardians d) (g_uid r) \<and> absent g_state (guardians d) (g_state r) \<and>
          present se_uid (states d) (g_state r) \<and> present snap_uid (snapshots d) (g_snapshot r) \<and>
          absent g_hash (guardians d) (g_hash r) \<and> (g_effect r \<in> {SUPPRESS, PAUSE}) = g_blocking r)
     ''guardian_evaluation'' (\<lambda>d. d\<lparr>guardians := guardians d @ [r]\<rparr>)"

definition insert_risk_tag :: "risk_row \<Rightarrow> unit cmd" where
  "insert_risk_tag r = execC
     (\<lambda>d. present g_uid (guardians d) (rk_guardian r) \<and> rk_tag r \<in> set risk_tag_names \<and>
          rk_severity r \<noteq> SEV_NONE \<and>
          (case rk_fact r of None \<Rightarrow> True | Some f \<Rightarrow> present f_uid (facts d) f) \<and>
          absent (\<lambda>x. (rk_guardian x, rk_tag x)) (risk_tags d) (rk_guardian r, rk_tag r))
     ''guardian_risk_tag'' (\<lambda>d. d\<lparr>risk_tags := risk_tags d @ [r]\<rparr>)"

definition insert_risk_evidence :: "tag_evidence_row \<Rightarrow> unit cmd" where
  "insert_risk_evidence r = execC
     (\<lambda>d. present f_uid (facts d) (te_fact r) \<and> te_role r \<in> {''SUPPORTING'', ''CONTRARY''} \<and>
          present (\<lambda>x. (rk_guardian x, rk_tag x)) (risk_tags d) (te_owner r, te_tag r) \<and>
          absent id (risk_evidence d) r)
     ''guardian_risk_evidence'' (\<lambda>d. d\<lparr>risk_evidence := risk_evidence d @ [r]\<rparr>)"

definition insert_scout_evaluation :: "scout_row \<Rightarrow> unit cmd" where
  "insert_scout_evaluation r = execC
     (\<lambda>d. absent s_uid (scouts d) (s_uid r) \<and> absent s_guardian (scouts d) (s_guardian r) \<and>
          present g_uid (guardians d) (s_guardian r) \<and> present se_uid (states d) (s_state r) \<and>
          present snap_uid (snapshots d) (s_snapshot r) \<and>
          s_status r \<in> {''NONE'', ''OBSERVING'', ''ACTIVE''} \<and>
          s_strength r \<in> {''LOW'', ''MEDIUM'', ''HIGH''} \<and> absent s_hash (scouts d) (s_hash r) \<and>
          (s_effect r \<in> {SUPPRESS, PAUSE}) = s_suppressed r \<and>
          (s_status r \<noteq> ''NONE'' \<or> s_strength r = ''LOW''))
     ''scout_evaluation'' (\<lambda>d. d\<lparr>scouts := scouts d @ [r]\<rparr>)"

definition insert_opportunity_tag :: "opportunity_row \<Rightarrow> unit cmd" where
  "insert_opportunity_tag r = execC
     (\<lambda>d. present s_uid (scouts d) (op_scout r) \<and> op_tag r \<in> set opportunity_tag_names \<and>
          present f_uid (facts d) (op_fact r) \<and>
          absent (\<lambda>x. (op_scout x, op_tag x)) (opportunities d) (op_scout r, op_tag r))
     ''scout_opportunity_tag'' (\<lambda>d. d\<lparr>opportunities := opportunities d @ [r]\<rparr>)"

definition insert_opportunity_evidence :: "tag_evidence_row \<Rightarrow> unit cmd" where
  "insert_opportunity_evidence r = execC
     (\<lambda>d. present f_uid (facts d) (te_fact r) \<and> te_role r \<in> {''SUPPORTING'', ''CONTRARY''} \<and>
          present (\<lambda>x. (op_scout x, op_tag x)) (opportunities d) (te_owner r, te_tag r) \<and>
          absent id (opportunity_evidence d) r)
     ''scout_opportunity_evidence''
     (\<lambda>d. d\<lparr>opportunity_evidence := opportunity_evidence d @ [r]\<rparr>)"

section \<open>Commits, events and notifications\<close>

definition insert_analysis_commit :: "commit_row \<Rightarrow> unit cmd" where
  "insert_analysis_commit r = execC
     (\<lambda>d. absent ac_uid (commits d) (ac_uid r) \<and> absent ac_snapshot (commits d) (ac_snapshot r) \<and>
          absent ac_state (commits d) (ac_state r) \<and> absent ac_guardian (commits d) (ac_guardian r) \<and>
          absent ac_scout (commits d) (ac_scout r) \<and> absent ac_hash (commits d) (ac_hash r) \<and>
          present snap_uid (snapshots d) (ac_snapshot r) \<and> present se_uid (states d) (ac_state r) \<and>
          present g_uid (guardians d) (ac_guardian r) \<and> present s_uid (scouts d) (ac_scout r) \<and>
          ac_disposition r = ''OFFICIAL'')
     ''analysis_commit'' (\<lambda>d. d\<lparr>commits := commits d @ [r]\<rparr>)"

definition insert_market_event :: "event_row \<Rightarrow> unit cmd" where
  "insert_market_event r = execC
     (\<lambda>d. absent ev_uid (events d) (ev_uid r) \<and> ev_kind r \<noteq> [])
     ''market_event'' (\<lambda>d. d\<lparr>events := events d @ [r]\<rparr>)"

definition event_statuses :: "string list" where
  "event_statuses = [''CANDIDATE'', ''ACTIVE'', ''RESOLVED'', ''INVALIDATED'']"

definition insert_event_version :: "event_version_row \<Rightarrow> unit cmd" where
  "insert_event_version r = execC
     (\<lambda>d. absent vv_uid (event_versions d) (vv_uid r) \<and> present ev_uid (events d) (vv_event r) \<and>
          0 < vv_version r \<and> vv_status r \<in> set event_statuses \<and>
          vv_change r \<in> {''CREATED'', ''CHANGED'', ''RESOLVED'', ''INVALIDATED''} \<and>
          present ac_uid (commits d) (vv_commit r) \<and> present se_uid (states d) (vv_state r) \<and>
          present g_uid (guardians d) (vv_guardian r) \<and> present s_uid (scouts d) (vv_scout r) \<and>
          absent vv_hash (event_versions d) (vv_hash r) \<and>
          absent (\<lambda>x. (vv_event x, vv_version x)) (event_versions d) (vv_event r, vv_version r))
     ''event_version'' (\<lambda>d. d\<lparr>event_versions := event_versions d @ [r]\<rparr>)"

definition insert_event_evidence :: "string \<Rightarrow> string \<Rightarrow> unit cmd" where
  "insert_event_evidence v f = execC
     (\<lambda>d. present vv_uid (event_versions d) v \<and> present f_uid (facts d) f \<and>
          absent id (event_evidence d) (v, f))
     ''event_evidence'' (\<lambda>d. d\<lparr>event_evidence := event_evidence d @ [(v, f)]\<rparr>)"

definition event_projection_ok :: "db \<Rightarrow> event_projection_row \<Rightarrow> bool" where
  "event_projection_ok d r \<longleftrightarrow>
     present ev_uid (events d) (ep_event r) \<and> present vv_uid (event_versions d) (ep_version_uid r) \<and>
     ep_status r \<in> set event_statuses \<and> 0 < ep_version r \<and>
     absent ep_version_uid (filter (\<lambda>p. ep_related p \<noteq> ep_related r) (event_projections d))
       (ep_version_uid r)"

definition insert_event_projection :: "event_projection_row \<Rightarrow> unit cmd" where
  "insert_event_projection r = execC
     (\<lambda>d. absent ep_related (event_projections d) (ep_related r) \<and> event_projection_ok d r)
     ''current_event_projection''
     (\<lambda>d. d\<lparr>event_projections := event_projections d @ [r]\<rparr>)"

definition update_event_projection :: "event_projection_row \<Rightarrow> unit cmd" where
  "update_event_projection r = execC
     (\<lambda>d. absent ep_related (event_projections d) (ep_related r) \<or> event_projection_ok d r)
     ''current_event_projection''
     (\<lambda>d. d\<lparr>event_projections :=
        map (\<lambda>p. if ep_related p = ep_related r then r else p) (event_projections d)\<rparr>)"

definition insert_intent :: "intent_row \<Rightarrow> unit cmd" where
  "insert_intent r = execC
     (\<lambda>d. absent in_uid (intents d) (in_uid r) \<and> present vv_uid (event_versions d) (in_version r) \<and>
          in_channel r \<in> {''IN_APP'', ''WEBHOOK''} \<and>
          in_kind r \<in> {''RISK'', ''ATTENTION'', ''RESOLUTION''} \<and>
          absent in_key (intents d) (in_key r) \<and> 0 \<le> in_generation r \<and>
          absent (\<lambda>x. (in_version x, in_channel x)) (intents d) (in_version r, in_channel r))
     ''notification_intent'' (\<lambda>d. d\<lparr>intents := intents d @ [r]\<rparr>)"

definition delivery_ok :: "delivery_row \<Rightarrow> bool" where
  "delivery_ok r \<longleftrightarrow>
     dl_status r \<in> {''PENDING'', ''PROCESSING'', ''RETRY_WAIT'', ''DELIVERED'', ''FAILED'',
       ''CANCELLED'', ''EXPIRED''} \<and> 0 \<le> dl_attempts r \<and> 0 < dl_version r \<and>
     (dl_status r = ''PROCESSING'') = (dl_owner r \<noteq> None \<and> dl_lease r \<noteq> None)"

definition insert_delivery :: "delivery_row \<Rightarrow> unit cmd" where
  "insert_delivery r = execC
     (\<lambda>d. absent dl_intent (deliveries d) (dl_intent r) \<and>
          present in_uid (intents d) (dl_intent r) \<and> delivery_ok r)
     ''notification_delivery_state'' (\<lambda>d. d\<lparr>deliveries := deliveries d @ [r]\<rparr>)"

definition insert_attempt :: "attempt_row \<Rightarrow> unit cmd" where
  "insert_attempt r = execC
     (\<lambda>d. absent at_uid (attempts d) (at_uid r) \<and> present in_uid (intents d) (at_intent r) \<and>
          0 < at_number r \<and>
          at_outcome r \<in> {''DELIVERED'', ''RETRYABLE_FAILURE'', ''PERMANENT_FAILURE''} \<and>
          absent (\<lambda>x. (at_intent x, at_number x)) (attempts d) (at_intent r, at_number r))
     ''delivery_attempt'' (\<lambda>d. d\<lparr>attempts := attempts d @ [r]\<rparr>)"

definition insert_audit :: "audit_row \<Rightarrow> unit cmd" where
  "insert_audit r = execC
     (\<lambda>d. absent au_uid (audits d) (au_uid r) \<and> au_action r \<noteq> [] \<and>
          (case au_commit r of None \<Rightarrow> True | Some c \<Rightarrow> present ac_uid (commits d) c))
     ''audit_record'' (\<lambda>d. d\<lparr>audits := audits d @ [r]\<rparr>)"

section \<open>Append-only tables\<close>

text \<open>What no analysis command touches, and the tables it only appends to.\<close>

definition same_inputs :: "db \<Rightarrow> db \<Rightarrow> bool" where
  "same_inputs d d' \<longleftrightarrow>
     snapshots d' = snapshots d \<and> qualities d' = qualities d \<and>
     limitations d' = limitations d \<and> manifests d' = manifests d \<and>
     bundles d' = bundles d \<and> reference_entries d' = reference_entries d \<and>
     capabilities d' = capabilities d \<and> quotes d' = quotes d \<and>
     system_metadata d' = system_metadata d \<and> artifact_files d' = artifact_files d \<and>
     artifact_objects d' = artifact_objects d \<and>
     webhook_enabled d' = webhook_enabled d \<and> uid_source d' = uid_source d"

definition appends_analysis :: "db \<Rightarrow> db \<Rightarrow> bool" where
  "appends_analysis d d' \<longleftrightarrow>
     prefix (rule_executions d) (rule_executions d') \<and> prefix (facts d) (facts d') \<and>
     prefix (baselines d) (baselines d') \<and> prefix (states d) (states d') \<and>
     prefix (state_facts d) (state_facts d') \<and>
     prefix (transitions d) (transitions d') \<and> prefix (guardians d) (guardians d') \<and>
     prefix (risk_tags d) (risk_tags d') \<and>
     prefix (risk_evidence d) (risk_evidence d') \<and> prefix (scouts d) (scouts d') \<and>
     prefix (opportunities d) (opportunities d') \<and>
     prefix (opportunity_evidence d) (opportunity_evidence d')"

definition appends_events :: "db \<Rightarrow> db \<Rightarrow> bool" where
  "appends_events d d' \<longleftrightarrow>
     prefix (commits d) (commits d') \<and> prefix (events d) (events d') \<and>
     prefix (event_versions d) (event_versions d') \<and>
     prefix (event_evidence d) (event_evidence d') \<and> prefix (intents d) (intents d') \<and>
     prefix (attempts d) (attempts d') \<and> prefix (audits d) (audits d') \<and>
     prefix (threshold_versions d) (threshold_versions d') \<and>
     prefix (threshold_entries d) (threshold_entries d') \<and>
     prefix (validations d) (validations d') \<and>
     prefix (activations d) (activations d') \<and>
     prefix (activation_evidence d) (activation_evidence d')"

definition grows :: "db \<Rightarrow> db \<Rightarrow> bool" where
  "grows d d' \<longleftrightarrow> same_inputs d d' \<and> appends_analysis d d' \<and> appends_events d d' \<and>
     uid_count d \<le> uid_count d'"

lemmas grows_defs = grows_def same_inputs_def appends_analysis_def appends_events_def

lemma grows_refl: "grows d d"
  by (simp add: grows_defs)

lemma appends_analysis_trans:
  "appends_analysis d d' \<Longrightarrow> appends_analysis d' d'' \<Longrightarrow> appends_analysis d d''"
  unfolding appends_analysis_def by (elim conjE, intro conjI; erule (1) prefix_order.trans)

lemma appends_events_trans:
  "appends_events d d' \<Longrightarrow> appends_events d' d'' \<Longrightarrow> appends_events d d''"
  unfolding appends_events_def by (elim conjE, intro conjI; erule (1) prefix_order.trans)

lemma same_inputs_trans: "same_inputs d d' \<Longrightarrow> same_inputs d' d'' \<Longrightarrow> same_inputs d d''"
  by (simp add: same_inputs_def)

lemma grows_trans: "grows d d' \<Longrightarrow> grows d' d'' \<Longrightarrow> grows d d''"
  unfolding grows_def
  by (metis appends_analysis_trans appends_events_trans same_inputs_trans order_trans)

lemma reflp_grows [simp]: "reflp grows"
  by (simp add: reflpI grows_refl)

lemma transp_grows [simp]: "transp grows"
  by (blast intro: transpI grows_trans)

named_theorems grows_intros "commands that only append"

lemma grows_new_uid [grows_intros]: "keeps grows new_uid"
  by (rule keepsI) (auto simp: new_uid_eq grows_defs)

lemmas grows_monad [grows_intros] =
  keeps_bind [OF transp_grows] keeps_return [OF reflp_grows] keeps_raise keeps_get [OF reflp_grows]
  keeps_read [OF reflp_grows] keeps_check [OF reflp_grows] keeps_for [OF reflp_grows transp_grows]
  keeps_map [OF reflp_grows transp_grows] keeps_cases

lemma grows_insert_rule_execution [grows_intros]: "keeps grows (insert_rule_execution r)"
  unfolding insert_rule_execution_def by (rule keeps_exec) (simp add: grows_defs)

lemma grows_insert_fact [grows_intros]: "keeps grows (insert_fact r)"
  unfolding insert_fact_def by (rule keeps_exec) (simp add: grows_defs)

lemma grows_insert_baseline [grows_intros]: "keeps grows (insert_baseline r)"
  unfolding insert_baseline_def by (rule keeps_exec) (simp add: grows_defs)

lemma grows_insert_state_evaluation [grows_intros]: "keeps grows (insert_state_evaluation r)"
  unfolding insert_state_evaluation_def by (rule keeps_exec) (simp add: grows_defs)

lemma grows_insert_state_fact [grows_intros]: "keeps grows (insert_state_fact e f)"
  unfolding insert_state_fact_def by (rule keeps_exec) (simp add: grows_defs)

lemma grows_insert_transition [grows_intros]: "keeps grows (insert_transition r)"
  unfolding insert_transition_def by (rule keeps_exec) (simp add: grows_defs)

lemma grows_insert_projection [grows_intros]: "keeps grows (insert_projection r)"
  unfolding insert_projection_def by (rule keeps_exec) (simp add: grows_defs)

lemma grows_insert_guardian_evaluation [grows_intros]: "keeps grows (insert_guardian_evaluation r)"
  unfolding insert_guardian_evaluation_def by (rule keeps_exec) (simp add: grows_defs)

lemma grows_insert_risk_tag [grows_intros]: "keeps grows (insert_risk_tag r)"
  unfolding insert_risk_tag_def by (rule keeps_exec) (simp add: grows_defs)

lemma grows_insert_risk_evidence [grows_intros]: "keeps grows (insert_risk_evidence r)"
  unfolding insert_risk_evidence_def by (rule keeps_exec) (simp add: grows_defs)

lemma grows_insert_scout_evaluation [grows_intros]: "keeps grows (insert_scout_evaluation r)"
  unfolding insert_scout_evaluation_def by (rule keeps_exec) (simp add: grows_defs)

lemma grows_insert_opportunity_tag [grows_intros]: "keeps grows (insert_opportunity_tag r)"
  unfolding insert_opportunity_tag_def by (rule keeps_exec) (simp add: grows_defs)

lemma grows_insert_opportunity_evidence [grows_intros]: "keeps grows (insert_opportunity_evidence r)"
  unfolding insert_opportunity_evidence_def by (rule keeps_exec) (simp add: grows_defs)

lemma grows_insert_analysis_commit [grows_intros]: "keeps grows (insert_analysis_commit r)"
  unfolding insert_analysis_commit_def by (rule keeps_exec) (simp add: grows_defs)

lemma grows_insert_market_event [grows_intros]: "keeps grows (insert_market_event r)"
  unfolding insert_market_event_def by (rule keeps_exec) (simp add: grows_defs)

lemma grows_insert_event_version [grows_intros]: "keeps grows (insert_event_version r)"
  unfolding insert_event_version_def by (rule keeps_exec) (simp add: grows_defs)

lemma grows_insert_event_evidence [grows_intros]: "keeps grows (insert_event_evidence v f)"
  unfolding insert_event_evidence_def by (rule keeps_exec) (simp add: grows_defs)

lemma grows_insert_event_projection [grows_intros]: "keeps grows (insert_event_projection r)"
  unfolding insert_event_projection_def by (rule keeps_exec) (simp add: grows_defs)

lemma grows_update_event_projection [grows_intros]: "keeps grows (update_event_projection r)"
  unfolding update_event_projection_def by (rule keeps_exec) (simp add: grows_defs)

lemma grows_insert_intent [grows_intros]: "keeps grows (insert_intent r)"
  unfolding insert_intent_def by (rule keeps_exec) (simp add: grows_defs)

lemma grows_insert_delivery [grows_intros]: "keeps grows (insert_delivery r)"
  unfolding insert_delivery_def by (rule keeps_exec) (simp add: grows_defs)

lemma grows_insert_attempt [grows_intros]: "keeps grows (insert_attempt r)"
  unfolding insert_attempt_def by (rule keeps_exec) (simp add: grows_defs)

lemma grows_insert_audit [grows_intros]: "keeps grows (insert_audit r)"
  unfolding insert_audit_def by (rule keeps_exec) (simp add: grows_defs)

lemma grows_update_projection [grows_intros]: "keeps grows (update_projection r v)"
  unfolding update_projection_def
  by (intro grows_intros keeps_exec) (simp add: grows_defs)

end
