(* ===== verification/Lifecycle.thy ===== *)
theory Lifecycle
  imports Tables
begin

text \<open>
  \<open>state.py\<close>: the lifecycle state machine of a subject, its projection, and the state service, which
  records evaluations of snapshots that are not OFFICIAL. The parts of the OFFICIAL path that the
  service and the analysis commit share (the previous state, the legality check, the next
  projection) are stated once here.
\<close>

section \<open>The state machine\<close>

definition legal_next :: "string \<rightharpoonup> string list" where
  "legal_next = map_of
     [(''OBSERVING'', [''STARTING'']),
      (''STARTING'', [''OBSERVING'', ''EXPANDING'', ''DECLINING'']),
      (''EXPANDING'', [''STARTING'', ''ACCELERATING'', ''DIVERGING'', ''DECLINING'']),
      (''ACCELERATING'', [''EXPANDING'', ''DIVERGING'', ''DECLINING'']),
      (''DIVERGING'', [''EXPANDING'', ''DECLINING'', ''OBSERVING'']),
      (''DECLINING'', [''OBSERVING'', ''STARTING'', ''DIVERGING''])]"

text \<open>\<open>current.effective_lifecycle_state or current.last_valid_lifecycle_state\<close>.\<close>

definition previous_state :: "projection_row option \<Rightarrow> string option" where
  "previous_state current =
     (case current of
        None \<Rightarrow> None
      | Some p \<Rightarrow> (case pr_effective p of
            Some (c # s) \<Rightarrow> Some (c # s)
          | _ \<Rightarrow> pr_last_valid p))"

definition check_transition :: "string option \<Rightarrow> string option \<Rightarrow> unit cmd" where
  "check_transition previous lifecycle =
     (case (lifecycle, previous) of
        (Some l, Some p) \<Rightarrow>
          if p = l then returnC ()
          else bindC (readC (\<lambda>_. require (KeyError p) (legal_next p))) (\<lambda>targets.
            checkC (l \<notin> set targets) (IllegalLifecycleTransitionError ''illegal lifecycle transition''))
      | _ \<Rightarrow> returnC ())"

text \<open>The projection after an evaluation: the row that is inserted or written over the current one.\<close>

definition next_projection ::
    "string \<Rightarrow> string \<Rightarrow> string option \<Rightarrow> projection_row option \<Rightarrow> string \<Rightarrow> int \<Rightarrow> int \<Rightarrow> projection_row" where
  "next_projection subject availability lifecycle current evaluation as_of version =
     \<lparr>pr_subject = subject,
      pr_availability = availability,
      pr_effective = lifecycle,
      pr_last_valid = (if lifecycle \<noteq> None then lifecycle
        else case current of None \<Rightarrow> None | Some p \<Rightarrow> pr_last_valid p),
      pr_last_valid_at = (if lifecycle \<noteq> None then Some as_of
        else case current of None \<Rightarrow> None | Some p \<Rightarrow> pr_last_valid_at p),
      pr_evaluation = evaluation,
      pr_as_of = as_of,
      pr_version = version,
      pr_rewarm = (availability = ''WARMING_UP'')\<rparr>"

definition actual_version :: "projection_row option \<Rightarrow> int" where
  "actual_version current = (case current of None \<Rightarrow> 0 | Some p \<Rightarrow> pr_version p)"

definition projection_of :: "string \<Rightarrow> projection_row option cmd" where
  "projection_of subject =
     readC (\<lambda>d. one_or_none (filter (\<lambda>p. pr_subject p = subject) (projections d)))"

text \<open>The transition row, when the lifecycle changes.\<close>

definition record_transition :: "string \<Rightarrow> string option \<Rightarrow> string option \<Rightarrow> string \<Rightarrow> int \<Rightarrow> unit cmd" where
  "record_transition subject previous lifecycle evaluation as_of =
     (case lifecycle of
        None \<Rightarrow> returnC ()
      | Some l \<Rightarrow>
          if previous = Some l then returnC ()
          else bindC new_uid (\<lambda>uid. insert_transition
            \<lparr>tr_uid = uid, tr_subject = subject, tr_from = previous, tr_to = l,
             tr_evaluation = evaluation, tr_occurred = as_of\<rparr>))"

text \<open>Inserting the first projection of a subject or updating the current one.\<close>

definition write_projection :: "projection_row option \<Rightarrow> projection_row \<Rightarrow> unit cmd" where
  "write_projection current row =
     (case current of
        None \<Rightarrow> insert_projection row
      | Some p \<Rightarrow> bindC (update_projection row (actual_version current)) (\<lambda>n.
          checkC (n \<noteq> 1) (ProjectionConflictError ''projection changed during update'')))"

section \<open>The state service\<close>

record projection =
  p_subject_uid :: string
  p_availability_state :: string
  p_effective_lifecycle_state :: "string option"
  p_last_valid_lifecycle_state :: "string option"
  p_version :: int
  p_rewarm_required :: bool

record state_result =
  sr_evaluation_uid :: string
  sr_evaluation_hash :: string
  sr_projection :: "projection option"

definition projection_view :: "projection_row \<Rightarrow> projection" where
  "projection_view row =
     \<lparr>p_subject_uid = pr_subject row, p_availability_state = pr_availability row,
      p_effective_lifecycle_state = pr_effective row,
      p_last_valid_lifecycle_state = pr_last_valid row,
      p_version = pr_version row, p_rewarm_required = pr_rewarm row\<rparr>"

definition get_projection :: "string \<Rightarrow> db \<Rightarrow> projection result" where
  "get_projection subject d =
     bindR (one (filter (\<lambda>p. pr_subject p = subject) (projections d))) (\<lambda>row. Inr (projection_view row))"

definition existing_state :: "string \<Rightarrow> db \<Rightarrow> state_result option result" where
  "existing_state digest d =
     bindR (one_or_none (filter (\<lambda>s. se_hash s = digest) (states d))) (\<lambda>row.
       case row of
         None \<Rightarrow> Inr None
       | Some s \<Rightarrow> bindR (if se_disposition s = ''OFFICIAL''
              then bindR (get_projection (se_subject s) d) (\<lambda>p. Inr (Some p)) else Inr None) (\<lambda>p.
            Inr (Some \<lparr>sr_evaluation_uid = se_uid s, sr_evaluation_hash = digest, sr_projection = p\<rparr>)))"

definition state_document ::
    "string \<Rightarrow> string \<Rightarrow> string \<Rightarrow> string option \<Rightarrow> string list \<Rightarrow> json" where
  "state_document snapshot_hash disposition availability lifecycle hashes =
     JObj [(''snapshot_hash'', JStr snapshot_hash),
           (''disposition'', JStr disposition),
           (''availability'', JStr availability),
           (''lifecycle'', JOpt lifecycle),
           (''fact_hashes'', JArr (map JStr hashes))]"

text \<open>The transaction of \<open>evaluate\<close>.\<close>

definition state_command ::
    "snapshot_row \<Rightarrow> string \<Rightarrow> string option \<Rightarrow> string list \<Rightarrow> int \<Rightarrow> string \<Rightarrow> string \<Rightarrow>
     projection option cmd" where
  "state_command snapshot availability lifecycle fact_list expected digest evaluation_uid =
     bindC (projection_of (snap_subject snapshot)) (\<lambda>current.
     bindC (insert_state_evaluation
       \<lparr>se_uid = evaluation_uid, se_snapshot = snap_uid snapshot, se_subject = snap_subject snapshot,
        se_disposition = snap_disposition snapshot, se_availability = availability,
        se_lifecycle = lifecycle, se_hash = digest, se_created = snap_as_of snapshot\<rparr>) (\<lambda>_.
     bindC (forC (insert_state_fact evaluation_uid) fact_list) (\<lambda>_.
     if snap_disposition snapshot \<noteq> ''OFFICIAL'' then returnC None
     else
       bindC (checkC (actual_version current \<noteq> expected)
         (ProjectionConflictError ''projection version conflict'')) (\<lambda>_.
       let previous = previous_state current in
       bindC (check_transition previous lifecycle) (\<lambda>_.
       bindC (record_transition (snap_subject snapshot) previous lifecycle evaluation_uid
         (snap_as_of snapshot)) (\<lambda>_.
       let row = next_projection (snap_subject snapshot) availability lifecycle current evaluation_uid
           (snap_as_of snapshot) (actual_version current + 1) in
       bindC (write_projection current row) (\<lambda>_.
       returnC (Some (projection_view row)))))))))"

definition record_stale_audit ::
    "(string \<Rightarrow> string) \<Rightarrow> string \<Rightarrow> string \<Rightarrow> string \<Rightarrow> string option \<Rightarrow> string list \<Rightarrow> string \<Rightarrow> int \<Rightarrow>
     unit cmd" where
  "record_stale_audit sha snapshot_uid subject_uid availability lifecycle fact_uids failed_hash created_at =
     bindC new_uid (\<lambda>uid.
     let digest = canonical_hash sha (JObj [(''failed_evaluation_hash'', JStr failed_hash),
           (''audit'', JStr ''STALE_AUDIT'')]) in
     bindC (insert_state_evaluation
       \<lparr>se_uid = uid, se_snapshot = snapshot_uid, se_subject = subject_uid,
        se_disposition = ''STALE_AUDIT'', se_availability = availability,
        se_lifecycle = lifecycle, se_hash = digest, se_created = created_at\<rparr>) (\<lambda>_.
     forC (insert_state_fact uid) fact_uids))"

text \<open>The checks before the transaction; they give the sealed snapshot, the facts and the digest.\<close>

definition state_prepare ::
    "(string \<Rightarrow> string) \<Rightarrow> string \<Rightarrow> string \<Rightarrow> string option \<Rightarrow> string list \<Rightarrow>
     (snapshot_row \<times> string list \<times> string) cmd" where
  "state_prepare sha snapshot_uid availability lifecycle fact_uids =
     bindC (checkC ((availability = ''AVAILABLE'') \<noteq> (lifecycle \<noteq> None))
       (ValueError ''only AVAILABLE evaluations have an effective lifecycle'')) (\<lambda>_.
     let fact_list = sort (remdups fact_uids) in
     bindC (checkC (fact_list = []) (ValueError ''state evaluation requires fact evidence'')) (\<lambda>_.
     bindC (readC (\<lambda>d. one (filter (\<lambda>s. snap_uid s = snapshot_uid) (snapshots d)))) (\<lambda>snapshot.
     bindC (checkC (snap_status snapshot \<noteq> ''SEALED'')
       (ValueError ''state evaluation requires a sealed snapshot'')) (\<lambda>_.
     bindC (checkC (snap_disposition snapshot = ''OFFICIAL'')
       (OfficialStateMutationError ''OFFICIAL state projection is owned by AnalysisCommit'')) (\<lambda>_.
     bindC (getC (\<lambda>d. sort_key f_uid
       (filter (\<lambda>f. f_snapshot f = snapshot_uid \<and> f_uid f \<in> set fact_list) (facts d)))) (\<lambda>rows.
     bindC (checkC (length rows \<noteq> length fact_list)
       (ValueError ''all state evidence must belong to the snapshot'')) (\<lambda>_.
     returnC (snapshot, fact_list,
       canonical_hash sha (state_document (snap_hash snapshot) (snap_disposition snapshot) availability
         lifecycle (map f_hash rows))))))))))"

text \<open>
  \<open>StateService.evaluate\<close>: the value or exception, and the database afterwards. A projection
  conflict rolls the transaction back and leaves a \<open>STALE_AUDIT\<close> evaluation.
\<close>

definition state_evaluate ::
    "(string \<Rightarrow> string) \<Rightarrow> string \<Rightarrow> string \<Rightarrow> string option \<Rightarrow> string list \<Rightarrow> int \<Rightarrow> db \<Rightarrow>
     state_result result \<times> db" where
  "state_evaluate sha snapshot_uid availability lifecycle fact_uids expected d =
     (case state_prepare sha snapshot_uid availability lifecycle fact_uids d of
        Inl e \<Rightarrow> (Inl e, d)
      | Inr ((snapshot, fact_list, digest), _) \<Rightarrow>
          (case existing_state digest d of
             Inl e \<Rightarrow> (Inl e, d)
           | Inr (Some r) \<Rightarrow> (Inr r, d)
           | Inr None \<Rightarrow>
               let evaluation_uid = uid_source d (uid_count d);
                   d1 = d\<lparr>uid_count := Suc (uid_count d)\<rparr>
               in case state_command snapshot availability lifecycle fact_list expected digest
                     evaluation_uid d1 of
                    Inr (p, d2) \<Rightarrow>
                      (Inr \<lparr>sr_evaluation_uid = evaluation_uid, sr_evaluation_hash = digest,
                            sr_projection = p\<rparr>, d2)
                  | Inl (ProjectionConflictError m) \<Rightarrow>
                      (case record_stale_audit sha snapshot_uid (snap_subject snapshot) availability
                          lifecycle fact_list digest (snap_as_of snapshot) d1 of
                         Inr (_, d2) \<Rightarrow> (Inl (ProjectionConflictError m), d2)
                       | Inl e \<Rightarrow> (Inl e, d1))
                  | Inl e \<Rightarrow> (Inl e, d1)))"

end
