(* ===== verification/Commit_State.thy ===== *)
theory Commit_State
  imports Lifecycle
begin

text \<open>
  The first part of the analysis commit (\<open>analysis_commit.py\<close>, \<open>_insert_state\<close>): the OFFICIAL state
  evaluation, its transition and the projection under optimistic locking. The invariant
  \<open>lifecycle_inv\<close> ties the projections to the history of transitions: every subject's history is a
  path of the state machine, the projection shows its end, and its version counts the OFFICIAL
  evaluations.
\<close>

record metric_provenance =
  mp_producer_version :: string
  mp_evidence_sha256 :: string

record analysis_commit_request =
  rq_snapshot_uid :: string
  rq_availability :: string
  rq_lifecycle :: "string option"
  rq_expected_version :: int
  rq_guardian_metrics :: "(string \<times> int) list"
  rq_scout_metrics :: "(string \<times> int) list"
  rq_channels :: "string list"
  rq_provenance :: "metric_provenance option"

text \<open>A metric fact of the commit: uid, code, value and hash.\<close>

type_synonym metric_fact = "string \<times> string \<times> int \<times> string"

definition fact_hash_of :: "metric_fact \<Rightarrow> string" where
  "fact_hash_of f = (case f of (_, _, _, h) \<Rightarrow> h)"

definition insert_state ::
    "(string \<Rightarrow> string) \<Rightarrow> snapshot_row \<Rightarrow> analysis_commit_request \<Rightarrow> metric_fact list \<Rightarrow>
     (string \<times> string) cmd" where
  "insert_state sha snapshot request fact_list =
     bindC (checkC (fact_list = []) (ValueError ''state evaluation requires fact evidence'')) (\<lambda>_.
     let evaluation_hash = canonical_hash sha (state_document (snap_hash snapshot) ''OFFICIAL''
           (rq_availability request) (rq_lifecycle request) (sort (map fact_hash_of fact_list))) in
     bindC new_uid (\<lambda>evaluation_uid.
     bindC (projection_of (snap_subject snapshot)) (\<lambda>current.
     bindC (checkC (actual_version current \<noteq> rq_expected_version request)
       (ProjectionConflictError ''projection version conflict'')) (\<lambda>_.
     let previous = previous_state current in
     bindC (check_transition previous (rq_lifecycle request)) (\<lambda>_.
     bindC (insert_state_evaluation
       \<lparr>se_uid = evaluation_uid, se_snapshot = rq_snapshot_uid request,
        se_subject = snap_subject snapshot, se_disposition = ''OFFICIAL'',
        se_availability = rq_availability request, se_lifecycle = rq_lifecycle request,
        se_hash = evaluation_hash, se_created = snap_as_of snapshot\<rparr>) (\<lambda>_.
     bindC (forC (\<lambda>fact. insert_state_fact evaluation_uid (fst fact)) fact_list) (\<lambda>_.
     bindC (record_transition (snap_subject snapshot) previous (rq_lifecycle request) evaluation_uid
       (snap_as_of snapshot)) (\<lambda>_.
     bindC (write_projection current (next_projection (snap_subject snapshot) (rq_availability request)
       (rq_lifecycle request) current evaluation_uid (snap_as_of snapshot)
       (actual_version current + 1))) (\<lambda>_.
     returnC (evaluation_uid, evaluation_hash))))))))))"

section \<open>The lifecycle invariant\<close>

definition history :: "string \<Rightarrow> db \<Rightarrow> (string option \<times> string) list" where
  "history subject d =
     map (\<lambda>t. (tr_from t, tr_to t)) (filter (\<lambda>t. tr_subject t = subject) (transitions d))"

fun path_from :: "string option \<Rightarrow> (string option \<times> string) list \<Rightarrow> bool" where
  "path_from prev [] = True"
| "path_from prev ((a, b) # h) \<longleftrightarrow>
     a = prev \<and>
     (case prev of None \<Rightarrow> True
      | Some p \<Rightarrow> (case legal_next p of None \<Rightarrow> False | Some targets \<Rightarrow> b \<in> set targets)) \<and>
     path_from (Some b) h"

definition end_of :: "string option \<Rightarrow> (string option \<times> string) list \<Rightarrow> string option" where
  "end_of prev h = (if h = [] then prev else Some (snd (last h)))"

lemma end_of_simps [simp]: "end_of prev [] = prev" "end_of prev (h @ [(a, b)]) = Some b"
  by (simp_all add: end_of_def)

lemma path_from_append:
  "path_from prev (h @ [(a, b)]) \<longleftrightarrow> path_from prev h \<and> path_from (end_of prev h) [(a, b)]"
  by (induction prev h rule: path_from.induct) (auto simp: end_of_def)

definition official_states :: "string \<Rightarrow> db \<Rightarrow> state_row list" where
  "official_states subject d =
     filter (\<lambda>s. se_subject s = subject \<and> se_disposition s = ''OFFICIAL'') (states d)"

definition projection_inv :: "db \<Rightarrow> projection_row \<Rightarrow> bool" where
  "projection_inv d p \<longleftrightarrow>
     pr_last_valid p = end_of None (history (pr_subject p) d) \<and>
     (pr_effective p \<noteq> None \<longrightarrow> pr_effective p = pr_last_valid p) \<and>
     pr_effective p \<noteq> Some [] \<and>
     pr_version p = int (length (official_states (pr_subject p) d))"

definition lifecycle_inv :: "db \<Rightarrow> bool" where
  "lifecycle_inv d \<longleftrightarrow>
     distinct (map pr_subject (projections d)) \<and>
     (\<forall>p \<in> set (projections d). projection_inv d p) \<and>
     (\<forall>s. path_from None (history s d)) \<and>
     (\<forall>s. s \<notin> pr_subject ` set (projections d) \<longrightarrow> history s d = [] \<and> official_states s d = [])"

lemma lifecycle_inv_cong:
  assumes "states d' = states d" "transitions d' = transitions d" "projections d' = projections d"
  shows "lifecycle_inv d' = lifecycle_inv d"
proof -
  have "history s d' = history s d" "official_states s d' = official_states s d" for s
    using assms by (simp_all add: history_def official_states_def)
  then show ?thesis using assms by (simp add: lifecycle_inv_def projection_inv_def)
qed

text \<open>The current projection, as the commit reads it.\<close>

lemma projection_of_Inr:
  "projection_of s d = Inr (current, d') \<longleftrightarrow>
    d' = d \<and> (case current of
       None \<Rightarrow> filter (\<lambda>p. pr_subject p = s) (projections d) = []
     | Some p \<Rightarrow> filter (\<lambda>p. pr_subject p = s) (projections d) = [p])"
  by (cases current) (auto simp: projection_of_def result_simps)

lemma previous_is_end:
  assumes "lifecycle_inv d" and "projection_of s d = Inr (current, d')"
  shows "previous_state current = end_of None (history s d)"
    and "(case current of None \<Rightarrow> None | Some p \<Rightarrow> pr_last_valid p) = end_of None (history s d)"
    and "actual_version current = int (length (official_states s d))"
proof -
  have "previous_state current = end_of None (history s d) \<and>
    (case current of None \<Rightarrow> None | Some p \<Rightarrow> pr_last_valid p) = end_of None (history s d) \<and>
    actual_version current = int (length (official_states s d))"
  proof (cases current)
    case None
    then have "s \<notin> pr_subject ` set (projections d)"
      using assms(2) by (auto simp: projection_of_Inr filter_empty_conv)
    then show ?thesis
      using assms(1) None by (auto simp: lifecycle_inv_def previous_state_def actual_version_def)
  next
    case (Some p)
    then have "p \<in> set (filter (\<lambda>p. pr_subject p = s) (projections d))"
      using assms(2) by (simp add: projection_of_Inr)
    then have p: "p \<in> set (projections d)" "pr_subject p = s" by auto
    then have "projection_inv d p" using assms(1) by (simp add: lifecycle_inv_def)
    then show ?thesis
      using Some p by (auto simp: projection_inv_def previous_state_def actual_version_def
        split: option.splits list.splits)
  qed
  then show "previous_state current = end_of None (history s d)"
    and "(case current of None \<Rightarrow> None | Some p \<Rightarrow> pr_last_valid p) = end_of None (history s d)"
    and "actual_version current = int (length (official_states s d))" by blast+
qed

text \<open>What the steps do to the three tables.\<close>

lemma check_transition_Inr:
  "check_transition previous l d = Inr (u, d') \<longleftrightarrow>
    d' = d \<and> (case (l, previous) of
       (Some b, Some a) \<Rightarrow> a = b \<or> (\<exists>ts. legal_next a = Some ts \<and> b \<in> set ts)
     | _ \<Rightarrow> True)"
  by (auto simp: check_transition_def result_simps split: option.splits)

lemma record_transition_Inr:
  assumes "record_transition s previous l e t d = Inr (u, d')"
  shows "states d' = states d" "projections d' = projections d"
    "history s d' = history s d @ (case l of None \<Rightarrow> [] | Some b \<Rightarrow>
        if previous = Some b then [] else [(previous, b)])"
    "s' \<noteq> s \<Longrightarrow> history s' d' = history s' d"
  using assms
  by (auto simp: record_transition_def insert_transition_def history_def result_simps
      split: option.splits if_splits)

lemma write_projection_Inr:
  assumes "write_projection current row d = Inr (u, d')"
    and "projection_of (pr_subject row) d = Inr (current, d0)"
  shows "states d' = states d" "transitions d' = transitions d"
    "distinct (map pr_subject (projections d)) \<Longrightarrow> distinct (map pr_subject (projections d'))"
    "set (projections d') = insert row {p \<in> set (projections d). pr_subject p \<noteq> pr_subject row}"
proof -
  have "states d' = states d \<and> transitions d' = transitions d \<and>
    (distinct (map pr_subject (projections d)) \<longrightarrow> distinct (map pr_subject (projections d'))) \<and>
    set (projections d') = insert row {p \<in> set (projections d). pr_subject p \<noteq> pr_subject row}"
  proof (cases current)
    case None
    then have "pr_subject p \<noteq> pr_subject row" if "p \<in> set (projections d)" for p
      using assms(2) that by (auto simp: projection_of_Inr filter_empty_conv)
    then show ?thesis
      using assms(1) None
      by (auto simp: write_projection_def insert_projection_def result_simps absent_iff)
  next
    case (Some p)
    have one: "filter (\<lambda>q. pr_subject q = pr_subject row) (projections d) = [p]"
      using assms(2) Some by (simp add: projection_of_Inr)
    have only: "q = p" if "q \<in> set (projections d)" "pr_subject q = pr_subject row" for q
    proof -
      have "q \<in> set (filter (\<lambda>q. pr_subject q = pr_subject row) (projections d))" using that by simp
      then show ?thesis by (simp add: one)
    qed
    have p: "p \<in> set (projections d)" "pr_subject p = pr_subject row"
      using arg_cong [OF one, of set] by auto
    let ?g = "\<lambda>q. if pr_subject q = pr_subject row \<and> pr_version q = pr_version p then row else q"
    have d': "projections d' = map ?g (projections d)" "states d' = states d" "transitions d' = transitions d"
      using assms(1) Some
      by (auto simp: write_projection_def update_projection_def actual_version_def result_simps)
    have "pr_subject (?g q) = pr_subject q" for q by simp
    then have subj: "map pr_subject (map ?g (projections d)) = map pr_subject (projections d)" by simp
    have "set (map ?g (projections d)) =
        insert row {q \<in> set (projections d). pr_subject q \<noteq> pr_subject row}"
    proof
      show "set (map ?g (projections d)) \<subseteq>
          insert row {q \<in> set (projections d). pr_subject q \<noteq> pr_subject row}"
        using only by auto
      show "insert row {q \<in> set (projections d). pr_subject q \<noteq> pr_subject row} \<subseteq>
          set (map ?g (projections d))"
        using p by (auto simp: image_iff intro: bexI [of _ p])
    qed
    moreover have "map pr_subject (projections d') = map pr_subject (projections d)"
      unfolding d'(1) by (rule subj)
    moreover have "set (projections d') = set (map ?g (projections d))" unfolding d'(1) by (rule refl)
    ultimately show ?thesis using d'(2,3) by metis
  qed
  then show "states d' = states d" "transitions d' = transitions d"
    "distinct (map pr_subject (projections d)) \<Longrightarrow> distinct (map pr_subject (projections d'))"
    "set (projections d') = insert row {p \<in> set (projections d). pr_subject p \<noteq> pr_subject row}"
    by blast+
qed

text \<open>
  The pure core: a legal step of one subject, with its evaluation, transition and projection, keeps
  the invariant.
\<close>

lemma official_step:
  assumes inv: "lifecycle_inv d" and cur: "projection_of s d = Inr (current, d0)"
    and legal: "case (l, previous_state current) of
        (Some b, Some a) \<Rightarrow> a = b \<or> (\<exists>ts. legal_next a = Some ts \<and> b \<in> set ts) | _ \<Rightarrow> True"
    and lok: "l \<noteq> Some []"
    and states: "states d' = states d @ [e]" "se_subject e = s" "se_disposition e = ''OFFICIAL''"
    and hist: "history s d' = history s d @ (case l of None \<Rightarrow> [] | Some b \<Rightarrow>
        if previous_state current = Some b then [] else [(previous_state current, b)])"
    and other: "\<And>s'. s' \<noteq> s \<Longrightarrow> history s' d' = history s' d"
    and dist: "distinct (map pr_subject (projections d'))"
    and proj: "set (projections d') =
        insert (next_projection s av l current ev t (actual_version current + 1))
          {p \<in> set (projections d). pr_subject p \<noteq> s}"
  shows "lifecycle_inv d'"
proof -
  let ?row = "next_projection s av l current ev t (actual_version current + 1)"
  note prev = previous_is_end [OF inv cur]
  have path: "path_from None (history s' d)" for s' using inv by (simp add: lifecycle_inv_def)
  have official: "official_states s' d' = official_states s' d @ (if s' = s then [e] else [])" for s'
    using states by (simp add: official_states_def)
  have path': "path_from None (history s' d')" for s'
  proof (cases "s' = s")
    case True
    show ?thesis
    proof (cases l)
      case None
      then show ?thesis using True hist path [of s] by simp
    next
      case (Some b)
      then show ?thesis
        using True hist path [of s] legal prev(1)
        by (auto simp: path_from_append split: option.splits)
    qed
  next
    case False
    then show ?thesis using other path by simp
  qed
  have endrow: "end_of None (history s d') = (case l of None \<Rightarrow> end_of None (history s d) | Some b \<Rightarrow> Some b)"
    using hist prev(1) by (cases l) auto
  have row: "projection_inv d' ?row"
    unfolding projection_inv_def
  proof (intro conjI)
    show "pr_last_valid ?row = end_of None (history (pr_subject ?row) d')"
      using endrow prev(2) by (cases l) (simp_all add: next_projection_def)
    show "pr_effective ?row \<noteq> None \<longrightarrow> pr_effective ?row = pr_last_valid ?row"
      by (simp add: next_projection_def)
    show "pr_effective ?row \<noteq> Some []" using lok by (simp add: next_projection_def)
    show "pr_version ?row = int (length (official_states (pr_subject ?row) d'))"
      using prev(3) by (simp add: next_projection_def official)
  qed
  have keep: "projection_inv d' p" if "p \<in> set (projections d)" "pr_subject p \<noteq> s" for p
  proof -
    have "projection_inv d p" using that inv by (simp add: lifecycle_inv_def)
    then show ?thesis using that other official by (auto simp: projection_inv_def)
  qed
  have "\<forall>p \<in> set (projections d'). projection_inv d' p"
    unfolding proj using row keep by blast
  moreover have "history s' d' = [] \<and> official_states s' d' = []"
    if "s' \<notin> pr_subject ` set (projections d')" for s'
  proof -
    have "pr_subject ?row = s" by (simp add: next_projection_def)
    then have "s' \<noteq> s" "s' \<notin> pr_subject ` set (projections d)" using that unfolding proj by auto
    then show ?thesis using inv other official by (simp add: lifecycle_inv_def)
  qed
  ultimately show ?thesis using dist path' by (simp add: lifecycle_inv_def)
qed

lemma insert_state_fact_Inr:
  "insert_state_fact e f d = Inr (u, d') \<Longrightarrow>
    states d' = states d \<and> transitions d' = transitions d \<and> projections d' = projections d"
  by (auto simp: insert_state_fact_def result_simps)

lemma insert_state_facts_Inr:
  "forC (\<lambda>fact. insert_state_fact e (fst fact)) fs d = Inr (u, d') \<Longrightarrow>
    states d' = states d \<and> transitions d' = transitions d \<and> projections d' = projections d"
proof (induction fs arbitrary: d)
  case (Cons f fs)
  obtain d1 where "insert_state_fact e (fst f) d = Inr ((), d1)"
    and "forC (\<lambda>fact. insert_state_fact e (fst fact)) fs d1 = Inr (u, d')"
    using Cons.prems by (auto simp: bindC_eq_Inr)
  then show ?case using Cons.IH [of d1] insert_state_fact_Inr by metis
qed (simp add: returnC_eq)

text \<open>The commit's state step keeps the invariant and advances the projection by one version.\<close>

lemma insert_state_Inr:
  assumes inv: "lifecycle_inv d" and run: "insert_state sha snapshot request fs d = Inr (r, d')"
  shows "lifecycle_inv d' \<and>
    rq_expected_version request = int (length (official_states (snap_subject snapshot) d)) \<and>
    (\<exists>p \<in> set (projections d'). pr_subject p = snap_subject snapshot \<and>
       pr_version p = rq_expected_version request + 1 \<and>
       pr_effective p = rq_lifecycle request \<and> pr_availability p = rq_availability request \<and>
       pr_evaluation p = fst r)"
proof -
  let ?s = "snap_subject snapshot" and ?l = "rq_lifecycle request"
  obtain ev current d1 e d3 d4 d5 where
    d1: "d1 = d\<lparr>uid_count := Suc (uid_count d)\<rparr>"
    and cur: "projection_of ?s d1 = Inr (current, d1)"
    and ver: "actual_version current = rq_expected_version request"
    and chk: "check_transition (previous_state current) ?l d1 = Inr ((), d1)"
    and ins: "insert_state_evaluation e d1 = Inr ((), d3)"
    and e: "se_subject e = ?s" "se_disposition e = ''OFFICIAL''" "se_lifecycle e = ?l"
    and fs: "forC (\<lambda>fact. insert_state_fact ev (fst fact)) fs d3 = Inr ((), d4)"
    and tr: "record_transition ?s (previous_state current) ?l ev (snap_as_of snapshot) d4 = Inr ((), d5)"
    and wr: "write_projection current (next_projection ?s (rq_availability request) ?l current ev
        (snap_as_of snapshot) (actual_version current + 1)) d5 = Inr ((), d')"
    and r: "fst r = ev"
    using run by (auto simp: insert_state_def Let_def result_simps check_transition_Inr projection_of_Inr)
  have same: "states d1 = states d" "transitions d1 = transitions d" "projections d1 = projections d"
    by (simp_all add: d1)
  have inv1: "lifecycle_inv d1"
    using inv lifecycle_inv_cong [OF same] by simp
  have d3: "states d3 = states d1 @ [e]" "transitions d3 = transitions d1"
      "projections d3 = projections d1" and lok: "?l \<noteq> Some []"
    using ins e(3)
    by (auto simp: insert_state_evaluation_def result_simps lifecycle_ok_def lifecycle_states_def)
  note d4 = insert_state_facts_Inr [OF fs]
  note d5 = record_transition_Inr [OF tr]
  have cur5: "projection_of (pr_subject (next_projection ?s (rq_availability request) ?l current ev
        (snap_as_of snapshot) (actual_version current + 1))) d5 = Inr (current, d5)"
    using cur by (cases current) (simp_all add: projection_of_Inr next_projection_def d5 d4 d3)
  note d' = write_projection_Inr [OF wr cur5]
  have hist4: "history s' d4 = history s' d1" for s' by (simp add: history_def d4 d3)
  have hist': "history s' d' = history s' d5" for s' by (simp add: history_def d')
  have "lifecycle_inv d'"
  proof (rule official_step [OF inv1 cur])
    show "case (?l, previous_state current) of
        (Some b, Some a) \<Rightarrow> a = b \<or> (\<exists>ts. legal_next a = Some ts \<and> b \<in> set ts) | _ \<Rightarrow> True"
      using chk by (simp add: check_transition_Inr)
    show "?l \<noteq> Some []" by (fact lok)
    show "states d' = states d1 @ [e]" by (simp add: d' d5 d4 d3)
    show "se_subject e = ?s" "se_disposition e = ''OFFICIAL''" by (fact e)+
    show "history ?s d' = history ?s d1 @ (case ?l of None \<Rightarrow> [] | Some b \<Rightarrow>
        if previous_state current = Some b then [] else [(previous_state current, b)])"
      by (simp add: hist' d5(3) hist4)
    show "history s' d' = history s' d1" if "s' \<noteq> ?s" for s'
      using d5(4) [OF that] by (simp add: hist' hist4)
    show "distinct (map pr_subject (projections d'))"
      by (rule d'(3)) (use inv1 in \<open>simp add: d5 d4 d3 lifecycle_inv_def\<close>)
    show "set (projections d') =
        insert (next_projection ?s (rq_availability request) ?l current ev (snap_as_of snapshot)
            (actual_version current + 1))
          {p \<in> set (projections d1). pr_subject p \<noteq> ?s}"
      using d'(4) by (simp add: d5 d4 d3) (simp add: next_projection_def)
  qed
  moreover have "actual_version current = int (length (official_states ?s d1))"
    by (rule previous_is_end(3) [OF inv1 cur])
  moreover have "official_states ?s d1 = official_states ?s d" by (simp add: official_states_def same)
  moreover have "\<exists>p \<in> set (projections d'). pr_subject p = ?s \<and>
       pr_version p = rq_expected_version request + 1 \<and>
       pr_effective p = ?l \<and> pr_availability p = rq_availability request \<and> pr_evaluation p = fst r"
    unfolding d'(4) by (simp add: next_projection_def ver r)
  ultimately show ?thesis using ver by simp
qed

end
