(* ===== verification/Time_Text.thy ===== *)
theory Time_Text
  imports Prelude
begin

text \<open>
  \<open>values.py\<close>: canonical RFC 3339 text. An instant is an integer, microseconds since the epoch
  (UTC); \<open>format_rfc3339\<close> renders it as \<open>isoformat(timespec="microseconds")\<close> does, with \<open>Z\<close>;
  \<open>canonical_instant\<close> reads such a text, and is \<open>None\<close> on every text for which
  \<open>format_rfc3339(parse_rfc3339(s)) == s\<close> fails. The calendar is \<open>datetime\<close>'s proleptic Gregorian
  one, days counted from 0001-01-01 (day 1).
\<close>

section \<open>The calendar\<close>

definition is_leap :: "int \<Rightarrow> bool" where
  "is_leap y \<longleftrightarrow> y mod 4 = 0 \<and> (y mod 100 \<noteq> 0 \<or> y mod 400 = 0)"

definition days_before_year :: "int \<Rightarrow> int" where
  "days_before_year y = (y - 1) * 365 + (y - 1) div 4 - (y - 1) div 100 + (y - 1) div 400"

definition days_before_month :: "bool \<Rightarrow> int \<Rightarrow> int" where
  "days_before_month leap m =
     [0, 31, 59, 90, 120, 151, 181, 212, 243, 273, 304, 334] ! nat (m - 1) + (if leap \<and> 2 < m then 1 else 0)"

definition days_in_month :: "bool \<Rightarrow> int \<Rightarrow> int" where
  "days_in_month leap m =
     (if m = 2 \<and> leap then 29 else [31, 28, 31, 30, 31, 30, 31, 31, 30, 31, 30, 31] ! nat (m - 1))"

definition to_ordinal :: "int \<times> int \<times> int \<Rightarrow> int" where
  "to_ordinal = (\<lambda>(y, m, d). days_before_year y + days_before_month (is_leap y) m + d)"

text \<open>Month and day from the day of the year, counted from 0.\<close>

definition month_day :: "bool \<Rightarrow> int \<Rightarrow> int \<times> int" where
  "month_day leap n =
     (let m = (n + 50) div 32;
          m' = (if n < days_before_month leap m then m - 1 else m)
      in (m', n - days_before_month leap m' + 1))"

definition of_ordinal :: "int \<Rightarrow> int \<times> int \<times> int" where
  "of_ordinal ordinal =
     (let n = ordinal - 1;
          a = n div 146097; n1 = n mod 146097;
          b = n1 div 36524; n2 = n1 mod 36524;
          c = n2 div 1461; n3 = n2 mod 1461;
          e = n3 div 365; n4 = n3 mod 365;
          y = 400 * a + 100 * b + 4 * c + e + 1
      in if e = 4 \<or> b = 4 then (y - 1, 12, 31)
         else (case month_day (e = 3 \<and> (c \<noteq> 24 \<or> b = 3)) n4 of (m, d) \<Rightarrow> (y, m, d)))"

definition valid_date :: "int \<times> int \<times> int \<Rightarrow> bool" where
  "valid_date = (\<lambda>(y, m, d). 1 \<le> y \<and> y \<le> 9999 \<and> 1 \<le> m \<and> m \<le> 12 \<and>
     1 \<le> d \<and> d \<le> days_in_month (is_leap y) m)"

section \<open>Text\<close>

text \<open>Decimal digits, padded to a width.\<close>

fun pad_digits :: "nat \<Rightarrow> nat \<Rightarrow> string" where
  "pad_digits 0 n = []"
| "pad_digits (Suc w) n = pad_digits w (n div 10) @ [char_of (48 + n mod 10)]"

definition epoch_ordinal :: int where
  "epoch_ordinal = 719163"

definition format_rfc3339 :: "int \<Rightarrow> string" where
  "format_rfc3339 t =
     (case of_ordinal (epoch_ordinal + t div 86400000000) of
        (y, m, d) \<Rightarrow>
          let r = t mod 86400000000; secs = r div 1000000
          in pad_digits 4 (nat y) @ ''-'' @ pad_digits 2 (nat m) @ ''-'' @ pad_digits 2 (nat d) @ ''T'' @
             pad_digits 2 (nat (secs div 3600)) @ '':'' @ pad_digits 2 (nat (secs div 60 mod 60)) @ '':'' @
             pad_digits 2 (nat (secs mod 60)) @ ''.'' @ pad_digits 6 (nat (r mod 1000000)) @ ''Z'')"

definition all_digits :: "string \<Rightarrow> bool" where
  "all_digits s = list_all (\<lambda>c. 48 \<le> (of_char c :: nat) \<and> (of_char c :: nat) \<le> 57) s"

definition digits_int :: "string \<Rightarrow> int" where
  "digits_int s = foldl (\<lambda>n c. 10 * n + (of_char c - 48)) 0 s"

definition piece :: "nat \<Rightarrow> nat \<Rightarrow> string \<Rightarrow> string" where
  "piece start len s = take len (drop start s)"

text \<open>The instant of a canonical text \<open>YYYY-MM-DDTHH:MM:SS.ffffffZ\<close>.\<close>

definition canonical_instant :: "string \<Rightarrow> int option" where
  "canonical_instant s =
     (let y = digits_int (piece 0 4 s); m = digits_int (piece 5 2 s); d = digits_int (piece 8 2 s);
          h = digits_int (piece 11 2 s); mi = digits_int (piece 14 2 s); sec = digits_int (piece 17 2 s);
          us = digits_int (piece 20 6 s)
      in if List.length s = 27 \<and>
            piece 4 1 s = ''-'' \<and> piece 7 1 s = ''-'' \<and> piece 10 1 s = ''T'' \<and> piece 13 1 s = '':'' \<and>
            piece 16 1 s = '':'' \<and> piece 19 1 s = ''.'' \<and> piece 26 1 s = ''Z'' \<and>
            all_digits (piece 0 4 s) \<and> all_digits (piece 5 2 s) \<and> all_digits (piece 8 2 s) \<and>
            all_digits (piece 11 2 s) \<and> all_digits (piece 14 2 s) \<and> all_digits (piece 17 2 s) \<and>
            all_digits (piece 20 6 s) \<and>
            valid_date (y, m, d) \<and> h < 24 \<and> mi < 60 \<and> sec < 60
         then Some ((to_ordinal (y, m, d) - epoch_ordinal) * 86400000000 +
           (h * 3600 + mi * 60 + sec) * 1000000 + us)
         else None)"

end
