(* ===== verification/Thresholds.thy ===== *)
theory Thresholds
  imports Tables Time_Text
begin

text \<open>
  \<open>thresholds.py\<close>, the append-only registry: registration, explicit and official resolution,
  validations, and the activation of a Guardian/Scout pair, with the constraints and triggers of
  migrations \<open>0010\<close> and \<open>0012\<close>. Activation evidence documents are read in \<open>Activation_Evidence\<close>.
\<close>

section \<open>Entries and definition hashes\<close>

definition families :: "string list" where
  "families = [''GUARDIAN'', ''SCOUT'']"

definition approved_statuses :: "string list" where
  "approved_statuses = [''OWNER_APPROVED_PENDING_VALIDATION'', ''OWNER_APPROVED'']"

definition validation_kinds :: "string list" where
  "validation_kinds = [''REPLAY'', ''SHADOW'']"

definition check_family :: "string \<Rightarrow> string result" where
  "check_family value =
     guardR (value \<notin> set families) (ValueError ''threshold family must be GUARDIAN or SCOUT'') (Inr value)"

definition family_codes :: "string \<Rightarrow> string list" where
  "family_codes family = (if family = ''GUARDIAN'' then guardian_codes else scout_codes)"

definition validated_entries :: "string \<Rightarrow> (string \<times> int) list \<Rightarrow> (string \<times> int) list result" where
  "validated_entries family entries =
     guardR (\<not> set (map fst entries) \<subseteq> set (family_codes family)) (ValueError ''unknown threshold metric code'')
    (guardR (set (map fst entries) \<noteq> set (family_codes family))
       (ValueError ''threshold version entries must be complete for its family'')
    (guardR (list_ex (\<lambda>(_, v). \<not> (0 \<le> v \<and> v \<le> 1000000)) entries)
       (ValueError ''threshold PPM values must be integers from zero through one million'')
    (Inr entries)))"

definition definition_hash ::
    "(string \<Rightarrow> string) \<Rightarrow> string \<Rightarrow> string \<Rightarrow> (string \<times> int) list \<Rightarrow> string" where
  "definition_hash sha family version entries =
     canonical_hash sha (JObj
       [(''family'', JStr family), (''version'', JStr version),
        (''entries'', JArr (map (\<lambda>(c, v). JArr [JStr c, JInt v]) (sort entries)))])"

record threshold_set =
  ts_uid :: string
  ts_family :: string
  ts_version :: string
  ts_definition_hash :: string
  ts_entries :: "(string \<times> int) list"
  ts_effective :: "int option"
  ts_reference :: string

definition set_from_row ::
    "(string \<Rightarrow> string) \<Rightarrow> db \<Rightarrow> threshold_version_row \<Rightarrow> string \<Rightarrow> string \<Rightarrow> int option \<Rightarrow>
     threshold_set result" where
  "set_from_row sha d row family version effective_time =
     (let values = map (\<lambda>e. (ten_code e, ten_ppm e))
            (sort_key ten_code (filter (\<lambda>e. ten_version e = tv_uid row) (threshold_entries d)))
      in case validated_entries family values of
           Inl (ValueError m) \<Rightarrow> Inl (ThresholdUnavailableError m)
         | Inl e \<Rightarrow> Inl e
         | Inr normalized \<Rightarrow>
             let expected_hash = definition_hash sha family version normalized
             in guardR (tv_hash row \<noteq> expected_hash)
                  (ThresholdUnavailableError ''threshold definition hash does not match immutable entries'')
                  (Inr \<lparr>ts_uid = tv_uid row, ts_family = family, ts_version = version,
                        ts_definition_hash = expected_hash, ts_entries = sort normalized,
                        ts_effective = effective_time, ts_reference = tv_reference row\<rparr>))"

section \<open>Resolution\<close>

definition resolve_threshold_by_uid ::
    "(string \<Rightarrow> string) \<Rightarrow> db \<Rightarrow> string \<Rightarrow> string \<Rightarrow> threshold_set result" where
  "resolve_threshold_by_uid sha d family uid =
     bindR (check_family family) (\<lambda>fam.
     bindR (one_or_none (filter (\<lambda>v. tv_uid v = uid) (threshold_versions d))) (\<lambda>row.
       case row of
         None \<Rightarrow> Inl (ThresholdLineageError ''metric facts reference an invalid threshold version'')
       | Some v \<Rightarrow>
           guardR (tv_family v \<noteq> fam)
             (ThresholdLineageError ''metric facts reference an invalid threshold version'')
             (set_from_row sha d v fam (tv_version v) None)))"

text \<open>\<open>facts\<close> are given by the threshold versions of their rule executions.\<close>

definition resolve_thresholds_for_facts ::
    "(string \<Rightarrow> string) \<Rightarrow> db \<Rightarrow> string \<Rightarrow> string option list \<Rightarrow> threshold_set result" where
  "resolve_thresholds_for_facts sha d family uids =
     bindR (check_family family) (\<lambda>fam.
       case remdups uids of
         [Some uid] \<Rightarrow> resolve_threshold_by_uid sha d fam uid
       | _ \<Rightarrow> Inl (ThresholdLineageError ''metric facts must use one threshold version''))"

definition resolve_explicit ::
    "(string \<Rightarrow> string) \<Rightarrow> db \<Rightarrow> string \<Rightarrow> string \<Rightarrow> int \<Rightarrow> threshold_set result" where
  "resolve_explicit sha d family version instant =
     bindR (check_family family) (\<lambda>fam.
     bindR (one_or_none (filter (\<lambda>v. tv_family v = fam \<and> tv_version v = version) (threshold_versions d)))
       (\<lambda>row. case row of
          None \<Rightarrow> Inl (ThresholdUnavailableError ''unknown threshold version'')
        | Some v \<Rightarrow> set_from_row sha d v fam version (Some instant)))"

text \<open>\<open>ORDER BY key DESC, rowid DESC LIMIT 1\<close>.\<close>

definition latest :: "('r \<Rightarrow> int) \<Rightarrow> 'r list \<Rightarrow> 'r option" where
  "latest key rows =
     fold (\<lambda>r best. case best of None \<Rightarrow> Some r | Some b \<Rightarrow> if key b \<le> key r then Some r else best)
       rows None"

definition latest_validation_status :: "db \<Rightarrow> string \<Rightarrow> string \<Rightarrow> int \<Rightarrow> string option" where
  "latest_validation_status d uid kind instant =
     map_option va_status (latest va_observed
       (filter (\<lambda>v. va_version v = uid \<and> va_kind v = kind \<and> va_observed v \<le> instant) (validations d)))"

definition latest_validations_pass :: "db \<Rightarrow> string \<Rightarrow> int \<Rightarrow> bool" where
  "latest_validations_pass d uid instant =
     list_all (\<lambda>kind. latest_validation_status d uid kind instant = Some ''PASS'') validation_kinds"

definition activation_join :: "db \<Rightarrow> (activation_row \<times> threshold_version_row) list" where
  "activation_join d =
     concat (map (\<lambda>a. map (\<lambda>v. (a, v)) (filter (\<lambda>v. tv_uid v = an_version a) (threshold_versions d)))
       (activations d))"

definition resolve_official ::
    "(string \<Rightarrow> string) \<Rightarrow> db \<Rightarrow> string \<Rightarrow> int \<Rightarrow> threshold_set result" where
  "resolve_official sha d family instant =
     bindR (check_family family) (\<lambda>fam.
       case latest (\<lambda>(a, _). an_effective a)
           (filter (\<lambda>(a, _). an_family a = fam \<and> an_effective a \<le> instant) (activation_join d)) of
         None \<Rightarrow> Inl (ThresholdUnavailableError ''no active threshold version'')
       | Some (a, v) \<Rightarrow>
           guardR (tv_approval v \<notin> set approved_statuses)
             (ThresholdUnavailableError ''active threshold version is not Owner approved'')
          (guardR (\<not> latest_validations_pass d (tv_uid v) instant)
             (ThresholdUnavailableError ''active threshold version lacks passed validation'')
             (set_from_row sha d v fam (tv_version v) (Some (an_effective a)))))"

section \<open>Registration\<close>

definition insert_threshold_version :: "threshold_version_row \<Rightarrow> unit cmd" where
  "insert_threshold_version r = execC
     (\<lambda>d. absent tv_uid (threshold_versions d) (tv_uid r) \<and> tv_family r \<in> set families \<and>
          tv_approval r \<in> {''LEGACY_UNCALIBRATED'', ''OWNER_APPROVED_PENDING_VALIDATION'', ''OWNER_APPROVED''} \<and>
          absent tv_hash (threshold_versions d) (tv_hash r) \<and>
          absent (\<lambda>x. (tv_family x, tv_version x)) (threshold_versions d) (tv_family r, tv_version r))
     ''threshold_version'' (\<lambda>d. d\<lparr>threshold_versions := threshold_versions d @ [r]\<rparr>)"

definition insert_threshold_entry :: "threshold_entry_row \<Rightarrow> unit cmd" where
  "insert_threshold_entry r = execC
     (\<lambda>d. absent ten_uid (threshold_entries d) (ten_uid r) \<and>
          present tv_uid (threshold_versions d) (ten_version r) \<and>
          0 \<le> ten_ppm r \<and> ten_ppm r \<le> 1000000 \<and>
          absent (\<lambda>x. (ten_version x, ten_code x)) (threshold_entries d) (ten_version r, ten_code r))
     ''threshold_entry'' (\<lambda>d. d\<lparr>threshold_entries := threshold_entries d @ [r]\<rparr>)"

definition register_entry :: "string \<Rightarrow> int \<Rightarrow> string \<times> int \<Rightarrow> unit cmd" where
  "register_entry uid created_at entry =
     bindC new_uid (\<lambda>entry_uid. insert_threshold_entry
       \<lparr>ten_uid = entry_uid, ten_version = uid, ten_code = fst entry, ten_ppm = snd entry,
        ten_created = created_at\<rparr>)"

definition register_fresh ::
    "string \<Rightarrow> string \<Rightarrow> string \<Rightarrow> string \<Rightarrow> (string \<times> int) list \<Rightarrow> string \<Rightarrow> int \<Rightarrow>
     threshold_set cmd" where
  "register_fresh family version approval reference normalized digest created_at =
     bindC new_uid (\<lambda>uid.
     bindC (insert_threshold_version
       \<lparr>tv_uid = uid, tv_family = family, tv_version = version, tv_approval = approval,
        tv_reference = reference, tv_hash = digest, tv_created = created_at\<rparr>) (\<lambda>_.
     bindC (forC (register_entry uid created_at) (sort normalized)) (\<lambda>_.
     returnC \<lparr>ts_uid = uid, ts_family = family, ts_version = version, ts_definition_hash = digest,
       ts_entries = sort normalized, ts_effective = Some created_at, ts_reference = reference\<rparr>)))"

definition register_version ::
    "(string \<Rightarrow> string) \<Rightarrow> string \<Rightarrow> string \<Rightarrow> string \<Rightarrow> string \<Rightarrow> (string \<times> int) list \<Rightarrow> int \<Rightarrow>
     threshold_set cmd" where
  "register_version sha family version approval reference entries created_at =
     bindC (readC (\<lambda>_. check_family family)) (\<lambda>fam.
     bindC (readC (\<lambda>_. validated_entries fam entries)) (\<lambda>normalized.
     bindC (checkC (approval \<notin> {''LEGACY_UNCALIBRATED'', ''OWNER_APPROVED_PENDING_VALIDATION'', ''OWNER_APPROVED''})
       (ValueError ''invalid threshold approval status'')) (\<lambda>_.
     bindC (checkC (blank version \<or> blank reference)
       (ValueError ''threshold version and owner approval reference are required'')) (\<lambda>_.
     let digest = definition_hash sha fam version normalized in
     bindC (readC (\<lambda>d. one_or_none (filter (\<lambda>v. tv_family v = fam \<and> tv_version v = version)
         (threshold_versions d)))) (\<lambda>existing.
     case existing of
       Some v \<Rightarrow>
         bindC (checkC (tv_approval v \<noteq> approval \<or> tv_reference v \<noteq> reference \<or> tv_hash v \<noteq> digest)
           (ValueError ''threshold version already exists with different immutable content'')) (\<lambda>_.
         readC (\<lambda>d. set_from_row sha d v fam version (Some created_at)))
     | None \<Rightarrow> register_fresh fam version approval reference normalized digest created_at)))))"

section \<open>Validation\<close>

definition insert_validation :: "validation_row \<Rightarrow> unit cmd" where
  "insert_validation r = execC
     (\<lambda>d. absent va_uid (validations d) (va_uid r) \<and>
          present tv_uid (threshold_versions d) (va_version r) \<and>
          va_kind r \<in> set validation_kinds \<and> va_status r \<in> {''PASS'', ''FAIL''} \<and>
          va_sha r \<in> set (artifact_objects d) \<and>
          absent (\<lambda>x. (va_version x, va_kind x, va_sha x)) (validations d)
            (va_version r, va_kind r, va_sha r))
     ''threshold_validation'' (\<lambda>d. d\<lparr>validations := validations d @ [r]\<rparr>)"

definition record_validation ::
    "string \<Rightarrow> string \<Rightarrow> string \<Rightarrow> string \<Rightarrow> string \<Rightarrow> string \<Rightarrow> int \<Rightarrow> int \<Rightarrow> string cmd" where
  "record_validation family version kind status reference report_sha observed_at now =
     bindC (readC (\<lambda>_. check_family family)) (\<lambda>fam.
     bindC (checkC (kind \<notin> set validation_kinds) (ValueError ''unknown threshold validation kind'')) (\<lambda>_.
     bindC (checkC (status \<notin> {''PASS'', ''FAIL''}) (ValueError ''unknown threshold validation status'')) (\<lambda>_.
     bindC (checkC (blank reference \<or> List.length report_sha \<noteq> 64)
       (ValueError ''validation report reference and SHA-256 are required'')) (\<lambda>_.
     bindC (readC (\<lambda>d. one_or_none (filter (\<lambda>v. tv_family v = fam \<and> tv_version v = version)
         (threshold_versions d)))) (\<lambda>version_row.
     case version_row of
       None \<Rightarrow> raiseC (ThresholdUnavailableError ''unknown threshold version'')
     | Some v \<Rightarrow>
         bindC (getC (\<lambda>d. report_sha \<notin> set (artifact_objects d))) (\<lambda>missing.
         bindC (checkC missing (ValueError ''threshold validation report artifact is not registered'')) (\<lambda>_.
         bindC (readC (\<lambda>d. one_or_none (filter (\<lambda>x. va_version x = tv_uid v \<and> va_kind x = kind \<and>
             va_sha x = report_sha) (validations d)))) (\<lambda>existing.
         case existing of
           Some x \<Rightarrow>
             bindC (checkC (va_status x \<noteq> status \<or> va_reference x \<noteq> reference \<or> va_observed x \<noteq> observed_at)
               (ValueError ''validation artifact already has immutable different content'')) (\<lambda>_.
             returnC (va_uid x))
         | None \<Rightarrow>
             bindC new_uid (\<lambda>uid.
             bindC (insert_validation
               \<lparr>va_uid = uid, va_version = tv_uid v, va_kind = kind, va_status = status,
                va_reference = reference, va_sha = report_sha, va_observed = observed_at,
                va_created = now\<rparr>) (\<lambda>_.
             returnC uid))))))))))"

section \<open>Activation\<close>

definition is_sha256 :: "string \<Rightarrow> bool" where
  "is_sha256 value = (List.length value = 64 \<and> list_all (\<lambda>c. c \<in> set ''0123456789abcdef'') value)"

definition demo_owner_reference :: string where
  "demo_owner_reference = ''M9 demo-only fixture; never production''"

text \<open>The three triggers on insertion of an activation.\<close>

definition activation_family_match :: "db \<Rightarrow> activation_row \<Rightarrow> bool" where
  "activation_family_match d r =
     list_all (\<lambda>v. tv_uid v \<noteq> an_version r \<or> tv_family v = an_family r) (threshold_versions d)"

definition activation_approved :: "db \<Rightarrow> activation_row \<Rightarrow> bool" where
  "activation_approved d r =
     (list_ex (\<lambda>v. tv_uid v = an_version r \<and> tv_approval v \<in> set approved_statuses) (threshold_versions d) \<and>
      latest_validation_status d (an_version r) ''REPLAY'' (an_effective r) = Some ''PASS'' \<and>
      latest_validation_status d (an_version r) ''SHADOW'' (an_effective r) = Some ''PASS'')"

definition activation_time_advances :: "db \<Rightarrow> activation_row \<Rightarrow> bool" where
  "activation_time_advances d r =
     list_all (\<lambda>a. an_family a = an_family r \<longrightarrow> an_effective a < an_effective r) (activations d)"

definition activation_has_evidence :: "db \<Rightarrow> activation_row \<Rightarrow> bool" where
  "activation_has_evidence d r =
     list_ex (\<lambda>e. ae_uid e = an_evidence r \<and> ae_observed e \<le> an_effective r \<and>
       ((an_family r = ''GUARDIAN'' \<and> ae_guardian e = an_version r) \<or>
        (an_family r = ''SCOUT'' \<and> ae_scout e = an_version r))) (activation_evidence d)"

definition insert_activation :: "activation_row \<Rightarrow> unit cmd" where
  "insert_activation r = execC
     (\<lambda>d. absent an_uid (activations d) (an_uid r) \<and> an_family r \<in> set families \<and>
          present tv_uid (threshold_versions d) (an_version r) \<and>
          absent (\<lambda>x. (an_family x, an_effective x)) (activations d) (an_family r, an_effective r) \<and>
          absent (\<lambda>x. (an_family x, an_key x)) (activations d) (an_family r, an_key r) \<and>
          activation_family_match d r \<and> activation_approved d r \<and> activation_time_advances d r \<and>
          activation_has_evidence d r)
     ''threshold_activation'' (\<lambda>d. d\<lparr>activations := activations d @ [r]\<rparr>)"

definition activation_by_key ::
    "db \<Rightarrow> string \<Rightarrow> string \<Rightarrow> (activation_row \<times> threshold_version_row) option result" where
  "activation_by_key d family key =
     one_or_none (filter (\<lambda>(a, _). an_family a = family \<and> an_key a = key) (activation_join d))"

definition activation_evidence_for_pair ::
    "db \<Rightarrow> string \<Rightarrow> string \<Rightarrow> string \<Rightarrow> int \<Rightarrow> string \<Rightarrow> activation_evidence_row result" where
  "activation_evidence_for_pair d evidence_sha guardian_version scout_version effective_at scope =
     bindR (one_or_none (concat (map (\<lambda>e. concat (map (\<lambda>g. map (\<lambda>s. (e, g, s))
         (filter (\<lambda>s. tv_uid s = ae_scout e) (threshold_versions d)))
         (filter (\<lambda>g. tv_uid g = ae_guardian e) (threshold_versions d))))
         (filter (\<lambda>e. ae_sha e = evidence_sha \<and> ae_scope e = scope) (activation_evidence d))))) (\<lambda>row.
       case row of
         None \<Rightarrow> Inl (ThresholdActivationError ''typed production activation evidence is not registered'')
       | Some (e, g, s) \<Rightarrow>
           guardR (tv_version g \<noteq> guardian_version \<or> tv_version s \<noteq> scout_version \<or>
               effective_at < ae_observed e)
             (ThresholdActivationError ''typed activation evidence does not match this activation'')
             (Inr e))"

definition version_for_activation ::
    "db \<Rightarrow> string \<Rightarrow> string \<Rightarrow> int \<Rightarrow> threshold_version_row result" where
  "version_for_activation d family version instant =
     bindR (one_or_none (filter (\<lambda>a. an_family a = family \<and> an_effective a = instant) (activations d)))
       (\<lambda>existing_time.
     guardR (existing_time \<noteq> None)
       (ThresholdActivationError ''threshold activation effective time is already occupied'')
    (bindR (one_or_none (filter (\<lambda>v. tv_family v = family \<and> tv_version v = version) (threshold_versions d)))
       (\<lambda>row. case row of
          None \<Rightarrow> Inl (ThresholdActivationError ''unknown threshold version'')
        | Some v \<Rightarrow>
            guardR (tv_approval v \<notin> set approved_statuses)
              (ThresholdActivationError ''threshold version is not Owner approved for OFFICIAL use'')
           (guardR (\<not> latest_validations_pass d (tv_uid v) instant)
              (ThresholdActivationError ''threshold version has not passed replay and shadow validation'')
              (Inr v)))))"

definition append_activation ::
    "threshold_version_row \<Rightarrow> int \<Rightarrow> string \<Rightarrow> string \<Rightarrow> int \<Rightarrow> string cmd" where
  "append_activation v instant acceptance_id evidence_uid now =
     bindC new_uid (\<lambda>uid.
     bindC (insert_activation
       \<lparr>an_uid = uid, an_family = tv_family v, an_version = tv_uid v, an_effective = instant,
        an_key = acceptance_id, an_reference = tv_reference v, an_evidence = evidence_uid,
        an_created = now\<rparr>) (\<lambda>_.
     returnC uid))"

text \<open>The transaction of \<open>activate_pair\<close>.\<close>

definition activate_command ::
    "string \<Rightarrow> string \<Rightarrow> int \<Rightarrow> string \<Rightarrow> string \<Rightarrow> string \<Rightarrow> int \<Rightarrow> (string \<times> string) cmd" where
  "activate_command guardian_version scout_version instant acceptance_id evidence_sha scope now =
     bindC (readC (\<lambda>d. activation_evidence_for_pair d evidence_sha guardian_version scout_version instant scope))
       (\<lambda>evidence.
     bindC (readC (\<lambda>d. activation_by_key d ''GUARDIAN'' acceptance_id)) (\<lambda>existing_guardian.
     bindC (readC (\<lambda>d. activation_by_key d ''SCOUT'' acceptance_id)) (\<lambda>existing_scout.
     case (existing_guardian, existing_scout) of
       (None, None) \<Rightarrow>
         bindC (readC (\<lambda>d. version_for_activation d ''GUARDIAN'' guardian_version instant)) (\<lambda>guardian.
         bindC (readC (\<lambda>d. version_for_activation d ''SCOUT'' scout_version instant)) (\<lambda>scout.
         bindC (append_activation guardian instant acceptance_id (ae_uid evidence) now) (\<lambda>guardian_uid.
         bindC (append_activation scout instant acceptance_id (ae_uid evidence) now) (\<lambda>scout_uid.
         returnC (guardian_uid, scout_uid)))))
     | (Some (ga, gv), Some (sa, sv)) \<Rightarrow>
         bindC (checkC (\<not> (tv_version gv = guardian_version \<and> tv_version sv = scout_version \<and>
             an_effective ga = instant \<and> an_effective sa = instant \<and>
             an_evidence ga = ae_uid evidence \<and> an_evidence sa = ae_uid evidence))
           (ThresholdActivationError ''threshold activation key was already used differently'')) (\<lambda>_.
         returnC (an_uid ga, an_uid sa))
     | _ \<Rightarrow> raiseC (ThresholdActivationError ''threshold activation pair is incomplete''))))"

text \<open>\<open>except DatabaseError\<close>.\<close>

definition catch_database_error :: "'a cmd \<Rightarrow> 'a cmd" where
  "catch_database_error m =
     (\<lambda>d. case m d of Inl (IntegrityError t) \<Rightarrow> Inl (ThresholdActivationError t) | r \<Rightarrow> r)"

definition activate_pair ::
    "string \<Rightarrow> string \<Rightarrow> int \<Rightarrow> string \<Rightarrow> string \<Rightarrow> string \<Rightarrow> int \<Rightarrow> (string \<times> string) cmd" where
  "activate_pair guardian_version scout_version effective_at acceptance_id evidence_sha scope now =
     bindC (checkC (blank acceptance_id) (ValueError ''threshold activation acceptance ID is required'')) (\<lambda>_.
     bindC (checkC (\<not> is_sha256 evidence_sha)
       (ThresholdActivationError ''activation evidence SHA-256 is required'')) (\<lambda>_.
     bindC (checkC (scope \<notin> {''PRODUCTION'', ''DEMO''})
       (ThresholdActivationError ''unknown activation evidence scope'')) (\<lambda>_.
     catch_database_error
       (activate_command guardian_version scout_version effective_at acceptance_id evidence_sha scope now))))"

end
