(* ===== verification/Commit_Decision.thy ===== *)
theory Commit_Decision
  imports Commit_State Thresholds
begin

text \<open>
  \<open>analysis_commit.py\<close>, \<open>_insert_guardian\<close> and \<open>_insert_scout\<close>: the protection chain and the
  opportunity findings of an analysis commit, taken from the commit's own facts, and the rows they
  write. \<open>insert_guardian_decides\<close> relates the first to \<open>guardian_decision\<close> of \<open>Guardian_Rules\<close>.
\<close>

section \<open>Quality and evidence views\<close>

record confidence_view =
  cv_level :: string
  cv_reference_status :: string

text \<open>\<open>contracts/models.py\<close>, \<open>confidence_from_quality\<close>.\<close>

definition confidence_from_quality ::
    "string \<Rightarrow> string \<Rightarrow> string \<Rightarrow> string \<Rightarrow> string \<Rightarrow> confidence_view" where
  "confidence_from_quality availability health fitness evidence rule_status =
     (if availability \<noteq> ''AVAILABLE'' \<or> health \<in> {''UNKNOWN'', ''UNHEALTHY''} \<or>
          fitness \<in> {''UNKNOWN'', ''UNFIT''} \<or> rule_status \<noteq> ''VALID''
      then \<lparr>cv_level = ''BLOCKED'', cv_reference_status = ''NO_JUDGMENT''\<rparr>
      else if health = ''DEGRADED'' \<or> fitness = ''FIT_WITH_LIMITATIONS'' \<or> evidence \<in> {''LOW'', ''UNKNOWN''}
      then \<lparr>cv_level = ''LOW'', cv_reference_status = ''OBSERVATION_ONLY''\<rparr>
      else if evidence = ''MEDIUM''
      then \<lparr>cv_level = ''MEDIUM'', cv_reference_status = ''LIMITED_REFERENCE''\<rparr>
      else \<lparr>cv_level = ''HIGH'', cv_reference_status = ''NORMAL_REFERENCE''\<rparr>)"

section \<open>Guardian\<close>

text \<open>\<open>{code: (uid, value)}\<close> of the commit's facts.\<close>

definition by_code :: "metric_fact list \<Rightarrow> (string \<rightharpoonup> string \<times> int)" where
  "by_code fact_list = pydict (map (\<lambda>(uid, code, v, _). (code, (uid, v))) fact_list)"

definition fact_values :: "metric_fact list \<Rightarrow> (string \<rightharpoonup> int)" where
  "fact_values fact_list = (\<lambda>c. map_option snd (by_code fact_list c))"

definition fact_uids :: "metric_fact list \<Rightarrow> (string \<rightharpoonup> string)" where
  "fact_uids fact_list = (\<lambda>c. map_option fst (by_code fact_list c))"

text \<open>The loop over the rules, accumulating findings and effects.\<close>

fun guardian_loop ::
    "(string \<rightharpoonup> string \<times> int) \<Rightarrow> (string \<rightharpoonup> int) \<Rightarrow>
     (string \<times> string \<times> severity \<times> guardian_effect) list \<Rightarrow>
     (risk_finding list \<times> guardian_effect list) result" where
  "guardian_loop fs thresholds [] = Inr ([], [])"
| "guardian_loop fs thresholds ((code, tag, sev, rule_effect) # rules) =
     bindR (case fs code of
         None \<Rightarrow> Inr None
       | Some (uid, v) \<Rightarrow>
           bindR (require (KeyError code) (thresholds code)) (\<lambda>t.
           Inr (if t \<le> v then Some uid else None))) (\<lambda>hit.
     bindR (guardian_loop fs thresholds rules) (\<lambda>(rs, es).
     Inr (case hit of
         None \<Rightarrow> (rs, es)
       | Some uid \<Rightarrow>
           (\<lparr>risk_tag = tag, severity = sev, reason_code = tag @ ''_THRESHOLD_MET'',
             primary_fact_uid = Some uid\<rparr> # rs, rule_effect # es))))"

definition commit_risks ::
    "analysis_commit_request \<Rightarrow> quality_row \<Rightarrow> metric_fact list \<Rightarrow> threshold_set \<Rightarrow>
     (risk_finding list \<times> guardian_effect list) result" where
  "commit_risks request quality fact_list thresholds =
     (let fs = by_code fact_list;
          missing = list_ex (\<lambda>code. fs code = None) guardian_codes;
          unavail = is_unavailable missing (rq_availability request) (qc_health quality) (qc_fitness quality);
          limited = is_limited (qc_health quality) (qc_fitness quality);
          base = (if unavail \<or> limited
            then ([limitation_finding unavail missing], [if unavail then PAUSE else ALLOW_WITH_WARNING])
            else ([], []))
      in if unavail then Inr base
         else bindR (guardian_loop fs (pydict (ts_entries thresholds)) guardian_rules) (\<lambda>(rs, es).
           Inr (fst base @ rs, snd base @ es)))"

definition risk_json :: "risk_finding \<Rightarrow> json" where
  "risk_json r = JArr [JStr (risk_tag r), JStr (severity_name (severity r)), JStr (reason_code r),
     JOpt (primary_fact_uid r)]"

definition guardian_document :: "string \<Rightarrow> guardian_effect \<Rightarrow> risk_finding list \<Rightarrow> json" where
  "guardian_document state_hash effect rs =
     JObj [(''state_evaluation_hash'', JStr state_hash), (''rule_version'', JStr ''guardian-v1''),
           (''effect'', JStr (effect_name effect)),
           (''risks'', JArr (map risk_json (sort_key risk_tag rs)))]"

text \<open>The rows of one finding.\<close>

definition insert_risk :: "string \<Rightarrow> risk_finding \<Rightarrow> unit cmd" where
  "insert_risk guardian_uid risk =
     bindC (insert_risk_tag
       \<lparr>rk_guardian = guardian_uid, rk_tag = risk_tag risk, rk_severity = severity risk,
        rk_reason = reason_code risk, rk_fact = primary_fact_uid risk\<rparr>) (\<lambda>_.
     case primary_fact_uid risk of
       None \<Rightarrow> returnC ()
     | Some f \<Rightarrow> insert_risk_evidence
         \<lparr>te_owner = guardian_uid, te_tag = risk_tag risk, te_fact = f, te_role = ''SUPPORTING''\<rparr>)"

record guardian_outcome =
  go_uid :: string
  go_hash :: string
  go_effect :: guardian_effect
  go_blocking :: bool
  go_risks :: "risk_finding list"

definition write_guardian ::
    "(string \<Rightarrow> string) \<Rightarrow> string \<Rightarrow> string \<Rightarrow> string \<Rightarrow> string \<Rightarrow> int \<Rightarrow> guardian_effect \<Rightarrow> severity \<Rightarrow>
     risk_finding list \<Rightarrow> guardian_outcome cmd" where
  "write_guardian sha state_uid state_hash subject snapshot_uid created effect max_sev rs =
     (let guardian_hash = canonical_hash sha (guardian_document state_hash effect rs) in
      bindC new_uid (\<lambda>guardian_uid.
      let blocks = (effect \<in> {SUPPRESS, PAUSE}) in
      bindC (insert_guardian_evaluation
        \<lparr>g_uid = guardian_uid, g_state = state_uid, g_subject = subject, g_snapshot = snapshot_uid,
         g_rule_version = ''guardian-v1'', g_effect = effect, g_blocking = blocks,
         g_severity = max_sev, g_hash = guardian_hash, g_created = created\<rparr>) (\<lambda>_.
      bindC (forC (insert_risk guardian_uid) rs) (\<lambda>_.
      returnC \<lparr>go_uid = guardian_uid, go_hash = guardian_hash, go_effect = effect,
        go_blocking = blocks, go_risks = rs\<rparr>))))"

definition insert_guardian ::
    "(string \<Rightarrow> string) \<Rightarrow> snapshot_row \<Rightarrow> quality_row \<Rightarrow> string \<Rightarrow> string \<Rightarrow> analysis_commit_request \<Rightarrow>
     metric_fact list \<Rightarrow> threshold_set \<Rightarrow> guardian_outcome cmd" where
  "insert_guardian sha snapshot quality state_uid state_hash request fact_list thresholds =
     bindC (readC (\<lambda>_. commit_risks request quality fact_list thresholds)) (\<lambda>(rs, es).
     let effect = pymax_or effect_order ALLOW es;
         max_sev = pymax_or severity_order SEV_NONE (map severity rs) in
     write_guardian sha state_uid state_hash (snap_subject snapshot) (rq_snapshot_uid request)
       (snap_as_of snapshot) effect max_sev rs)"

section \<open>Scout\<close>

definition opportunity_json :: "opportunity_finding \<Rightarrow> json" where
  "opportunity_json f =
     JArr [JStr (opportunity_tag f), JStr (opp_reason_code f), JStr (opp_primary_fact_uid f)]"

definition scout_document ::
    "string \<Rightarrow> string \<Rightarrow> string \<Rightarrow> bool \<Rightarrow> opportunity_finding list \<Rightarrow> json" where
  "scout_document guardian_hash status strength suppressed fs =
     JObj [(''guardian_hash'', JStr guardian_hash), (''rule_version'', JStr ''scout-v1''),
           (''status'', JStr status), (''strength'', JStr strength), (''suppressed'', JBool suppressed),
           (''tags'', JArr (map opportunity_json (sort_key opportunity_tag fs)))]"

record scout_outcome =
  so_uid :: string
  so_hash :: string
  so_status :: string
  so_strength :: string
  so_suppressed :: bool
  so_opportunities :: "opportunity_finding list"

definition insert_opportunity :: "string \<Rightarrow> opportunity_finding \<Rightarrow> unit cmd" where
  "insert_opportunity scout_uid item =
     bindC (insert_opportunity_tag
       \<lparr>op_scout = scout_uid, op_tag = opportunity_tag item, op_reason = opp_reason_code item,
        op_fact = opp_primary_fact_uid item\<rparr>) (\<lambda>_.
     insert_opportunity_evidence
       \<lparr>te_owner = scout_uid, te_tag = opportunity_tag item, te_fact = opp_primary_fact_uid item,
        te_role = ''SUPPORTING''\<rparr>)"

definition write_scout ::
    "(string \<Rightarrow> string) \<Rightarrow> string \<Rightarrow> string \<Rightarrow> guardian_effect \<Rightarrow> string \<Rightarrow> string \<Rightarrow> string \<Rightarrow> int \<Rightarrow>
     opportunity_finding list \<Rightarrow> scout_outcome cmd" where
  "write_scout sha guardian_uid guardian_hash effect state_uid subject snapshot_uid created found =
     (let n = List.length found;
          status = scout_status n; strength = scout_strength n;
          suppressed = (effect \<in> {SUPPRESS, PAUSE});
          scout_hash = canonical_hash sha (scout_document guardian_hash status strength suppressed found) in
      bindC new_uid (\<lambda>scout_uid.
      bindC (insert_scout_evaluation
        \<lparr>s_uid = scout_uid, s_guardian = guardian_uid, s_state = state_uid, s_subject = subject,
         s_snapshot = snapshot_uid, s_rule_version = ''scout-v1'', s_status = status,
         s_strength = strength, s_suppressed = suppressed, s_effect = effect, s_hash = scout_hash,
         s_created = created\<rparr>) (\<lambda>_.
      bindC (forC (insert_opportunity scout_uid) found) (\<lambda>_.
      returnC \<lparr>so_uid = scout_uid, so_hash = scout_hash, so_status = status, so_strength = strength,
        so_suppressed = suppressed, so_opportunities = found\<rparr>))))"

definition insert_scout ::
    "(string \<Rightarrow> string) \<Rightarrow> snapshot_row \<Rightarrow> string \<Rightarrow> guardian_outcome \<Rightarrow> metric_fact list \<Rightarrow>
     threshold_set \<Rightarrow> scout_outcome cmd" where
  "insert_scout sha snapshot state_uid guardian fact_list thresholds =
     bindC (readC (\<lambda>_. scout_findings (by_code fact_list) (pydict (ts_entries thresholds)))) (\<lambda>found.
     write_scout sha (go_uid guardian) (go_hash guardian) (go_effect guardian) state_uid
       (snap_subject snapshot) (snap_uid snapshot) (snap_as_of snapshot) found)"

section \<open>The commit takes the decision of \<open>guardian.py\<close>\<close>

lemma guardian_loop_spec:
  fixes f :: "string \<rightharpoonup> string \<times> int"
  assumes "fst ` set rules \<subseteq> dom t"
  defines "hit \<equiv> \<lambda>r. \<exists>v. map_option snd (f (fst r)) = Some v \<and> the (t (fst r)) \<le> v"
  shows "guardian_loop f t rules = Inr
    (map (rule_finding (\<lambda>c. map_option fst (f c))) (filter hit rules),
     map (\<lambda>r. snd (snd (snd r))) (filter hit rules))"
  using assms(1)
proof (induction rules)
  case (Cons r rules)
  obtain c tag sev e where r: "r = (c, tag, sev, e)" by (cases r)
  obtain b where b: "t c = Some b" using Cons.prems by (auto simp: r)
  have IH: "guardian_loop f t rules = Inr
    (map (rule_finding (\<lambda>c. map_option fst (f c))) (filter hit rules),
     map (\<lambda>r. snd (snd (snd r))) (filter hit rules))"
    using Cons by simp
  show ?case
  proof (cases "f c")
    case None
    then have "\<not> hit r" by (simp add: hit_def r)
    then show ?thesis using None by (simp add: r IH)
  next
    case (Some uv)
    then have "hit r \<longleftrightarrow> b \<le> snd uv" by (cases uv) (simp add: hit_def r b)
    then show ?thesis using Some by (cases uv) (simp add: r IH b rule_finding_def)
  qed
qed simp

text \<open>
  With complete thresholds, the findings and the effect of the commit are those of
  \<open>guardian_decision\<close> on the same facts and qualities.
\<close>

lemma commit_risks_decision:
  assumes "set guardian_codes \<subseteq> dom (pydict (ts_entries thresholds))"
    and "commit_risks request quality fact_list thresholds = Inr (rs, es)"
  shows "guardian_decision (fact_values fact_list) (Some (pydict (ts_entries thresholds)))
      (rq_availability request) (qc_health quality) (qc_fitness quality) (Some (fact_uids fact_list)) =
    Inr (conclude (if is_unavailable (missing_metrics (fact_values fact_list)) (rq_availability request)
            (qc_health quality) (qc_fitness quality) then []
          else map fst (rules_hit (fact_values fact_list) (pydict (ts_entries thresholds)))) rs es
        (is_unavailable (missing_metrics (fact_values fact_list)) (rq_availability request)
            (qc_health quality) (qc_fitness quality)))"
proof -
  let ?f = "by_code fact_list" and ?t = "pydict (ts_entries thresholds)"
  let ?m = "fact_values fact_list"
  let ?un = "is_unavailable (missing_metrics ?m) (rq_availability request) (qc_health quality) (qc_fitness quality)"
  have missing: "list_ex (\<lambda>code. ?f code = None) guardian_codes = missing_metrics ?m"
    by (simp add: missing_metrics_def fact_values_def)
  show ?thesis
  proof (cases ?un)
    case True
    then have "rs = [limitation_finding True (missing_metrics ?m)]" "es = [PAUSE]"
      using assms(2) by (simp_all add: commit_risks_def missing)
    then show ?thesis
      using True by (simp add: decision_unavailable conclude_def pymax_or_def limitation_finding_def)
  next
    case False
    then have nm: "\<not> missing_metrics ?m" by (simp add: is_unavailable_def)
    have loop: "guardian_loop ?f ?t guardian_rules =
        Inr (map (rule_finding (fact_uids fact_list)) (rules_hit ?m ?t),
          map (\<lambda>(_, _, _, e). e) (rules_hit ?m ?t))"
      using guardian_loop_spec [of guardian_rules ?t ?f] assms(1)
      by (simp add: set_guardian_rules_codes rules_hit_def case_prod_unfold fact_values_def [abs_def]
          fact_uids_def [abs_def])
    have "rs = (if is_limited (qc_health quality) (qc_fitness quality) then [limitation_finding False False] else []) @
          map (rule_finding (fact_uids fact_list)) (rules_hit ?m ?t)"
      "es = base_effects (is_limited (qc_health quality) (qc_fitness quality)) @
          map (\<lambda>(_, _, _, e). e) (rules_hit ?m ?t)"
      using assms(2) False nm by (simp_all add: commit_risks_def missing loop base_effects_def split: if_splits)
    then show ?thesis using False by (simp add: decision_available [OF False assms(1)])
  qed
qed

end
