(* ===== verification/Decision_Theorems.thy ===== *)
theory Decision_Theorems
  imports Commit_Decision
begin

text \<open>
  The properties of the protection chain: what a Guardian decision guarantees about its effect, its
  severity and its blocking flag, how the confidence shown to the reader relates to it, and what the
  Scout derives from its findings. The proofs apply the lemmas of \<open>Guardian_Rules\<close> and
  \<open>Scout_Rules\<close>; the witnesses use one set of metrics and thresholds.
\<close>

section \<open>Samples\<close>

definition uniform_metrics :: "int \<Rightarrow> (string \<rightharpoonup> int)" where
  "uniform_metrics v = (\<lambda>c. if c \<in> set guardian_codes then Some v else None)"

lemma uniform_metrics_dom [simp]: "dom (uniform_metrics v) = set guardian_codes"
  by (auto simp: uniform_metrics_def split: if_splits)

lemma uniform_metrics_at: "c \<in> set guardian_codes \<Longrightarrow> uniform_metrics v c = Some v"
  by (simp add: uniform_metrics_def)

lemma critical_codes:
  "''BREADTH_COLLAPSE_PPM'' \<in> set guardian_codes" "''STAMPEDE_RISK_PPM'' \<in> set guardian_codes"
  "''T1_CHASING_RISK_PPM'' \<in> set guardian_codes"
  by (simp_all add: guardian_codes_def guardian_rules_def)

lemma uniform_not_missing [simp]: "\<not> missing_metrics (uniform_metrics v)"
  by (simp add: missing_metrics_iff)

lemma uniform_decision:
  "\<exists>d. guardian_decision (uniform_metrics v) (Some (uniform_metrics t)) av dh fit u = Inr d"
  using decision_total [of "uniform_metrics t"] by (metis order_refl uniform_metrics_dom)

section \<open>Guardian\<close>

text \<open>C8: missing data stops everything. When the subject is not available, the data health is unknown
  or unhealthy, the fitness is unknown or unfit, or a required metric is missing, the decision pauses
  and blocks with a critical data limitation as its only finding, whatever metrics and thresholds
  say.\<close>

theorem guardian_pauses_when_unavailable:
  assumes "av \<noteq> ''AVAILABLE'' \<or> dh \<in> {''UNKNOWN'', ''UNHEALTHY''} \<or> fit \<in> {''UNKNOWN'', ''UNFIT''} \<or>
    \<not> set guardian_codes \<subseteq> dom m"
  shows "guardian_decision m t av dh fit u =
    Inr \<lparr>threshold_matches = [],
      risks = [\<lparr>risk_tag = ''DATA_LIMITATION'', severity = SEV_CRITICAL,
        reason_code = (if set guardian_codes \<subseteq> dom m then ''QUALITY_REQUIRES_PAUSE''
          else ''REQUIRED_GUARDIAN_FACTS_MISSING''), primary_fact_uid = None\<rparr>],
      guardian_effect = PAUSE, blocking = True, max_severity = SEV_CRITICAL, unavailable = True\<rparr>"
proof -
  have "is_unavailable (missing_metrics m) av dh fit"
    using assms by (auto simp: is_unavailable_def missing_metrics_iff)
  then show ?thesis by (simp add: decision_unavailable limitation_finding_def missing_metrics_iff)
qed

theorem guardian_pauses_when_unavailable_witness:
  "\<exists>d. guardian_decision (uniform_metrics 0) None ''AVAILABLE'' ''UNHEALTHY'' ''FIT'' None = Inr d \<and>
    guardian_effect d = PAUSE"
  using guardian_pauses_when_unavailable [of "''AVAILABLE''" "''UNHEALTHY''" "''FIT''" "uniform_metrics 0" None None]
  by simp

text \<open>C9: with a threshold for every code the decision returns; for available data its effect is the
  strongest effect among the rules whose metric reached its threshold and the warning of limited
  quality, its severity is the strongest severity of its findings, and it blocks exactly from SUPPRESS
  on.\<close>

theorem guardian_decides_strongest:
  assumes t: "set guardian_codes \<subseteq> dom t"
    and av: "\<not> is_unavailable (missing_metrics m) av dh fit"
  shows "\<exists>d. guardian_decision m (Some t) av dh fit u = Inr d \<and>
    guardian_effect d = Max (insert ALLOW
      ((if is_limited dh fit then {ALLOW_WITH_WARNING} else {}) \<union>
       {e. \<exists>c tag sev v. (c, tag, sev, e) \<in> set guardian_rules \<and> m c = Some v \<and> the (t c) \<le> v})) \<and>
    max_severity d = Max (insert SEV_NONE (severity ` set (risks d))) \<and>
    (blocking d \<longleftrightarrow> SUPPRESS \<le> guardian_effect d)"
proof -
  obtain d where d: "guardian_decision m (Some t) av dh fit u = Inr d" by (rule decision_total [OF t])
  have hit: "(\<lambda>(_, _, _, e). e) ` set (rules_hit m t) =
      {e. \<exists>c tag sev v. (c, tag, sev, e) \<in> set guardian_rules \<and> m c = Some v \<and> the (t c) \<le> v}"
    by (force simp: rules_hit_def image_iff)
  have "set (base_effects (is_limited dh fit)) = (if is_limited dh fit then {ALLOW_WITH_WARNING} else {})"
    by (simp add: base_effects_def)
  then have "guardian_effect d = Max (insert ALLOW
      ((if is_limited dh fit then {ALLOW_WITH_WARNING} else {}) \<union>
       {e. \<exists>c tag sev v. (c, tag, sev, e) \<in> set guardian_rules \<and> m c = Some v \<and> the (t c) \<le> v}))"
    unfolding decision_effect [OF t d] hit using av by simp
  then show ?thesis
    using d decision_severity [OF d] decision_blocking [OF d] blocking_iff_ge by metis
qed

theorem guardian_decides_strongest_witness:
  "\<exists>d. guardian_decision (uniform_metrics 5) (Some (uniform_metrics 5)) ''AVAILABLE'' ''HEALTHY'' ''FIT'' None = Inr d \<and>
    (blocking d \<longleftrightarrow> SUPPRESS \<le> guardian_effect d)"
  using guardian_decides_strongest [of "uniform_metrics 5" "uniform_metrics 5" "''AVAILABLE''" "''HEALTHY''" "''FIT''" None]
  by (auto simp: is_unavailable_def)

text \<open>C10: protection is monotone: with complete metrics, raising any metric or lowering any threshold
  never weakens the Guardian's effect.\<close>

theorem guardian_monotone:
  assumes "set guardian_codes \<subseteq> dom t" and "set guardian_codes \<subseteq> dom t'" and "set guardian_codes \<subseteq> dom m"
    and "\<forall>c \<in> set guardian_codes. \<forall>v. m c = Some v \<longrightarrow> (\<exists>v'. m' c = Some v' \<and> v \<le> v')"
    and "\<forall>c \<in> set guardian_codes. the (t' c) \<le> the (t c)"
    and "guardian_decision m (Some t) av dh fit u = Inr d"
    and "guardian_decision m' (Some t') av dh fit u' = Inr d'"
  shows "guardian_effect d \<le> guardian_effect d'"
  using decision_mono [OF assms(1,2) _ assms(3) _ assms(6,7)] assms(4,5) by blast

theorem guardian_monotone_witness:
  "\<exists>d d'. guardian_decision (uniform_metrics 3) (Some (uniform_metrics 7)) ''AVAILABLE'' ''HEALTHY'' ''FIT'' None = Inr d \<and>
    guardian_decision (uniform_metrics 9) (Some (uniform_metrics 6)) ''AVAILABLE'' ''HEALTHY'' ''FIT'' None = Inr d' \<and>
    guardian_effect d \<le> guardian_effect d'"
proof -
  obtain d where d: "guardian_decision (uniform_metrics 3) (Some (uniform_metrics 7)) ''AVAILABLE'' ''HEALTHY'' ''FIT'' None = Inr d"
    using uniform_decision by blast
  obtain d' where d': "guardian_decision (uniform_metrics 9) (Some (uniform_metrics 6)) ''AVAILABLE'' ''HEALTHY'' ''FIT'' None = Inr d'"
    using uniform_decision by blast
  have "guardian_effect d \<le> guardian_effect d'"
    by (rule guardian_monotone [OF _ _ _ _ _ d d']) (simp_all add: uniform_metrics_def dom_def)
  then show ?thesis using d d' by blast
qed

text \<open>C11: available data is blocked by exactly three metrics: the decision blocks if and only if breadth
  collapse, stampede risk or next-day chasing risk reached its threshold.\<close>

theorem guardian_blocks_iff_critical:
  assumes t: "set guardian_codes \<subseteq> dom t" and m: "set guardian_codes \<subseteq> dom m"
    and q: "dh \<in> {''HEALTHY'', ''DEGRADED''}" "fit \<in> {''FIT'', ''FIT_WITH_LIMITATIONS''}"
    and d: "guardian_decision m (Some t) ''AVAILABLE'' dh fit u = Inr d"
  shows "blocking d \<longleftrightarrow>
    (\<exists>c \<in> {''BREADTH_COLLAPSE_PPM'', ''STAMPEDE_RISK_PPM'', ''T1_CHASING_RISK_PPM''}. the (t c) \<le> the (m c))"
proof -
  have av: "\<not> is_unavailable (missing_metrics m) ''AVAILABLE'' dh fit"
    using m q by (auto simp: is_unavailable_def missing_metrics_iff)
  define C where "C = {''BREADTH_COLLAPSE_PPM'', ''STAMPEDE_RISK_PPM'', ''T1_CHASING_RISK_PPM''}"
  have critical_rule: "SUPPRESS \<le> (case r of (_, _, _, e) \<Rightarrow> e) \<longleftrightarrow> fst r \<in> C"
    if "r \<in> set guardian_rules" for r
    using blocking_rules [OF that] unfolding C_def blocking_iff_ge by (cases r) simp
  let ?E = "insert ALLOW (set (base_effects (is_limited dh fit)) \<union> (\<lambda>(_, _, _, e). e) ` set (rules_hit m t))"
  have e: "guardian_effect d = Max ?E" using decision_effect [OF t d] av by simp
  have "blocking d \<longleftrightarrow> SUPPRESS \<le> Max ?E" using decision_blocking [OF d] by (simp only: blocking_iff_ge e)
  also have "\<dots> \<longleftrightarrow> (\<exists>e \<in> ?E. SUPPRESS \<le> e)" by (rule Max_ge_iff) simp_all
  also have "\<dots> \<longleftrightarrow> (\<exists>r \<in> set (rules_hit m t). SUPPRESS \<le> (case r of (_, _, _, e) \<Rightarrow> e))"
    by (simp add: base_effects_def less_eq_guardian_effect_def bex_Un)
  also have "\<dots> \<longleftrightarrow> (\<exists>r \<in> set (rules_hit m t). fst r \<in> C)"
    by (rule bex_cong [OF refl], rule critical_rule) (simp add: rules_hit_def)
  also have "\<dots> \<longleftrightarrow> (\<exists>c \<in> C. c \<in> set guardian_codes \<and> (\<exists>v. m c = Some v \<and> the (t c) \<le> v))"
    unfolding rules_hit_def set_guardian_rules_codes [symmetric] by fastforce
  also have "\<dots> \<longleftrightarrow> (\<exists>c \<in> C. the (t c) \<le> the (m c))"
    using m critical_codes by (fastforce simp: C_def)
  finally show ?thesis unfolding C_def .
qed

theorem guardian_blocks_iff_critical_witness:
  "\<exists>d. guardian_decision (uniform_metrics 3) (Some (uniform_metrics 7)) ''AVAILABLE'' ''DEGRADED'' ''FIT'' None = Inr d \<and>
    \<not> blocking d"
proof -
  obtain d where d: "guardian_decision (uniform_metrics 3) (Some (uniform_metrics 7)) ''AVAILABLE'' ''DEGRADED'' ''FIT'' None = Inr d"
    using uniform_decision by blast
  have "\<not> blocking d"
    using guardian_blocks_iff_critical [OF _ _ _ _ d] uniform_metrics_at critical_codes by simp
  then show ?thesis using d by blast
qed



section \<open>Scout\<close>

text \<open>C13: with a threshold for every code the Scout finds exactly the opportunities whose fact reached
  its threshold, one per tag and at most eight, each citing that fact; it is ACTIVE from three findings
  on and its strength is HIGH from six.\<close>

theorem scout_finds_reached:
  assumes "set scout_codes \<subseteq> dom t"
  shows "\<exists>found. scout_findings f t = Inr found \<and> length found \<le> 8 \<and> distinct (map opportunity_tag found) \<and>
    set found = {opportunity tag uid | code tag uid v. (code, tag) \<in> set scout_rules \<and> f code = Some (uid, v) \<and> the (t code) \<le> v} \<and>
    (scout_status (length found) = ''ACTIVE'' \<longleftrightarrow> 3 \<le> length found) \<and>
    (scout_strength (length found) = ''HIGH'' \<longleftrightarrow> 6 \<le> length found)"
proof -
  define hit where "hit = filter (\<lambda>(code, tag). \<exists>u v. f code = Some (u, v) \<and> the (t code) \<le> v) scout_rules"
  define found where "found = map (\<lambda>(code, tag). opportunity tag (fst (the (f code)))) hit"
  have run: "scout_findings f t = Inr found"
    unfolding found_def hit_def by (rule scout_findings_total [OF assms])
  have "map opportunity_tag found = map snd hit"
    by (simp add: found_def opportunity_def case_prod_unfold)
  moreover have "distinct (map snd hit)"
    unfolding hit_def by (rule distinct_map_filter) (simp add: scout_rules_def)
  moreover have "set found = {opportunity tag uid | code tag uid v.
      (code, tag) \<in> set scout_rules \<and> f code = Some (uid, v) \<and> the (t code) \<le> v}"
    unfolding found_def hit_def by (force simp: image_iff)
  ultimately show ?thesis
    using run scout_findings_bound [OF assms run] by (simp add: scout_status_def scout_strength_def)
qed

theorem scout_finds_reached_witness:
  "\<exists>found. scout_findings (\<lambda>_. None) (\<lambda>_. Some 1) = Inr found \<and> length found \<le> 8"
  using scout_finds_reached [of "\<lambda>_. Some 1" "\<lambda>_. None"] by auto

end
