(* ===== verification/Activation_Evidence.thy ===== *)
theory Activation_Evidence
  imports Thresholds
begin

text \<open>
  \<open>thresholds.py\<close>, activation evidence: the artifact of a production (or demo) activation is read
  from the artifact store, checked field by field, and recorded once. A JSON document is a \<open>json\<close>
  value; \<open>get\<close> is \<open>dict.get\<close> on it, with the last value of a repeated key and \<open>None\<close> (\<open>JNull\<close>) for a
  missing one. Python compares numbers by value, so \<open>true\<close> equals \<open>1\<close>. Floats are not modelled.
\<close>

section \<open>JSON accessors\<close>

type_synonym json_object = "(string \<times> json) list"

definition jget :: "json_object \<Rightarrow> string \<Rightarrow> json" where
  "jget ps key = (case pydict ps key of None \<Rightarrow> JNull | Some v \<Rightarrow> v)"

definition is_num :: "int \<Rightarrow> json \<Rightarrow> bool" where
  "is_num n j = (case j of JInt m \<Rightarrow> m = n | JBool b \<Rightarrow> (if b then 1 else 0) = n | _ \<Rightarrow> False)"

text \<open>\<open>value in container\<close> of hashable strings: a list or a dict is unhashable.\<close>

definition member_of :: "json \<Rightarrow> string list \<Rightarrow> bool result" where
  "member_of j names = (case j of
     JArr _ \<Rightarrow> Inl (TypeError ''unhashable type'')
   | JObj _ \<Rightarrow> Inl (TypeError ''unhashable type'')
   | JStr s \<Rightarrow> Inr (s \<in> set names)
   | _ \<Rightarrow> Inr False)"

definition activation_mapping :: "json \<Rightarrow> json_object result" where
  "activation_mapping value = (case value of JObj ps \<Rightarrow> Inr ps
     | _ \<Rightarrow> Inl (ThresholdActivationError ''must be an object''))"

definition activation_text :: "json \<Rightarrow> string result" where
  "activation_text value = (case value of
     JStr s \<Rightarrow> guardR (blank s) (ThresholdActivationError ''is required'') (Inr s)
   | _ \<Rightarrow> Inl (ThresholdActivationError ''is required''))"

definition activation_sha256 :: "json \<Rightarrow> string result" where
  "activation_sha256 value = (case value of
     JStr s \<Rightarrow> guardR (\<not> is_sha256 s) (ThresholdActivationError ''must be a SHA-256'') (Inr s)
   | _ \<Rightarrow> Inl (ThresholdActivationError ''must be a SHA-256''))"

definition activation_instant :: "string \<Rightarrow> int result" where
  "activation_instant s =
     require (ThresholdActivationError ''observed_at must be canonical RFC3339'') (canonical_instant s)"

text \<open>\<open>artifacts.open_verified\<close> (\<open>artifacts.py\<close>) followed by \<open>json.load\<close>.\<close>

definition open_verified :: "db \<Rightarrow> string \<Rightarrow> artifact_file result" where
  "open_verified d digest =
     guardR (\<not> is_sha256 digest)
       (ArtifactError ''artifact digest must be 64 lowercase hexadecimal characters'')
     (case artifact_files d digest of
        None \<Rightarrow> Inl (ArtifactError ''artifact file is missing'')
      | Some Tampered \<Rightarrow> Inl (ArtifactError ''artifact hash mismatch'')
      | Some f \<Rightarrow> Inr f)"

definition load_json :: "db \<Rightarrow> string \<Rightarrow> json option" where
  "load_json d digest = (case open_verified d digest of Inr (JsonFile j) \<Rightarrow> Some j | _ \<Rightarrow> None)"

section \<open>The evidence documents\<close>

record evidence_reference =
  er_uid :: string
  er_version :: string
  er_hash :: string

record activation_evidence_doc =
  ed_sha :: string
  ed_replay :: string
  ed_guardian :: evidence_reference
  ed_scout :: evidence_reference
  ed_scope :: string
  ed_observed :: int

definition threshold_reference :: "json \<Rightarrow> evidence_reference result" where
  "threshold_reference value =
     bindR (activation_mapping value) (\<lambda>doc.
     bindR (activation_text (jget doc ''uid'')) (\<lambda>uid.
     bindR (activation_text (jget doc ''version'')) (\<lambda>version.
     bindR (activation_sha256 (jget doc ''definition_hash'')) (\<lambda>hash.
     Inr \<lparr>er_uid = uid, er_version = version, er_hash = hash\<rparr>))))"

definition activation_sanity :: "json \<Rightarrow> unit result" where
  "activation_sanity value =
     bindR (activation_mapping value) (\<lambda>r.
     guardR (jget r ''passed'' \<noteq> JBool True \<or> jget r ''failure_codes'' \<noteq> JArr [])
       (ThresholdActivationError ''CR-005 sanity result must pass without failures'') (Inr ()))"

definition activation_side_effect_audit :: "json \<Rightarrow> unit result" where
  "activation_side_effect_audit value =
     bindR (activation_mapping value) (\<lambda>r.
     guardR (jget r ''passed'' \<noteq> JBool True \<or> jget r ''official_business_side_effect_delta'' \<noteq> JInt 0)
       (ThresholdActivationError ''activation evidence requires zero official side effects'') (Inr ()))"

definition replay_result ::
    "db \<Rightarrow> json \<Rightarrow> evidence_reference \<Rightarrow> evidence_reference \<Rightarrow> string result" where
  "replay_result d value guardian scout =
     bindR (activation_mapping value) (\<lambda>r.
     guardR (jget r ''passed'' \<noteq> JBool True)
       (ThresholdActivationError ''activation evidence requires a passing replay result'')
    (bindR (activation_sha256 (jget r ''evidence_sha256'')) (\<lambda>replay_sha.
     bindR (require (ThresholdActivationError ''cannot verify replay calibration evidence'')
       (load_json d replay_sha)) (\<lambda>document.
     bindR (activation_mapping document) (\<lambda>replay.
     guardR (\<not> is_num 2 (jget replay ''schema_version'') \<or>
         jget replay ''evidence_kind'' \<noteq> JStr ''CR005_CALIBRATION'' \<or>
         jget replay ''validation_kind'' \<noteq> JStr ''REPLAY'' \<or>
         jget replay ''passed'' \<noteq> JBool True \<or>
         jget replay ''failure_codes'' \<noteq> JArr [])
       (ThresholdActivationError ''replay calibration evidence is not production eligible'')
    (bindR (threshold_reference (jget replay ''guardian_threshold'')) (\<lambda>g.
     guardR (g \<noteq> guardian)
       (ThresholdActivationError ''replay calibration evidence is not production eligible'')
    (bindR (threshold_reference (jget replay ''scout_threshold'')) (\<lambda>s.
     guardR (s \<noteq> scout)
       (ThresholdActivationError ''replay calibration evidence is not production eligible'')
       (Inr replay_sha))))))))))"

text \<open>One observation: its uid, its lineage and its quality.\<close>

definition quality_names :: "string list" where
  "quality_names = [''FIT'', ''FIT_WITH_LIMITATIONS'', ''UNFIT'']"

definition parse_observation ::
    "string \<Rightarrow> json \<Rightarrow> (string \<times> (string \<times> string \<times> string) \<times> string) result" where
  "parse_observation producer raw =
     bindR (activation_mapping raw) (\<lambda>obs.
     bindR (activation_text (jget obs ''observation_uid'')) (\<lambda>uid.
     bindR (activation_text (jget obs ''snapshot_uid'')) (\<lambda>snapshot.
     bindR (activation_sha256 (jget obs ''snapshot_hash'')) (\<lambda>snapshot_hash.
     bindR (activation_sha256 (jget obs ''input_manifest_hash'')) (\<lambda>manifest_hash.
     bindR (activation_sha256 (jget obs ''metric_evidence_sha256'')) (\<lambda>_.
     guardR (jget obs ''producer_version'' \<noteq> JStr producer)
       (ThresholdActivationError ''observation producer version mismatch'')
    (bindR (member_of (jget obs ''market_phase'') [''CONTINUOUS_AM'', ''CONTINUOUS_PM'']) (\<lambda>continuous.
     guardR (\<not> continuous)
       (ThresholdActivationError ''activation evidence requires continuous-session observations'')
    (bindR (member_of (jget obs ''quality_status'') quality_names) (\<lambda>known.
     guardR (\<not> known) (ThresholdActivationError ''invalid activation observation quality'')
    (case jget obs ''quality_status'' of
       JStr quality \<Rightarrow> Inr (uid, (snapshot, snapshot_hash, manifest_hash), quality)
     | _ \<Rightarrow> Inl (TypeError ''unreachable''))))))))))))"

definition quality_distribution_matches :: "json_object \<Rightarrow> string list \<Rightarrow> bool" where
  "quality_distribution_matches distribution seen =
     (set (map fst distribution) = set quality_names \<and>
      list_all (\<lambda>q. is_num (int (List.length (filter (\<lambda>x. x = q) seen))) (jget distribution q))
        quality_names)"

definition parse_production_evidence ::
    "(string \<Rightarrow> string) \<Rightarrow> db \<Rightarrow> string \<Rightarrow> json \<Rightarrow> activation_evidence_doc result" where
  "parse_production_evidence sha d evidence_sha value =
     bindR (activation_mapping value) (\<lambda>doc.
     guardR (\<not> is_num 1 (jget doc ''schema_version''))
       (ThresholdActivationError ''unsupported activation evidence schema'')
    (guardR (jget doc ''evidence_kind'' \<noteq> JStr ''CR005_PRODUCTION_ACTIVATION'')
       (ThresholdActivationError ''invalid activation evidence kind'')
    (guardR (jget doc ''evidence_origin'' \<noteq> JStr ''LIVE_SHADOW'')
       (ThresholdActivationError ''fixture evidence cannot activate production thresholds'')
    (guardR (jget doc ''validation_kind'' \<noteq> JStr ''SHADOW'')
       (ThresholdActivationError ''production activation evidence requires Shadow validation'')
    (bindR (activation_text (jget doc ''observed_at'')) (\<lambda>observed_text.
     bindR (activation_instant observed_text) (\<lambda>observed_at.
     bindR (threshold_reference (jget doc ''guardian_threshold'')) (\<lambda>guardian.
     bindR (threshold_reference (jget doc ''scout_threshold'')) (\<lambda>scout.
     bindR (activation_text (jget doc ''metric_producer_version'')) (\<lambda>producer.
     case jget doc ''observations'' of
       JArr raws \<Rightarrow>
         guardR (List.length raws < 20)
           (ThresholdActivationError ''activation evidence requires at least 20 observations'')
        (bindR (mapR (parse_observation producer) raws) (\<lambda>observations.
         let ids = map fst observations;
             lineages = map (fst \<circ> snd) observations;
             qualities = map (snd \<circ> snd) observations
         in guardR (\<not> distinct ids) (ThresholdActivationError ''activation observations must be distinct'')
           (guardR (jget doc ''observation_identity_hash'' \<noteq>
                JStr (canonical_hash sha (JArr (map JStr ids))))
              (ThresholdActivationError ''activation observation identity lineage mismatch'')
           (guardR (jget doc ''snapshot_input_lineage_hash'' \<noteq>
                JStr (canonical_hash sha (JArr (map (\<lambda>(u, h, m). JArr [JStr u, JStr h, JStr m]) lineages))))
              (ThresholdActivationError ''activation snapshot/input lineage mismatch'')
           (bindR (activation_mapping (jget doc ''quality_distribution'')) (\<lambda>distribution.
            guardR (\<not> quality_distribution_matches distribution qualities)
              (ThresholdActivationError ''activation quality distribution mismatch'')
           (bindR (activation_sanity (jget doc ''sanity_result'')) (\<lambda>_.
            bindR (activation_side_effect_audit (jget doc ''side_effect_audit'')) (\<lambda>_.
            bindR (replay_result d (jget doc ''replay_result'') guardian scout) (\<lambda>replay_sha.
            Inr \<lparr>ed_sha = evidence_sha, ed_replay = replay_sha, ed_guardian = guardian,
                 ed_scout = scout, ed_scope = ''PRODUCTION'', ed_observed = observed_at\<rparr>))))))))))
     | _ \<Rightarrow> Inl (ThresholdActivationError ''activation evidence requires at least 20 observations'')))))))))))"

definition read_production_evidence ::
    "(string \<Rightarrow> string) \<Rightarrow> db \<Rightarrow> string \<Rightarrow> activation_evidence_doc result" where
  "read_production_evidence sha d evidence_sha =
     bindR (require (ThresholdActivationError ''cannot read typed activation evidence artifact'')
       (load_json d evidence_sha)) (\<lambda>document.
     parse_production_evidence sha d evidence_sha document)"

definition read_demo_evidence :: "db \<Rightarrow> string \<Rightarrow> activation_evidence_doc result" where
  "read_demo_evidence d evidence_sha =
     bindR (require (ThresholdActivationError ''cannot read demo activation evidence artifact'')
       (load_json d evidence_sha)) (\<lambda>document.
     bindR (activation_mapping document) (\<lambda>doc.
     guardR (\<not> is_num 1 (jget doc ''schema_version'') \<or>
         jget doc ''evidence_kind'' \<noteq> JStr ''M9_DEMO_ACTIVATION'' \<or>
         jget doc ''evidence_origin'' \<noteq> JStr ''DEMO_FIXTURE'' \<or>
         jget doc ''validation_kind'' \<noteq> JStr ''DEMO'')
       (ThresholdActivationError ''invalid demo activation evidence'')
    (bindR (activation_text (jget doc ''observed_at'')) (\<lambda>observed_text.
     bindR (activation_instant observed_text) (\<lambda>observed_at.
     bindR (threshold_reference (jget doc ''guardian_threshold'')) (\<lambda>guardian.
     bindR (threshold_reference (jget doc ''scout_threshold'')) (\<lambda>scout.
     Inr \<lparr>ed_sha = evidence_sha, ed_replay = evidence_sha, ed_guardian = guardian,
          ed_scout = scout, ed_scope = ''DEMO'', ed_observed = observed_at\<rparr>)))))))"

section \<open>Recording the evidence\<close>

definition evidence_threshold_uid ::
    "db \<Rightarrow> string \<Rightarrow> evidence_reference \<Rightarrow> bool \<Rightarrow> string result" where
  "evidence_threshold_uid d family reference demo_only =
     bindR (one_or_none (filter (\<lambda>v. tv_uid v = er_uid reference) (threshold_versions d))) (\<lambda>row.
       case row of
         None \<Rightarrow> Inl (ThresholdActivationError ''activation evidence threshold lineage mismatch'')
       | Some v \<Rightarrow>
           guardR (tv_family v \<noteq> family \<or> tv_version v \<noteq> er_version reference \<or>
               tv_hash v \<noteq> er_hash reference \<or>
               (demo_only \<and> tv_reference v \<noteq> demo_owner_reference) \<or>
               (\<not> demo_only \<and> tv_reference v = demo_owner_reference))
             (ThresholdActivationError ''activation evidence threshold lineage mismatch'')
             (Inr (tv_uid v)))"

definition insert_activation_evidence :: "activation_evidence_row \<Rightarrow> unit cmd" where
  "insert_activation_evidence r = execC
     (\<lambda>d. absent ae_uid (activation_evidence d) (ae_uid r) \<and>
          absent ae_sha (activation_evidence d) (ae_sha r) \<and>
          ae_sha r \<in> set (artifact_objects d) \<and> ae_replay r \<in> set (artifact_objects d) \<and>
          present tv_uid (threshold_versions d) (ae_guardian r) \<and>
          present tv_uid (threshold_versions d) (ae_scout r) \<and>
          ae_scope r \<in> {''PRODUCTION'', ''DEMO''})
     ''threshold_activation_evidence''
     (\<lambda>d. d\<lparr>activation_evidence := activation_evidence d @ [r]\<rparr>)"

definition evidence_command :: "activation_evidence_doc \<Rightarrow> int \<Rightarrow> string cmd" where
  "evidence_command evidence now =
     bindC (readC (\<lambda>d. evidence_threshold_uid d ''GUARDIAN'' (ed_guardian evidence) (ed_scope evidence = ''DEMO'')))
       (\<lambda>guardian_uid.
     bindC (readC (\<lambda>d. evidence_threshold_uid d ''SCOUT'' (ed_scout evidence) (ed_scope evidence = ''DEMO'')))
       (\<lambda>scout_uid.
     bindC (readC (\<lambda>d. one_or_none (filter (\<lambda>e. ae_sha e = ed_sha evidence) (activation_evidence d))))
       (\<lambda>existing.
     case existing of
       Some e \<Rightarrow>
         bindC (checkC (ae_guardian e \<noteq> guardian_uid \<or> ae_scout e \<noteq> scout_uid \<or>
             ae_replay e \<noteq> ed_replay evidence \<or> ae_scope e \<noteq> ed_scope evidence \<or>
             ae_observed e \<noteq> ed_observed evidence)
           (ThresholdActivationError ''activation evidence already exists differently'')) (\<lambda>_.
         returnC (ae_uid e))
     | None \<Rightarrow>
         bindC new_uid (\<lambda>uid.
         bindC (insert_activation_evidence
           \<lparr>ae_uid = uid, ae_sha = ed_sha evidence, ae_replay = ed_replay evidence,
            ae_guardian = guardian_uid, ae_scout = scout_uid, ae_scope = ed_scope evidence,
            ae_observed = ed_observed evidence, ae_created = now\<rparr>) (\<lambda>_.
         returnC uid)))))"

definition record_activation_evidence ::
    "(string \<Rightarrow> string) \<Rightarrow> string \<Rightarrow> string \<Rightarrow> int \<Rightarrow> string cmd" where
  "record_activation_evidence sha evidence_sha scope now =
     bindC (checkC (\<not> is_sha256 evidence_sha)
       (ThresholdActivationError ''activation evidence SHA-256 is required'')) (\<lambda>_.
     bindC (readC (\<lambda>d.
         if scope = ''PRODUCTION'' then read_production_evidence sha d evidence_sha
         else if scope = ''DEMO'' then read_demo_evidence d evidence_sha
         else Inl (ThresholdActivationError ''unknown activation evidence scope''))) (\<lambda>evidence.
     catch_database_error (evidence_command evidence now)))"

end
