(* ===== verification/Registry_Properties.thy ===== *)
theory Registry_Properties
  imports Activation_Evidence
begin

text \<open>
  The threshold registry's invariant, that every registry operation keeps it, and what resolution
  as of an instant guarantees on a registry that satisfies it.
\<close>

section \<open>The latest row\<close>

lemma latest_Nil [simp]: "latest key [] = None"
  by (simp add: latest_def)

lemma latest_single [simp]: "latest key [r] = Some r"
  by (simp add: latest_def)

lemma latest_snoc:
  "latest key (rows @ [r]) =
    (case latest key rows of None \<Rightarrow> Some r | Some b \<Rightarrow> if key b \<le> key r then Some r else Some b)"
  by (simp add: latest_def split: option.splits)

lemma latest_None_iff: "latest key rows = None \<longleftrightarrow> rows = []"
  by (induction rows rule: rev_induct) (auto simp: latest_snoc split: option.splits)

lemma latest_in: "latest key rows = Some r \<Longrightarrow> r \<in> set rows"
  by (induction rows rule: rev_induct) (auto simp: latest_snoc split: option.splits if_splits)

lemma latest_ge: "latest key rows = Some r \<Longrightarrow> x \<in> set rows \<Longrightarrow> key x \<le> key r"
proof (induction rows arbitrary: r x rule: rev_induct)
  case (snoc y rows)
  show ?case
  proof (cases "latest key rows")
    case None
    then show ?thesis using snoc.prems by (simp add: latest_snoc latest_None_iff)
  next
    case (Some b)
    have "key z \<le> key b" if "z \<in> set rows" for z using snoc.IH [OF Some that] .
    then show ?thesis
      using snoc.prems Some by (fastforce simp: latest_snoc split: if_splits)
  qed
qed simp

text \<open>Rows that the query filters out do not matter; a row past all others is the latest.\<close>

lemma latest_snoc_max: "(\<And>x. x \<in> set rows \<Longrightarrow> key x \<le> key r) \<Longrightarrow> latest key (rows @ [r]) = Some r"
  using latest_in by (fastforce simp: latest_snoc split: option.splits)

section \<open>The invariant\<close>

definition activation_backed :: "db \<Rightarrow> activation_row \<Rightarrow> bool" where
  "activation_backed d a \<longleftrightarrow>
     (\<exists>v \<in> set (threshold_versions d). tv_uid v = an_version a \<and> tv_family v = an_family a \<and>
        tv_approval v \<in> set approved_statuses) \<and>
     activation_has_evidence d a"

definition registry_inv :: "db \<Rightarrow> bool" where
  "registry_inv d \<longleftrightarrow>
     distinct (map tv_uid (threshold_versions d)) \<and>
     distinct (map (\<lambda>v. (tv_family v, tv_version v)) (threshold_versions d)) \<and>
     (\<forall>e \<in> set (threshold_entries d). ten_version e \<in> tv_uid ` set (threshold_versions d)) \<and>
     sorted_wrt (\<lambda>a b. an_family a = an_family b \<longrightarrow> an_effective a < an_effective b) (activations d) \<and>
     distinct (map (\<lambda>a. (an_family a, an_key a)) (activations d)) \<and>
     (\<forall>a \<in> set (activations d). activation_backed d a)"

definition keeps_registry :: "db \<Rightarrow> db \<Rightarrow> bool" where
  "keeps_registry d d' \<longleftrightarrow> (registry_inv d \<longrightarrow> registry_inv d')"

lemma reflp_keeps_registry: "reflp keeps_registry"
  by (simp add: reflpI keeps_registry_def)

lemma transp_keeps_registry: "transp keeps_registry"
  by (rule transpI) (simp add: keeps_registry_def)

lemma registry_inv_cong:
  assumes "threshold_versions d' = threshold_versions d" "threshold_entries d' = threshold_entries d"
    "activations d' = activations d" "activation_evidence d' = activation_evidence d"
  shows "registry_inv d' = registry_inv d"
  using assms by (simp add: registry_inv_def activation_backed_def activation_has_evidence_def)

lemma keeps_registryI:
  assumes "threshold_versions d' = threshold_versions d" "threshold_entries d' = threshold_entries d"
    "activations d' = activations d" "activation_evidence d' = activation_evidence d"
  shows "keeps_registry d d'"
  using registry_inv_cong [OF assms] by (simp add: keeps_registry_def)

lemma registry_insert_validation: "keeps keeps_registry (insert_validation r)"
  unfolding insert_validation_def
  by (rule keeps_exec, rule keeps_registryI) simp_all

lemma registry_insert_version: "keeps keeps_registry (insert_threshold_version r)"
  unfolding insert_threshold_version_def
  by (rule keeps_exec)
    (auto simp: keeps_registry_def registry_inv_def absent_iff activation_backed_def
      activation_has_evidence_def)

lemma registry_insert_entry: "keeps keeps_registry (insert_threshold_entry r)"
  unfolding insert_threshold_entry_def
  by (rule keeps_exec)
    (auto simp: keeps_registry_def registry_inv_def present_iff activation_backed_def
      activation_has_evidence_def)

lemma registry_insert_evidence: "keeps keeps_registry (insert_activation_evidence r)"
  unfolding insert_activation_evidence_def
  by (rule keeps_exec)
    (auto simp: keeps_registry_def registry_inv_def activation_backed_def activation_has_evidence_def)

lemma registry_insert_activation: "keeps keeps_registry (insert_activation r)"
  unfolding insert_activation_def
proof (rule keeps_exec)
  fix d :: db
  let ?d' = "d\<lparr>activations := activations d @ [r]\<rparr>"
  assume ok: "absent an_uid (activations d) (an_uid r) \<and> an_family r \<in> set families \<and>
          present tv_uid (threshold_versions d) (an_version r) \<and>
          absent (\<lambda>x. (an_family x, an_effective x)) (activations d) (an_family r, an_effective r) \<and>
          absent (\<lambda>x. (an_family x, an_key x)) (activations d) (an_family r, an_key r) \<and>
          activation_family_match d r \<and> activation_approved d r \<and> activation_time_advances d r \<and>
          activation_has_evidence d r"
  have backed: "activation_backed ?d' a = activation_backed d a" for a
    by (simp add: activation_backed_def activation_has_evidence_def)
  have "activation_backed d r"
    using ok by (auto simp: activation_backed_def activation_family_match_def activation_approved_def
        list_all_iff list_ex_iff)
  then show "keeps_registry d ?d'"
    using ok by (auto simp: keeps_registry_def registry_inv_def backed sorted_wrt_append absent_iff
        activation_time_advances_def list_all_iff)
qed

text \<open>The registry's commands keep whatever their statements keep.\<close>

locale registry_writes = command_order +
  assumes version_row: "keeps R (insert_threshold_version v)"
    and entry_row: "keeps R (insert_threshold_entry e)"
    and validation_row: "keeps R (insert_validation w)"
    and evidence_row: "keeps R (insert_activation_evidence x)"
    and activation_row: "keeps R (insert_activation a)"
begin

lemma catch: "keeps R m \<Longrightarrow> keeps R (catch_database_error m)"
  by (auto simp: keeps_def catch_database_error_def split: sum.splits exc.splits)

lemmas rows = version_row entry_row validation_row evidence_row activation_row

lemma register: "keeps R (register_version sha f v ap ref es t)"
  unfolding register_version_def register_fresh_def register_entry_def Let_def
  by (intro monad rows)

lemma validate: "keeps R (record_validation f v k st ref h t now)"
  unfolding record_validation_def by (intro monad rows)

lemma evidence: "keeps R (record_activation_evidence sha h scope now)"
  unfolding record_activation_evidence_def evidence_command_def by (intro monad rows catch)

lemma activation: "keeps R (activate_command gv sv t k h scope now)"
  unfolding activate_command_def append_activation_def by (intro monad rows)

lemma activate: "keeps R (activate_pair gv sv t k h scope now)"
  unfolding activate_pair_def by (intro monad catch activation)

end

interpretation reg: registry_writes keeps_registry
  by unfold_locales
    (simp_all add: reflp_keeps_registry transp_keeps_registry registry_insert_version registry_insert_entry
      registry_insert_validation registry_insert_evidence registry_insert_activation,
     simp add: keeps_registryI)

section \<open>The active version\<close>

text \<open>On a good registry, the join gives each activation its one version.\<close>

definition version_of :: "db \<Rightarrow> activation_row \<Rightarrow> threshold_version_row" where
  "version_of d a = hd (filter (\<lambda>v. tv_uid v = an_version a) (threshold_versions d))"

lemma version_of:
  assumes "registry_inv d" and "a \<in> set (activations d)"
  shows "filter (\<lambda>v. tv_uid v = an_version a) (threshold_versions d) = [version_of d a]"
    and "tv_uid (version_of d a) = an_version a" and "tv_family (version_of d a) = an_family a"
    and "tv_approval (version_of d a) \<in> set approved_statuses"
    and "version_of d a \<in> set (threshold_versions d)"
proof -
  obtain v where v: "v \<in> set (threshold_versions d)" "tv_uid v = an_version a"
      "tv_family v = an_family a" "tv_approval v \<in> set approved_statuses"
    using assms by (auto simp: registry_inv_def activation_backed_def)
  have "filter (\<lambda>w. tv_uid w = tv_uid v) (threshold_versions d) = [v]"
    using assms(1) v(1) by (intro filter_unique) (auto simp: registry_inv_def)
  then have f: "filter (\<lambda>w. tv_uid w = an_version a) (threshold_versions d) = [v]" by (simp add: v)
  then have "version_of d a = v" by (simp add: version_of_def)
  then show "filter (\<lambda>v. tv_uid v = an_version a) (threshold_versions d) = [version_of d a]"
    and "tv_uid (version_of d a) = an_version a" and "tv_family (version_of d a) = an_family a"
    and "tv_approval (version_of d a) \<in> set approved_statuses"
    and "version_of d a \<in> set (threshold_versions d)"
    using f v by simp_all
qed

lemma activation_join_eq:
  assumes "registry_inv d"
  shows "activation_join d = map (\<lambda>a. (a, version_of d a)) (activations d)"
proof -
  have "concat (map (\<lambda>a. map (\<lambda>v. (a, v)) (filter (\<lambda>v. tv_uid v = an_version a) (threshold_versions d))) as) =
      map (\<lambda>a. (a, version_of d a)) as" if "set as \<subseteq> set (activations d)" for as
    using that by (induction as) (simp_all add: version_of(1) [OF assms])
  then show ?thesis by (simp add: activation_join_def)
qed

text \<open>The activation in force at an instant.\<close>

definition active_at :: "db \<Rightarrow> string \<Rightarrow> int \<Rightarrow> activation_row option" where
  "active_at d family instant =
     latest an_effective (filter (\<lambda>a. an_family a = family \<and> an_effective a \<le> instant) (activations d))"

lemma latest_map: "latest key (map f xs) = map_option f (latest (key \<circ> f) xs)"
  by (induction xs rule: rev_induct) (auto simp: latest_snoc split: option.splits)

lemma resolve_official_eq:
  assumes "registry_inv d" and "family \<in> set families"
  shows "resolve_official sha d family instant =
    (case active_at d family instant of
       None \<Rightarrow> Inl (ThresholdUnavailableError ''no active threshold version'')
     | Some a \<Rightarrow>
         guardR (\<not> latest_validations_pass d (an_version a) instant)
           (ThresholdUnavailableError ''active threshold version lacks passed validation'')
           (set_from_row sha d (version_of d a) family (tv_version (version_of d a)) (Some (an_effective a))))"
proof -
  have "latest (\<lambda>(a, _). an_effective a)
      (filter (\<lambda>(a, _). an_family a = family \<and> an_effective a \<le> instant) (activation_join d)) =
      map_option (\<lambda>a. (a, version_of d a)) (active_at d family instant)"
    by (simp add: activation_join_eq [OF assms(1)] filter_map latest_map active_at_def comp_def)
  moreover have "a \<in> set (activations d)" if "active_at d family instant = Some a" for a
    using latest_in that by (fastforce simp: active_at_def)
  ultimately show ?thesis
    using assms version_of [OF assms(1)]
    by (cases "active_at d family instant") (simp_all add: resolve_official_def check_family_def)
qed

lemma active_at_props:
  assumes "active_at d family instant = Some a"
  shows "a \<in> set (activations d)" "an_family a = family" "an_effective a \<le> instant"
    "\<And>b. b \<in> set (activations d) \<Longrightarrow> an_family b = family \<Longrightarrow> an_effective b \<le> instant \<Longrightarrow>
      an_effective b \<le> an_effective a"
proof -
  note in_set = latest_in [OF assms [unfolded active_at_def]]
  then show "a \<in> set (activations d)" "an_family a = family" "an_effective a \<le> instant" by simp_all
  show "an_effective b \<le> an_effective a"
    if "b \<in> set (activations d)" "an_family b = family" "an_effective b \<le> instant" for b
    by (rule latest_ge [OF assms [unfolded active_at_def]]) (use that in simp)
qed

text \<open>A set that is resolved is complete for its family and in range.\<close>

lemma validated_entries_Inr:
  "validated_entries family entries = Inr es \<longleftrightarrow>
    es = entries \<and> set (map fst entries) = set (family_codes family) \<and>
    (\<forall>(c, v) \<in> set entries. 0 \<le> v \<and> v \<le> 1000000)"
  by (auto simp: validated_entries_def list_ex_iff)

lemma set_from_row_Inr:
  assumes "set_from_row sha d row family version t = Inr ts"
  shows "ts_uid ts = tv_uid row" "ts_family ts = family" "ts_version ts = version"
    "ts_definition_hash ts = tv_hash row" "ts_effective ts = t" "ts_reference ts = tv_reference row"
    "fst ` set (ts_entries ts) = set (family_codes family)"
    "\<forall>(c, v) \<in> set (ts_entries ts). 0 \<le> v \<and> v \<le> 1000000"
    "ts_definition_hash ts = definition_hash sha family version (ts_entries ts)"
proof -
  define es where "es = map (\<lambda>e. (ten_code e, ten_ppm e))
      (sort_key ten_code (filter (\<lambda>e. ten_version e = tv_uid row) (threshold_entries d)))"
  have "validated_entries family es = Inr es"
    and ts: "ts = \<lparr>ts_uid = tv_uid row, ts_family = family, ts_version = version,
        ts_definition_hash = definition_hash sha family version es, ts_entries = sort es,
        ts_effective = t, ts_reference = tv_reference row\<rparr>"
    and h: "tv_hash row = definition_hash sha family version es"
    using assms unfolding set_from_row_def Let_def es_def [symmetric]
    by (auto simp: validated_entries_Inr split: sum.splits exc.splits)
  then show "ts_uid ts = tv_uid row" "ts_family ts = family" "ts_version ts = version"
    "ts_definition_hash ts = tv_hash row" "ts_effective ts = t" "ts_reference ts = tv_reference row"
    "fst ` set (ts_entries ts) = set (family_codes family)"
    "\<forall>(c, v) \<in> set (ts_entries ts). 0 \<le> v \<and> v \<le> 1000000"
    "ts_definition_hash ts = definition_hash sha family version (ts_entries ts)"
    by (simp_all add: validated_entries_Inr definition_hash_def sorted_sort_id)
qed

section \<open>Activation of a pair\<close>

text \<open>The tables that an activation does not touch.\<close>

definition same_registry :: "db \<Rightarrow> db \<Rightarrow> bool" where
  "same_registry d d' \<longleftrightarrow> threshold_versions d' = threshold_versions d \<and>
     threshold_entries d' = threshold_entries d \<and> validations d' = validations d \<and>
     activation_evidence d' = activation_evidence d"

lemma version_of_same: "same_registry d d' \<Longrightarrow> version_of d' = version_of d"
  by (simp add: same_registry_def version_of_def fun_eq_iff)

lemma set_from_row_same: "same_registry d d' \<Longrightarrow> set_from_row sha d' = set_from_row sha d"
  by (simp add: same_registry_def set_from_row_def fun_eq_iff)

lemma validations_same: "same_registry d d' \<Longrightarrow> latest_validations_pass d' = latest_validations_pass d"
  by (simp add: same_registry_def latest_validations_pass_def latest_validation_status_def fun_eq_iff)

lemma append_activation_Inr:
  assumes "append_activation v t k e now d = Inr (u, d')"
  obtains a where "activations d' = activations d @ [a]" "same_registry d d'" "an_uid a = u"
    "an_family a = tv_family v" "an_version a = tv_uid v" "an_effective a = t" "an_key a = k"
    "an_evidence a = e"
  using assms
  by (auto simp: append_activation_def insert_activation_def same_registry_def result_simps)

lemma catch_Inr: "catch_database_error m d = Inr z \<longleftrightarrow> m d = Inr z"
  by (auto simp: catch_database_error_def split: sum.splits exc.splits)

definition pair_active ::
    "db \<Rightarrow> string \<Rightarrow> string \<Rightarrow> int \<Rightarrow> string \<Rightarrow> string \<Rightarrow> activation_row \<Rightarrow> activation_row \<Rightarrow> bool" where
  "pair_active d gv sv t k ev g s \<longleftrightarrow>
     g \<in> set (activations d) \<and> s \<in> set (activations d) \<and>
     an_family g = ''GUARDIAN'' \<and> an_family s = ''SCOUT'' \<and> an_key g = k \<and> an_key s = k \<and>
     an_effective g = t \<and> an_effective s = t \<and> an_evidence g = ev \<and> an_evidence s = ev \<and>
     tv_version (version_of d g) = gv \<and> tv_version (version_of d s) = sv"

lemma activation_by_key_eq:
  assumes "registry_inv d"
  shows "activation_by_key d family key =
    one_or_none (map (\<lambda>a. (a, version_of d a))
      (filter (\<lambda>a. an_family a = family \<and> an_key a = key) (activations d)))"
  by (simp add: activation_by_key_def activation_join_eq [OF assms] filter_map comp_def)

lemma activation_by_key_Some:
  assumes "registry_inv d"
  shows "activation_by_key d family key = Inr (Some (a, v)) \<longleftrightarrow>
    a \<in> set (activations d) \<and> an_family a = family \<and> an_key a = key \<and> v = version_of d a"
proof
  assume "activation_by_key d family key = Inr (Some (a, v))"
  then have *: "map (\<lambda>a. (a, version_of d a))
      (filter (\<lambda>a. an_family a = family \<and> an_key a = key) (activations d)) = [(a, v)]"
    by (simp add: activation_by_key_eq [OF assms] one_or_none_eq_Some)
  then have "filter (\<lambda>a. an_family a = family \<and> an_key a = key) (activations d) = [a]" by auto
  then have "a \<in> set (filter (\<lambda>a. an_family a = family \<and> an_key a = key) (activations d))" by simp
  then show "a \<in> set (activations d) \<and> an_family a = family \<and> an_key a = key \<and> v = version_of d a"
    using * by auto
next
  assume a: "a \<in> set (activations d) \<and> an_family a = family \<and> an_key a = key \<and> v = version_of d a"
  have "filter (\<lambda>b. (an_family b, an_key b) = (an_family a, an_key a)) (activations d) = [a]"
    using assms a by (intro filter_unique) (auto simp: registry_inv_def)
  then have "filter (\<lambda>b. an_family b = family \<and> an_key b = key) (activations d) = [a]" using a by simp
  then show "activation_by_key d family key = Inr (Some (a, v))"
    using a by (simp add: activation_by_key_eq [OF assms] one_or_none_eq_Some)
qed

lemma version_for_activation_Inr:
  assumes "version_for_activation d family version instant = Inr v"
  shows "v \<in> set (threshold_versions d)" "tv_family v = family" "tv_version v = version"
    "latest_validations_pass d (tv_uid v) instant"
proof -
  have f: "filter (\<lambda>v. tv_family v = family \<and> tv_version v = version) (threshold_versions d) = [v]"
    and p: "latest_validations_pass d (tv_uid v) instant"
    using assms by (auto simp: version_for_activation_def result_simps split: option.splits)
  have "v \<in> set (filter (\<lambda>v. tv_family v = family \<and> tv_version v = version) (threshold_versions d))"
    unfolding f by simp
  then show "v \<in> set (threshold_versions d)" "tv_family v = family" "tv_version v = version"
    "latest_validations_pass d (tv_uid v) instant" using p by simp_all
qed

lemma activate_command_Inr:
  assumes inv: "registry_inv d"
    and run: "activate_command gv sv t k h scope now d = Inr (uids, d')"
  obtains ev g s where "activation_evidence_for_pair d h gv sv t scope = Inr ev"
    "pair_active d' gv sv t k (ae_uid ev) g s" "uids = (an_uid g, an_uid s)" "same_registry d d'"
    "d' = d \<or> activations d' = activations d @ [g, s] \<and>
      latest_validations_pass d (an_version g) t \<and> latest_validations_pass d (an_version s) t"
proof -
  have inv': "registry_inv d'"
    using keepsD [OF reg.activation run] inv by (simp add: keeps_registry_def)
  obtain ev eg es where ev: "activation_evidence_for_pair d h gv sv t scope = Inr ev"
    and eg: "activation_by_key d ''GUARDIAN'' k = Inr eg"
    and es: "activation_by_key d ''SCOUT'' k = Inr es"
    and rest: "(case (eg, es) of
       (None, None) \<Rightarrow>
         bindC (readC (\<lambda>d. version_for_activation d ''GUARDIAN'' gv t)) (\<lambda>guardian.
         bindC (readC (\<lambda>d. version_for_activation d ''SCOUT'' sv t)) (\<lambda>scout.
         bindC (append_activation guardian t k (ae_uid ev) now) (\<lambda>guardian_uid.
         bindC (append_activation scout t k (ae_uid ev) now) (\<lambda>scout_uid.
         returnC (guardian_uid, scout_uid)))))
     | (Some (ga, gv'), Some (sa, sv')) \<Rightarrow>
         bindC (checkC (\<not> (tv_version gv' = gv \<and> tv_version sv' = sv \<and>
             an_effective ga = t \<and> an_effective sa = t \<and>
             an_evidence ga = ae_uid ev \<and> an_evidence sa = ae_uid ev))
           (ThresholdActivationError ''threshold activation key was already used differently'')) (\<lambda>_.
         returnC (an_uid ga, an_uid sa))
     | _ \<Rightarrow> raiseC (ThresholdActivationError ''threshold activation pair is incomplete'')) d = Inr (uids, d')"
    using run by (auto simp: activate_command_def bindC_eq_Inr readC_eq)
  show thesis
  proof (cases eg)
    case None
    then have "es = None" using rest by (cases es) (simp_all add: raiseC_eq)
    then obtain g s gu su d1 where
      v: "version_for_activation d ''GUARDIAN'' gv t = Inr g" "version_for_activation d ''SCOUT'' sv t = Inr s"
      and a1: "append_activation g t k (ae_uid ev) now d = Inr (gu, d1)"
      and a2: "append_activation s t k (ae_uid ev) now d1 = Inr (su, d')" and uids: "uids = (gu, su)"
      using rest None by (auto simp: bindC_eq_Inr readC_eq returnC_eq)
    obtain ga where ga: "activations d1 = activations d @ [ga]" "same_registry d d1" "an_uid ga = gu"
      "an_family ga = tv_family g" "an_version ga = tv_uid g" "an_effective ga = t" "an_key ga = k"
      "an_evidence ga = ae_uid ev" using a1 by (rule append_activation_Inr)
    obtain sa where sa: "activations d' = activations d1 @ [sa]" "same_registry d1 d'" "an_uid sa = su"
      "an_family sa = tv_family s" "an_version sa = tv_uid s" "an_effective sa = t" "an_key sa = k"
      "an_evidence sa = ae_uid ev" using a2 by (rule append_activation_Inr)
    have same: "same_registry d d'" using ga(2) sa(2) by (simp add: same_registry_def)
    note g = version_for_activation_Inr [OF v(1)] and s = version_for_activation_Inr [OF v(2)]
    have mem: "ga \<in> set (activations d')" "sa \<in> set (activations d')" using ga(1) sa(1) by simp_all
    have uniq: "w = version_of d' a"
      if "a \<in> set (activations d')" "an_version a = tv_uid w" "w \<in> set (threshold_versions d)" for a w
    proof -
      have "w \<in> set (filter (\<lambda>v. tv_uid v = an_version a) (threshold_versions d'))"
        using that same by (simp add: same_registry_def)
      then show ?thesis using version_of(1) [OF inv' that(1)] by simp
    qed
    have "version_of d' ga = g" "version_of d' sa = s"
      using uniq [OF mem(1) ga(5) g(1)] uniq [OF mem(2) sa(5) s(1)] by simp_all
    then have "pair_active d' gv sv t k (ae_uid ev) ga sa"
      using mem ga sa g s by (simp add: pair_active_def)
    moreover have "d' = d \<or> activations d' = activations d @ [ga, sa] \<and>
        latest_validations_pass d (an_version ga) t \<and> latest_validations_pass d (an_version sa) t"
      using ga sa g s by simp
    ultimately show thesis using that [OF ev _ _ same] uids ga(3) sa(3) by blast
  next
    case (Some x)
    then obtain ga gw sa sw where e: "eg = Some (ga, gw)" "es = Some (sa, sw)"
      using rest by (cases x; cases es) (auto simp: raiseC_eq)
    have d': "d' = d" "uids = (an_uid ga, an_uid sa)" "tv_version gw = gv" "tv_version sw = sv"
      "an_effective ga = t" "an_effective sa = t" "an_evidence ga = ae_uid ev" "an_evidence sa = ae_uid ev"
      using rest by (auto simp: e bindC_eq_Inr checkC_eq returnC_eq)
    have "pair_active d' gv sv t k (ae_uid ev) ga sa"
      using eg es d' unfolding e by (auto simp: activation_by_key_Some [OF inv] pair_active_def)
    then show thesis using that [OF ev] d' by (simp add: same_registry_def)
  qed
qed

text \<open>Asking again for the same activation changes nothing and returns the same uids.\<close>

lemma activate_command_again:
  assumes inv: "registry_inv d"
    and run: "activate_command gv sv t k h scope now d = Inr (uids, d')"
  shows "activate_command gv sv t k h scope now' d' = Inr (uids, d')"
proof -
  have inv': "registry_inv d'"
    using keepsD [OF reg.activation run] inv by (simp add: keeps_registry_def)
  obtain ev g s where ev: "activation_evidence_for_pair d h gv sv t scope = Inr ev"
    and p: "pair_active d' gv sv t k (ae_uid ev) g s" and u: "uids = (an_uid g, an_uid s)"
    and same: "same_registry d d'"
    using activate_command_Inr [OF inv run] by metis
  have "activation_evidence_for_pair d' h gv sv t scope = Inr ev"
    using ev same by (simp add: activation_evidence_for_pair_def same_registry_def)
  moreover have "activation_by_key d' ''GUARDIAN'' k = Inr (Some (g, version_of d' g))"
    "activation_by_key d' ''SCOUT'' k = Inr (Some (s, version_of d' s))"
    using p by (simp_all add: activation_by_key_Some [OF inv'] pair_active_def)
  ultimately show ?thesis
    using p u by (simp add: activate_command_def bindC_def readC_def checkC_def returnC_def pair_active_def)
qed

text \<open>The pair is in force from its instant on, until a later activation.\<close>

lemma active_at_effective:
  assumes inv: "registry_inv d" and a: "a \<in> set (activations d)"
  shows "active_at d (an_family a) (an_effective a) = Some a"
proof -
  have "active_at d (an_family a) (an_effective a) \<noteq> None"
    using a by (auto simp: active_at_def latest_None_iff filter_empty_conv)
  then obtain b where b: "active_at d (an_family a) (an_effective a) = Some b" by blast
  note props = active_at_props [OF b]
  have "an_effective a = an_effective b" using props(3) props(4) [OF a] by simp
  moreover have "an_effective x < an_effective y \<or> an_effective y < an_effective x"
    if xs: "x \<in> set (activations d)" "y \<in> set (activations d)"
      and ne: "x \<noteq> y" and fam: "an_family x = an_family y" for x y
  proof -
    obtain i j where ij: "i < List.length (activations d)" "j < List.length (activations d)" "activations d ! i = x"
        "activations d ! j = y" using xs by (metis in_set_conv_nth)
    have sw: "sorted_wrt (\<lambda>a b. an_family a = an_family b \<longrightarrow> an_effective a < an_effective b) (activations d)"
      using inv by (simp add: registry_inv_def)
    show ?thesis
    proof (cases i j rule: linorder_cases)
      case less
      then show ?thesis using sorted_wrt_nth_less [OF sw less ij(2)] ij fam by simp
    next
      case equal
      then show ?thesis using ij ne by simp
    next
      case greater
      then show ?thesis using sorted_wrt_nth_less [OF sw greater ij(1)] ij fam by simp
    qed
  qed
  ultimately have "a = b" using a props(1,2) by (metis less_irrefl)
  then show ?thesis using b by simp
qed

text \<open>An activation that takes effect later leaves the past alone.\<close>

lemma resolve_stable:
  assumes inv: "registry_inv d" and fam: "family \<in> set families"
    and run: "activate_command gv sv t k h scope now d = Inr (uids, d')" and past: "instant < t"
  shows "resolve_official sha d' family instant = resolve_official sha d family instant"
proof -
  have inv': "registry_inv d'"
    using keepsD [OF reg.activation run] inv by (simp add: keeps_registry_def)
  obtain ev :: activation_evidence_row and g s where p: "pair_active d' gv sv t k (ae_uid ev) g s" and same: "same_registry d d'"
    and d': "d' = d \<or> activations d' = activations d @ [g, s]"
    by (rule activate_command_Inr [OF inv run]) blast
  have "active_at d' family instant = active_at d family instant"
    using d' p past by (auto simp: active_at_def pair_active_def)
  then show ?thesis
    unfolding resolve_official_eq [OF inv fam] resolve_official_eq [OF inv' fam]
    by (cases "active_at d family instant")
      (simp_all add: version_of_same [OF same] set_from_row_same [OF same] validations_same [OF same])
qed

section \<open>Registration and resolution\<close>

lemma register_entry_Inr:
  assumes "register_entry uid t x d = Inr (u, d')"
  obtains r where "threshold_versions d' = threshold_versions d"
    "threshold_entries d' = threshold_entries d @ [r]" "(ten_code r, ten_ppm r) = x" "ten_version r = uid"
  using assms by (auto simp: register_entry_def insert_threshold_entry_def result_simps)

lemma register_entries_Inr:
  assumes "forC (register_entry uid t) es d = Inr (u, d')"
  shows "threshold_versions d' = threshold_versions d \<and>
    (\<exists>rows. threshold_entries d' = threshold_entries d @ rows \<and>
       map (\<lambda>e. (ten_code e, ten_ppm e)) rows = es \<and> (\<forall>r \<in> set rows. ten_version r = uid))"
  using assms
proof (induction es arbitrary: d)
  case (Cons x es)
  from Cons.prems obtain u1 d1 where one: "register_entry uid t x d = Inr (u1, d1)"
    and rest: "forC (register_entry uid t) es d1 = Inr (u, d')"
    by (auto simp: bindC_eq_Inr)
  obtain r where r: "threshold_versions d1 = threshold_versions d"
      "threshold_entries d1 = threshold_entries d @ [r]" "(ten_code r, ten_ppm r) = x" "ten_version r = uid"
    using one by (rule register_entry_Inr)
  obtain rows where "threshold_versions d' = threshold_versions d1"
    "threshold_entries d' = threshold_entries d1 @ rows" "map (\<lambda>e. (ten_code e, ten_ppm e)) rows = es"
    "\<forall>r \<in> set rows. ten_version r = uid"
    using Cons.IH [OF rest] by blast
  then show ?case using r by (intro conjI exI [of _ "r # rows"]) simp_all
qed (simp add: returnC_eq)

lemma sorted_fst: "sorted ps \<Longrightarrow> sorted (map fst ps)" for ps :: "(string \<times> int) list"
  by (induction ps) (auto simp: less_eq_prod_def)

lemma register_fresh_Inr:
  assumes inv: "registry_inv d" and val: "validated_entries f es = Inr es"
    and none: "filter (\<lambda>w. tv_family w = f \<and> tv_version w = v) (threshold_versions d) = []"
    and run: "register_fresh f v ap ref es (definition_hash sha f v es) t d = Inr (ts, d')"
  shows "\<exists>row. filter (\<lambda>w. tv_family w = f \<and> tv_version w = v) (threshold_versions d') = [row] \<and>
    set_from_row sha d' row f v (Some t) = Inr ts"
proof -
  let ?h = "definition_hash sha f v es"
  define uid where "uid = uid_source d (uid_count d)"
  define row where row: "row = \<lparr>tv_uid = uid, tv_family = f, tv_version = v,
        tv_approval = ap, tv_reference = ref, tv_hash = ?h, tv_created = t\<rparr>"
  define d2 where "d2 = d\<lparr>uid_count := Suc (uid_count d), threshold_versions := threshold_versions d @ [row]\<rparr>"
  have d2: "threshold_versions d2 = threshold_versions d @ [row]" "threshold_entries d2 = threshold_entries d"
    by (simp_all add: d2_def)
  have "uid \<notin> tv_uid ` set (threshold_versions d) \<and>
      forC (register_entry uid t) (sort es) d2 = Inr ((), d') \<and>
      ts = \<lparr>ts_uid = uid, ts_family = f, ts_version = v, ts_definition_hash = ?h,
           ts_entries = sort es, ts_effective = Some t, ts_reference = ref\<rparr>"
    using run unfolding register_fresh_def insert_threshold_version_def result_simps absent_iff
    by (simp add: d2_def row uid_def)
  then have fresh: "uid \<notin> tv_uid ` set (threshold_versions d)"
    and ents: "forC (register_entry uid t) (sort es) d2 = Inr ((), d')"
    and ts: "ts = \<lparr>ts_uid = uid, ts_family = f, ts_version = v, ts_definition_hash = ?h,
           ts_entries = sort es, ts_effective = Some t, ts_reference = ref\<rparr>" by blast+
  obtain rows where rows: "threshold_versions d' = threshold_versions d2"
      "threshold_entries d' = threshold_entries d2 @ rows"
      "map (\<lambda>e. (ten_code e, ten_ppm e)) rows = sort es" "\<forall>r \<in> set rows. ten_version r = uid"
    using register_entries_Inr [OF ents] by blast
  have "ten_version e \<noteq> uid" if "e \<in> set (threshold_entries d)" for e
    using inv fresh that by (auto simp: registry_inv_def)
  then have old: "filter (\<lambda>e. ten_version e = uid) (threshold_entries d) = []"
    by (simp add: filter_empty_conv)
  have "filter (\<lambda>e. ten_version e = uid) rows = rows" using rows(4) by (simp add: filter_id_conv)
  then have mine: "filter (\<lambda>e. ten_version e = uid) (threshold_entries d') = rows"
    using old by (simp add: rows d2)
  have "map ten_code rows = map fst (sort es)"
    using arg_cong [OF rows(3), of "map fst"] by (simp add: comp_def)
  then have "sort_key ten_code rows = rows"
    using sorted_fst [OF sorted_sort, of es] by (simp add: sort_key_id_if_sorted)
  moreover have "validated_entries f (sort es) = Inr (sort es)" using val by (simp add: validated_entries_Inr)
  moreover have "definition_hash sha f v (sort es) = ?h" by (simp add: definition_hash_def sorted_sort_id)
  ultimately have "set_from_row sha d' row f v (Some t) = Inr ts"
    unfolding ts by (simp add: set_from_row_def row mine rows(3) sorted_sort_id)
  moreover have "filter (\<lambda>w. tv_family w = f \<and> tv_version w = v) (threshold_versions d') = [row]"
    using none by (simp add: rows d2) (simp add: row)
  ultimately show ?thesis by blast
qed

lemma register_then_resolve:
  assumes inv: "registry_inv d" and run: "register_version sha f v ap ref es t d = Inr (ts, d')"
  shows "resolve_explicit sha d' f v t = Inr ts"
proof -
  have fam: "check_family f = Inr f" and val: "validated_entries f es = Inr es"
    using run by (auto simp: register_version_def check_family_def result_simps validated_entries_Inr)
  let ?h = "definition_hash sha f v es"
  show ?thesis
  proof (cases "one_or_none (filter (\<lambda>w. tv_family w = f \<and> tv_version w = v) (threshold_versions d))")
    case (Inl e)
    then show ?thesis using run fam by (auto simp: register_version_def Let_def bindC_eq_Inr checkC_eq readC_eq validated_entries_Inr)
  next
    case ex: (Inr existing)
    show ?thesis
    proof (cases existing)
      case (Some w)
      then have "d' = d" "set_from_row sha d w f v (Some t) = Inr ts"
        using run ex val fam by (auto simp: register_version_def Let_def bindC_eq_Inr checkC_eq readC_eq)
      then show ?thesis using ex Some by (simp add: resolve_explicit_def fam)
    next
      case None
      then have "filter (\<lambda>w. tv_family w = f \<and> tv_version w = v) (threshold_versions d) = []"
        and "register_fresh f v ap ref es ?h t d = Inr (ts, d')"
        using run ex val fam
        by (auto simp: register_version_def Let_def bindC_eq_Inr checkC_eq readC_eq one_or_none_eq_None)
      then obtain row where "filter (\<lambda>w. tv_family w = f \<and> tv_version w = v) (threshold_versions d') = [row]"
        "set_from_row sha d' row f v (Some t) = Inr ts"
        using register_fresh_Inr [OF inv val] by blast
      then show ?thesis by (simp add: resolve_explicit_def fam one_or_none_def)
    qed
  qed
qed

end
