(* ===== verification/Registry_Theorems.thy ===== *)
theory Registry_Theorems
  imports Registry_Properties
begin

text \<open>
  The properties of the threshold registry (\<open>thresholds.py\<close>): its invariant over any sequence of
  operations, what an official resolution guarantees, its stability over time, idempotent paired
  activation, and the evidence gate. The proofs apply the lemmas of \<open>Registry_Properties\<close>.
\<close>

section \<open>A sample registry\<close>

definition empty_db :: db where
  "empty_db = \<lparr>uid_source = (\<lambda>n. replicate n CHR ''u''), uid_count = 0, artifact_files = Map.empty,
     artifact_objects = [], system_metadata = Map.empty, webhook_enabled = False, snapshots = [],
     qualities = [], limitations = [], manifests = [], bundles = [], reference_entries = [],
     capabilities = [], quotes = [], rule_executions = [], facts = [], baselines = [], states = [],
     state_facts = [], transitions = [], projections = [], guardians = [], risk_tags = [],
     risk_evidence = [], scouts = [], opportunities = [], opportunity_evidence = [], commits = [],
     events = [], event_versions = [], event_evidence = [], event_projections = [], intents = [],
     deliveries = [], attempts = [], audits = [], threshold_versions = [], threshold_entries = [],
     validations = [], activations = [], activation_evidence = []\<rparr>"

definition sample_version :: "string \<Rightarrow> string \<Rightarrow> threshold_version_row" where
  "sample_version uid family =
     \<lparr>tv_uid = uid, tv_family = family, tv_version = ''v1'', tv_approval = ''OWNER_APPROVED'',
      tv_reference = ''ref'', tv_hash = uid, tv_created = 0\<rparr>"

definition sample_validation :: "string \<Rightarrow> string \<Rightarrow> validation_row" where
  "sample_validation uid kind =
     \<lparr>va_uid = uid @ kind, va_version = uid, va_kind = kind, va_status = ''PASS'', va_reference = ''r'',
      va_sha = ''s'', va_observed = 1, va_created = 1\<rparr>"

definition sample_registry :: db where
  "sample_registry = empty_db
     \<lparr>threshold_versions := [sample_version ''G'' ''GUARDIAN'', sample_version ''S'' ''SCOUT''],
      validations := [sample_validation ''G'' ''REPLAY'', sample_validation ''G'' ''SHADOW'',
        sample_validation ''S'' ''REPLAY'', sample_validation ''S'' ''SHADOW''],
      activation_evidence := [\<lparr>ae_uid = ''E'', ae_sha = ''e'', ae_replay = ''r'', ae_guardian = ''G'',
        ae_scout = ''S'', ae_scope = ''PRODUCTION'', ae_observed = 2, ae_created = 2\<rparr>]\<rparr>"

lemma sample_registry_inv: "registry_inv sample_registry"
  by (simp add: registry_inv_def sample_registry_def empty_db_def sample_version_def)

lemmas sample_defs = sample_registry_def empty_db_def sample_version_def sample_validation_def

lemma sample_activation:
  "\<exists>uids d'. activate_command ''v1'' ''v1'' 5 ''key'' ''e'' ''PRODUCTION'' 5 sample_registry = Inr (uids, d')"
  by (simp add: activate_command_def activation_evidence_for_pair_def activation_by_key_def
      activation_join_def version_for_activation_def append_activation_def insert_activation_def
      latest_validations_pass_def latest_validation_status_def validation_kinds_def approved_statuses_def
      absent_def present_def families_def activation_family_match_def activation_approved_def
      activation_time_advances_def activation_has_evidence_def one_or_none_def
      bindC_def readC_def new_uid_def execC_def returnC_def sample_defs latest_def)

text \<open>An evidence entry that a caller can register, and the paired activation through its wrapper.\<close>

lemma activate_pair_Inr:
  "activate_pair gv sv t k h scope now d = Inr (uids, d') \<longleftrightarrow>
   \<not> blank k \<and> is_sha256 h \<and> scope \<in> {''PRODUCTION'', ''DEMO''} \<and>
   activate_command gv sv t k h scope now d = Inr (uids, d')"
  by (auto simp: activate_pair_def bindC_eq_Inr checkC_eq catch_Inr)

section \<open>The registry as a machine\<close>

text \<open>A step is any successful operation of the registry; a failed one leaves the database alone.\<close>

inductive registry_step :: "db \<Rightarrow> db \<Rightarrow> bool" where
  step_register: "register_version sha f v approval ref es t d = Inr (ts, d') \<Longrightarrow> registry_step d d'"
| step_validate: "record_validation f v k st ref h t now d = Inr (u, d') \<Longrightarrow> registry_step d d'"
| step_evidence: "record_activation_evidence sha h scope now d = Inr (u, d') \<Longrightarrow> registry_step d d'"
| step_activate: "activate_pair gv sv t k h scope now d = Inr (u, d') \<Longrightarrow> registry_step d d'"

inductive_cases registry_stepE: "registry_step d d'"

lemma registry_step_keeps: "registry_step d d' \<Longrightarrow> registry_inv d \<Longrightarrow> registry_inv d'"
  by (induction rule: registry_step.induct)
    (auto dest: keepsD [OF reg.register] keepsD [OF reg.validate]
      keepsD [OF reg.evidence] keepsD [OF reg.activate] simp: keeps_registry_def)


lemma sample_register:
  "\<exists>ts d'. register_version (\<lambda>_. ''h'') ''SCOUT'' ''v1'' ''OWNER_APPROVED'' ''ref''
     (map (\<lambda>c. (c, 7)) scout_codes) 0 empty_db = Inr (ts, d')"
  unfolding scout_codes_list
  by (simp add: register_version_def register_fresh_def check_family_def families_def validated_entries_def
      family_codes_def scout_codes_list blank_def py_space_def definition_hash_def canonical_hash_def one_or_none_def
      register_entry_def insert_threshold_version_def insert_threshold_entry_def
      absent_def present_def bindC_def readC_def checkC_def new_uid_def execC_def returnC_def Let_def empty_db_def)


section \<open>Resolution\<close>

text \<open>C15: an official resolution as of an instant, on a well-formed registry, returns the version of the
  last activation effective by then, whose latest replay and shadow validations observed by then both
  passed; the set names every code of the family, its values are PPM integers, and its hash is that of
  the entries it returns.\<close>

theorem official_resolution:
  assumes inv: "registry_inv d" and fam: "family \<in> set families"
    and run: "resolve_official sha d family instant = Inr ts"
  shows "\<exists>a \<in> set (activations d). an_family a = family \<and> an_effective a \<le> instant \<and>
      (\<forall>b \<in> set (activations d). an_family b = family \<longrightarrow> an_effective b \<le> instant \<longrightarrow>
         an_effective b \<le> an_effective a) \<and>
      ts_uid ts = an_version a \<and> ts_effective ts = Some (an_effective a) \<and>
      latest_validations_pass d (an_version a) instant \<and>
      fst ` set (ts_entries ts) = set (family_codes family) \<and>
      (\<forall>(c, v) \<in> set (ts_entries ts). 0 \<le> v \<and> v \<le> 1000000) \<and>
      ts_definition_hash ts = definition_hash sha family (ts_version ts) (ts_entries ts)"
proof -
  obtain a where a: "active_at d family instant = Some a"
    using run by (auto simp: resolve_official_eq [OF inv fam] split: option.splits)
  note props = active_at_props [OF a]
  have pass: "latest_validations_pass d (an_version a) instant"
    and set: "set_from_row sha d (version_of d a) family (tv_version (version_of d a)) (Some (an_effective a)) = Inr ts"
    using run by (auto simp: resolve_official_eq [OF inv fam] a)
  note ts = set_from_row_Inr [OF set]
  have "ts_uid ts = an_version a" using ts(1) version_of(2) [OF inv props(1)] by simp
  then show ?thesis
    using props pass ts(3,5,7,8,9) by (intro bexI [OF _ props(1)]) simp
qed

definition complete_registry :: db where
  "complete_registry = sample_registry
     \<lparr>threshold_versions := [(sample_version ''G'' ''GUARDIAN'') \<lparr>tv_hash := ''h''\<rparr>,
        (sample_version ''S'' ''SCOUT'') \<lparr>tv_hash := ''h''\<rparr>],
      threshold_entries := map (\<lambda>c. \<lparr>ten_uid = c, ten_version = ''S'', ten_code = c, ten_ppm = 7,
        ten_created = 0\<rparr>) scout_codes,
      activations := [\<lparr>an_uid = ''A'', an_family = ''SCOUT'', an_version = ''S'', an_effective = 5,
        an_key = ''k'', an_reference = ''ref'', an_evidence = ''E'', an_created = 5\<rparr>]\<rparr>"

lemma complete_registry_inv: "registry_inv complete_registry"
  by (simp add: registry_inv_def complete_registry_def sample_defs activation_backed_def approved_statuses_def
      activation_has_evidence_def)

lemma complete_registry_resolves:
  "\<exists>ts. resolve_official (\<lambda>_. ''h'') complete_registry ''SCOUT'' 9 = Inr ts"
  by (simp add: resolve_official_def check_family_def families_def activation_join_def complete_registry_def
      latest_validations_pass_def latest_validation_status_def validation_kinds_def approved_statuses_def
      set_from_row_def validated_entries_def family_codes_def scout_codes_list sample_defs
      definition_hash_def canonical_hash_def latest_def less_list_code Let_def)

theorem official_resolution_witness:
  "\<exists>ts. resolve_official (\<lambda>_. ''h'') complete_registry ''SCOUT'' 9 = Inr ts \<and>
    fst ` set (ts_entries ts) = set (family_codes ''SCOUT'')"
  using complete_registry_resolves official_resolution [OF complete_registry_inv, of "''SCOUT''" "\<lambda>_. ''h''" 9]
  by (auto simp: families_def)

text \<open>C16: an activation never rewrites history: what any earlier instant resolves to, value or error, is
  the same before and after.\<close>

theorem activation_keeps_history:
  assumes "registry_inv d" and "family \<in> set families"
    and "activate_pair gv sv t k h scope now d = Inr (uids, d')" and "instant < t"
  shows "resolve_official sha d' family instant = resolve_official sha d family instant"
  using resolve_stable [OF assms(1,2) _ assms(4)] assms(3) unfolding activate_pair_Inr by blast

definition sample_sha :: string where
  "sample_sha = replicate 64 CHR ''a''"

definition pair_registry :: db where
  "pair_registry = sample_registry\<lparr>activation_evidence := map (\<lambda>e. e\<lparr>ae_sha := sample_sha\<rparr>)
     (activation_evidence sample_registry)\<rparr>"

lemma pair_registry_inv: "registry_inv pair_registry"
  using sample_registry_inv by (simp add: registry_inv_def pair_registry_def sample_registry_def empty_db_def)

lemma pair_registry_activates:
  "\<exists>uids d'. activate_pair ''v1'' ''v1'' 5 ''key'' sample_sha ''PRODUCTION'' 5 pair_registry = Inr (uids, d')"
proof -
  have "is_sha256 sample_sha" by (simp add: is_sha256_def sample_sha_def list_all_iff)
  moreover have "\<not> blank ''key''" by (simp add: blank_def py_space_def)
  moreover have "\<exists>uids d'. activate_command ''v1'' ''v1'' 5 ''key'' sample_sha ''PRODUCTION'' 5 pair_registry = Inr (uids, d')"
    by (simp add: activate_command_def activation_evidence_for_pair_def activation_by_key_def
        activation_join_def version_for_activation_def append_activation_def insert_activation_def
        latest_validations_pass_def latest_validation_status_def validation_kinds_def approved_statuses_def
        absent_def present_def families_def activation_family_match_def activation_approved_def
        activation_time_advances_def activation_has_evidence_def one_or_none_def
        bindC_def readC_def new_uid_def execC_def returnC_def sample_defs latest_def pair_registry_def)
  ultimately show ?thesis by (simp add: activate_pair_Inr)
qed

theorem activation_keeps_history_witness:
  "\<exists>uids d'. activate_pair ''v1'' ''v1'' 5 ''key'' sample_sha ''PRODUCTION'' 5 pair_registry = Inr (uids, d') \<and>
    resolve_official id d' ''SCOUT'' 4 = resolve_official id pair_registry ''SCOUT'' 4"
  using pair_registry_activates activation_keeps_history [OF pair_registry_inv, of "''SCOUT''" _ _ 5 _ _ _ _ _ _ 4 id]
  by (fastforce simp: families_def)

section \<open>Paired activation\<close>

text \<open>C17: paired activation is idempotent: repeating a successful activation, at any later clock time,
  returns the same two identifiers and writes nothing.\<close>

theorem activation_idempotent:
  assumes "registry_inv d" and "activate_pair gv sv t k h scope now d = Inr (uids, d')"
  shows "activate_pair gv sv t k h scope now' d' = Inr (uids, d')"
  using activate_command_again [OF assms(1)] assms(2) unfolding activate_pair_Inr by blast

theorem activation_idempotent_witness:
  "\<exists>uids d'. activate_pair ''v1'' ''v1'' 5 ''key'' sample_sha ''PRODUCTION'' 5 pair_registry = Inr (uids, d') \<and>
    activate_pair ''v1'' ''v1'' 5 ''key'' sample_sha ''PRODUCTION'' 77 d' = Inr (uids, d')"
  using pair_registry_activates activation_idempotent [OF pair_registry_inv] by blast



section \<open>Registration\<close>

text \<open>C19: a registered version can be read back: resolving its family and version explicitly returns the
  very set that registration returned.\<close>

theorem registration_round_trip:
  assumes "registry_inv d" and "register_version sha f v approval ref es t d = Inr (ts, d')"
  shows "resolve_explicit sha d' f v t = Inr ts"
  using assms by (rule register_then_resolve)

theorem registration_round_trip_witness:
  "\<exists>ts d'. register_version (\<lambda>_. ''h'') ''SCOUT'' ''v1'' ''OWNER_APPROVED'' ''ref''
     (map (\<lambda>c. (c, 7)) scout_codes) 0 empty_db = Inr (ts, d') \<and>
   resolve_explicit (\<lambda>_. ''h'') d' ''SCOUT'' ''v1'' 0 = Inr ts"
proof -
  have "registry_inv empty_db" by (simp add: registry_inv_def empty_db_def)
  then show ?thesis using sample_register registration_round_trip by blast
qed

end
