(* ===== verification/Evidence_Theorems.thy ===== *)
theory Evidence_Theorems
  imports Registry_Theorems
begin

text \<open>
  The evidence gate of the threshold registry (\<open>thresholds.py\<close>): what a recorded production evidence
  guarantees, and the one malformed document that escapes the registry's own error.
\<close>

section \<open>What the parser has checked\<close>

lemma accessor_simps [result_simps]:
  "activation_mapping v = Inr ps \<longleftrightarrow> v = JObj ps"
  "activation_text v = Inr s \<longleftrightarrow> v = JStr s \<and> \<not> blank s"
  "activation_sha256 v = Inr s \<longleftrightarrow> v = JStr s \<and> is_sha256 s"
  by (cases v; auto simp: activation_mapping_def activation_text_def activation_sha256_def)+

lemma member_of_True: "member_of j names = Inr True \<longleftrightarrow> (\<exists>s \<in> set names. j = JStr s)"
  by (cases j) (auto simp: member_of_def)

lemma parse_observation_Inr:
  assumes "parse_observation producer raw = Inr (uid, lineage, quality)"
  obtains ob where "raw = JObj ob" "jget ob ''observation_uid'' = JStr uid"
    "jget ob ''producer_version'' = JStr producer"
    "jget ob ''market_phase'' \<in> {JStr ''CONTINUOUS_AM'', JStr ''CONTINUOUS_PM''}"
    "quality \<in> set quality_names"
  using assms
  by (auto simp: parse_observation_def member_of_True result_simps)

lemma replay_result_Inr:
  assumes "replay_result d value guardian scout = Inr replay_sha"
  obtains r replay where "value = JObj r" "jget r ''evidence_sha256'' = JStr replay_sha"
    "load_json d replay_sha = Some (JObj replay)" "jget replay ''evidence_kind'' = JStr ''CR005_CALIBRATION''"
    "jget replay ''validation_kind'' = JStr ''REPLAY''" "jget replay ''passed'' = JBool True"
    "threshold_reference (jget replay ''guardian_threshold'') = Inr guardian"
    "threshold_reference (jget replay ''scout_threshold'') = Inr scout"
  using assms
  by (auto simp: replay_result_def result_simps)

text \<open>A production document as the gate accepts it.\<close>

definition accepted_production :: "db \<Rightarrow> json_object \<Rightarrow> activation_evidence_doc \<Rightarrow> bool" where
  "accepted_production d doc ev \<longleftrightarrow>
     jget doc ''evidence_origin'' = JStr ''LIVE_SHADOW'' \<and> jget doc ''validation_kind'' = JStr ''SHADOW'' \<and>
     threshold_reference (jget doc ''guardian_threshold'') = Inr (ed_guardian ev) \<and>
     threshold_reference (jget doc ''scout_threshold'') = Inr (ed_scout ev) \<and>
     (\<exists>producer raws obs. jget doc ''observations'' = JArr raws \<and> 20 \<le> List.length raws \<and>
        mapR (parse_observation producer) raws = Inr obs \<and> distinct (map fst obs)) \<and>
     activation_sanity (jget doc ''sanity_result'') = Inr () \<and>
     activation_side_effect_audit (jget doc ''side_effect_audit'') = Inr () \<and>
     replay_result d (jget doc ''replay_result'') (ed_guardian ev) (ed_scout ev) = Inr (ed_replay ev)"

lemma parse_production_Inr:
  assumes "parse_production_evidence sha d h value = Inr ev"
  obtains doc where "value = JObj doc" "accepted_production d doc ev" "ed_sha ev = h" "ed_scope ev = ''PRODUCTION''"
proof -
  obtain doc where v: "value = JObj doc"
    using assms by (auto simp: parse_production_evidence_def result_simps)
  show thesis
  proof (cases "jget doc ''observations''")
    case (JArr raws)
    then show thesis
      using assms that [OF v]
      by (fastforce simp: parse_production_evidence_def v accepted_production_def
          result_simps Let_def not_less)
  qed (use assms v in \<open>auto simp: parse_production_evidence_def result_simps\<close>)
qed

section \<open>What is recorded\<close>

lemma evidence_threshold_uid_Inr:
  assumes "evidence_threshold_uid d family r demo = Inr uid"
  obtains v where "v \<in> set (threshold_versions d)" "tv_uid v = uid" "tv_family v = family"
    "tv_version v = er_version r" "tv_hash v = er_hash r" "tv_reference v = demo_owner_reference \<longleftrightarrow> demo"
proof -
  obtain row where row: "one_or_none (filter (\<lambda>v. tv_uid v = er_uid r) (threshold_versions d)) = Inr row"
    using assms by (auto simp: evidence_threshold_uid_def bindR_eq_Inr)
  show thesis
  proof (cases row)
    case (Some v)
    then have "filter (\<lambda>v. tv_uid v = er_uid r) (threshold_versions d) = [v]"
      using row by (simp add: one_or_none_eq_Some)
    then have "v \<in> set (filter (\<lambda>v. tv_uid v = er_uid r) (threshold_versions d))" by simp
    then show thesis
      using assms Some row that by (auto simp: evidence_threshold_uid_def result_simps split: if_splits)
  qed (use assms row in \<open>simp add: evidence_threshold_uid_def\<close>)
qed

lemma evidence_command_Inr:
  assumes "evidence_command ev now d = Inr (uid, d')"
  obtains e where "e \<in> set (activation_evidence d')" "ae_uid e = uid" "ae_sha e = ed_sha ev"
    "ae_replay e = ed_replay ev" "ae_scope e = ed_scope ev" "ae_observed e = ed_observed ev"
    "evidence_threshold_uid d ''GUARDIAN'' (ed_guardian ev) (ed_scope ev = ''DEMO'') = Inr (ae_guardian e)"
    "evidence_threshold_uid d ''SCOUT'' (ed_scout ev) (ed_scope ev = ''DEMO'') = Inr (ae_scout e)"
proof -
  obtain g s existing where
    g: "evidence_threshold_uid d ''GUARDIAN'' (ed_guardian ev) (ed_scope ev = ''DEMO'') = Inr g" and
    s: "evidence_threshold_uid d ''SCOUT'' (ed_scout ev) (ed_scope ev = ''DEMO'') = Inr s" and
    q: "one_or_none (filter (\<lambda>e. ae_sha e = ed_sha ev) (activation_evidence d)) = Inr existing"
    using assms by (auto simp: evidence_command_def result_simps)
  show thesis
  proof (cases existing)
    case None
    then show thesis
      using assms g s q that
      by (fastforce simp: evidence_command_def insert_activation_evidence_def result_simps)
  next
    case (Some e)
    then have "filter (\<lambda>e. ae_sha e = ed_sha ev) (activation_evidence d) = [e]"
      using q by (simp add: one_or_none_eq_Some)
    then have "e \<in> set (filter (\<lambda>e. ae_sha e = ed_sha ev) (activation_evidence d))" by simp
    then show thesis
      using assms g s q Some that by (auto simp: evidence_command_def result_simps)
  qed
qed

section \<open>The gate\<close>

text \<open>C20: production evidence is recorded only from an accepted document: the artifact of that digest is a
  live shadow document with at least twenty distinct continuous-session observations, a passing sanity
  result, no official side effect and a passing replay artifact for the same pair; the row recorded
  cites registered Guardian and Scout versions with the document's hashes, neither of them a demo one.\<close>

theorem evidence_gate:
  assumes "record_activation_evidence sha h ''PRODUCTION'' now d = Inr (uid, d')"
  shows "\<exists>doc ev e g s. load_json d h = Some (JObj doc) \<and> accepted_production d doc ev \<and>
    e \<in> set (activation_evidence d') \<and> ae_uid e = uid \<and> ae_sha e = h \<and> ae_scope e = ''PRODUCTION'' \<and>
    ae_replay e = ed_replay ev \<and>
    g \<in> set (threshold_versions d) \<and> tv_uid g = ae_guardian e \<and> tv_family g = ''GUARDIAN'' \<and>
    tv_hash g = er_hash (ed_guardian ev) \<and> tv_reference g \<noteq> demo_owner_reference \<and>
    s \<in> set (threshold_versions d) \<and> tv_uid s = ae_scout e \<and> tv_family s = ''SCOUT'' \<and>
    tv_hash s = er_hash (ed_scout ev) \<and> tv_reference s \<noteq> demo_owner_reference"
proof -
  obtain ev where read: "read_production_evidence sha d h = Inr ev" and
    run: "evidence_command ev now d = Inr (uid, d')"
    using assms by (auto simp: record_activation_evidence_def result_simps catch_Inr)
  obtain document where document: "load_json d h = Some document"
    "parse_production_evidence sha d h document = Inr ev"
    using read by (auto simp: read_production_evidence_def result_simps)
  obtain doc where doc: "document = JObj doc" "accepted_production d doc ev" "ed_sha ev = h"
    "ed_scope ev = ''PRODUCTION''"
    using document(2) by (rule parse_production_Inr)
  obtain e where e: "e \<in> set (activation_evidence d')" "ae_uid e = uid" "ae_sha e = h"
    "ae_replay e = ed_replay ev" "ae_scope e = ''PRODUCTION''"
    "evidence_threshold_uid d ''GUARDIAN'' (ed_guardian ev) False = Inr (ae_guardian e)"
    "evidence_threshold_uid d ''SCOUT'' (ed_scout ev) False = Inr (ae_scout e)"
    by (rule evidence_command_Inr [OF run]) (simp add: doc(3,4) that)
  obtain g where g: "g \<in> set (threshold_versions d)" "tv_uid g = ae_guardian e" "tv_family g = ''GUARDIAN''"
    "tv_hash g = er_hash (ed_guardian ev)" "tv_reference g \<noteq> demo_owner_reference"
    using evidence_threshold_uid_Inr [OF e(6)] by metis
  obtain s where s: "s \<in> set (threshold_versions d)" "tv_uid s = ae_scout e" "tv_family s = ''SCOUT''"
    "tv_hash s = er_hash (ed_scout ev)" "tv_reference s \<noteq> demo_owner_reference"
    using evidence_threshold_uid_Inr [OF e(7)] by metis
  show ?thesis using document(1) doc e g s by blast
qed

definition sample_observation :: "nat \<Rightarrow> json" where
  "sample_observation n = JObj
     [(''observation_uid'', JStr (replicate (Suc n) CHR ''o'')), (''snapshot_uid'', JStr ''s''),
      (''snapshot_hash'', JStr sample_sha), (''input_manifest_hash'', JStr sample_sha),
      (''metric_evidence_sha256'', JStr sample_sha), (''producer_version'', JStr ''p''),
      (''market_phase'', JStr ''CONTINUOUS_AM''), (''quality_status'', JStr ''FIT'')]"

definition sample_reference :: "string \<Rightarrow> json" where
  "sample_reference uid = JObj
     [(''uid'', JStr uid), (''version'', JStr ''v1''), (''definition_hash'', JStr sample_sha)]"

definition sample_fields :: json_object where
  "sample_fields =
     [(''schema_version'', JInt 1), (''evidence_kind'', JStr ''CR005_PRODUCTION_ACTIVATION''),
      (''evidence_origin'', JStr ''LIVE_SHADOW''), (''validation_kind'', JStr ''SHADOW''),
      (''observed_at'', JStr ''2026-01-05T02:30:00.000000Z''),
      (''guardian_threshold'', sample_reference ''G''), (''scout_threshold'', sample_reference ''S''),
      (''metric_producer_version'', JStr ''p''), (''observations'', JArr (map sample_observation [0..<20])),
      (''observation_identity_hash'', JStr ''h''), (''snapshot_input_lineage_hash'', JStr ''h''),
      (''quality_distribution'', JObj [(''FIT'', JInt 20), (''FIT_WITH_LIMITATIONS'', JInt 0), (''UNFIT'', JInt 0)]),
      (''sanity_result'', JObj [(''passed'', JBool True), (''failure_codes'', JArr [])]),
      (''side_effect_audit'', JObj [(''passed'', JBool True), (''official_business_side_effect_delta'', JInt 0)]),
      (''replay_result'', JObj [(''passed'', JBool True), (''evidence_sha256'', JStr (replicate 64 CHR ''b''))])]"

definition sample_replay :: json where
  "sample_replay = JObj
     [(''schema_version'', JInt 2), (''evidence_kind'', JStr ''CR005_CALIBRATION''),
      (''validation_kind'', JStr ''REPLAY''), (''passed'', JBool True), (''failure_codes'', JArr []),
      (''guardian_threshold'', sample_reference ''G''), (''scout_threshold'', sample_reference ''S'')]"

definition evidence_registry :: db where
  "evidence_registry = sample_registry
     \<lparr>threshold_versions := map (\<lambda>v. v\<lparr>tv_hash := sample_sha\<rparr>) (threshold_versions sample_registry),
      activation_evidence := [],
      artifact_objects := [sample_sha, replicate 64 CHR ''b''],
      artifact_files := [sample_sha \<mapsto> JsonFile (JObj sample_fields), replicate 64 CHR ''b'' \<mapsto> JsonFile sample_replay]\<rparr>"

lemma sample_observation_parses:
  "parse_observation ''p'' (sample_observation n) =
    Inr (replicate (Suc n) CHR ''o'', (''s'', sample_sha, sample_sha), ''FIT'')"
proof -
  have "is_sha256 sample_sha" by (simp add: is_sha256_def sample_sha_def list_all_iff)
  moreover have "\<not> blank (replicate (Suc n) CHR ''o'')" by (simp add: blank_def py_space_def)
  moreover have "\<not> blank ''s''" by (simp add: blank_def py_space_def)
  ultimately show ?thesis
    by (simp add: parse_observation_def sample_observation_def activation_mapping_def activation_text_def
        activation_sha256_def member_of_def quality_names_def jget_def pydict_def)
qed

lemma sample_observations_parse:
  "mapR (parse_observation ''p'') (map sample_observation [0..<20]) =
    Inr (map (\<lambda>n. (replicate (Suc n) CHR ''o'', (''s'', sample_sha, sample_sha), ''FIT'')) [0..<20])"
  unfolding mapR_Inr_iff by (simp add: sample_observation_parses comp_def del: upt.simps)

lemma sample_instant: "canonical_instant ''2026-01-05T02:30:00.000000Z'' = Some 1767580200000000"
  by code_simp

lemma sample_names: "\<not> blank ''G''" "\<not> blank ''S''" "\<not> blank ''v1''" "\<not> blank ''p''"
    "\<not> blank ''2026-01-05T02:30:00.000000Z''"
    "is_sha256 sample_sha" "is_sha256 (replicate 64 CHR ''b'')" "replicate 64 CHR ''b'' \<noteq> sample_sha"
  by (simp_all add: blank_def py_space_def is_sha256_def sample_sha_def list_all_iff)

lemma sample_reference_parses:
  "threshold_reference (sample_reference ''G'') = Inr \<lparr>er_uid = ''G'', er_version = ''v1'', er_hash = sample_sha\<rparr>"
  "threshold_reference (sample_reference ''S'') = Inr \<lparr>er_uid = ''S'', er_version = ''v1'', er_hash = sample_sha\<rparr>"
  using sample_names
  by (simp_all add: threshold_reference_def sample_reference_def activation_mapping_def activation_text_def
      activation_sha256_def jget_def pydict_def)

lemma sample_field_values:
  "jget sample_fields ''schema_version'' = JInt 1"
  "jget sample_fields ''evidence_kind'' = JStr ''CR005_PRODUCTION_ACTIVATION''"
  "jget sample_fields ''evidence_origin'' = JStr ''LIVE_SHADOW''"
  "jget sample_fields ''validation_kind'' = JStr ''SHADOW''"
  "jget sample_fields ''observed_at'' = JStr ''2026-01-05T02:30:00.000000Z''"
  "jget sample_fields ''guardian_threshold'' = sample_reference ''G''"
  "jget sample_fields ''scout_threshold'' = sample_reference ''S''"
  "jget sample_fields ''metric_producer_version'' = JStr ''p''"
  "jget sample_fields ''observations'' = JArr (map sample_observation [0..<20])"
  "jget sample_fields ''observation_identity_hash'' = JStr ''h''"
  "jget sample_fields ''snapshot_input_lineage_hash'' = JStr ''h''"
  "jget sample_fields ''quality_distribution'' =
     JObj [(''FIT'', JInt 20), (''FIT_WITH_LIMITATIONS'', JInt 0), (''UNFIT'', JInt 0)]"
  "activation_sanity (jget sample_fields ''sanity_result'') = Inr ()"
  "activation_side_effect_audit (jget sample_fields ''side_effect_audit'') = Inr ()"
  "jget sample_fields ''replay_result'' =
     JObj [(''passed'', JBool True), (''evidence_sha256'', JStr (replicate 64 CHR ''b''))]"
  by (simp_all add: jget_def pydict_def sample_fields_def activation_sanity_def
      activation_side_effect_audit_def activation_mapping_def del: upt.simps)

lemma sample_registry_loads:
  "load_json evidence_registry sample_sha = Some (JObj sample_fields)"
  "load_json evidence_registry (replicate 64 CHR ''b'') = Some sample_replay"
  using sample_names by (simp_all add: load_json_def open_verified_def evidence_registry_def)

lemma sample_replay_passes:
  "replay_result evidence_registry (jget sample_fields ''replay_result'')
     \<lparr>er_uid = ''G'', er_version = ''v1'', er_hash = sample_sha\<rparr>
     \<lparr>er_uid = ''S'', er_version = ''v1'', er_hash = sample_sha\<rparr> = Inr (replicate 64 CHR ''b'')"
  using sample_names sample_registry_loads(2) sample_reference_parses unfolding sample_field_values(15)
  by (simp add: replay_result_def activation_mapping_def activation_sha256_def
      jget_def pydict_def sample_replay_def is_num_def)

lemma sample_distribution:
  "quality_distribution_matches [(''FIT'', JInt 20), (''FIT_WITH_LIMITATIONS'', JInt 0), (''UNFIT'', JInt 0)]
     (map (\<lambda>_. ''FIT'') [0..<20])"
  by (auto simp: quality_distribution_matches_def quality_names_def jget_def pydict_def is_num_def
      filter_map comp_def simp del: upt.simps)

lemma sample_document_parses:
  "\<exists>ev. parse_production_evidence (\<lambda>_. ''h'') evidence_registry sample_sha (JObj sample_fields) = Inr ev \<and>
    ed_guardian ev = \<lparr>er_uid = ''G'', er_version = ''v1'', er_hash = sample_sha\<rparr> \<and>
    ed_scout ev = \<lparr>er_uid = ''S'', er_version = ''v1'', er_hash = sample_sha\<rparr> \<and>
    ed_sha ev = sample_sha \<and> ed_scope ev = ''PRODUCTION'' \<and> ed_replay ev = replicate 64 CHR ''b''"
proof -
  have d: "distinct (map (\<lambda>n. replicate (Suc n) CHR ''o'') [0..<20])"
    by (auto simp: distinct_map inj_on_def dest: arg_cong [of _ _ length])
  show ?thesis
    using sample_names sample_reference_parses sample_replay_passes sample_distribution d
    by (simp add: parse_production_evidence_def sample_field_values activation_mapping_def activation_text_def
        activation_instant_def sample_instant sample_observations_parse canonical_hash_def is_num_def comp_def
        del: upt.simps replicate.simps)
qed

lemma sample_evidence_recorded:
  "\<exists>uid d'. record_activation_evidence (\<lambda>_. ''h'') sample_sha ''PRODUCTION'' 7 evidence_registry = Inr (uid, d')"
proof -
  obtain ev where ev:
    "parse_production_evidence (\<lambda>_. ''h'') evidence_registry sample_sha (JObj sample_fields) = Inr ev"
    "ed_guardian ev = \<lparr>er_uid = ''G'', er_version = ''v1'', er_hash = sample_sha\<rparr>"
    "ed_scout ev = \<lparr>er_uid = ''S'', er_version = ''v1'', er_hash = sample_sha\<rparr>"
    "ed_sha ev = sample_sha" "ed_scope ev = ''PRODUCTION''" "ed_replay ev = replicate 64 CHR ''b''"
    using sample_document_parses by blast
  show ?thesis
    using ev sample_names sample_registry_loads(1)
    by (simp add: record_activation_evidence_def read_production_evidence_def evidence_command_def
        evidence_threshold_uid_def insert_activation_evidence_def one_or_none_def catch_database_error_def
        bindC_def readC_def checkC_def new_uid_def execC_def returnC_def absent_def present_def
        evidence_registry_def sample_defs demo_owner_reference_def del: replicate.simps)
qed

theorem evidence_gate_witness:
  "\<exists>uid d'. record_activation_evidence (\<lambda>_. ''h'') sample_sha ''PRODUCTION'' 7 evidence_registry = Inr (uid, d') \<and>
    (\<exists>doc ev. accepted_production evidence_registry doc ev)"
proof -
  obtain uid d' where
    "record_activation_evidence (\<lambda>_. ''h'') sample_sha ''PRODUCTION'' 7 evidence_registry = Inr (uid, d')"
    using sample_evidence_recorded by blast
  then show ?thesis using evidence_gate by blast
qed

section \<open>The error that escapes\<close>

text \<open>C21: a document whose observation has a list or an object where the market phase is expected does not
  raise the registry's activation error: the membership test hashes the value and Python's TypeError
  escapes, whatever the rest of the document says after it.\<close>

theorem unhashable_phase_escapes:
  assumes "parse_observation producer (JObj ob) = Inr r" and "bad = JArr xs \<or> bad = JObj ps"
  shows "parse_observation producer (JObj (ob @ [(''market_phase'', bad)])) = Inl (TypeError ''unhashable type'')"
proof -
  have "jget (ob @ [(''market_phase'', bad)]) ''market_phase'' = bad"
    "k \<noteq> ''market_phase'' \<Longrightarrow> jget (ob @ [(''market_phase'', bad)]) k = jget ob k" for k
    by (simp_all add: jget_def pydict_def)
  then show ?thesis
    using assms by (auto simp: parse_observation_def member_of_def activation_mapping_def result_simps)
qed

theorem unhashable_phase_escapes_witness:
  "\<exists>ob. sample_observation 0 = JObj ob \<and>
    parse_observation ''p'' (JObj (ob @ [(''market_phase'', JArr [])])) = Inl (TypeError ''unhashable type'')"
proof -
  obtain ob where ob: "sample_observation 0 = JObj ob" by (simp add: sample_observation_def)
  show ?thesis
    by (rule exI [of _ ob])
      (rule conjI [OF ob unhashable_phase_escapes [OF sample_observation_parses [of 0, unfolded ob]]], rule disjI1, rule refl)
qed

end
