(* ===== verification/Decision_Services.thy ===== *)
theory Decision_Services
  imports Commit_Decision Registry_Properties
begin

text \<open>
  The services of \<open>guardian.py\<close> and \<open>scout.py\<close>, for evaluations outside the analysis commit
  (research, replay, shadow): each evaluates a recorded state or Guardian evaluation once, from the
  facts stored with it, and returns the stored evaluation when asked again.
\<close>

section \<open>Facts of a state evaluation\<close>

record evaluation_fact =
  ef_uid :: string
  ef_code :: string
  ef_value :: "int option"
  ef_threshold :: "string option"

definition evaluation_facts :: "db \<Rightarrow> string \<Rightarrow> evaluation_fact list" where
  "evaluation_facts d state_uid =
     concat (map (\<lambda>(_, fuid).
         concat (map (\<lambda>f. map (\<lambda>r. \<lparr>ef_uid = f_uid f, ef_code = f_code f, ef_value = f_value f,
             ef_threshold = rx_threshold r\<rparr>)
           (filter (\<lambda>r. rx_uid r = f_exec f) (rule_executions d)))
         (filter (\<lambda>f. f_uid f = fuid) (facts d))))
       (filter (\<lambda>(e, _). e = state_uid) (state_facts d)))"

definition facts_by_code :: "evaluation_fact list \<Rightarrow> (string \<rightharpoonup> evaluation_fact)" where
  "facts_by_code rows = pydict (map (\<lambda>r. (ef_code r, r)) rows)"

definition metric_values :: "evaluation_fact list \<Rightarrow> (string \<rightharpoonup> int)" where
  "metric_values rows = (\<lambda>c. case facts_by_code rows c of None \<Rightarrow> None | Some r \<Rightarrow> ef_value r)"

section \<open>Guardian\<close>

record guardian_evaluation =
  ge_uid :: string
  ge_state :: string
  ge_effect :: guardian_effect
  ge_blocking :: bool
  ge_severity :: severity
  ge_hash :: string
  ge_risks :: "risk_finding list"

definition get_guardian :: "string \<Rightarrow> db \<Rightarrow> guardian_evaluation result" where
  "get_guardian uid d =
     bindR (one (filter (\<lambda>g. g_uid g = uid) (guardians d))) (\<lambda>row.
     Inr \<lparr>ge_uid = g_uid row, ge_state = g_state row, ge_effect = g_effect row,
          ge_blocking = g_blocking row, ge_severity = g_severity row, ge_hash = g_hash row,
          ge_risks = map (\<lambda>r. \<lparr>risk_tag = rk_tag r, severity = rk_severity r,
              reason_code = rk_reason r, primary_fact_uid = rk_fact r\<rparr>)
            (sort_key rk_tag (filter (\<lambda>r. rk_guardian r = uid) (risk_tags d)))\<rparr>)"

definition guardian_by_state :: "string \<Rightarrow> db \<Rightarrow> guardian_evaluation option result" where
  "guardian_by_state state_uid d =
     bindR (one_or_none (filter (\<lambda>g. g_state g = state_uid) (guardians d))) (\<lambda>g.
       case g of None \<Rightarrow> Inr None
       | Some row \<Rightarrow> bindR (get_guardian (g_uid row) d) (\<lambda>e. Inr (Some e)))"

definition state_context :: "db \<Rightarrow> string \<Rightarrow> (state_row \<times> quality_row) result" where
  "state_context d state_uid =
     one (concat (map (\<lambda>e. concat (map (\<lambda>s. map (\<lambda>q. (e, q))
         (filter (\<lambda>q. qc_uid q = snap_quality s) (qualities d)))
         (filter (\<lambda>s. snap_uid s = se_snapshot e) (snapshots d))))
       (filter (\<lambda>e. se_uid e = state_uid) (states d))))"

text \<open>The decision of the service: first without thresholds, then with the facts' own version.\<close>

definition service_decision ::
    "(string \<Rightarrow> string) \<Rightarrow> db \<Rightarrow> state_row \<Rightarrow> quality_row \<Rightarrow> evaluation_fact list \<Rightarrow>
     guardian_decision_record result" where
  "service_decision sha d state quality rows =
     (let m = metric_values rows;
          uids = (\<lambda>c. map_option ef_uid (facts_by_code rows c));
          decide = (\<lambda>t. guardian_decision m t (se_availability state) (qc_health quality)
            (qc_fitness quality) (Some uids))
      in bindR (decide None) (\<lambda>decision.
         if unavailable decision then Inr decision
         else bindR (mapR (\<lambda>code. require (KeyError code) (facts_by_code rows code)) guardian_codes) (\<lambda>used.
              bindR (resolve_thresholds_for_facts sha d ''GUARDIAN'' (map ef_threshold used)) (\<lambda>thresholds.
              decide (Some (pydict (ts_entries thresholds)))))))"

definition evaluate_guardian ::
    "(string \<Rightarrow> string) \<Rightarrow> string \<Rightarrow> guardian_evaluation cmd" where
  "evaluate_guardian sha state_uid =
     bindC (readC (guardian_by_state state_uid)) (\<lambda>existing.
     case existing of
       Some e \<Rightarrow> returnC e
     | None \<Rightarrow>
         bindC (readC (\<lambda>d. state_context d state_uid)) (\<lambda>(state, quality).
         bindC (readC (\<lambda>d. service_decision sha d state quality (evaluation_facts d state_uid))) (\<lambda>decision.
         bindC (write_guardian sha state_uid (se_hash state) (se_subject state) (se_snapshot state)
           (se_created state) (guardian_effect decision) (max_severity decision) (risks decision)) (\<lambda>outcome.
         readC (get_guardian (go_uid outcome))))))"

section \<open>Scout\<close>

record scout_evaluation =
  sc_uid :: string
  sc_guardian :: string
  sc_effect :: guardian_effect
  sc_status :: string
  sc_strength :: string
  sc_suppressed :: bool
  sc_hash :: string
  sc_tags :: "opportunity_finding list"

definition get_scout :: "string \<Rightarrow> db \<Rightarrow> scout_evaluation result" where
  "get_scout uid d =
     bindR (one (filter (\<lambda>s. s_uid s = uid) (scouts d))) (\<lambda>row.
     Inr \<lparr>sc_uid = s_uid row, sc_guardian = s_guardian row, sc_effect = s_effect row,
          sc_status = s_status row, sc_strength = s_strength row, sc_suppressed = s_suppressed row,
          sc_hash = s_hash row,
          sc_tags = map (\<lambda>t. \<lparr>opportunity_tag = op_tag t, opp_reason_code = op_reason t,
              opp_primary_fact_uid = op_fact t\<rparr>)
            (sort_key op_tag (filter (\<lambda>t. op_scout t = uid) (opportunities d)))\<rparr>)"

definition scout_by_guardian :: "string \<Rightarrow> db \<Rightarrow> scout_evaluation option result" where
  "scout_by_guardian guardian_uid d =
     bindR (one_or_none (filter (\<lambda>s. s_guardian s = guardian_uid) (scouts d))) (\<lambda>s.
       case s of None \<Rightarrow> Inr None
       | Some row \<Rightarrow> bindR (get_scout (s_uid row) d) (\<lambda>e. Inr (Some e)))"

definition guardian_context :: "db \<Rightarrow> string \<Rightarrow> (guardian_row \<times> state_row) result" where
  "guardian_context d guardian_uid =
     one (concat (map (\<lambda>g. map (\<lambda>e. (g, e)) (filter (\<lambda>e. se_uid e = g_state g) (states d)))
       (filter (\<lambda>g. g_uid g = guardian_uid) (guardians d))))"

definition service_findings ::
    "(string \<Rightarrow> string) \<Rightarrow> db \<Rightarrow> evaluation_fact list \<Rightarrow> opportunity_finding list result" where
  "service_findings sha d rows =
     (let used = concat (map (\<lambda>code. case facts_by_code rows code of None \<Rightarrow> [] | Some r \<Rightarrow> [r]) scout_codes)
      in if used = [] then Inr []
         else bindR (resolve_thresholds_for_facts sha d ''SCOUT'' (map ef_threshold used)) (\<lambda>thresholds.
           scout_findings (\<lambda>c. case facts_by_code rows c of None \<Rightarrow> None
               | Some r \<Rightarrow> map_option (\<lambda>v. (ef_uid r, v)) (ef_value r))
             (pydict (ts_entries thresholds))))"

definition evaluate_scout :: "(string \<Rightarrow> string) \<Rightarrow> string \<Rightarrow> scout_evaluation cmd" where
  "evaluate_scout sha guardian_uid =
     bindC (readC (scout_by_guardian guardian_uid)) (\<lambda>existing.
     case existing of
       Some e \<Rightarrow> returnC e
     | None \<Rightarrow>
         bindC (readC (\<lambda>d. guardian_context d guardian_uid)) (\<lambda>(guardian, state).
         bindC (readC (\<lambda>d. service_findings sha d (evaluation_facts d (g_state guardian)))) (\<lambda>found.
         bindC (write_scout sha guardian_uid (g_hash guardian) (g_effect guardian) (g_state guardian)
           (g_subject guardian) (g_snapshot guardian) (se_created state) found) (\<lambda>outcome.
         readC (get_scout (so_uid outcome))))))"

section \<open>What a row says of its decision\<close>

lemma grows_insert_risk [grows_intros]: "keeps grows (insert_risk g r)"
  unfolding insert_risk_def by (intro grows_intros)

lemma grows_write_guardian [grows_intros]: "keeps grows (write_guardian sha s h sub sn t e m rs)"
  unfolding write_guardian_def Let_def by (intro grows_intros)

lemma grows_insert_opportunity [grows_intros]: "keeps grows (insert_opportunity s i)"
  unfolding insert_opportunity_def by (intro grows_intros)

lemma grows_write_scout [grows_intros]: "keeps grows (write_scout sha g h e s sub sn t fs)"
  unfolding write_scout_def Let_def by (intro grows_intros)

lemma grows_evaluate_guardian: "keeps grows (evaluate_guardian sha u)"
  unfolding evaluate_guardian_def by (intro grows_intros)

lemma grows_evaluate_scout: "keeps grows (evaluate_scout sha u)"
  unfolding evaluate_scout_def by (intro grows_intros)

end
