(* ===== verification/Commit_Events.thy ===== *)
theory Commit_Events
  imports Commit_Decision Time_Text
begin

text \<open>
  \<open>analysis_commit.py\<close>, the frozen context (\<open>_frozen_context\<close>, \<open>_frozen_evidence\<close>,
  \<open>_frozen_reason_context\<close>) and the event machine (\<open>_decide_events\<close>): which market events an analysis
  commit opens, changes or resolves, and the notification intents it leaves for delivery.
\<close>

section \<open>The frozen context\<close>

text \<open>One row of the evidence query: \<open>EvidenceItemView\<close> with its attributes.\<close>

record evidence_item =
  ei_role :: string
  ei_reason :: string
  ei_fact :: string
  ei_execution :: string
  ei_attributes :: "(string \<times> string) list"
  ei_tag :: string

definition fact_executions :: "db \<Rightarrow> string \<Rightarrow> (fact_row \<times> rule_execution_row) list" where
  "fact_executions d fact_uid =
     concat (map (\<lambda>f. map (\<lambda>r. (f, r)) (filter (\<lambda>r. rx_uid r = f_exec f) (rule_executions d)))
       (filter (\<lambda>f. f_uid f = fact_uid) (facts d)))"

definition guardian_evidence :: "db \<Rightarrow> string \<Rightarrow> evidence_item list" where
  "guardian_evidence d guardian_uid =
     concat (map (\<lambda>t. concat (map (\<lambda>e. map (\<lambda>(f, r).
           \<lparr>ei_role = te_role e, ei_reason = rk_reason t, ei_fact = te_fact e, ei_execution = f_exec f,
            ei_attributes = [(''risk_tag'', rk_tag t), (''rule_key'', rx_key r),
              (''rule_version'', rx_version r), (''severity'', severity_name (rk_severity t))],
            ei_tag = rk_tag t\<rparr>) (fact_executions d (te_fact e)))
         (filter (\<lambda>e. te_owner e = guardian_uid \<and> te_tag e = rk_tag t) (risk_evidence d))))
       (filter (\<lambda>t. rk_guardian t = guardian_uid) (risk_tags d)))"

definition scout_evidence :: "db \<Rightarrow> string \<Rightarrow> evidence_item list" where
  "scout_evidence d scout_uid =
     concat (map (\<lambda>t. concat (map (\<lambda>e. map (\<lambda>(f, r).
           \<lparr>ei_role = te_role e, ei_reason = op_reason t, ei_fact = te_fact e, ei_execution = f_exec f,
            ei_attributes = [(''opportunity_tag'', op_tag t), (''rule_key'', rx_key r),
              (''rule_version'', rx_version r)],
            ei_tag = op_tag t\<rparr>) (fact_executions d (te_fact e)))
         (filter (\<lambda>e. te_owner e = scout_uid \<and> te_tag e = op_tag t) (opportunity_evidence d))))
       (filter (\<lambda>t. op_scout t = scout_uid) (opportunities d)))"

definition frozen_evidence :: "db \<Rightarrow> string \<Rightarrow> string \<Rightarrow> evidence_item list" where
  "frozen_evidence d guardian_uid scout_uid =
     sort_key (\<lambda>i. (ei_tag i, ei_role i, ei_fact i))
       (guardian_evidence d guardian_uid @ scout_evidence d scout_uid)"

definition attributes_json :: "(string \<times> string) list \<Rightarrow> json" where
  "attributes_json as = JObj (map (\<lambda>(k, v). (k, JStr v)) as)"

text \<open>\<open>model_dump\<close> without and with the role.\<close>

definition item_fields :: "evidence_item \<Rightarrow> (string \<times> json) list" where
  "item_fields i =
     [(''reason_code'', JStr (ei_reason i)), (''fact_uid'', JStr (ei_fact i)),
      (''fact_uid_status'', JStr ''VALUE''), (''rule_execution_uid'', JStr (ei_execution i)),
      (''rule_execution_uid_status'', JStr ''VALUE''), (''template_key'', JStr (ei_reason i)),
      (''attributes'', attributes_json (ei_attributes i))]"

definition item_json :: "evidence_item \<Rightarrow> json" where
  "item_json i = JObj ((''role'', JStr (ei_role i)) # item_fields i)"

definition reason_context ::
    "string option \<Rightarrow> string \<Rightarrow> (string \<times> string) list \<Rightarrow> (string \<rightharpoonup> evidence_item) \<Rightarrow>
     (string \<times> json) list" where
  "reason_context fact_uid reason attributes evidence =
     (case (case fact_uid of None \<Rightarrow> None | Some f \<Rightarrow> evidence f) of
        Some i \<Rightarrow> item_fields i
      | None \<Rightarrow>
          [(''fact_uid'', JOpt fact_uid),
           (''fact_uid_status'', JStr (if fact_uid = None then ''MISSING'' else ''VALUE'')),
           (''rule_execution_uid'', JNull), (''rule_execution_uid_status'', JStr ''MISSING''),
           (''template_key'', JStr reason), (''attributes'', attributes_json attributes)])"

text \<open>\<open>{**a, **b}\<close>.\<close>

definition merge_fields :: "(string \<times> json) list \<Rightarrow> (string \<times> json) list \<Rightarrow> (string \<times> json) list" where
  "merge_fields a b = filter (\<lambda>(k, _). k \<notin> fst ` set b) a @ b"

definition frozen_context ::
    "db \<Rightarrow> snapshot_row \<Rightarrow> quality_row \<Rightarrow> analysis_commit_request \<Rightarrow> guardian_outcome \<Rightarrow> scout_outcome \<Rightarrow>
     (string \<times> json) list" where
  "frozen_context d snapshot quality request guardian scout =
     (let confidence = confidence_from_quality (rq_availability request) (qc_health quality)
            (qc_fitness quality) (qc_sufficiency quality) ''VALID'';
          evidence = frozen_evidence d (go_uid guardian) (so_uid scout);
          by_fact = pydict (map (\<lambda>i. (ei_fact i, i)) evidence);
          limits = sort_key lim_code (filter (\<lambda>l. lim_quality l = snap_quality snapshot) (limitations d))
      in [(''as_of_time'', JStr (format_rfc3339 (snap_as_of snapshot))),
          (''guardian'', JObj
            [(''guardian_uid'', JStr (go_uid guardian)), (''effect'', JStr (effect_name (go_effect guardian))),
             (''blocking'', JBool (go_blocking guardian)),
             (''risks'', JArr (map (\<lambda>r. JObj (merge_fields
               [(''tag'', JStr (risk_tag r)), (''severity'', JStr (severity_name (severity r))),
                (''reason_code'', JStr (reason_code r))]
               (reason_context (primary_fact_uid r) (reason_code r)
                 [(''risk_tag'', risk_tag r), (''severity'', severity_name (severity r))] by_fact)))
               (go_risks guardian)))]),
          (''confidence'', JObj [(''level'', JStr (cv_level confidence)),
             (''reference_status'', JStr (cv_reference_status confidence))]),
          (''scout'', JObj
            [(''scout_uid'', JStr (so_uid scout)), (''status'', JStr (so_status scout)),
             (''strength'', JStr (so_strength scout)),
             (''suppressed_by_guardian'', JBool (so_suppressed scout)),
             (''tags'', JArr (map (\<lambda>w. JObj (merge_fields
               [(''tag'', JStr (opportunity_tag w)), (''reason_code'', JStr (opp_reason_code w))]
               (reason_context (Some (opp_primary_fact_uid w)) (opp_reason_code w)
                 [(''opportunity_tag'', opportunity_tag w)] by_fact))) (so_opportunities scout)))]),
          (''explanation'', JObj
            [(''supporting'', JArr (map item_json (filter (\<lambda>i. ei_role i = ''SUPPORTING'') evidence))),
             (''contrary'', JArr (map item_json (filter (\<lambda>i. ei_role i = ''CONTRARY'') evidence)))]),
          (''data_limitations'', JArr (map (\<lambda>l. JObj [(''code'', JStr (lim_code l)),
             (''detail'', JStr (lim_detail l))]) limits))])"

section \<open>Events and intents\<close>

text \<open>What the event step needs of the commit.\<close>

record event_source =
  es_snapshot :: snapshot_row
  es_commit :: string
  es_state :: string
  es_guardian :: guardian_outcome
  es_scout :: scout_outcome
  es_context :: "(string \<times> json) list"
  es_channels :: "string list"
  es_generation :: int

definition related_key :: "(string \<Rightarrow> string) \<Rightarrow> string \<Rightarrow> string \<Rightarrow> string" where
  "related_key sha subject kind =
     canonical_hash sha (JObj [(''subject_uid'', JStr subject), (''event_kind'', JStr kind)])"

text \<open>What to do with the event of one kind: nothing, or the next version of an event.\<close>

record event_step =
  st_version :: int
  st_change :: string
  st_status :: string
  st_intent :: string

definition plan_event :: "string \<Rightarrow> bool \<Rightarrow> event_projection_row option \<Rightarrow> event_step option" where
  "plan_event kind active current =
     (if active then
        (case current of
           Some p \<Rightarrow>
             if ep_status p \<in> {''RESOLVED'', ''INVALIDATED''}
             then Some \<lparr>st_version = 1, st_change = ''CREATED'', st_status = ''ACTIVE'',
               st_intent = (if kind = ''GUARDIAN_RISK'' then ''RISK'' else ''ATTENTION'')\<rparr>
             else Some \<lparr>st_version = ep_version p + 1, st_change = ''CHANGED'', st_status = ''ACTIVE'',
               st_intent = (if kind = ''GUARDIAN_RISK'' then ''RISK'' else ''ATTENTION'')\<rparr>
         | None \<Rightarrow> Some \<lparr>st_version = 1, st_change = ''CREATED'', st_status = ''ACTIVE'',
               st_intent = (if kind = ''GUARDIAN_RISK'' then ''RISK'' else ''ATTENTION'')\<rparr>)
      else
        (case current of
           Some p \<Rightarrow>
             if ep_status p \<in> {''CANDIDATE'', ''ACTIVE''}
             then Some \<lparr>st_version = ep_version p + 1, st_change = ''RESOLVED'', st_status = ''RESOLVED'',
               st_intent = ''RESOLUTION''\<rparr>
             else None
         | None \<Rightarrow> None))"

definition event_evidence_facts :: "event_source \<Rightarrow> string \<Rightarrow> bool \<Rightarrow> string list" where
  "event_evidence_facts src kind active =
     (if \<not> active then []
      else if kind = ''GUARDIAN_RISK''
      then concat (map (\<lambda>r. case primary_fact_uid r of None \<Rightarrow> [] | Some f \<Rightarrow> [f]) (go_risks (es_guardian src)))
      else map opp_primary_fact_uid (so_opportunities (es_scout src)))"

definition event_source_hash :: "(string \<Rightarrow> string) \<Rightarrow> event_source \<Rightarrow> string \<Rightarrow> bool \<Rightarrow> string" where
  "event_source_hash sha src kind active =
     (if \<not> active
      then canonical_hash sha (JObj [(''guardian'', JStr (go_hash (es_guardian src))),
             (''scout'', JStr (so_hash (es_scout src)))])
      else if kind = ''GUARDIAN_RISK'' then go_hash (es_guardian src) else so_hash (es_scout src))"

definition five_minutes :: int where
  "five_minutes = 300000000"

definition emit_intent ::
    "(string \<Rightarrow> string) \<Rightarrow> event_source \<Rightarrow> string \<Rightarrow> string \<Rightarrow> json \<Rightarrow> string \<Rightarrow> string cmd" where
  "emit_intent sha src version_uid intent_kind frozen channel =
     bindC new_uid (\<lambda>intent_uid.
     bindC (insert_intent
       \<lparr>in_uid = intent_uid, in_version = version_uid, in_channel = channel, in_kind = intent_kind,
        in_key = canonical_hash sha (JObj [(''event_version_uid'', JStr version_uid), (''channel'', JStr channel)]),
        in_context = frozen, in_context_hash = canonical_hash sha frozen,
        in_created = snap_as_of (es_snapshot src), in_expires = snap_as_of (es_snapshot src) + five_minutes,
        in_generation = es_generation src\<rparr>) (\<lambda>_.
     bindC (insert_delivery
       \<lparr>dl_intent = intent_uid, dl_status = ''PENDING'', dl_attempts = 0,
        dl_next = Some (snap_as_of (es_snapshot src)), dl_owner = None, dl_lease = None,
        dl_error = None, dl_version = 1, dl_updated = snap_as_of (es_snapshot src)\<rparr>) (\<lambda>_.
     returnC intent_uid)))"

text \<open>One kind of event: its projection, the new version with its evidence, the intents.\<close>

definition write_event ::
    "(string \<Rightarrow> string) \<Rightarrow> event_source \<Rightarrow> string \<Rightarrow> bool \<Rightarrow> event_projection_row option \<Rightarrow> event_step \<Rightarrow>
     (string list \<times> string list) cmd" where
  "write_event sha src kind active current step =
     (let snapshot = es_snapshot src;
          key = related_key sha (snap_subject snapshot) kind;
          created = (st_change step = ''CREATED'') in
      bindC (case current of
          Some p \<Rightarrow> if created then new_uid else returnC (ep_event p)
        | None \<Rightarrow> new_uid) (\<lambda>event_uid.
      bindC (if created then insert_market_event
          \<lparr>ev_uid = event_uid, ev_subject = snap_subject snapshot, ev_kind = kind, ev_related = key,
           ev_created = snap_as_of snapshot\<rparr> else returnC ()) (\<lambda>_.
      let version_hash = canonical_hash sha (JObj
            [(''event_uid'', JStr event_uid), (''version'', JInt (st_version step)),
             (''status'', JStr (st_status step)),
             (''source_hash'', JStr (event_source_hash sha src kind active))]) in
      bindC new_uid (\<lambda>version_uid.
      bindC (insert_event_version
        \<lparr>vv_uid = version_uid, vv_event = event_uid, vv_version = st_version step,
         vv_status = st_status step, vv_change = st_change step, vv_commit = es_commit src,
         vv_state = es_state src, vv_guardian = go_uid (es_guardian src),
         vv_scout = so_uid (es_scout src), vv_hash = version_hash, vv_created = snap_as_of snapshot\<rparr>) (\<lambda>_.
      bindC (forC (insert_event_evidence version_uid)
        (sort (remdups (event_evidence_facts src kind active)))) (\<lambda>_.
      let row = \<lparr>ep_related = key, ep_event = event_uid, ep_version_uid = version_uid,
           ep_status = st_status step, ep_version = st_version step, ep_updated = snap_as_of snapshot\<rparr> in
      bindC (if current = None then insert_event_projection row else update_event_projection row) (\<lambda>_.
      let frozen = JObj (merge_fields (es_context src)
            [(''event'', JObj [(''event_uid'', JStr event_uid), (''version'', JInt (st_version step)),
               (''status'', JStr (st_status step))])]) in
      bindC (mapC (emit_intent sha src version_uid (st_intent step) frozen) (es_channels src)) (\<lambda>intent_uids.
      returnC ([version_uid], intent_uids)))))))))"

definition event_projection_of :: "string \<Rightarrow> event_projection_row option cmd" where
  "event_projection_of key =
     readC (\<lambda>d. one_or_none (filter (\<lambda>p. ep_related p = key) (event_projections d)))"

definition decide_event ::
    "(string \<Rightarrow> string) \<Rightarrow> event_source \<Rightarrow> string \<times> bool \<Rightarrow> (string list \<times> string list) cmd" where
  "decide_event sha src = (\<lambda>(kind, active).
     bindC (event_projection_of (related_key sha (snap_subject (es_snapshot src)) kind)) (\<lambda>current.
     case plan_event kind active current of
       None \<Rightarrow> returnC ([], [])
     | Some step \<Rightarrow> write_event sha src kind active current step))"

definition desired_events :: "event_source \<Rightarrow> (string \<times> bool) list" where
  "desired_events src =
     [(''GUARDIAN_RISK'', go_effect (es_guardian src) \<noteq> ALLOW),
      (''SCOUT_WATCH'', so_status (es_scout src) = ''ACTIVE'' \<and> \<not> so_suppressed (es_scout src))]"

definition decide_events ::
    "(string \<Rightarrow> string) \<Rightarrow> event_source \<Rightarrow> (string list \<times> string list) cmd" where
  "decide_events sha src =
     bindC (mapC (decide_event sha src) (desired_events src)) (\<lambda>results.
     returnC (concat (map fst results), concat (map snd results)))"

end
