(* ===== verification/Analysis_Commit.thy ===== *)
theory Analysis_Commit
  imports Commit_Events Activation_Evidence
begin

text \<open>
  \<open>analysis_commit.py\<close>: the OFFICIAL commit. Before the transaction (\<open>commit_prepare\<close>) the request is
  validated, the metric evidence is read and its lineage verified against the snapshot, the active
  thresholds and the persisted facts; the transaction (\<open>commit_command\<close>) writes state, Guardian,
  Scout, the commit, the events with their intents, and the audit record, or nothing. The two are
  separate commands because other writers may run in between.
\<close>

section \<open>Validation of the request\<close>

definition validate_metrics :: "(string \<times> int) list \<Rightarrow> string list \<Rightarrow> unit result" where
  "validate_metrics metrics allowed =
     guardR (\<not> set (map fst metrics) \<subseteq> set allowed) (ValueError ''metric code is not approved'')
    (guardR (list_ex (\<lambda>(_, v). \<not> (0 \<le> v \<and> v \<le> 1000000)) metrics)
       (ValueError ''metrics must be integer PPM values from 0 to 1000000'')
     (Inr ()))"

definition commit_channels :: "analysis_commit_request \<Rightarrow> string list" where
  "commit_channels request = sort (remdups (rq_channels request))"

definition validate_request :: "analysis_commit_request \<Rightarrow> metric_provenance result" where
  "validate_request request =
     guardR ((rq_availability request = ''AVAILABLE'') \<noteq> (rq_lifecycle request \<noteq> None))
       (ValueError ''only AVAILABLE evaluations have an effective lifecycle'')
    (guardR (rq_expected_version request < 0)
       (ValueError ''expected projection version cannot be negative'')
    (guardR (commit_channels request = [] \<or> \<not> set (commit_channels request) \<subseteq> {''IN_APP'', ''WEBHOOK''})
       (ValueError ''notification channels must be IN_APP or WEBHOOK'')
    (case rq_provenance request of
       None \<Rightarrow> Inl (OfficialThresholdGateError ''OFFICIAL commit requires metric producer and evidence provenance'')
     | Some p \<Rightarrow>
         guardR (blank (mp_producer_version p) \<or> blank (mp_evidence_sha256 p))
           (OfficialThresholdGateError ''OFFICIAL commit requires metric producer and evidence provenance'')
        (bindR (validate_metrics (rq_guardian_metrics request) guardian_codes) (\<lambda>_.
         bindR (validate_metrics (rq_scout_metrics request) scout_codes) (\<lambda>_.
         Inr p))))))"

section \<open>Metric evidence\<close>

definition lineage_error :: exc where
  "lineage_error = OfficialThresholdGateError ''OFFICIAL metric evidence lineage is invalid''"

definition verified_provenance :: "db \<Rightarrow> metric_provenance \<Rightarrow> json_object result" where
  "verified_provenance d provenance =
     bindR (require (OfficialThresholdGateError ''OFFICIAL metric evidence is unavailable'')
       (load_json d (mp_evidence_sha256 provenance))) (\<lambda>evidence.
     guardR (mp_evidence_sha256 provenance \<notin> set (artifact_objects d))
       (OfficialThresholdGateError ''OFFICIAL metric evidence is not registered'')
    (case evidence of JObj ps \<Rightarrow> Inr ps | _ \<Rightarrow> Inl lineage_error))"

definition official_thresholds ::
    "(string \<Rightarrow> string) \<Rightarrow> db \<Rightarrow> string \<Rightarrow> (threshold_set \<times> threshold_set) result" where
  "official_thresholds sha d snapshot_uid =
     bindR (one (filter (\<lambda>s. snap_uid s = snapshot_uid) (snapshots d))) (\<lambda>snapshot.
     guardR (snap_status snapshot \<noteq> ''SEALED'') (ValueError ''Analysis Commit requires a SEALED snapshot'')
    (guardR (snap_disposition snapshot \<noteq> ''OFFICIAL'')
       (ValueError ''Analysis Commit accepts only OFFICIAL snapshots'')
    (case bindR (resolve_official sha d ''GUARDIAN'' (snap_as_of snapshot)) (\<lambda>g.
          bindR (resolve_official sha d ''SCOUT'' (snap_as_of snapshot)) (\<lambda>s. Inr (g, s))) of
       Inl (ThresholdUnavailableError _) \<Rightarrow>
         Inl (OfficialThresholdGateError ''OFFICIAL commit requires an active validated threshold pair'')
     | Inl (ThresholdLineageError _) \<Rightarrow>
         Inl (OfficialThresholdGateError ''OFFICIAL commit requires an active validated threshold pair'')
     | r \<Rightarrow> r)))"

definition snapshot_lineage ::
    "db \<Rightarrow> string \<Rightarrow> (snapshot_row \<times> manifest_row \<times> bundle_row) result" where
  "snapshot_lineage d snapshot_uid =
     one (concat (map (\<lambda>s. concat (map (\<lambda>m. map (\<lambda>b. (s, m, b))
         (filter (\<lambda>b. bun_uid b = snap_bundle s) (bundles d)))
         (filter (\<lambda>m. man_uid m = snap_manifest s) (manifests d))))
       (filter (\<lambda>s. snap_uid s = snapshot_uid) (snapshots d))))"

definition expected_lineage ::
    "db \<Rightarrow> snapshot_row \<Rightarrow> manifest_row \<Rightarrow> bundle_row \<Rightarrow> metric_provenance \<Rightarrow> (string \<times> json) list" where
  "expected_lineage d s m b provenance =
     [(''snapshot_uid'', JStr (snap_uid s)), (''snapshot_hash'', JStr (snap_hash s)),
      (''subject_uid'', JStr (snap_subject s)), (''manifest_uid'', JStr (man_uid m)),
      (''manifest_hash'', JStr (man_hash m)), (''manifest_artifact_sha256'', JStr (man_artifact m)),
      (''bundle_uid'', JStr (bun_uid b)), (''bundle_hash'', JStr (bun_hash b)),
      (''reference_entries'', JArr (map (\<lambda>r. JArr [JStr (ref_kind r), JStr (ref_entity r), JStr (ref_version r)])
         (sort_key (\<lambda>r. (ref_kind r, ref_entity r, ref_version r))
           (filter (\<lambda>r. ref_bundle r = bun_uid b) (reference_entries d))))),
      (''source_epoch_uids'', JArr (map JStr (sort (remdups (map cap_epoch
         (filter (\<lambda>c. cap_snapshot c = snap_uid s) (capabilities d))))))),
      (''producer_version'', JStr (mp_producer_version provenance))]"

definition threshold_evidence_matches :: "json \<Rightarrow> threshold_set \<Rightarrow> bool" where
  "threshold_evidence_matches value thresholds =
     (case value of
        JObj ps \<Rightarrow> set (map fst ps) = {''uid'', ''version'', ''definition_hash''} \<and>
          jget ps ''uid'' = JStr (ts_uid thresholds) \<and>
          jget ps ''version'' = JStr (ts_version thresholds) \<and>
          jget ps ''definition_hash'' = JStr (ts_definition_hash thresholds)
      | _ \<Rightarrow> False)"

text \<open>One metric of the evidence, added to the Guardian or the Scout metrics read so far.\<close>

definition add_evidence_metric ::
    "json \<Rightarrow> (string \<times> int) list \<times> (string \<times> int) list \<Rightarrow>
     ((string \<times> int) list \<times> (string \<times> int) list) result" where
  "add_evidence_metric item acc =
     (case item of
        JObj ps \<Rightarrow>
          guardR (set (map fst ps) \<noteq> {''code'', ''status'', ''value_ppm''}) lineage_error
         (case jget ps ''code'' of
            JStr code \<Rightarrow>
              guardR (code \<notin> set (guardian_codes @ scout_codes)) lineage_error
             (let mine = code \<in> set guardian_codes;
                  target = (if mine then fst acc else snd acc);
                  put = (\<lambda>v. if mine then (fst acc @ [(code, v)], snd acc) else (fst acc, snd acc @ [(code, v)]))
              in guardR (code \<in> set (map fst target)) lineage_error
                (if jget ps ''status'' = JStr ''VALUE'' then
                   (case jget ps ''value_ppm'' of
                      JInt v \<Rightarrow> guardR (\<not> (0 \<le> v \<and> v \<le> 1000000)) lineage_error (Inr (put v))
                    | _ \<Rightarrow> Inl lineage_error)
                 else bindR (member_of (jget ps ''status'') [''MISSING'', ''NOT_APPLICABLE'']) (\<lambda>absent_status.
                   guardR (\<not> absent_status \<or> jget ps ''value_ppm'' \<noteq> JNull) lineage_error (Inr acc))))
          | _ \<Rightarrow> Inl lineage_error)
      | _ \<Rightarrow> Inl lineage_error)"

fun metrics_from_items ::
    "json list \<Rightarrow> (string \<times> int) list \<times> (string \<times> int) list \<Rightarrow>
     ((string \<times> int) list \<times> (string \<times> int) list) result" where
  "metrics_from_items [] acc = Inr acc"
| "metrics_from_items (item # items) acc =
     bindR (add_evidence_metric item acc) (\<lambda>acc'. metrics_from_items items acc')"

definition metrics_from_evidence ::
    "json_object \<Rightarrow> ((string \<times> int) list \<times> (string \<times> int) list) result" where
  "metrics_from_evidence output =
     (case jget output ''metrics'' of
        JArr items \<Rightarrow> metrics_from_items items ([], [])
      | _ \<Rightarrow> Inl lineage_error)"

definition verify_evidence_lineage ::
    "(string \<Rightarrow> string) \<Rightarrow> db \<Rightarrow> string \<Rightarrow> metric_provenance \<Rightarrow> json_object \<Rightarrow> threshold_set \<Rightarrow>
     threshold_set \<Rightarrow> ((string \<times> int) list \<times> (string \<times> int) list) result" where
  "verify_evidence_lineage sha d snapshot_uid provenance evidence guardian_set scout_set =
     guardR (\<not> is_num 2 (jget evidence ''schema_version'')) lineage_error
    (bindR (snapshot_lineage d snapshot_uid) (\<lambda>(s, m, b).
     guardR (list_ex (\<lambda>(key, value). jget evidence key \<noteq> value) (expected_lineage d s m b provenance))
       lineage_error
    (guardR (\<not> threshold_evidence_matches (jget evidence ''guardian_threshold'') guardian_set) lineage_error
    (guardR (\<not> threshold_evidence_matches (jget evidence ''scout_threshold'') scout_set) lineage_error
    (case jget evidence ''metric_output'' of
       JObj output \<Rightarrow>
         guardR (jget output ''rule_version'' \<noteq> JStr (mp_producer_version provenance) \<or>
             jget evidence ''metric_output_sha256'' \<noteq> JStr (canonical_hash sha (JObj output)))
           lineage_error
           (metrics_from_evidence output)
     | _ \<Rightarrow> Inl lineage_error)))))"

section \<open>Persisted metric facts\<close>

definition add_metric_fact ::
    "string list \<Rightarrow> fact_row \<Rightarrow> metric_fact list \<Rightarrow> metric_fact list result" where
  "add_metric_fact allowed row acc =
     guardR (f_code row \<notin> set allowed \<or> f_status row \<noteq> ''VALUE'' \<or> f_scale row \<noteq> 0 \<or>
         f_unit row \<noteq> ''PPM'' \<or> f_code row \<in> (\<lambda>(_, c, _, _). c) ` set acc)
       (OfficialThresholdGateError ''OFFICIAL CR004 metric fact lineage is invalid'')
    (bindR (require (TypeError ''int() argument must be a number'') (f_value row)) (\<lambda>value.
     guardR (\<not> (0 \<le> value \<and> value \<le> 1000000))
       (OfficialThresholdGateError ''OFFICIAL CR004 metric value is invalid'')
       (Inr (acc @ [(f_uid row, f_code row, value, f_hash row)]))))"

fun metric_facts_from_rows ::
    "string list \<Rightarrow> fact_row list \<Rightarrow> metric_fact list \<Rightarrow> metric_fact list result" where
  "metric_facts_from_rows allowed [] acc = Inr acc"
| "metric_facts_from_rows allowed (row # rows) acc =
     bindR (add_metric_fact allowed row acc) (\<lambda>acc'. metric_facts_from_rows allowed rows acc')"

definition metric_execution_facts ::
    "db \<Rightarrow> string \<Rightarrow> string \<Rightarrow> metric_provenance \<Rightarrow> threshold_set \<Rightarrow> string list \<Rightarrow>
     metric_fact list result" where
  "metric_execution_facts d snapshot_uid rule_key provenance thresholds allowed =
     (case filter (\<lambda>r. rx_snapshot r = snapshot_uid \<and> rx_key r = rule_key \<and>
          rx_version r = mp_producer_version provenance \<and> rx_threshold r = Some (ts_uid thresholds) \<and>
          rx_status r = ''VALID'' \<and> rx_output r = mp_evidence_sha256 provenance) (rule_executions d) of
        [execution] \<Rightarrow>
          metric_facts_from_rows allowed
            (sort_key f_code (filter (\<lambda>f. f_exec f = rx_uid execution \<and> f_snapshot f = snapshot_uid) (facts d))) []
      | _ \<Rightarrow> Inl (OfficialThresholdGateError ''OFFICIAL commit requires exactly one CR004 execution''))"

definition metrics_of :: "metric_fact list \<Rightarrow> (string \<times> int) list" where
  "metrics_of fs = map (\<lambda>(_, c, v, _). (c, v)) fs"

definition verified_execution ::
    "(string \<Rightarrow> string) \<Rightarrow> db \<Rightarrow> string \<Rightarrow> metric_provenance \<Rightarrow> json_object \<Rightarrow> threshold_set \<Rightarrow>
     threshold_set \<Rightarrow> (metric_fact list \<times> metric_fact list) result" where
  "verified_execution sha d snapshot_uid provenance evidence guardian_set scout_set =
     bindR (verify_evidence_lineage sha d snapshot_uid provenance evidence guardian_set scout_set)
       (\<lambda>(evidence_guardian, evidence_scout).
     bindR (metric_execution_facts d snapshot_uid ''CR004_GUARDIAN_METRICS'' provenance guardian_set guardian_codes)
       (\<lambda>gfacts.
     bindR (metric_execution_facts d snapshot_uid ''CR004_SCOUT_METRICS'' provenance scout_set scout_codes)
       (\<lambda>sfacts.
     guardR (set (metrics_of gfacts) \<noteq> set evidence_guardian \<or> set (metrics_of sfacts) \<noteq> set evidence_scout)
       (OfficialThresholdGateError ''OFFICIAL persisted metric facts do not match bound artifact metrics'')
       (Inr (gfacts, sfacts)))))"

section \<open>The commit\<close>

record commit_result =
  cr_commit_uid :: string
  cr_state_uid :: string
  cr_guardian_uid :: string
  cr_scout_uid :: string
  cr_event_versions :: "string list"
  cr_intents :: "string list"

record commit_plan =
  cp_hash :: string
  cp_guardian_facts :: "metric_fact list"
  cp_scout_facts :: "metric_fact list"
  cp_guardian_set :: threshold_set
  cp_scout_set :: threshold_set

definition pairs_json :: "(string \<times> int) list \<Rightarrow> json" where
  "pairs_json ps = JArr (map (\<lambda>(c, v). JArr [JStr c, JInt v]) (sort ps))"

definition request_document ::
    "analysis_commit_request \<Rightarrow> metric_provenance \<Rightarrow> metric_fact list \<Rightarrow> metric_fact list \<Rightarrow> json" where
  "request_document request provenance gfacts sfacts =
     JObj [(''snapshot_uid'', JStr (rq_snapshot_uid request)),
           (''availability_state'', JStr (rq_availability request)),
           (''lifecycle_state'', JOpt (rq_lifecycle request)),
           (''expected_projection_version'', JInt (rq_expected_version request)),
           (''guardian_metrics'', pairs_json (metrics_of gfacts)),
           (''scout_metrics'', pairs_json (metrics_of sfacts)),
           (''channels'', JArr (map JStr (commit_channels request))),
           (''metric_provenance'', JArr [JStr (mp_producer_version provenance),
              JStr (mp_evidence_sha256 provenance)])]"

text \<open>Everything before the transaction, except the lookup of an earlier commit.\<close>

definition commit_prepare ::
    "(string \<Rightarrow> string) \<Rightarrow> analysis_commit_request \<Rightarrow> db \<Rightarrow> commit_plan result" where
  "commit_prepare sha request d =
     bindR (validate_request request) (\<lambda>provenance.
     bindR (verified_provenance d provenance) (\<lambda>evidence.
     bindR (official_thresholds sha d (rq_snapshot_uid request)) (\<lambda>(guardian_set, scout_set).
     bindR (verified_execution sha d (rq_snapshot_uid request) provenance evidence guardian_set scout_set)
       (\<lambda>(gfacts, sfacts).
     guardR (set (rq_guardian_metrics request) \<noteq> set (metrics_of gfacts))
       (OfficialThresholdGateError ''OFFICIAL persisted Guardian metric values do not match caller metrics'')
    (guardR (set (rq_scout_metrics request) \<noteq> set (metrics_of sfacts))
       (OfficialThresholdGateError ''OFFICIAL persisted Scout metric values do not match caller metrics'')
       (Inr \<lparr>cp_hash = canonical_hash sha (request_document request provenance gfacts sfacts),
             cp_guardian_facts = gfacts, cp_scout_facts = sfacts,
             cp_guardian_set = guardian_set, cp_scout_set = scout_set\<rparr>))))))"

definition existing_commit :: "db \<Rightarrow> string \<Rightarrow> (string \<times> commit_result) option result" where
  "existing_commit d snapshot_uid =
     bindR (one_or_none (filter (\<lambda>c. ac_snapshot c = snapshot_uid) (commits d))) (\<lambda>row.
       case row of
         None \<Rightarrow> Inr None
       | Some c \<Rightarrow>
           (let versions = filter (\<lambda>v. vv_commit v = ac_uid c) (event_versions d) in
            Inr (Some (ac_hash c,
              \<lparr>cr_commit_uid = ac_uid c, cr_state_uid = ac_state c, cr_guardian_uid = ac_guardian c,
               cr_scout_uid = ac_scout c,
               cr_event_versions = sort (map vv_uid versions),
               cr_intents = sort (map in_uid (filter (\<lambda>i. in_version i \<in> vv_uid ` set versions) (intents d)))\<rparr>))))"

text \<open>\<open>int(value)\<close> of the stored generation.\<close>

definition parse_generation :: "string \<Rightarrow> int result" where
  "parse_generation s =
     guardR (s = [] \<or> \<not> all_digits s) (ValueError ''invalid literal for int()'') (Inr (digits_int s))"

definition snapshot_quality :: "db \<Rightarrow> string \<Rightarrow> (snapshot_row \<times> quality_row) result" where
  "snapshot_quality d snapshot_uid =
     one (concat (map (\<lambda>s. map (\<lambda>q. (s, q)) (filter (\<lambda>q. qc_uid q = snap_quality s) (qualities d)))
       (filter (\<lambda>s. snap_uid s = snapshot_uid) (snapshots d))))"

definition write_audit ::
    "(string \<Rightarrow> string) \<Rightarrow> snapshot_row \<Rightarrow> string \<Rightarrow> string \<Rightarrow> string list \<Rightarrow> string list \<Rightarrow> unit cmd" where
  "write_audit sha snapshot commit_uid commit_hash versions intent_uids =
     bindC new_uid (\<lambda>uid. insert_audit
       \<lparr>au_uid = uid, au_action = ''ANALYSIS_COMMITTED'', au_subject = Some (snap_subject snapshot),
        au_commit = Some commit_uid,
        au_detail = canonical_hash sha (JObj [(''commit_hash'', JStr commit_hash),
          (''event_versions'', JArr (map JStr versions)), (''intents'', JArr (map JStr intent_uids))]),
        au_created = snap_as_of snapshot\<rparr>)"

text \<open>The commit row, the events and the audit record.\<close>

definition commit_records ::
    "(string \<Rightarrow> string) \<Rightarrow> analysis_commit_request \<Rightarrow> commit_plan \<Rightarrow> snapshot_row \<Rightarrow> quality_row \<Rightarrow>
     string \<Rightarrow> guardian_outcome \<Rightarrow> scout_outcome \<Rightarrow> commit_result cmd" where
  "commit_records sha request plan snapshot quality state_uid guardian scout =
     bindC new_uid (\<lambda>commit_uid.
     bindC (insert_analysis_commit
       \<lparr>ac_uid = commit_uid, ac_snapshot = rq_snapshot_uid request, ac_state = state_uid,
        ac_guardian = go_uid guardian, ac_scout = so_uid scout, ac_disposition = ''OFFICIAL'',
        ac_hash = cp_hash plan, ac_committed = snap_as_of snapshot\<rparr>) (\<lambda>_.
     bindC (getC (\<lambda>d. frozen_context d snapshot quality request guardian scout)) (\<lambda>context.
     bindC (readC (\<lambda>d. bindR (require (NoResultFound ''restore_generation'')
         (system_metadata d ''restore_generation'')) parse_generation)) (\<lambda>generation.
     bindC (decide_events sha
       \<lparr>es_snapshot = snapshot, es_commit = commit_uid, es_state = state_uid, es_guardian = guardian,
        es_scout = scout, es_context = context, es_channels = commit_channels request,
        es_generation = generation\<rparr>) (\<lambda>(versions, intent_uids).
     bindC (write_audit sha snapshot commit_uid (cp_hash plan) versions intent_uids) (\<lambda>_.
     returnC \<lparr>cr_commit_uid = commit_uid, cr_state_uid = state_uid, cr_guardian_uid = go_uid guardian,
       cr_scout_uid = so_uid scout, cr_event_versions = versions, cr_intents = intent_uids\<rparr>))))))"

definition commit_command ::
    "(string \<Rightarrow> string) \<Rightarrow> analysis_commit_request \<Rightarrow> commit_plan \<Rightarrow> commit_result cmd" where
  "commit_command sha request plan =
     bindC (readC (\<lambda>d. one_or_none (filter (\<lambda>c. ac_snapshot c = rq_snapshot_uid request) (commits d)))) (\<lambda>raced.
     bindC (checkC (raced \<noteq> None) (ValueError ''snapshot was committed concurrently'')) (\<lambda>_.
     bindC (readC (\<lambda>d. snapshot_quality d (rq_snapshot_uid request))) (\<lambda>(snapshot, quality).
     bindC (checkC (snap_status snapshot \<noteq> ''SEALED'')
       (ValueError ''Analysis Commit requires a SEALED snapshot'')) (\<lambda>_.
     bindC (checkC (snap_disposition snapshot \<noteq> ''OFFICIAL'')
       (ValueError ''Analysis Commit requires an OFFICIAL snapshot'')) (\<lambda>_.
     let fs = cp_guardian_facts plan @ cp_scout_facts plan in
     bindC (insert_state sha snapshot request fs) (\<lambda>(state_uid, state_hash).
     bindC (insert_guardian sha snapshot quality state_uid state_hash request fs (cp_guardian_set plan)) (\<lambda>guardian.
     bindC (insert_scout sha snapshot state_uid guardian fs (cp_scout_set plan)) (\<lambda>scout.
     commit_records sha request plan snapshot quality state_uid guardian scout))))))))"

definition analysis_commit ::
    "(string \<Rightarrow> string) \<Rightarrow> analysis_commit_request \<Rightarrow> commit_result cmd" where
  "analysis_commit sha request =
     bindC (readC (commit_prepare sha request)) (\<lambda>plan.
     bindC (readC (\<lambda>d. existing_commit d (rq_snapshot_uid request))) (\<lambda>existing.
     case existing of
       Some (h, r) \<Rightarrow>
         bindC (checkC (h \<noteq> cp_hash plan) (ValueError ''snapshot already has a different Analysis Commit'')) (\<lambda>_.
         returnC r)
     | None \<Rightarrow> commit_command sha request plan))"

end
