(* ===== verification/Delivery.thy ===== *)
theory Delivery
  imports Analysis_Commit
begin

text \<open>
  \<open>notifications/worker.py\<close>: the delivery worker. One run claims the oldest due intent under a
  lease (first transaction), checks that the claim still holds, calls the channel's adapter, and
  records the attempt (second transaction). Several workers, crashes between the two transactions,
  lease expiry and restores interleave; \<open>worker_step\<close> is that machine. An adapter is a parameter: the
  outcome of a send is any \<open>delivery_outcome\<close>, including the one recorded when it raises.
\<close>

record worker_config =
  wc_id :: string
  wc_lease :: int
  wc_retry :: int
  wc_max_attempts :: int

definition worker_config_ok :: "worker_config \<Rightarrow> bool" where
  "worker_config_ok c = (wc_id c \<noteq> [] \<and> 0 < wc_lease c \<and> 0 < wc_retry c \<and> 0 < wc_max_attempts c)"

record delivery_outcome =
  dr_delivered :: bool
  dr_retryable :: bool
  dr_reference :: "string option"
  dr_error :: "string option"

record delivery_message =
  dm_intent :: string
  dm_key :: string
  dm_channel :: string
  dm_context :: json

record delivery_claim =
  cl_message :: delivery_message
  cl_generation :: int

definition microseconds :: "int \<Rightarrow> int" where
  "microseconds seconds = seconds * 1000000"

section \<open>Recovery state\<close>

definition recovery_state :: "string option \<Rightarrow> int \<Rightarrow> string" where
  "recovery_state value generation =
     (case value of Some v \<Rightarrow> v | None \<Rightarrow> if generation = 0 then ''NORMAL'' else ''RECOVERING'')"

definition current_generation :: "db \<Rightarrow> int result" where
  "current_generation d =
     parse_generation (case system_metadata d ''restore_generation'' of None \<Rightarrow> ''0'' | Some v \<Rightarrow> v)"

definition is_normal :: "db \<Rightarrow> int \<Rightarrow> bool" where
  "is_normal d generation = (recovery_state (system_metadata d ''recovery_state'') generation = ''NORMAL'')"

section \<open>Claim\<close>

definition open_statuses :: "string list" where
  "open_statuses = [''PENDING'', ''PROCESSING'', ''RETRY_WAIT'']"

definition expire_delivery :: "int \<Rightarrow> delivery_row \<Rightarrow> delivery_row" where
  "expire_delivery now r = r\<lparr>dl_status := ''EXPIRED'', dl_next := None, dl_owner := None, dl_lease := None,
     dl_error := Some ''EXPIRED'', dl_version := dl_version r + 1, dl_updated := now\<rparr>"

text \<open>The \<open>UPDATE ... SET delivery_status='EXPIRED'\<close> of open deliveries past their expiry.\<close>

definition expire_due :: "int \<Rightarrow> unit cmd" where
  "expire_due now = execC (\<lambda>d. True) ''notification_delivery_state''
     (\<lambda>d. d\<lparr>deliveries := map (\<lambda>r. if dl_status r \<in> set open_statuses \<and>
          list_ex (\<lambda>i. in_uid i = dl_intent r \<and> in_expires i \<le> now) (intents d)
        then expire_delivery now r else r) (deliveries d)\<rparr>)"

definition is_due :: "int \<Rightarrow> delivery_row \<Rightarrow> bool" where
  "is_due now r =
     ((dl_status r \<in> {''PENDING'', ''RETRY_WAIT''} \<and>
        (case dl_next r of None \<Rightarrow> True | Some t \<Rightarrow> t \<le> now)) \<or>
      (dl_status r = ''PROCESSING'' \<and> (case dl_lease r of None \<Rightarrow> False | Some t \<Rightarrow> t \<le> now)))"

definition claimable :: "int \<Rightarrow> int \<Rightarrow> db \<Rightarrow> (intent_row \<times> delivery_row) list" where
  "claimable now generation d =
     sort_key (\<lambda>(i, _). (in_created i, in_uid i))
       (concat (map (\<lambda>i. map (\<lambda>r. (i, r)) (filter (\<lambda>r. dl_intent r = in_uid i \<and> is_due now r) (deliveries d)))
         (filter (\<lambda>i. in_generation i = generation \<and> now < in_expires i \<and>
            (in_channel i \<noteq> ''WEBHOOK'' \<or> webhook_enabled d)) (intents d))))"

text \<open>\<open>UPDATE ... WHERE intent_uid=? AND version=?\<close>; the value is the row count.\<close>

definition update_delivery :: "string \<Rightarrow> int \<Rightarrow> (delivery_row \<Rightarrow> delivery_row) \<Rightarrow> nat cmd" where
  "update_delivery intent version f =
     bindC (getC (\<lambda>d. List.length (filter (\<lambda>r. dl_intent r = intent \<and> dl_version r = version) (deliveries d)))) (\<lambda>n.
     bindC (execC (\<lambda>d. list_all (\<lambda>r. dl_intent r = intent \<and> dl_version r = version \<longrightarrow> delivery_ok (f r)) (deliveries d))
       ''notification_delivery_state''
       (\<lambda>d. d\<lparr>deliveries := map (\<lambda>r. if dl_intent r = intent \<and> dl_version r = version then f r else r)
          (deliveries d)\<rparr>)) (\<lambda>_.
     returnC n))"

definition lease_row :: "worker_config \<Rightarrow> int \<Rightarrow> delivery_row \<Rightarrow> delivery_row" where
  "lease_row c now r = r\<lparr>dl_status := ''PROCESSING'', dl_owner := Some (wc_id c),
     dl_lease := Some (now + microseconds (wc_lease c)), dl_version := dl_version r + 1, dl_updated := now\<rparr>"

text \<open>The lease on the first row, if any.\<close>

definition lease_first ::
    "worker_config \<Rightarrow> int \<Rightarrow> int \<Rightarrow> (intent_row \<times> delivery_row) list \<Rightarrow> delivery_claim option cmd" where
  "lease_first c now generation rows =
     (case rows of
        [] \<Rightarrow> returnC None
      | (i, r) # _ \<Rightarrow>
          bindC (update_delivery (in_uid i) (dl_version r) (lease_row c now)) (\<lambda>n.
          returnC (if n \<noteq> 1 then None
            else Some \<lparr>cl_message = \<lparr>dm_intent = in_uid i, dm_key = in_key i, dm_channel = in_channel i,
                         dm_context = in_context i\<rparr>,
                       cl_generation = generation\<rparr>)))"

definition claim_intent :: "worker_config \<Rightarrow> int \<Rightarrow> delivery_claim option cmd" where
  "claim_intent c now =
     bindC (readC current_generation) (\<lambda>generation.
     bindC (getC (\<lambda>d. is_normal d generation)) (\<lambda>normal.
     if \<not> normal then returnC None
     else
       bindC (expire_due now) (\<lambda>_.
       bindC (getC (claimable now generation)) (\<lambda>rows.
       lease_first c now generation rows))))"

section \<open>Current claims\<close>

definition delivery_join :: "db \<Rightarrow> string \<Rightarrow> (delivery_row \<times> intent_row) list" where
  "delivery_join d intent =
     concat (map (\<lambda>r. map (\<lambda>i. (r, i)) (filter (\<lambda>i. in_uid i = dl_intent r) (intents d)))
       (filter (\<lambda>r. dl_intent r = intent) (deliveries d)))"

definition holds_claim :: "worker_config \<Rightarrow> delivery_claim \<Rightarrow> delivery_row \<times> intent_row \<Rightarrow> bool" where
  "holds_claim c claim = (\<lambda>(r, i).
     in_generation i = cl_generation claim \<and> dl_status r = ''PROCESSING'' \<and> dl_owner r = Some (wc_id c))"

definition claim_is_current :: "worker_config \<Rightarrow> delivery_claim \<Rightarrow> db \<Rightarrow> bool result" where
  "claim_is_current c claim d =
     bindR (current_generation d) (\<lambda>generation.
     bindR (one_or_none (delivery_join d (dm_intent (cl_message claim)))) (\<lambda>state.
     Inr (is_normal d generation \<and> generation = cl_generation claim \<and>
          (case state of None \<Rightarrow> False | Some s \<Rightarrow> holds_claim c claim s))))"

section \<open>Finish\<close>

definition attempt_status ::
    "worker_config \<Rightarrow> delivery_outcome \<Rightarrow> int \<Rightarrow> int \<Rightarrow> string \<times> string \<times> int option" where
  "attempt_status c outcome attempt completed =
     (if dr_delivered outcome then (''DELIVERED'', ''DELIVERED'', None)
      else if dr_retryable outcome \<and> attempt < wc_max_attempts c
      then (''RETRY_WAIT'', ''RETRYABLE_FAILURE'', Some (completed + microseconds (wc_retry c)))
      else (''FAILED'', ''PERMANENT_FAILURE'', None))"

definition finished_row ::
    "string \<Rightarrow> int \<Rightarrow> int option \<Rightarrow> string option \<Rightarrow> int \<Rightarrow> delivery_row \<Rightarrow> delivery_row" where
  "finished_row status attempt next_attempt err completed r =
     r\<lparr>dl_status := status, dl_attempts := attempt, dl_next := next_attempt, dl_owner := None,
       dl_lease := None, dl_error := err, dl_version := dl_version r + 1, dl_updated := completed\<rparr>"

definition record_attempt ::
    "worker_config \<Rightarrow> string \<Rightarrow> delivery_row \<Rightarrow> delivery_outcome \<Rightarrow> int \<Rightarrow> int \<Rightarrow> unit cmd" where
  "record_attempt c intent r outcome started completed =
     (let attempt = dl_attempts r + 1 in
      case attempt_status c outcome attempt completed of (status, attempt_outcome, next_attempt) \<Rightarrow>
      bindC new_uid (\<lambda>uid.
      bindC (insert_attempt
        \<lparr>at_uid = uid, at_intent = intent, at_number = attempt, at_outcome = attempt_outcome,
         at_started = started, at_completed = completed, at_reference = dr_reference outcome,
         at_error = dr_error outcome\<rparr>) (\<lambda>_.
      bindC (update_delivery intent (dl_version r)
        (finished_row status attempt next_attempt (dr_error outcome) completed)) (\<lambda>_.
      returnC ()))))"

definition finish_delivery ::
    "worker_config \<Rightarrow> delivery_claim \<Rightarrow> delivery_outcome \<Rightarrow> int \<Rightarrow> int \<Rightarrow> bool cmd" where
  "finish_delivery c claim outcome started completed =
     bindC (readC current_generation) (\<lambda>generation.
     bindC (getC (\<lambda>d. is_normal d generation \<and> generation = cl_generation claim)) (\<lambda>fresh.
     if \<not> fresh then returnC False
     else
       bindC (readC (\<lambda>d. one_or_none (delivery_join d (dm_intent (cl_message claim))))) (\<lambda>state.
       case state of
         None \<Rightarrow> returnC False
       | Some (r, i) \<Rightarrow>
           if \<not> holds_claim c claim (r, i) then returnC False
           else bindC (record_attempt c (dm_intent (cl_message claim)) r outcome started completed) (\<lambda>_.
             returnC True))))"

text \<open>The outcome when no adapter serves the channel, and when the adapter raises.\<close>

definition send_message ::
    "(string \<rightharpoonup> (delivery_message \<Rightarrow> delivery_outcome option)) \<Rightarrow> delivery_message \<Rightarrow> delivery_outcome" where
  "send_message adapters message =
     (case adapters (dm_channel message) of
        None \<Rightarrow> \<lparr>dr_delivered = False, dr_retryable = False, dr_reference = None,
          dr_error = Some ''ADAPTER_NOT_CONFIGURED''\<rparr>
      | Some adapter \<Rightarrow> (case adapter message of
          Some outcome \<Rightarrow> outcome
        | None \<Rightarrow> \<lparr>dr_delivered = False, dr_retryable = True, dr_reference = None,
            dr_error = Some ''ADAPTER_EXCEPTION''\<rparr>))"

text \<open>\<open>run_once\<close> without interference: the clock is read twice.\<close>

definition run_once ::
    "worker_config \<Rightarrow> (string \<rightharpoonup> (delivery_message \<Rightarrow> delivery_outcome option)) \<Rightarrow> int \<Rightarrow> int \<Rightarrow> bool cmd" where
  "run_once c adapters now completed =
     bindC (claim_intent c now) (\<lambda>claimed.
     case claimed of
       None \<Rightarrow> returnC False
     | Some claim \<Rightarrow>
         bindC (readC (claim_is_current c claim)) (\<lambda>current.
         if \<not> current then returnC True
         else
           bindC (finish_delivery c claim (send_message adapters (cl_message claim)) now completed) (\<lambda>_.
           returnC True)))"

section \<open>Restore\<close>

text \<open>
  \<open>recovery.py\<close>: a restore advances the generation, so that claims of the restored database are
  stale, and cancels every open delivery. The value is the new generation and the number cancelled.
\<close>

definition cancel_delivery :: "int \<Rightarrow> delivery_row \<Rightarrow> delivery_row" where
  "cancel_delivery now r = r\<lparr>dl_status := ''CANCELLED'', dl_next := None, dl_owner := None, dl_lease := None,
     dl_error := Some ''RESTORE_GENERATION_SUPPRESSED'', dl_version := dl_version r + 1, dl_updated := now\<rparr>"

definition cancel_open :: "int \<Rightarrow> unit cmd" where
  "cancel_open now = execC (\<lambda>d. True) ''notification_delivery_state''
     (\<lambda>d. d\<lparr>deliveries := map (\<lambda>r. if dl_status r \<in> set open_statuses then cancel_delivery now r else r)
       (deliveries d)\<rparr>)"

definition advance_restore_generation :: "(string \<Rightarrow> string) \<Rightarrow> int \<Rightarrow> (int \<times> int) cmd" where
  "advance_restore_generation sha occurred_at =
     bindC (readC (\<lambda>d. bindR (require (NoResultFound ''restore_generation'')
         (system_metadata d ''restore_generation'')) parse_generation)) (\<lambda>current.
     let generation = current + 1 in
     bindC (execC (\<lambda>d. True) ''system_metadata''
       (\<lambda>d. d\<lparr>system_metadata := (system_metadata d)(''restore_generation'' \<mapsto> render_int generation)\<rparr>)) (\<lambda>_.
     bindC (getC (\<lambda>d. int (List.length (filter (\<lambda>r. dl_status r \<in> set open_statuses) (deliveries d))))) (\<lambda>cancelled.
     bindC (cancel_open occurred_at) (\<lambda>_.
     bindC new_uid (\<lambda>uid.
     bindC (insert_audit
       \<lparr>au_uid = uid, au_action = ''RESTORE_GENERATION_ADVANCED'', au_subject = None, au_commit = None,
        au_detail = canonical_hash sha (JObj [(''restore_generation'', JInt generation),
          (''cancelled'', JInt cancelled)]),
        au_created = occurred_at\<rparr>) (\<lambda>_.
     returnC (generation, cancelled)))))))"

section \<open>Interleavings\<close>

text \<open>
  The system: the database, the clock, and the claims of workers that are between their two
  transactions. A step is a claim, a finish with any outcome, a crash that forgets a claim, the
  passing of time, a restore, a change of the metadata (restore, recovery) or of the webhook setting, or a new
  intent with its pending delivery.
\<close>

record delivery_system =
  sy_db :: db
  sy_now :: int
  sy_claims :: "(worker_config \<times> delivery_claim \<times> int) list"

inductive worker_step :: "int \<Rightarrow> delivery_system \<Rightarrow> delivery_system \<Rightarrow> bool" for limit :: int where
  step_claim: "worker_config_ok c \<Longrightarrow> wc_max_attempts c = limit \<Longrightarrow>
    claim_intent c (sy_now s) (sy_db s) = Inr (Some claim, d') \<Longrightarrow>
    worker_step limit s (s\<lparr>sy_db := d', sy_claims := (c, claim, sy_now s) # sy_claims s\<rparr>)"
| step_idle: "claim_intent c (sy_now s) (sy_db s) = Inr (None, d') \<Longrightarrow>
    worker_step limit s (s\<lparr>sy_db := d'\<rparr>)"
| step_finish: "(c, claim, started) \<in> set (sy_claims s) \<Longrightarrow>
    finish_delivery c claim outcome started (sy_now s) (sy_db s) = Inr (b, d') \<Longrightarrow>
    worker_step limit s (s\<lparr>sy_db := d', sy_claims := remove1 (c, claim, started) (sy_claims s)\<rparr>)"
| step_crash: "worker_step limit s (s\<lparr>sy_claims := remove1 x (sy_claims s)\<rparr>)"
| step_time: "sy_now s \<le> t \<Longrightarrow> worker_step limit s (s\<lparr>sy_now := t\<rparr>)"
| step_settings: "worker_step limit s
    (s\<lparr>sy_db := (sy_db s)\<lparr>system_metadata := meta, webhook_enabled := b\<rparr>\<rparr>)"
| step_restore: "advance_restore_generation sha t (sy_db s) = Inr (x, d') \<Longrightarrow>
    worker_step limit s (s\<lparr>sy_db := d'\<rparr>)"
| step_intent: "emit_intent sha src version_uid kind frozen channel (sy_db s) = Inr (u, d') \<Longrightarrow>
    worker_step limit s (s\<lparr>sy_db := d'\<rparr>)"

inductive_cases worker_stepE: "worker_step limit s s'"

end
