(* ===== verification/Delivery_Properties.thy ===== *)
theory Delivery_Properties
  imports Delivery
begin

text \<open>
  The invariant of the delivery machine, by rule induction on its steps: the attempts of a delivery
  are numbered without gaps, they never exceed the limit, only the last one can be something else
  than a retryable failure, and a delivery in a final status never changes again.
\<close>

section \<open>The invariant\<close>

definition attempts_of :: "string \<Rightarrow> db \<Rightarrow> attempt_row list" where
  "attempts_of intent d = filter (\<lambda>a. at_intent a = intent) (attempts d)"

definition delivery_row_inv :: "int \<Rightarrow> db \<Rightarrow> delivery_row \<Rightarrow> bool" where
  "delivery_row_inv limit d r \<longleftrightarrow>
     0 \<le> dl_attempts r \<and> dl_attempts r \<le> limit \<and>
     (dl_status r \<in> set open_statuses \<longrightarrow> dl_attempts r < limit) \<and>
     map at_number (attempts_of (dl_intent r) d) = [1..dl_attempts r] \<and>
     set (butlast (map at_outcome (attempts_of (dl_intent r) d))) \<subseteq> {''RETRYABLE_FAILURE''} \<and>
     (dl_status r \<in> set open_statuses \<or> dl_status r = ''EXPIRED'' \<longrightarrow>
        set (map at_outcome (attempts_of (dl_intent r) d)) \<subseteq> {''RETRYABLE_FAILURE''})"

definition delivery_inv :: "int \<Rightarrow> db \<Rightarrow> bool" where
  "delivery_inv limit d \<longleftrightarrow>
     0 < limit \<and> distinct (map dl_intent (deliveries d)) \<and>
     (\<forall>r \<in> set (deliveries d). delivery_row_inv limit d r) \<and>
     (\<forall>a \<in> set (attempts d). at_intent a \<in> dl_intent ` set (deliveries d))"

text \<open>Final statuses are not open; a final row stays.\<close>

definition final_rows_stay :: "db \<Rightarrow> db \<Rightarrow> bool" where
  "final_rows_stay d d' \<longleftrightarrow>
     (\<forall>r \<in> set (deliveries d). dl_status r \<notin> set open_statuses \<longrightarrow> r \<in> set (deliveries d'))"

text \<open>Replacing rows by rows of the same intent.\<close>

lemma delivery_inv_update:
  assumes inv: "delivery_inv limit d"
    and d': "deliveries d' = map f (deliveries d)" "attempts d' = attempts d"
    and f: "\<And>r. dl_intent (f r) = dl_intent r"
    and rows: "\<And>r. r \<in> set (deliveries d) \<Longrightarrow> f r = r \<or> delivery_row_inv limit d (f r)"
  shows "delivery_inv limit d'"
proof -
  have same: "delivery_row_inv limit d' r = delivery_row_inv limit d r" for r
    by (simp add: delivery_row_inv_def attempts_of_def d')
  have "map dl_intent (map f (deliveries d)) = map dl_intent (deliveries d)" using f by simp
  moreover have "dl_intent ` set (map f (deliveries d)) = dl_intent ` set (deliveries d)"
    using f by (auto simp: image_iff)
  moreover have "\<forall>r \<in> set (map f (deliveries d)). delivery_row_inv limit d r"
  proof
    fix q assume "q \<in> set (map f (deliveries d))"
    then obtain r where r: "r \<in> set (deliveries d)" "q = f r" by auto
    then have "delivery_row_inv limit d r" using inv by (simp add: delivery_inv_def)
    then show "delivery_row_inv limit d q" using rows [OF r(1)] r(2) by auto
  qed
  ultimately show ?thesis using inv unfolding delivery_inv_def d' same by metis
qed

lemma expired_inv:
  assumes "delivery_row_inv limit d r" and "dl_status r \<in> set open_statuses"
  shows "delivery_row_inv limit d (expire_delivery now r)"
  using assms by (auto simp: delivery_row_inv_def expire_delivery_def open_statuses_def)

lemma leased_inv:
  assumes "delivery_row_inv limit d r" and "dl_status r \<in> set open_statuses"
  shows "delivery_row_inv limit d (lease_row c now r)"
  using assms by (auto simp: delivery_row_inv_def lease_row_def open_statuses_def)

section \<open>Claims\<close>

lemma expire_due_Inr:
  assumes "expire_due now d = Inr (u, d')" and inv: "delivery_inv limit d"
  shows "delivery_inv limit d'" "final_rows_stay d d'" "attempts d' = attempts d" "intents d' = intents d"
proof -
  let ?f = "\<lambda>r. if dl_status r \<in> set open_statuses \<and>
      list_ex (\<lambda>i. in_uid i = dl_intent r \<and> in_expires i \<le> now) (intents d)
    then expire_delivery now r else r"
  have d': "d' = d\<lparr>deliveries := map ?f (deliveries d)\<rparr>" using assms(1) by (simp add: expire_due_def execC_eq)
  show "attempts d' = attempts d" "intents d' = intents d" by (simp_all add: d')
  show "delivery_inv limit d'"
  proof (rule delivery_inv_update [OF inv])
    show "deliveries d' = map ?f (deliveries d)" "attempts d' = attempts d" by (simp_all add: d')
    show "dl_intent (?f r) = dl_intent r" for r by (simp add: expire_delivery_def)
    show "?f r = r \<or> delivery_row_inv limit d (?f r)" if "r \<in> set (deliveries d)" for r
      using that inv expired_inv by (auto simp: delivery_inv_def)
  qed
  show "final_rows_stay d d'"
    unfolding final_rows_stay_def d' by (auto simp: image_iff)
qed

lemma due_is_open: "is_due now r \<Longrightarrow> dl_status r \<in> set open_statuses"
  by (auto simp: is_due_def open_statuses_def)

lemma claimable_row:
  assumes "(i, r) \<in> set (claimable now g d)"
  shows "i \<in> set (intents d)" "r \<in> set (deliveries d)" "dl_intent r = in_uid i" "is_due now r"
    "in_generation i = g" "now < in_expires i"
  using assms by (auto simp: claimable_def)

lemma unique_delivery:
  assumes "delivery_inv limit d" "r \<in> set (deliveries d)" "q \<in> set (deliveries d)"
    "dl_intent r = dl_intent q"
  shows "r = q"
  using assms by (auto simp: delivery_inv_def distinct_map dest: inj_onD)

lemma update_delivery_Inr:
  assumes "update_delivery x v f d = Inr (n, d')"
  shows "d' = d\<lparr>deliveries := map (\<lambda>r. if dl_intent r = x \<and> dl_version r = v then f r else r) (deliveries d)\<rparr>"
  using assms by (auto simp: update_delivery_def result_simps)

text \<open>A row update of one open delivery.\<close>

lemma update_delivery_keeps:
  assumes upd: "update_delivery x v f d = Inr (n, d')" and inv: "delivery_inv limit d"
    and r: "r \<in> set (deliveries d)" "dl_intent r = x" "dl_status r \<in> set open_statuses"
    and f: "\<And>r. dl_intent (f r) = dl_intent r" "delivery_row_inv limit d (f r)"
  shows "delivery_inv limit d'" "final_rows_stay d d'"
proof -
  let ?f = "\<lambda>r. if dl_intent r = x \<and> dl_version r = v then f r else r"
  note d' = update_delivery_Inr [OF upd]
  have only: "q = r" if "q \<in> set (deliveries d)" "dl_intent q = x" for q
    using unique_delivery [OF inv that(1) r(1)] that r(2) by simp
  show "delivery_inv limit d'"
  proof (rule delivery_inv_update [OF inv])
    show "deliveries d' = map ?f (deliveries d)" "attempts d' = attempts d" by (simp_all add: d')
    show "dl_intent (?f q) = dl_intent q" for q using f(1) by simp
    show "?f q = q \<or> delivery_row_inv limit d (?f q)" if "q \<in> set (deliveries d)" for q
      using that only f(2) by auto
  qed
  show "final_rows_stay d d'"
    unfolding final_rows_stay_def
  proof (intro ballI impI)
    fix q assume q: "q \<in> set (deliveries d)" "dl_status q \<notin> set open_statuses"
    then have "?f q = q" using only r(3) by auto
    moreover have "?f q \<in> set (map ?f (deliveries d))" using q(1) by simp
    ultimately show "q \<in> set (deliveries d')" by (simp add: d' del: set_map)
  qed
qed

lemma final_rows_stay_trans:
  assumes "final_rows_stay d d'" "final_rows_stay d' d''"
  shows "final_rows_stay d d''"
  using assms unfolding final_rows_stay_def by blast

lemma final_rows_stay_refl: "final_rows_stay d d"
  by (simp add: final_rows_stay_def)

lemma lease_first_keeps:
  assumes run: "lease_first c now g (claimable now g d) d = Inr (res, d')" and inv: "delivery_inv limit d"
  shows "delivery_inv limit d' \<and> final_rows_stay d d' \<and> attempts d' = attempts d"
proof (cases "claimable now g d")
  case Nil
  then show ?thesis using run inv by (simp add: lease_first_def returnC_eq final_rows_stay_refl)
next
  case (Cons p ps)
  obtain i r where p: "p = (i, r)" by (cases p)
  have "(i, r) \<in> set (claimable now g d)" using Cons p by simp
  note row = claimable_row [OF this]
  have opn: "dl_status r \<in> set open_statuses" by (rule due_is_open [OF row(4)])
  obtain n where u: "update_delivery (in_uid i) (dl_version r) (lease_row c now) d = Inr (n, d')"
    using run Cons p by (auto simp: lease_first_def bindC_eq_Inr returnC_eq)
  have "delivery_row_inv limit d r" using inv row(2) by (simp add: delivery_inv_def)
  note lease = leased_inv [OF this opn]
  have id: "dl_intent (lease_row c now q) = dl_intent q" for q by (simp add: lease_row_def)
  show ?thesis
    using update_delivery_keeps [OF u inv row(2,3) opn id lease] update_delivery_Inr [OF u] by simp
qed

lemma claim_intent_keeps:
  assumes run: "claim_intent c now d = Inr (res, d')" and inv: "delivery_inv limit d"
  shows "delivery_inv limit d' \<and> final_rows_stay d d' \<and> attempts d' = attempts d"
proof -
  obtain g where rest: "(if \<not> is_normal d g then returnC None
     else bindC (expire_due now) (\<lambda>_. bindC (getC (claimable now g)) (\<lambda>rows. lease_first c now g rows))) d =
      Inr (res, d')"
    using run by (auto simp: claim_intent_def bindC_eq_Inr readC_eq getC_eq)
  show ?thesis
  proof (cases "is_normal d g")
    case False
    then show ?thesis using rest inv by (auto simp: returnC_eq final_rows_stay_refl)
  next
    case True
    then obtain d1 where e: "expire_due now d = Inr ((), d1)"
      and l: "lease_first c now g (claimable now g d1) d1 = Inr (res, d')"
      using rest by (auto simp: bindC_eq_Inr getC_eq)
    note e = expire_due_Inr [OF e inv]
    show ?thesis using lease_first_keeps [OF l e(1)] e final_rows_stay_trans by metis
  qed
qed

section \<open>Finishing\<close>

lemma delivery_join_unique:
  assumes "delivery_inv limit d" and "one_or_none (delivery_join d x) = Inr (Some (r, i))"
  shows "r \<in> set (deliveries d)" "dl_intent r = x"
proof -
  have "(r, i) \<in> set (delivery_join d x)" using assms(2) by (simp add: one_or_none_eq_Some)
  then show "r \<in> set (deliveries d)" "dl_intent r = x" by (auto simp: delivery_join_def)
qed

text \<open>The outcome of an attempt and the status it leaves.\<close>

lemma attempt_status_cases:
  assumes "attempt_status c outcome n t = (status, out, next)"
  shows "status \<notin> set open_statuses \<and> status \<noteq> ''EXPIRED'' \<or>
    status = ''RETRY_WAIT'' \<and> out = ''RETRYABLE_FAILURE'' \<and> n < wc_max_attempts c"
  using assms by (auto simp: attempt_status_def open_statuses_def split: if_splits)

lemma finish_delivery_cases:
  assumes "finish_delivery c claim outcome started completed d = Inr (b, d')"
  obtains "\<not> b" "d' = d"
  | r i u where "b" "current_generation d = Inr (cl_generation claim)" "is_normal d (cl_generation claim)"
      "one_or_none (delivery_join d (dm_intent (cl_message claim))) = Inr (Some (r, i))"
      "holds_claim c claim (r, i)"
      "record_attempt c (dm_intent (cl_message claim)) r outcome started completed d = Inr (u, d')"
proof -
  obtain g where g: "current_generation d = Inr g" using assms by (auto simp: finish_delivery_def bindC_eq_Inr readC_eq)
  let ?j = "one_or_none (delivery_join d (dm_intent (cl_message claim)))"
  show thesis
  proof (cases "is_normal d g \<and> g = cl_generation claim")
    case False
    then have "b = False" "d' = d"
      using assms g by (auto simp: finish_delivery_def bindC_eq_Inr readC_eq getC_eq returnC_eq split: if_splits)
    then show thesis using that(1) by simp
  next
    case True
    then obtain state where j: "?j = Inr state"
      and rest: "(case state of None \<Rightarrow> returnC False
       | Some (r, i) \<Rightarrow> if \<not> holds_claim c claim (r, i) then returnC False
           else bindC (record_attempt c (dm_intent (cl_message claim)) r outcome started completed) (\<lambda>_.
             returnC True)) d = Inr (b, d')"
      using assms g by (auto simp: finish_delivery_def bindC_eq_Inr readC_eq getC_eq)
    show thesis
    proof (cases state)
      case None
      then show thesis using rest that(1) by (simp add: returnC_eq)
    next
      case (Some p)
      obtain r i where p: "p = (r, i)" by (cases p)
      show thesis
      proof (cases "holds_claim c claim (r, i)")
        case False
        then show thesis using rest that(1) Some p by (simp add: returnC_eq)
      next
        case h: True
        then obtain u where "record_attempt c (dm_intent (cl_message claim)) r outcome started completed d = Inr (u, d')" "b"
          using rest Some p by (auto simp: bindC_eq_Inr returnC_eq)
        moreover have "current_generation d = Inr (cl_generation claim)" "is_normal d (cl_generation claim)"
          using True g by metis+
        moreover have "?j = Inr (Some (r, i))" using j Some p by simp
        ultimately show thesis using that(2) h by blast
      qed
    qed
  qed
qed

lemma record_attempt_Inr:
  assumes "record_attempt c x r outcome started completed d = Inr (u, d')"
  obtains status out next_at a d1 n where
    "attempt_status c outcome (dl_attempts r + 1) completed = (status, out, next_at)"
    "intents d1 = intents d" "deliveries d1 = deliveries d" "attempts d1 = attempts d @ [a]"
    "at_intent a = x" "at_number a = dl_attempts r + 1" "at_outcome a = out"
    "update_delivery x (dl_version r)
      (finished_row status (dl_attempts r + 1) next_at (dr_error outcome) completed) d1 = Inr (n, d')"
proof -
  obtain status out next_at where st: "attempt_status c outcome (dl_attempts r + 1) completed = (status, out, next_at)"
    by (cases "attempt_status c outcome (dl_attempts r + 1) completed")
  define a where "a = \<lparr>at_uid = uid_source d (uid_count d), at_intent = x, at_number = dl_attempts r + 1,
      at_outcome = out, at_started = started, at_completed = completed,
      at_reference = dr_reference outcome, at_error = dr_error outcome\<rparr>"
  define d1 where "d1 = d\<lparr>uid_count := Suc (uid_count d), attempts := attempts d @ [a]\<rparr>"
  have "\<exists>n. update_delivery x (dl_version r)
      (finished_row status (dl_attempts r + 1) next_at (dr_error outcome) completed) d1 = Inr (n, d')"
    using assms unfolding record_attempt_def insert_attempt_def
    by (simp add: st Let_def result_simps d1_def a_def)
  then show thesis using that [OF st, of d1 a] by (auto simp: d1_def a_def)
qed

lemma finish_delivery_keeps:
  assumes run: "finish_delivery c claim outcome started completed d = Inr (b, d')"
    and inv: "delivery_inv (wc_max_attempts c) d"
  shows "delivery_inv (wc_max_attempts c) d' \<and> final_rows_stay d d'"
  using run
proof (cases rule: finish_delivery_cases)
  case 1
  then show ?thesis using inv by (simp add: final_rows_stay_refl)
next
  case (2 r i u)
  let ?x = "dm_intent (cl_message claim)" and ?L = "wc_max_attempts c"
  note r = delivery_join_unique [OF inv 2(4)]
  have opn: "dl_status r \<in> set open_statuses" using 2(5) by (simp add: holds_claim_def open_statuses_def)
  have ri: "delivery_row_inv ?L d r" using inv r(1) by (simp add: delivery_inv_def)
  obtain status out next_at a d1 n where
    st: "attempt_status c outcome (dl_attempts r + 1) completed = (status, out, next_at)"
    and d1: "deliveries d1 = deliveries d" "attempts d1 = attempts d @ [a]"
      "at_intent a = ?x" "at_number a = dl_attempts r + 1" "at_outcome a = out"
    and upd: "update_delivery ?x (dl_version r)
      (finished_row status (dl_attempts r + 1) next_at (dr_error outcome) completed) d1 = Inr (n, d')"
    using 2(6) by (rule record_attempt_Inr) blast
  let ?row = "finished_row status (dl_attempts r + 1) next_at (dr_error outcome) completed"
  note d' = update_delivery_Inr [OF upd]
  have of_x: "attempts_of ?x d' = attempts_of ?x d @ [a]" by (simp add: attempts_of_def d' d1)
  have of_y: "attempts_of y d' = attempts_of y d" if "y \<noteq> ?x" for y
    using that by (simp add: attempts_of_def d' d1)
  have new: "delivery_row_inv ?L d' (?row r)"
    using ri opn attempt_status_cases [OF st] d1(4,5) unfolding delivery_row_inv_def
    by (auto simp: finished_row_def r(2) of_x butlast_append upto_rec2 dest: in_set_butlastD)
  have old: "delivery_row_inv ?L d' q" if "q \<in> set (deliveries d)" "q \<noteq> r" for q
  proof -
    have "dl_intent q \<noteq> ?x" using unique_delivery [OF inv that(1) r(1)] that(2) r(2) by auto
    moreover have "delivery_row_inv ?L d q" using inv that(1) by (simp add: delivery_inv_def)
    ultimately show ?thesis by (simp add: delivery_row_inv_def of_y)
  qed
  let ?g = "\<lambda>q. if dl_intent q = ?x \<and> dl_version q = dl_version r then ?row q else q"
  have gr: "?g r = ?row r" using r(2) by simp
  have gq: "?g q = q" if "q \<in> set (deliveries d)" "q \<noteq> r" for q
    using unique_delivery [OF inv that(1) r(1)] that(2) r(2) by auto
  have del: "deliveries d' = map ?g (deliveries d)" by (simp add: d' d1)
  have id: "dl_intent (?g q) = dl_intent q" for q by (simp add: finished_row_def)
  have intents: "map dl_intent (deliveries d') = map dl_intent (deliveries d)" unfolding del using id by simp
  have "\<forall>q \<in> set (deliveries d'). delivery_row_inv ?L d' q"
  proof
    fix q assume "q \<in> set (deliveries d')"
    then obtain p where "p \<in> set (deliveries d)" "q = ?g p" unfolding del by auto
    then show "delivery_row_inv ?L d' q" using gr gq new old by (cases "p = r") auto
  qed
  moreover have "at_intent b \<in> dl_intent ` set (deliveries d')" if "b \<in> set (attempts d')" for b
  proof -
    have "dl_intent ` set (deliveries d') = dl_intent ` set (deliveries d)"
      using arg_cong [OF intents, of set] by simp
    moreover have "at_intent b \<in> dl_intent ` set (deliveries d)"
    proof (cases "b = a")
      case True
      then show ?thesis using d1(3) by (intro image_eqI [OF _ r(1)]) (simp add: r(2))
    next
      case False
      then have "b \<in> set (attempts d)" using that by (simp add: d' d1)
      then show ?thesis using inv by (simp add: delivery_inv_def)
    qed
    ultimately show ?thesis by simp
  qed
  ultimately have "delivery_inv ?L d'" using inv intents by (simp add: delivery_inv_def)
  moreover have "final_rows_stay d d'"
    unfolding final_rows_stay_def
  proof (intro ballI impI)
    fix q assume q: "q \<in> set (deliveries d)" "dl_status q \<notin> set open_statuses"
    then have "?g q = q" using gq opn by metis
    moreover have "?g q \<in> set (map ?g (deliveries d))" using q(1) by simp
    ultimately show "q \<in> set (deliveries d')" by (simp only: del)
  qed
  ultimately show ?thesis by blast
qed

section \<open>The machine\<close>

lemma emit_intent_keeps:
  assumes run: "emit_intent sha src v k f ch d = Inr (u, d')" and inv: "delivery_inv limit d"
  shows "delivery_inv limit d' \<and> final_rows_stay d d'"
proof -
  obtain r where r: "deliveries d' = deliveries d @ [r]" "attempts d' = attempts d"
      "dl_intent r \<notin> dl_intent ` set (deliveries d)" "dl_attempts r = 0"
    using run by (auto simp: emit_intent_def insert_intent_def insert_delivery_def absent_iff result_simps)
  have "at_intent x \<noteq> dl_intent r" if "x \<in> set (attempts d)" for x
    using inv that r(3) unfolding delivery_inv_def by metis
  then have none: "attempts_of (dl_intent r) d' = []"
    by (simp add: attempts_of_def filter_empty_conv r(2))
  have "delivery_row_inv limit d' r"
    using inv none r(4) by (simp add: delivery_row_inv_def delivery_inv_def)
  moreover have "delivery_row_inv limit d' q = delivery_row_inv limit d q" for q
    by (simp add: delivery_row_inv_def attempts_of_def r)
  ultimately show ?thesis using inv r by (auto simp: delivery_inv_def final_rows_stay_def)
qed

lemma cancelled_inv:
  assumes "delivery_row_inv limit d r" and "dl_status r \<in> set open_statuses"
  shows "delivery_row_inv limit d (cancel_delivery now r)"
  using assms by (auto simp: delivery_row_inv_def cancel_delivery_def open_statuses_def)

lemma advance_restore_Inr:
  assumes "advance_restore_generation sha now d = Inr ((g, n), d')"
  shows "\<exists>v k. system_metadata d ''restore_generation'' = Some v \<and> parse_generation v = Inr (g - 1) \<and>
    d' = d\<lparr>system_metadata := (system_metadata d)(''restore_generation'' \<mapsto> render_int g),
       deliveries := map (\<lambda>r. if dl_status r \<in> set open_statuses then cancel_delivery now r else r) (deliveries d),
       uid_count := Suc (uid_count d), audits := audits d @ [k]\<rparr>"
  using assms unfolding advance_restore_generation_def cancel_open_def insert_audit_def Let_def
  by (auto simp: result_simps)

lemma advance_restore_keeps:
  assumes run: "advance_restore_generation sha now d = Inr (x, d')" and inv: "delivery_inv limit d"
  shows "delivery_inv limit d' \<and> final_rows_stay d d'"
proof -
  let ?f = "\<lambda>r. if dl_status r \<in> set open_statuses then cancel_delivery now r else r"
  obtain g n where "x = (g, n)" by (cases x)
  with run have d': "deliveries d' = map ?f (deliveries d)" "attempts d' = attempts d"
    using advance_restore_Inr [of sha now d g n d'] by auto
  have "delivery_inv limit d'"
  proof (rule delivery_inv_update [OF inv d'])
    show "dl_intent (?f r) = dl_intent r" for r by (simp add: cancel_delivery_def)
    show "?f r = r \<or> delivery_row_inv limit d (?f r)" if "r \<in> set (deliveries d)" for r
      using that inv cancelled_inv by (auto simp: delivery_inv_def)
  qed
  moreover have "final_rows_stay d d'"
    unfolding final_rows_stay_def d' by (auto simp: image_iff)
  ultimately show ?thesis by blast
qed

definition system_inv :: "int \<Rightarrow> delivery_system \<Rightarrow> bool" where
  "system_inv limit s \<longleftrightarrow> delivery_inv limit (sy_db s) \<and>
     (\<forall>(c, claim, t) \<in> set (sy_claims s). wc_max_attempts c = limit)"

lemma settings_inv:
  "delivery_inv limit (d\<lparr>system_metadata := m, webhook_enabled := b\<rparr>) = delivery_inv limit d"
  by (simp add: delivery_inv_def delivery_row_inv_def attempts_of_def)

lemma worker_step_keeps:
  assumes "worker_step limit s s'" and "system_inv limit s"
  shows "system_inv limit s' \<and> final_rows_stay (sy_db s) (sy_db s')"
  using assms
proof (induction rule: worker_step.induct)
  case (step_claim c s claim d')
  then show ?case using claim_intent_keeps [of c "sy_now s" "sy_db s"] by (auto simp: system_inv_def)
next
  case (step_idle c s d')
  then show ?case using claim_intent_keeps [of c "sy_now s" "sy_db s"] by (auto simp: system_inv_def)
next
  case (step_finish c claim started s outcome b d')
  then have "wc_max_attempts c = limit" by (auto simp: system_inv_def)
  then show ?case
    using step_finish finish_delivery_keeps [of c claim outcome started "sy_now s" "sy_db s" b d']
    by (auto simp: system_inv_def dest: set_remove1_subset [THEN subsetD])
next
  case (step_crash s x)
  then show ?case
    by (auto simp: system_inv_def final_rows_stay_refl dest: set_remove1_subset [THEN subsetD])
next
  case (step_time s t)
  then show ?case by (simp add: system_inv_def final_rows_stay_refl)
next
  case (step_settings s meta b)
  then show ?case by (simp add: system_inv_def settings_inv final_rows_stay_def)
next
  case (step_restore sha t s x d')
  then show ?case using advance_restore_keeps [of sha t "sy_db s" x d' limit] by (simp add: system_inv_def)
next
  case (step_intent sha src v k f ch s u d')
  then show ?case using emit_intent_keeps [of sha src v k f ch "sy_db s" u d' limit] by (simp add: system_inv_def)
qed

lemma worker_steps_keep:
  assumes "(worker_step limit)\<^sup>*\<^sup>* s s'" and "system_inv limit s"
  shows "system_inv limit s' \<and> final_rows_stay (sy_db s) (sy_db s')"
  using assms
proof (induction rule: rtranclp_induct)
  case base
  then show ?case by (simp add: final_rows_stay_refl)
next
  case (step t u)
  then show ?case using worker_step_keeps [of limit t u] final_rows_stay_trans by blast
qed

end
