(* ===== verification/Commit_Writes.thy ===== *)
theory Commit_Writes
  imports Decision_Services Delivery_Properties
begin

text \<open>
  What the commands of an analysis commit keep. A relation between the database before and after that
  is a preorder and tolerates the single row a statement writes is kept by the whole command; the
  locales name the rows, in the groups the code writes them in, and their lemmas are the commands.
  The interpretations are the relations the properties rest on: append-only growth, the lifecycle
  tables and the registry left alone, and the delivery invariant.
\<close>

section \<open>Groups of rows\<close>

text \<open>The rows of a Guardian and a Scout evaluation.\<close>

locale decision_writes = command_order +
  assumes guardian_row: "R d (d\<lparr>guardians := guardians d @ [g]\<rparr>)"
    and risk_row: "R d (d\<lparr>risk_tags := risk_tags d @ [k]\<rparr>)"
    and risk_evidence_row: "R d (d\<lparr>risk_evidence := risk_evidence d @ [e]\<rparr>)"
    and scout_row: "R d (d\<lparr>scouts := scouts d @ [s]\<rparr>)"
    and opportunity_row: "R d (d\<lparr>opportunities := opportunities d @ [w]\<rparr>)"
    and opportunity_evidence_row: "R d (d\<lparr>opportunity_evidence := opportunity_evidence d @ [e]\<rparr>)"
begin

lemma insert_rows:
  "keeps R (insert_guardian_evaluation g)" "keeps R (insert_risk_tag k)" "keeps R (insert_risk_evidence e)"
  "keeps R (insert_scout_evaluation s)" "keeps R (insert_opportunity_tag w)"
  "keeps R (insert_opportunity_evidence e)"
  unfolding insert_guardian_evaluation_def insert_risk_tag_def insert_risk_evidence_def
    insert_scout_evaluation_def insert_opportunity_tag_def insert_opportunity_evidence_def
  by (rule keeps_exec; rule guardian_row risk_row risk_evidence_row scout_row opportunity_row
      opportunity_evidence_row)+

lemma finding_rows: "keeps R (insert_risk g r)" "keeps R (insert_opportunity s i)"
  unfolding insert_risk_def insert_opportunity_def by (intro monad insert_rows)+

lemma evaluation_rows:
  "keeps R (write_guardian sha su sh sub sn t e m rs)" "keeps R (write_scout sha gu gh e su sub sn t fs)"
  unfolding write_guardian_def write_scout_def Let_def by (intro monad insert_rows finding_rows)+

lemma decisions:
  "keeps R (insert_guardian sha snapshot quality su sh request fs t)"
  "keeps R (insert_scout sha snapshot su guardian fs t)"
  unfolding insert_guardian_def insert_scout_def Let_def by (intro monad evaluation_rows)+

lemma services: "keeps R (evaluate_guardian sha u)" "keeps R (evaluate_scout sha u)"
  unfolding evaluate_guardian_def evaluate_scout_def by (intro monad evaluation_rows)+

end

text \<open>The events with their intents, and the audit record.\<close>

locale event_writes = command_order +
  assumes event_row: "R d (d\<lparr>events := events d @ [v]\<rparr>)"
    and event_version_row: "R d (d\<lparr>event_versions := event_versions d @ [vv]\<rparr>)"
    and event_evidence_row: "R d (d\<lparr>event_evidence := event_evidence d @ [ee]\<rparr>)"
    and event_projection_rows: "R d (d\<lparr>event_projections := ps\<rparr>)"
    and audit_row: "R d (d\<lparr>audits := audits d @ [a]\<rparr>)"
    and intent: "keeps R (emit_intent sha src u k f ch)"
begin

lemma insert_event_rows:
  "keeps R (insert_market_event v)" "keeps R (insert_event_version vv)"
  "keeps R (insert_event_evidence x y)" "keeps R (insert_event_projection p)"
  "keeps R (update_event_projection p)" "keeps R (insert_audit a)"
  unfolding insert_market_event_def insert_event_version_def
    insert_event_evidence_def insert_event_projection_def update_event_projection_def insert_audit_def
  by (rule keeps_exec; rule event_row event_version_row event_evidence_row
      event_projection_rows audit_row)+

lemma event: "keeps R (write_event sha src kind active current step)"
  unfolding write_event_def Let_def by (intro monad insert_event_rows intent)

lemma events: "keeps R (decide_events sha src)"
  unfolding decide_events_def decide_event_def event_projection_of_def case_prod_unfold
  by (intro monad event)

lemma audit: "keeps R (write_audit sha snapshot commit_uid commit_hash versions intent_uids)"
  unfolding write_audit_def by (intro monad insert_event_rows)

end

locale commit_writes = decision_writes + event_writes +
  assumes commit_row: "R d (d\<lparr>commits := commits d @ [c]\<rparr>)"
begin

lemma insert_commit_row: "keeps R (insert_analysis_commit c)"
  unfolding insert_analysis_commit_def by (rule keeps_exec) (rule commit_row)

lemma records: "keeps R (commit_records sha request plan snapshot quality su guardian scout)"
  unfolding commit_records_def case_prod_unfold
  by (intro monad insert_commit_row events audit)

end

text \<open>The rows of a state evaluation.\<close>

locale state_writes = command_order +
  assumes state_row: "R d (d\<lparr>states := states d @ [e]\<rparr>)"
    and state_fact_row: "R d (d\<lparr>state_facts := state_facts d @ [f]\<rparr>)"
    and transition_row: "R d (d\<lparr>transitions := transitions d @ [t]\<rparr>)"
    and projection_rows: "R d (d\<lparr>projections := qs\<rparr>)"
begin

lemma insert_state_rows:
  "keeps R (insert_state_evaluation e)" "keeps R (insert_state_fact x y)" "keeps R (insert_transition t)"
  "keeps R (insert_projection q)"
  unfolding insert_state_evaluation_def insert_state_fact_def insert_transition_def insert_projection_def
  by (rule keeps_exec; rule state_row state_fact_row transition_row projection_rows)+

lemma update_projection: "keeps R (update_projection q v)"
  unfolding update_projection_def by (intro monad keeps_exec projection_rows)

lemma state_steps:
  "keeps R (check_transition previous l)" "keeps R (record_transition sub previous l ev t)"
  "keeps R (write_projection current row)" "keeps R (projection_of sub)"
  unfolding check_transition_def record_transition_def write_projection_def projection_of_def
  by (intro monad insert_state_rows update_projection)+

lemma state: "keeps R (insert_state sha snapshot request fs)"
  unfolding insert_state_def Let_def by (intro monad insert_state_rows state_steps)

lemma service: "keeps R (state_command snapshot av l fs expected digest uid)"
  unfolding state_command_def Let_def by (intro monad insert_state_rows state_steps)

lemma stale_audit: "keeps R (record_stale_audit sha sn sub av l fs h t)"
  unfolding record_stale_audit_def Let_def by (intro monad insert_state_rows)

end

locale analysis_writes = commit_writes + state_writes
begin

lemma command: "keeps R (commit_command sha request plan)"
  unfolding commit_command_def Let_def case_prod_unfold
  by (intro monad state decisions records)

lemma commit: "keeps R (analysis_commit sha request)"
  unfolding analysis_commit_def case_prod_unfold by (intro monad command)

end

section \<open>The relations\<close>

lemma grows_emit_intent: "keeps grows (emit_intent sha src u k f ch)"
  unfolding emit_intent_def by (intro grows_intros)

interpretation growing: analysis_writes grows
  by unfold_locales (auto simp: grows_defs intro: grows_refl grows_trans grows_emit_intent)

text \<open>The lifecycle tables: only a state evaluation changes them.\<close>

definition same_lifecycle :: "db \<Rightarrow> db \<Rightarrow> bool" where
  "same_lifecycle d d' \<longleftrightarrow>
     states d' = states d \<and> transitions d' = transitions d \<and> projections d' = projections d"

lemma same_lifecycle_emit_intent: "keeps same_lifecycle (emit_intent sha src u k f ch)"
  by (rule keepsI)
    (auto simp: same_lifecycle_def emit_intent_def insert_intent_def insert_delivery_def result_simps)

interpretation frame: commit_writes same_lifecycle
  by unfold_locales
    (auto simp: same_lifecycle_def same_lifecycle_emit_intent intro: reflpI transpI)

text \<open>The registry.\<close>

lemma registry_emit_intent: "keeps keeps_registry (emit_intent sha src u k f ch)"
  by (rule keepsI, rule keeps_registryI)
    (auto simp: emit_intent_def insert_intent_def insert_delivery_def result_simps)

interpretation registry: analysis_writes keeps_registry
  by unfold_locales
    (auto simp: reflp_keeps_registry transp_keeps_registry registry_emit_intent intro!: keeps_registryI)

text \<open>The deliveries: an intent brings a pending one, nothing else of a commit touches them.\<close>

definition keeps_delivery :: "int \<Rightarrow> db \<Rightarrow> db \<Rightarrow> bool" where
  "keeps_delivery limit d d' \<longleftrightarrow>
     (delivery_inv limit d \<longrightarrow> delivery_inv limit d' \<and> final_rows_stay d d')"

lemma keeps_deliveryI:
  assumes "deliveries d' = deliveries d" and "attempts d' = attempts d"
  shows "keeps_delivery limit d d'"
  using assms
  by (simp add: keeps_delivery_def delivery_inv_def delivery_row_inv_def attempts_of_def final_rows_stay_def)

lemma delivery_emit_intent: "keeps (keeps_delivery limit) (emit_intent sha src u k f ch)"
  by (rule keepsI) (simp add: keeps_delivery_def emit_intent_keeps)

interpretation delivering: analysis_writes "keeps_delivery limit"
proof unfold_locales
  show "reflp (keeps_delivery limit)" by (simp add: reflpI keeps_delivery_def final_rows_stay_refl)
  show "transp (keeps_delivery limit)"
    by (rule transpI) (use final_rows_stay_trans in \<open>auto simp: keeps_delivery_def\<close>)
  show "keeps (keeps_delivery limit) (emit_intent sha src u k f ch)" for sha src u k f ch
    by (rule delivery_emit_intent)
qed (rule keeps_deliveryI; simp)+

section \<open>The lifecycle through a commit\<close>

lemma commit_command_Inr:
  assumes "commit_command sha request plan d = Inr (result, d')"
  obtains snapshot quality state_uid state_hash d1 guardian d2 scout d3 where
    "\<And>c. c \<in> set (commits d) \<Longrightarrow> ac_snapshot c \<noteq> rq_snapshot_uid request"
    "snapshot_quality d (rq_snapshot_uid request) = Inr (snapshot, quality)"
    "snap_status snapshot = ''SEALED''" "snap_disposition snapshot = ''OFFICIAL''"
    "insert_state sha snapshot request (cp_guardian_facts plan @ cp_scout_facts plan) d = Inr ((state_uid, state_hash), d1)"
    "insert_guardian sha snapshot quality state_uid state_hash request
       (cp_guardian_facts plan @ cp_scout_facts plan) (cp_guardian_set plan) d1 = Inr (guardian, d2)"
    "insert_scout sha snapshot state_uid guardian (cp_guardian_facts plan @ cp_scout_facts plan)
       (cp_scout_set plan) d2 = Inr (scout, d3)"
    "commit_records sha request plan snapshot quality state_uid guardian scout d3 = Inr (result, d')"
proof -
  have "\<exists>snapshot quality state_uid state_hash d1 guardian d2 scout d3.
    one_or_none (filter (\<lambda>c. ac_snapshot c = rq_snapshot_uid request) (commits d)) = Inr None \<and>
    snapshot_quality d (rq_snapshot_uid request) = Inr (snapshot, quality) \<and>
    snap_status snapshot = ''SEALED'' \<and> snap_disposition snapshot = ''OFFICIAL'' \<and>
    insert_state sha snapshot request (cp_guardian_facts plan @ cp_scout_facts plan) d = Inr ((state_uid, state_hash), d1) \<and>
    insert_guardian sha snapshot quality state_uid state_hash request
       (cp_guardian_facts plan @ cp_scout_facts plan) (cp_guardian_set plan) d1 = Inr (guardian, d2) \<and>
    insert_scout sha snapshot state_uid guardian (cp_guardian_facts plan @ cp_scout_facts plan)
       (cp_scout_set plan) d2 = Inr (scout, d3) \<and>
    commit_records sha request plan snapshot quality state_uid guardian scout d3 = Inr (result, d')"
    using assms unfolding commit_command_def Let_def case_prod_unfold
    by (auto simp: bindC_eq_Inr readC_eq checkC_eq)
  then show thesis
    using that by (auto simp: one_or_none_eq_None filter_empty_conv)
qed

end
