(* ===== verification/Commit_Chain.thy ===== *)
theory Commit_Chain
  imports Commit_Writes
begin

text \<open>
  The rows an analysis commit leaves (\<open>analysis_commit.py\<close>): the state, Guardian, Scout and commit
  rows of one commit refer to each other, and this chain is an invariant because the tables only
  grow. The last section follows the commit's metrics from the request through the persisted facts
  to the Guardian decision.
\<close>

section \<open>Rows found by growth\<close>

lemma grows_rows:
  assumes "grows d d'"
  shows "e \<in> set (states d) \<Longrightarrow> e \<in> set (states d')"
    "g \<in> set (guardians d) \<Longrightarrow> g \<in> set (guardians d')"
    "s \<in> set (scouts d) \<Longrightarrow> s \<in> set (scouts d')"
    "c \<in> set (commits d) \<Longrightarrow> c \<in> set (commits d')"
    "v \<in> set (event_versions d) \<Longrightarrow> v \<in> set (event_versions d')"
    "snapshots d' = snapshots d"
  using assms by (auto simp: grows_defs dest: set_mono_prefix)

lemma insert_state_row:
  assumes "insert_state sha snapshot request fs d = Inr ((uid, h), d')"
  shows "\<exists>e \<in> set (states d'). se_uid e = uid \<and> se_hash e = h \<and> se_snapshot e = rq_snapshot_uid request \<and>
    se_subject e = snap_subject snapshot \<and> se_disposition e = ''OFFICIAL'' \<and>
    se_availability e = rq_availability request \<and> se_lifecycle e = rq_lifecycle request"
proof -
  obtain e current d2 d3 d4 d5 where
    ins: "insert_state_evaluation e d2 = Inr ((), d3)"
    and e: "se_uid e = uid" "se_hash e = h" "se_snapshot e = rq_snapshot_uid request"
      "se_subject e = snap_subject snapshot" "se_disposition e = ''OFFICIAL''"
      "se_availability e = rq_availability request" "se_lifecycle e = rq_lifecycle request"
    and facts: "forC (\<lambda>fact. insert_state_fact uid (fst fact)) fs d3 = Inr ((), d4)"
    and transition: "record_transition (snap_subject snapshot) (previous_state current) (rq_lifecycle request) uid
        (snap_as_of snapshot) d4 = Inr ((), d5)"
    and projection: "write_projection current (next_projection (snap_subject snapshot) (rq_availability request)
        (rq_lifecycle request) current uid (snap_as_of snapshot) (actual_version current + 1)) d5 = Inr ((), d')"
    using assms by (auto simp: insert_state_def Let_def result_simps)
  have "e \<in> set (states d3)" using ins by (auto simp: insert_state_evaluation_def result_simps)
  moreover have "keeps grows (forC (\<lambda>fact. insert_state_fact uid (fst fact)) fs)"
    by (intro growing.monad growing.insert_state_rows)
  then have "grows d3 d4" using facts by (rule keepsD)
  moreover have "grows d4 d5" "grows d5 d'"
    using keepsD [OF growing.state_steps(2) transition] keepsD [OF growing.state_steps(3) projection] .
  ultimately have "e \<in> set (states d')" using grows_rows(1) by blast
  then show ?thesis using e by blast
qed

lemma write_guardian_row:
  assumes "write_guardian sha su sh sub sn t effect m rs d = Inr (guardian, d')"
  shows "go_effect guardian = effect" "go_blocking guardian \<longleftrightarrow> effect \<in> {SUPPRESS, PAUSE}" "go_risks guardian = rs"
    "\<exists>g \<in> set (guardians d'). g_uid g = go_uid guardian \<and> g_hash g = go_hash guardian \<and> g_state g = su \<and>
      g_snapshot g = sn \<and> g_effect g = effect \<and> g_blocking g = go_blocking guardian \<and> g_severity g = m"
proof -
  obtain g d1 d2 where
    ins: "insert_guardian_evaluation g d1 = Inr ((), d2)"
    and g: "g_uid g = go_uid guardian" "g_hash g = go_hash guardian" "g_state g = su" "g_snapshot g = sn"
      "g_effect g = effect" "g_blocking g = go_blocking guardian" "g_severity g = m"
      "go_effect guardian = effect" "go_blocking guardian \<longleftrightarrow> effect \<in> {SUPPRESS, PAUSE}" "go_risks guardian = rs"
    and rest: "forC (insert_risk (go_uid guardian)) rs d2 = Inr ((), d')"
    using assms by (auto simp: write_guardian_def Let_def result_simps)
  have "g \<in> set (guardians d2)" using ins by (auto simp: insert_guardian_evaluation_def result_simps)
  moreover have "keeps grows (forC (insert_risk (go_uid guardian)) rs)"
    by (intro growing.monad growing.finding_rows)
  then have "grows d2 d'" using rest by (rule keepsD)
  ultimately show "\<exists>g \<in> set (guardians d'). g_uid g = go_uid guardian \<and> g_hash g = go_hash guardian \<and> g_state g = su \<and>
      g_snapshot g = sn \<and> g_effect g = effect \<and> g_blocking g = go_blocking guardian \<and> g_severity g = m"
    using g grows_rows(2) by blast
  show "go_effect guardian = effect" "go_blocking guardian \<longleftrightarrow> effect \<in> {SUPPRESS, PAUSE}" "go_risks guardian = rs"
    by (fact g)+
qed

lemma write_scout_row:
  assumes "write_scout sha gu gh effect su sub sn t fs d = Inr (scout, d')"
  shows "so_suppressed scout \<longleftrightarrow> effect \<in> {SUPPRESS, PAUSE}" "so_status scout = scout_status (length fs)"
    "so_opportunities scout = fs"
    "\<exists>s \<in> set (scouts d'). s_uid s = so_uid scout \<and> s_hash s = so_hash scout \<and> s_guardian s = gu \<and> s_state s = su \<and>
      s_snapshot s = sn \<and> s_effect s = effect \<and> s_suppressed s = so_suppressed scout \<and>
      s_status s = so_status scout \<and> s_strength s = so_strength scout"
proof -
  obtain s d1 d2 where
    ins: "insert_scout_evaluation s d1 = Inr ((), d2)"
    and s: "s_uid s = so_uid scout" "s_hash s = so_hash scout" "s_guardian s = gu" "s_state s = su" "s_snapshot s = sn"
      "s_effect s = effect" "s_suppressed s = so_suppressed scout" "s_status s = so_status scout"
      "s_strength s = so_strength scout" "so_suppressed scout \<longleftrightarrow> effect \<in> {SUPPRESS, PAUSE}"
      "so_status scout = scout_status (length fs)" "so_opportunities scout = fs"
    and rest: "forC (insert_opportunity (so_uid scout)) fs d2 = Inr ((), d')"
    using assms by (auto simp: write_scout_def Let_def result_simps)
  have "s \<in> set (scouts d2)" using ins by (auto simp: insert_scout_evaluation_def result_simps)
  moreover have "keeps grows (forC (insert_opportunity (so_uid scout)) fs)"
    by (intro growing.monad growing.finding_rows)
  then have "grows d2 d'" using rest by (rule keepsD)
  ultimately show "\<exists>s \<in> set (scouts d'). s_uid s = so_uid scout \<and> s_hash s = so_hash scout \<and> s_guardian s = gu \<and>
      s_state s = su \<and> s_snapshot s = sn \<and> s_effect s = effect \<and> s_suppressed s = so_suppressed scout \<and>
      s_status s = so_status scout \<and> s_strength s = so_strength scout"
    using s grows_rows(3) by blast
  show "so_suppressed scout \<longleftrightarrow> effect \<in> {SUPPRESS, PAUSE}" "so_status scout = scout_status (length fs)"
    "so_opportunities scout = fs"
    by (fact s)+
qed

section \<open>The chain\<close>

definition chained :: "db \<Rightarrow> commit_row \<Rightarrow> bool" where
  "chained d c \<longleftrightarrow> (\<exists>n \<in> set (snapshots d). \<exists>e \<in> set (states d). \<exists>g \<in> set (guardians d). \<exists>s \<in> set (scouts d).
     snap_uid n = ac_snapshot c \<and> snap_status n = ''SEALED'' \<and> snap_disposition n = ''OFFICIAL'' \<and>
     se_uid e = ac_state c \<and> se_snapshot e = ac_snapshot c \<and> se_subject e = snap_subject n \<and>
     se_disposition e = ''OFFICIAL'' \<and>
     g_uid g = ac_guardian c \<and> g_state g = ac_state c \<and> g_snapshot g = ac_snapshot c \<and>
     g_blocking g = (g_effect g \<in> {SUPPRESS, PAUSE}) \<and>
     s_uid s = ac_scout c \<and> s_guardian s = ac_guardian c \<and> s_state s = ac_state c \<and>
     s_snapshot s = ac_snapshot c \<and> s_effect s = g_effect g \<and> s_suppressed s = g_blocking g)"

definition chain_inv :: "db \<Rightarrow> bool" where
  "chain_inv d \<longleftrightarrow>
     distinct (map ac_snapshot (commits d)) \<and> distinct (map ac_uid (commits d)) \<and>
     (\<forall>c \<in> set (commits d). chained d c)"

lemma chained_grows: "grows d d' \<Longrightarrow> chained d c \<Longrightarrow> chained d' c"
  unfolding chained_def
  by (elim bexE) (rule bexI, rule bexI, rule bexI, rule bexI, assumption, simp_all add: grows_rows)

lemma chain_grows:
  "grows d d' \<Longrightarrow> commits d' = commits d \<Longrightarrow> chain_inv d \<Longrightarrow> chain_inv d'"
  using chained_grows by (auto simp: chain_inv_def)

text \<open>Commands that only append and write no commit.\<close>

definition same_commits :: "db \<Rightarrow> db \<Rightarrow> bool" where
  "same_commits d d' \<longleftrightarrow> commits d' = commits d"

lemma same_commits_order: "reflp same_commits" "transp same_commits"
  by (rule reflpI, simp add: same_commits_def) (rule transpI, simp add: same_commits_def)

interpretation uncommitted: decision_writes same_commits
  by unfold_locales (simp_all add: same_commits_order, simp_all add: same_commits_def)

interpretation uncommitted: state_writes same_commits
  by unfold_locales (simp_all add: same_commits_def)

lemma emit_intent_commits: "keeps same_commits (emit_intent sha src u k f ch)"
  by (rule keepsI) (auto simp: same_commits_def emit_intent_def insert_intent_def insert_delivery_def result_simps)

interpretation uncommitted: event_writes same_commits
  by unfold_locales (simp_all add: emit_intent_commits, simp_all add: same_commits_def)

lemma ex_unit: "(\<exists>x :: unit. P x) = P ()"
  by (metis unit.exhaust)

lemma records_Inr:
  assumes "commit_records sha request plan snapshot quality su guardian scout d = Inr (result, d')"
  shows "\<exists>u d1 ctx generation versions intents' d2.
    insert_analysis_commit \<lparr>ac_uid = u, ac_snapshot = rq_snapshot_uid request, ac_state = su,
        ac_guardian = go_uid guardian, ac_scout = so_uid scout, ac_disposition = ''OFFICIAL'',
        ac_hash = cp_hash plan, ac_committed = snap_as_of snapshot\<rparr> (d\<lparr>uid_count := Suc (uid_count d)\<rparr>) =
      Inr ((), d1) \<and>
    decide_events sha \<lparr>es_snapshot = snapshot, es_commit = u, es_state = su, es_guardian = guardian,
        es_scout = scout, es_context = ctx, es_channels = commit_channels request,
        es_generation = generation\<rparr> d1 = Inr ((versions, intents'), d2) \<and>
    write_audit sha snapshot u (cp_hash plan) versions intents' d2 = Inr ((), d') \<and>
    result = \<lparr>cr_commit_uid = u, cr_state_uid = su, cr_guardian_uid = go_uid guardian,
       cr_scout_uid = so_uid scout, cr_event_versions = versions, cr_intents = intents'\<rparr>"
  using assms
  unfolding commit_records_def bindC_eq_Inr readC_eq getC_eq returnC_eq new_uid_eq ex_unit
    split_paired_Ex prod.case
  by (elim exE conjE, hypsubst) (intro exI conjI, assumption+, rule refl)

lemma records_commits:
  assumes "commit_records sha request plan snapshot quality su guardian scout d = Inr (result, d')"
  obtains c where "commits d' = commits d @ [c]" "absent ac_uid (commits d) (ac_uid c)"
    "absent ac_snapshot (commits d) (ac_snapshot c)"
    "ac_uid c = cr_commit_uid result" "ac_snapshot c = rq_snapshot_uid request" "ac_state c = su"
    "ac_guardian c = go_uid guardian" "ac_scout c = so_uid scout" "ac_hash c = cp_hash plan"
    "cr_state_uid result = su" "cr_guardian_uid result = go_uid guardian" "cr_scout_uid result = so_uid scout"
proof -
  obtain u d1 ctx generation versions intents' d2 where
    ins: "insert_analysis_commit \<lparr>ac_uid = u, ac_snapshot = rq_snapshot_uid request, ac_state = su,
        ac_guardian = go_uid guardian, ac_scout = so_uid scout, ac_disposition = ''OFFICIAL'',
        ac_hash = cp_hash plan, ac_committed = snap_as_of snapshot\<rparr> (d\<lparr>uid_count := Suc (uid_count d)\<rparr>) =
      Inr ((), d1)"
    and events: "decide_events sha \<lparr>es_snapshot = snapshot, es_commit = u, es_state = su, es_guardian = guardian,
        es_scout = scout, es_context = ctx, es_channels = commit_channels request,
        es_generation = generation\<rparr> d1 = Inr ((versions, intents'), d2)"
    and audit: "write_audit sha snapshot u (cp_hash plan) versions intents' d2 = Inr ((), d')"
    and result: "result = \<lparr>cr_commit_uid = u, cr_state_uid = su, cr_guardian_uid = go_uid guardian,
       cr_scout_uid = so_uid scout, cr_event_versions = versions, cr_intents = intents'\<rparr>"
    using records_Inr [OF assms] by blast
  let ?c = "\<lparr>ac_uid = u, ac_snapshot = rq_snapshot_uid request, ac_state = su,
        ac_guardian = go_uid guardian, ac_scout = so_uid scout, ac_disposition = ''OFFICIAL'',
        ac_hash = cp_hash plan, ac_committed = snap_as_of snapshot\<rparr>"
  have "commits d' = commits d1"
    using keepsD [OF uncommitted.events events] keepsD [OF uncommitted.audit audit] by (simp add: same_commits_def)
  moreover have "commits d1 = commits d @ [?c]" "absent ac_uid (commits d) (ac_uid ?c)"
    "absent ac_snapshot (commits d) (ac_snapshot ?c)"
    using ins by (simp_all add: insert_analysis_commit_def execC_eq)
  ultimately show thesis using that [of ?c] result by simp
qed

lemma snapshot_quality_Inr:
  assumes "snapshot_quality d u = Inr (n, q)"
  shows "n \<in> set (snapshots d)" "snap_uid n = u" "q \<in> set (qualities d)" "qc_uid q = snap_quality n"
proof -
  have "(n, q) \<in> set (concat (map (\<lambda>s. map (\<lambda>q. (s, q)) (filter (\<lambda>q. qc_uid q = snap_quality s) (qualities d)))
       (filter (\<lambda>s. snap_uid s = u) (snapshots d))))"
    using assms unfolding snapshot_quality_def one_eq_Inr by simp
  then show "n \<in> set (snapshots d)" "snap_uid n = u" "q \<in> set (qualities d)" "qc_uid q = snap_quality n"
    by auto
qed

text \<open>The commit's rows, and what the Guardian row records.\<close>

lemma insert_guardian_row:
  assumes "insert_guardian sha snapshot quality su sh request fs t d = Inr (guardian, d')"
  obtains rs es where "commit_risks request quality fs t = Inr (rs, es)"
    "go_effect guardian = pymax_or effect_order ALLOW es"
    "go_blocking guardian \<longleftrightarrow> go_effect guardian \<in> {SUPPRESS, PAUSE}" "go_risks guardian = rs"
    "\<exists>g \<in> set (guardians d'). g_uid g = go_uid guardian \<and> g_hash g = go_hash guardian \<and> g_state g = su \<and>
      g_snapshot g = rq_snapshot_uid request \<and> g_effect g = go_effect guardian \<and>
      g_blocking g = go_blocking guardian \<and> g_severity g = pymax_or severity_order SEV_NONE (map severity rs)"
proof -
  obtain rs es where r: "commit_risks request quality fs t = Inr (rs, es)"
    and w: "write_guardian sha su sh (snap_subject snapshot) (rq_snapshot_uid request) (snap_as_of snapshot)
      (pymax_or effect_order ALLOW es) (pymax_or severity_order SEV_NONE (map severity rs)) rs d = Inr (guardian, d')"
    using assms unfolding insert_guardian_def Let_def bindC_eq_Inr readC_eq split_paired_Ex prod.case by blast
  show thesis using that [OF r] write_guardian_row [OF w] by simp
qed

lemma insert_scout_row:
  assumes "insert_scout sha snapshot su guardian fs t d = Inr (scout, d')"
  obtains found where "scout_findings (by_code fs) (pydict (ts_entries t)) = Inr found"
    "so_suppressed scout \<longleftrightarrow> go_effect guardian \<in> {SUPPRESS, PAUSE}" "so_status scout = scout_status (length found)"
    "\<exists>s \<in> set (scouts d'). s_uid s = so_uid scout \<and> s_guardian s = go_uid guardian \<and> s_state s = su \<and>
      s_snapshot s = snap_uid snapshot \<and> s_effect s = go_effect guardian \<and> s_suppressed s = so_suppressed scout \<and>
      s_status s = so_status scout"
proof -
  obtain found where r: "scout_findings (by_code fs) (pydict (ts_entries t)) = Inr found"
    and w: "write_scout sha (go_uid guardian) (go_hash guardian) (go_effect guardian) su (snap_subject snapshot)
      (snap_uid snapshot) (snap_as_of snapshot) found d = Inr (scout, d')"
    using assms unfolding insert_scout_def bindC_eq_Inr readC_eq by blast
  note row = write_scout_row [OF w]
  show thesis by (rule that [OF r row(1,2)]) (use row(4) in blast)
qed

text \<open>A new commit extends the chain.\<close>

lemma commit_command_rows:
  assumes run: "commit_command sha request plan d = Inr (result, d')"
  obtains c n q e g s rs es where
    "commits d' = commits d @ [c]" "ac_uid c = cr_commit_uid result" "ac_snapshot c = rq_snapshot_uid request"
    "absent ac_uid (commits d) (ac_uid c)" "absent ac_snapshot (commits d) (ac_snapshot c)"
    "ac_hash c = cp_hash plan"
    "ac_state c = cr_state_uid result" "ac_guardian c = cr_guardian_uid result" "ac_scout c = cr_scout_uid result"
    "snapshot_quality d (rq_snapshot_uid request) = Inr (n, q)" "snap_status n = ''SEALED''"
    "snap_disposition n = ''OFFICIAL''"
    "e \<in> set (states d')" "se_uid e = ac_state c" "se_snapshot e = ac_snapshot c" "se_subject e = snap_subject n"
    "se_disposition e = ''OFFICIAL''" "se_availability e = rq_availability request" "se_lifecycle e = rq_lifecycle request"
    "g \<in> set (guardians d')" "g_uid g = ac_guardian c" "g_state g = ac_state c" "g_snapshot g = ac_snapshot c"
    "commit_risks request q (cp_guardian_facts plan @ cp_scout_facts plan) (cp_guardian_set plan) = Inr (rs, es)"
    "g_effect g = pymax_or effect_order ALLOW es" "g_blocking g \<longleftrightarrow> g_effect g \<in> {SUPPRESS, PAUSE}"
    "g_severity g = pymax_or severity_order SEV_NONE (map severity rs)"
    "s \<in> set (scouts d')" "s_uid s = ac_scout c" "s_guardian s = ac_guardian c" "s_state s = ac_state c"
    "s_snapshot s = ac_snapshot c" "s_effect s = g_effect g" "s_suppressed s = g_blocking g"
proof -
  let ?fs = "cp_guardian_facts plan @ cp_scout_facts plan"
  obtain n q su sh d1 guardian d2 scout d3 where
    n: "snapshot_quality d (rq_snapshot_uid request) = Inr (n, q)" "snap_status n = ''SEALED''"
      "snap_disposition n = ''OFFICIAL''"
    and st: "insert_state sha n request ?fs d = Inr ((su, sh), d1)"
    and gu: "insert_guardian sha n q su sh request ?fs (cp_guardian_set plan) d1 = Inr (guardian, d2)"
    and sc: "insert_scout sha n su guardian ?fs (cp_scout_set plan) d2 = Inr (scout, d3)"
    and re: "commit_records sha request plan n q su guardian scout d3 = Inr (result, d')"
    using run by (rule commit_command_Inr)
  have "commits d3 = commits d"
    using keepsD [OF uncommitted.state st] keepsD [OF uncommitted.decisions(1) gu]
      keepsD [OF uncommitted.decisions(2) sc] by (simp add: same_commits_def)
  note g3 = keepsD [OF growing.records re]
  note g2 = keepsD [OF growing.decisions(2) sc]
  note g1 = keepsD [OF growing.decisions(1) gu]
  obtain c where c: "commits d' = commits d3 @ [c]" "absent ac_uid (commits d3) (ac_uid c)"
    "absent ac_snapshot (commits d3) (ac_snapshot c)" "ac_uid c = cr_commit_uid result"
    "ac_snapshot c = rq_snapshot_uid request" "ac_state c = su" "ac_guardian c = go_uid guardian"
    "ac_scout c = so_uid scout" "ac_hash c = cp_hash plan" "cr_state_uid result = su"
    "cr_guardian_uid result = go_uid guardian" "cr_scout_uid result = so_uid scout"
    using re by (rule records_commits)
  obtain e where e: "e \<in> set (states d1)" "se_uid e = su" "se_snapshot e = rq_snapshot_uid request"
    "se_subject e = snap_subject n" "se_disposition e = ''OFFICIAL''" "se_availability e = rq_availability request"
    "se_lifecycle e = rq_lifecycle request"
    using insert_state_row [OF st] by blast
  obtain rs es g where r: "commit_risks request q ?fs (cp_guardian_set plan) = Inr (rs, es)"
    and ge: "go_effect guardian = pymax_or effect_order ALLOW es"
      "go_blocking guardian \<longleftrightarrow> go_effect guardian \<in> {SUPPRESS, PAUSE}"
    and g: "g \<in> set (guardians d2)" "g_uid g = go_uid guardian" "g_state g = su" "g_snapshot g = rq_snapshot_uid request"
      "g_effect g = go_effect guardian" "g_blocking g = go_blocking guardian"
      "g_severity g = pymax_or severity_order SEV_NONE (map severity rs)"
    using gu by (rule insert_guardian_row) blast
  obtain s where s: "s \<in> set (scouts d3)" "s_uid s = so_uid scout" "s_guardian s = go_uid guardian" "s_state s = su"
    "s_snapshot s = snap_uid n" "s_effect s = go_effect guardian" "s_suppressed s = so_suppressed scout"
    "so_suppressed scout \<longleftrightarrow> go_effect guardian \<in> {SUPPRESS, PAUSE}"
    using sc by (rule insert_scout_row) blast
  have "e \<in> set (states d')" "g \<in> set (guardians d')" "s \<in> set (scouts d')"
    using e(1) g(1) s(1) grows_rows [OF g1] grows_rows [OF g2] grows_rows [OF g3] by blast+
  then show thesis
    using that [of c n q e g rs es s] c n r ge g(2-) e(2-) s(2-) \<open>commits d3 = commits d\<close>
      snapshot_quality_Inr(2) [OF n(1)] by simp
qed

lemma commit_command_chain:
  assumes run: "commit_command sha request plan d = Inr (result, d')" and inv: "chain_inv d"
  shows "chain_inv d'"
  using run
proof (rule commit_command_rows)
  fix c n q e g s rs es
  assume c: "commits d' = commits d @ [c]" "absent ac_uid (commits d) (ac_uid c)"
    "absent ac_snapshot (commits d) (ac_snapshot c)" "ac_snapshot c = rq_snapshot_uid request"
    and n: "snapshot_quality d (rq_snapshot_uid request) = Inr (n, q)" "snap_status n = ''SEALED''"
    "snap_disposition n = ''OFFICIAL''"
    and e: "e \<in> set (states d')" "se_uid e = ac_state c" "se_snapshot e = ac_snapshot c"
      "se_subject e = snap_subject n" "se_disposition e = ''OFFICIAL''"
    and g: "g \<in> set (guardians d')" "g_uid g = ac_guardian c" "g_state g = ac_state c" "g_snapshot g = ac_snapshot c"
      "g_blocking g \<longleftrightarrow> g_effect g \<in> {SUPPRESS, PAUSE}"
    and s: "s \<in> set (scouts d')" "s_uid s = ac_scout c" "s_guardian s = ac_guardian c" "s_state s = ac_state c"
      "s_snapshot s = ac_snapshot c" "s_effect s = g_effect g" "s_suppressed s = g_blocking g"
  note gr = keepsD [OF growing.command run]
  have "n \<in> set (snapshots d')" "snap_uid n = ac_snapshot c"
    using snapshot_quality_Inr [OF n(1)] c(4) grows_rows(6) [OF gr] by simp_all
  then have "chained d' c" unfolding chained_def using n e g s by (metis (no_types))
  moreover have "chained d' x" if "x \<in> set (commits d)" for x
    using inv that chained_grows [OF gr] by (simp add: chain_inv_def)
  ultimately show ?thesis using inv c by (auto simp: chain_inv_def absent_iff)
qed

section \<open>From the request to the decision\<close>

text \<open>The facts of one execution have distinct approved codes.\<close>

definition codes_of :: "metric_fact list \<Rightarrow> string list" where
  "codes_of fs = map (\<lambda>f. fst (snd f)) fs"

lemma metric_facts_from_rows_codes:
  assumes "metric_facts_from_rows allowed rows acc = Inr fs"
    and "distinct (codes_of acc)" and "set (codes_of acc) \<subseteq> set allowed"
  shows "distinct (codes_of fs) \<and> set (codes_of fs) \<subseteq> set allowed"
  using assms
proof (induction allowed rows acc rule: metric_facts_from_rows.induct)
  case (1 allowed acc)
  then show ?case by simp
next
  case (2 allowed row rows acc)
  obtain acc' where acc': "add_metric_fact allowed row acc = Inr acc'"
    "metric_facts_from_rows allowed rows acc' = Inr fs"
    using 2(2) by (auto simp: bindR_eq_Inr)
  have "distinct (codes_of acc') \<and> set (codes_of acc') \<subseteq> set allowed"
    using acc'(1) 2(3,4) by (fastforce simp: add_metric_fact_def codes_of_def case_prod_unfold result_simps)
  then show ?case using 2(1) acc' by blast
qed

lemma execution_codes:
  assumes "metric_execution_facts d u k p t allowed = Inr fs"
  shows "distinct (codes_of fs)" "set (codes_of fs) \<subseteq> set allowed"
proof -
  have "\<exists>rows. metric_facts_from_rows allowed rows [] = Inr fs"
    using assms by (auto simp: metric_execution_facts_def split: list.splits)
  then show "distinct (codes_of fs)" "set (codes_of fs) \<subseteq> set allowed"
    using metric_facts_from_rows_codes [of allowed _ "[]" fs] by (auto simp: codes_of_def simp del: set_map)
qed

lemma metrics_of_codes: "map fst (metrics_of fs) = codes_of fs"
  by (simp add: metrics_of_def codes_of_def case_prod_unfold comp_def)

lemma fact_values_eq:
  assumes "distinct (codes_of fs)"
  shows "fact_values fs = map_of (metrics_of fs)"
proof
  fix c
  have "by_code fs = map_of (map (\<lambda>(u, c, v, _). (c, (u, v))) fs)"
    unfolding by_code_def
    by (rule pydict_distinct) (use assms in \<open>simp add: codes_of_def case_prod_unfold comp_def\<close>)
  moreover have "map_option snd (map_of (map (\<lambda>(u, c, v, _). (c, (u, v))) fs) c) =
      map_of (map (\<lambda>(_, c, v, _). (c, v)) fs) c"
    by (induction fs) auto
  ultimately show "fact_values fs c = map_of (metrics_of fs) c"
    by (simp add: fact_values_def metrics_of_def)
qed

lemma map_of_set_eq:
  assumes "distinct (map fst ps)" and "set ps = set qs" and "distinct (map fst qs)"
  shows "map_of ps = map_of qs"
  using assms by (simp add: map_of_inject_set)

lemma scout_code_not_guardian: "c \<in> set guardian_codes \<Longrightarrow> c \<notin> set scout_codes"
proof -
  have "list_all (\<lambda>c. c \<notin> set scout_codes) guardian_codes" by code_simp
  then show "c \<in> set guardian_codes \<Longrightarrow> c \<notin> set scout_codes" by (auto simp: list_all_iff)
qed

text \<open>The Guardian metrics of the commit are the caller's.\<close>

lemma commit_metrics:
  assumes "distinct (codes_of gs)" "set (codes_of gs) \<subseteq> set guardian_codes"
    and "distinct (codes_of ss)" "set (codes_of ss) \<subseteq> set scout_codes"
    and "set metrics = set (metrics_of gs)" and "distinct (map fst metrics)" and "c \<in> set guardian_codes"
  shows "fact_values (gs @ ss) c = map_of metrics c"
proof -
  have disjoint: "set (codes_of gs) \<inter> set (codes_of ss) = {}"
    using assms(2,4) scout_code_not_guardian by blast
  have app: "codes_of (gs @ ss) = codes_of gs @ codes_of ss" by (simp add: codes_of_def)
  have "fact_values (gs @ ss) c = map_of (metrics_of (gs @ ss)) c"
    by (subst fact_values_eq) (simp_all add: app assms disjoint)
  also have "\<dots> = map_of (metrics_of gs) c"
  proof -
    have "c \<notin> set (codes_of ss)" using assms(4,7) scout_code_not_guardian by blast
    then have "map_of (metrics_of ss) c = None"
      using metrics_of_codes [of ss] by (metis map_of_eq_None_iff set_map)
    then show ?thesis by (simp add: metrics_of_def map_add_def split: option.splits)
  qed
  also have "map_of (metrics_of gs) c = map_of metrics c"
    by (rule fun_cong [OF map_of_set_eq]) (simp_all add: metrics_of_codes assms)
  finally show ?thesis .
qed

lemma resolve_official_codes:
  assumes "resolve_official sha d family t = Inr ts"
  shows "fst ` set (ts_entries ts) = set (family_codes family)"
proof -
  have "\<exists>v e w. set_from_row sha d v family w e = Inr ts"
    using assms
    by (auto simp: resolve_official_def check_family_def result_simps split: option.splits intro!: exI)
  then show ?thesis using set_from_row_Inr(7) by blast
qed

lemma commit_prepare_Inr:
  assumes "commit_prepare sha request d = Inr plan"
  obtains n where "filter (\<lambda>s. snap_uid s = rq_snapshot_uid request) (snapshots d) = [n]"
    "snap_status n = ''SEALED''" "snap_disposition n = ''OFFICIAL''"
    "resolve_official sha d ''GUARDIAN'' (snap_as_of n) = Inr (cp_guardian_set plan)"
    "resolve_official sha d ''SCOUT'' (snap_as_of n) = Inr (cp_scout_set plan)"
    "distinct (codes_of (cp_guardian_facts plan))" "set (codes_of (cp_guardian_facts plan)) \<subseteq> set guardian_codes"
    "distinct (codes_of (cp_scout_facts plan))" "set (codes_of (cp_scout_facts plan)) \<subseteq> set scout_codes"
    "set (rq_guardian_metrics request) = set (metrics_of (cp_guardian_facts plan))"
    "set (rq_scout_metrics request) = set (metrics_of (cp_scout_facts plan))"
proof -
  obtain provenance evidence where
    official: "official_thresholds sha d (rq_snapshot_uid request) = Inr (cp_guardian_set plan, cp_scout_set plan)"
    and verified: "verified_execution sha d (rq_snapshot_uid request) provenance evidence (cp_guardian_set plan)
      (cp_scout_set plan) = Inr (cp_guardian_facts plan, cp_scout_facts plan)"
    and metrics: "set (rq_guardian_metrics request) = set (metrics_of (cp_guardian_facts plan))"
      "set (rq_scout_metrics request) = set (metrics_of (cp_scout_facts plan))"
    using assms unfolding commit_prepare_def
    by (auto simp: bindR_eq_Inr guardR_def split: if_splits)
  obtain n where n: "filter (\<lambda>s. snap_uid s = rq_snapshot_uid request) (snapshots d) = [n]"
    "snap_status n = ''SEALED''" "snap_disposition n = ''OFFICIAL''"
    "resolve_official sha d ''GUARDIAN'' (snap_as_of n) = Inr (cp_guardian_set plan)"
    "resolve_official sha d ''SCOUT'' (snap_as_of n) = Inr (cp_scout_set plan)"
    using official unfolding official_thresholds_def
    by (auto simp: bindR_eq_Inr guardR_def one_eq_Inr split: if_splits sum.splits exc.splits)
  have "\<exists>k k' t t'. metric_execution_facts d (rq_snapshot_uid request) k provenance t guardian_codes = Inr (cp_guardian_facts plan) \<and>
     metric_execution_facts d (rq_snapshot_uid request) k' provenance t' scout_codes = Inr (cp_scout_facts plan)"
    using verified unfolding verified_execution_def
    by (auto simp: bindR_eq_Inr guardR_def split: if_splits)
  then show thesis using that n metrics execution_codes by blast
qed

end
