(* ===== verification/Sample_Commit.thy ===== *)
theory Sample_Commit
  imports Commit_Chain Registry_Theorems
begin

text \<open>
  One market ready for an analysis commit: a sealed OFFICIAL snapshot, both threshold versions in
  force, the metric evidence artifact with its executions and one Scout fact. The witnesses of the
  commit's properties run on it.
\<close>

definition sample_entries :: "threshold_entry_row list" where
  "sample_entries =
     map (\<lambda>c. \<lparr>ten_uid = c, ten_version = ''G'', ten_code = c, ten_ppm = 7, ten_created = 0\<rparr>) guardian_codes @
     map (\<lambda>c. \<lparr>ten_uid = c, ten_version = ''S'', ten_code = c, ten_ppm = 7, ten_created = 0\<rparr>) scout_codes"

text \<open>The digest of a text is the text, so that distinct documents have distinct digests.\<close>

definition sample_hash :: "string \<Rightarrow> string" where
  "sample_hash s = s"

definition sample_values :: "string \<Rightarrow> string list \<Rightarrow> (string \<times> int) list" where
  "sample_values uid codes = map (\<lambda>e. (ten_code e, ten_ppm e)) (sort_key ten_code
     (map (\<lambda>c. \<lparr>ten_uid = c, ten_version = uid, ten_code = c, ten_ppm = 7, ten_created = 0\<rparr>) codes))"

definition sample_digest :: "string \<Rightarrow> string \<Rightarrow> string" where
  "sample_digest uid family = definition_hash sample_hash family ''v1'' (sample_values uid (family_codes family))"

definition sample_activations :: "activation_row list" where
  "sample_activations =
     [\<lparr>an_uid = ''A'', an_family = ''GUARDIAN'', an_version = ''G'', an_effective = 5, an_key = ''k'',
       an_reference = ''ref'', an_evidence = ''E'', an_created = 5\<rparr>,
      \<lparr>an_uid = ''B'', an_family = ''SCOUT'', an_version = ''S'', an_effective = 5, an_key = ''k'',
       an_reference = ''ref'', an_evidence = ''E'', an_created = 5\<rparr>]"

definition sample_threshold_json :: "string \<Rightarrow> string \<Rightarrow> json" where
  "sample_threshold_json uid family = JObj
     [(''uid'', JStr uid), (''version'', JStr ''v1''), (''definition_hash'', JStr (sample_digest uid family))]"

definition sample_output :: json_object where
  "sample_output =
     [(''rule_version'', JStr ''p''),
      (''metrics'', JArr [JObj [(''code'', JStr ''EARLY_ACTIVITY_PPM''), (''status'', JStr ''VALUE''),
         (''value_ppm'', JInt 5)]])]"

definition sample_evidence :: json_object where
  "sample_evidence =
     [(''schema_version'', JInt 2), (''snapshot_uid'', JStr ''N''), (''snapshot_hash'', JStr ''n''),
      (''subject_uid'', JStr ''SUB''), (''manifest_uid'', JStr ''M''), (''manifest_hash'', JStr ''m''),
      (''manifest_artifact_sha256'', JStr ''ma''), (''bundle_uid'', JStr ''B''), (''bundle_hash'', JStr ''b''),
      (''reference_entries'', JArr []), (''source_epoch_uids'', JArr []), (''producer_version'', JStr ''p''),
      (''guardian_threshold'', sample_threshold_json ''G'' ''GUARDIAN''), (''scout_threshold'', sample_threshold_json ''S'' ''SCOUT''),
      (''metric_output'', JObj sample_output), (''metric_output_sha256'', JStr (canonical_hash sample_hash (JObj sample_output)))]"

definition sample_snapshot :: snapshot_row where
  "sample_snapshot =
     \<lparr>snap_uid = ''N'', snap_subject = ''SUB'', snap_manifest = ''M'', snap_bundle = ''B'', snap_quality = ''Q'',
      snap_as_of = 9, snap_disposition = ''OFFICIAL'', snap_status = ''SEALED'', snap_hash = ''n''\<rparr>"

definition sample_execution :: "string \<Rightarrow> string \<Rightarrow> string \<Rightarrow> rule_execution_row" where
  "sample_execution uid key threshold =
     \<lparr>rx_uid = uid, rx_snapshot = ''N'', rx_key = key, rx_version = ''p'', rx_threshold = Some threshold,
      rx_status = ''VALID'', rx_input = uid, rx_output = sample_sha, rx_started = 9, rx_finished = 9\<rparr>"

definition sample_market :: db where
  "sample_market = sample_registry
     \<lparr>threshold_versions := [(sample_version ''G'' ''GUARDIAN'') \<lparr>tv_hash := sample_digest ''G'' ''GUARDIAN''\<rparr>,
        (sample_version ''S'' ''SCOUT'') \<lparr>tv_hash := sample_digest ''S'' ''SCOUT''\<rparr>],
      threshold_entries := sample_entries, activations := sample_activations,
      snapshots := [sample_snapshot],
      qualities := [\<lparr>qc_uid = ''Q'', qc_health = ''HEALTHY'', qc_fitness = ''FIT'', qc_sufficiency = ''HIGH''\<rparr>],
      manifests := [\<lparr>man_uid = ''M'', man_hash = ''m'', man_artifact = ''ma''\<rparr>],
      bundles := [\<lparr>bun_uid = ''B'', bun_hash = ''b''\<rparr>],
      rule_executions := [sample_execution ''X'' ''CR004_GUARDIAN_METRICS'' ''G'',
        sample_execution ''Y'' ''CR004_SCOUT_METRICS'' ''S''],
      facts := [\<lparr>f_uid = ''F'', f_snapshot = ''N'', f_exec = ''Y'', f_quality = ''Q'',
        f_code = ''EARLY_ACTIVITY_PPM'', f_value = Some 5, f_scale = 0, f_status = ''VALUE'',
        f_unit = ''PPM'', f_hash = ''f''\<rparr>],
      system_metadata := [''restore_generation'' \<mapsto> ''0''],
      artifact_objects := [sample_sha],
      artifact_files := [sample_sha \<mapsto> JsonFile (JObj sample_evidence)]\<rparr>"

definition sample_request :: analysis_commit_request where
  "sample_request =
     \<lparr>rq_snapshot_uid = ''N'', rq_availability = ''AVAILABLE'', rq_lifecycle = Some ''OBSERVING'',
      rq_expected_version = 0, rq_guardian_metrics = [], rq_scout_metrics = [(''EARLY_ACTIVITY_PPM'', 5)],
      rq_channels = [''IN_APP''],
      rq_provenance = Some \<lparr>mp_producer_version = ''p'', mp_evidence_sha256 = sample_sha\<rparr>\<rparr>"

section \<open>Before the transaction\<close>

definition sample_set :: "string \<Rightarrow> string \<Rightarrow> threshold_set" where
  "sample_set uid family =
     \<lparr>ts_uid = uid, ts_family = family, ts_version = ''v1'', ts_definition_hash = sample_digest uid family,
      ts_entries = sort (sample_values uid (family_codes family)),
      ts_effective = Some 5, ts_reference = ''ref''\<rparr>"

lemma sample_sha_is [simp]: "is_sha256 sample_sha"
  by (simp add: is_sha256_def sample_sha_def list_all_iff)

lemma sample_not_blank [simp]: "\<not> blank sample_sha" "\<not> blank ''p''"
  by (simp_all add: blank_def py_space_def sample_sha_def list_all_iff)

lemma sample_request_valid:
  "validate_request sample_request = Inr \<lparr>mp_producer_version = ''p'', mp_evidence_sha256 = sample_sha\<rparr>"
  by (simp add: validate_request_def sample_request_def commit_channels_def validate_metrics_def scout_codes_list)

lemma sample_provenance:
  "verified_provenance sample_market \<lparr>mp_producer_version = ''p'', mp_evidence_sha256 = sample_sha\<rparr> = Inr sample_evidence"
  by (simp add: verified_provenance_def load_json_def open_verified_def sample_market_def)

lemma sample_resolves:
  "resolve_official sample_hash sample_market ''GUARDIAN'' 9 = Inr (sample_set ''G'' ''GUARDIAN'')"
  "resolve_official sample_hash sample_market ''SCOUT'' 9 = Inr (sample_set ''S'' ''SCOUT'')"
proof -
  have "filter (\<lambda>e. ten_version e = ''G'') (threshold_entries sample_market) =
      map (\<lambda>c. \<lparr>ten_uid = c, ten_version = ''G'', ten_code = c, ten_ppm = 7, ten_created = 0\<rparr>) guardian_codes"
    "filter (\<lambda>e. ten_version e = ''S'') (threshold_entries sample_market) =
      map (\<lambda>c. \<lparr>ten_uid = c, ten_version = ''S'', ten_code = c, ten_ppm = 7, ten_created = 0\<rparr>) scout_codes"
    by (simp_all add: sample_market_def sample_entries_def filter_map comp_def)
  note entries = this
  have valid: "validated_entries family (sample_values u (family_codes family)) =
      Inr (sample_values u (family_codes family))" for family u
    unfolding validated_entries_Inr by (auto simp: sample_values_def image_image)
  have "set_from_row sample_hash sample_market v family ''v1'' (Some 5) = Inr (sample_set u family)"
    if "tv_uid v = u" "tv_hash v = sample_digest u family" "tv_reference v = ''ref''"
      "filter (\<lambda>e. ten_version e = u) (threshold_entries sample_market) =
      map (\<lambda>c. \<lparr>ten_uid = c, ten_version = u, ten_code = c, ten_ppm = 7, ten_created = 0\<rparr>) (family_codes family)"
    for v u family
    using that valid by (simp add: set_from_row_def Let_def sample_set_def sample_digest_def flip: sample_values_def)
  note set = this
  show "resolve_official sample_hash sample_market ''GUARDIAN'' 9 = Inr (sample_set ''G'' ''GUARDIAN'')"
    using set [of "(sample_version ''G'' ''GUARDIAN'') \<lparr>tv_hash := sample_digest ''G'' ''GUARDIAN''\<rparr>" "''G''" "''GUARDIAN''"] entries
    by (simp add: resolve_official_def check_family_def families_def activation_join_def sample_market_def
        sample_activations_def latest_validations_pass_def latest_validation_status_def validation_kinds_def
        approved_statuses_def sample_defs latest_def family_codes_def)
  show "resolve_official sample_hash sample_market ''SCOUT'' 9 = Inr (sample_set ''S'' ''SCOUT'')"
    using set [of "(sample_version ''S'' ''SCOUT'') \<lparr>tv_hash := sample_digest ''S'' ''SCOUT''\<rparr>" "''S''" "''SCOUT''"] entries
    by (simp add: resolve_official_def check_family_def families_def activation_join_def sample_market_def
        sample_activations_def latest_validations_pass_def latest_validation_status_def validation_kinds_def
        approved_statuses_def sample_defs latest_def family_codes_def)
qed

definition sample_facts :: "metric_fact list" where
  "sample_facts = [(''F'', ''EARLY_ACTIVITY_PPM'', 5, ''f'')]"

definition sample_plan :: commit_plan where
  "sample_plan =
     \<lparr>cp_hash = canonical_hash sample_hash (request_document sample_request
        \<lparr>mp_producer_version = ''p'', mp_evidence_sha256 = sample_sha\<rparr> [] sample_facts), cp_guardian_facts = [], cp_scout_facts = sample_facts,
      cp_guardian_set = sample_set ''G'' ''GUARDIAN'',
      cp_scout_set = sample_set ''S'' ''SCOUT''\<rparr>"

lemma sample_official:
  "official_thresholds sample_hash sample_market ''N'' =
    Inr (sample_set ''G'' ''GUARDIAN'', sample_set ''S'' ''SCOUT'')"
proof -
  have "filter (\<lambda>s. snap_uid s = ''N'') (snapshots sample_market) = [sample_snapshot]"
    by (simp add: sample_market_def sample_snapshot_def)
  moreover have "snap_as_of sample_snapshot = 9" "snap_status sample_snapshot = ''SEALED''"
    "snap_disposition sample_snapshot = ''OFFICIAL''"
    by (simp_all add: sample_snapshot_def)
  ultimately show ?thesis by (simp add: official_thresholds_def one_def sample_resolves)
qed

lemma sample_lineage:
  "verify_evidence_lineage sample_hash sample_market ''N'' \<lparr>mp_producer_version = ''p'', mp_evidence_sha256 = sample_sha\<rparr>
     sample_evidence (sample_set ''G'' ''GUARDIAN'') (sample_set ''S'' ''SCOUT'') =
   Inr ([], [(''EARLY_ACTIVITY_PPM'', 5)])"
proof -
  have lineage: "snapshot_lineage sample_market ''N'' = Inr (sample_snapshot,
      \<lparr>man_uid = ''M'', man_hash = ''m'', man_artifact = ''ma''\<rparr>, \<lparr>bun_uid = ''B'', bun_hash = ''b''\<rparr>)"
    by (simp add: snapshot_lineage_def sample_market_def sample_snapshot_def one_def)
  have expected: "expected_lineage sample_market sample_snapshot
      \<lparr>man_uid = ''M'', man_hash = ''m'', man_artifact = ''ma''\<rparr> \<lparr>bun_uid = ''B'', bun_hash = ''b''\<rparr>
      \<lparr>mp_producer_version = ''p'', mp_evidence_sha256 = sample_sha\<rparr> =
     [(''snapshot_uid'', JStr ''N''), (''snapshot_hash'', JStr ''n''), (''subject_uid'', JStr ''SUB''),
      (''manifest_uid'', JStr ''M''), (''manifest_hash'', JStr ''m''), (''manifest_artifact_sha256'', JStr ''ma''),
      (''bundle_uid'', JStr ''B''), (''bundle_hash'', JStr ''b''), (''reference_entries'', JArr []),
      (''source_epoch_uids'', JArr []), (''producer_version'', JStr ''p'')]"
    by (simp add: expected_lineage_def sample_market_def sample_snapshot_def sample_registry_def empty_db_def)
  have items: "metrics_from_evidence sample_output = Inr ([], [(''EARLY_ACTIVITY_PPM'', 5)])"
    by (simp add: metrics_from_evidence_def sample_output_def jget_def pydict_def add_evidence_metric_def
        scout_codes_list guardian_codes_def guardian_rules_def Let_def insert_commute)
  have match: "threshold_evidence_matches (sample_threshold_json ''G'' ''GUARDIAN'') (sample_set ''G'' ''GUARDIAN'')"
    "threshold_evidence_matches (sample_threshold_json ''S'' ''SCOUT'') (sample_set ''S'' ''SCOUT'')"
    by (auto simp: threshold_evidence_matches_def sample_threshold_json_def sample_set_def jget_def pydict_def)
  show ?thesis
    using items match
    by (simp add: verify_evidence_lineage_def lineage expected sample_evidence_def jget_def pydict_def is_num_def)
      (simp add: sample_output_def)
qed

lemma sample_executions:
  "metric_execution_facts sample_market ''N'' ''CR004_GUARDIAN_METRICS''
     \<lparr>mp_producer_version = ''p'', mp_evidence_sha256 = sample_sha\<rparr>
     (sample_set ''G'' ''GUARDIAN'') guardian_codes = Inr []"
  "metric_execution_facts sample_market ''N'' ''CR004_SCOUT_METRICS''
     \<lparr>mp_producer_version = ''p'', mp_evidence_sha256 = sample_sha\<rparr>
     (sample_set ''S'' ''SCOUT'') scout_codes = Inr sample_facts"
  by (simp_all add: metric_execution_facts_def sample_market_def sample_execution_def sample_set_def
      add_metric_fact_def sample_facts_def scout_codes_list)

lemma sample_prepares: "commit_prepare sample_hash sample_request sample_market = Inr sample_plan"
  using sample_request_valid sample_provenance sample_official sample_lineage sample_executions
  by (simp add: commit_prepare_def verified_execution_def)
    (simp add: sample_request_def sample_plan_def sample_facts_def metrics_of_def)

section \<open>The transaction\<close>

lemma sample_thresholds:
  assumes "c \<in> set (family_codes family)"
  shows "pydict (ts_entries (sample_set uid family)) c = Some 7"
proof -
  let ?es = "rev (ts_entries (sample_set uid family))"
  have s: "set ?es = (\<lambda>c. (c, 7)) ` set (family_codes family)"
    by (simp add: sample_set_def sample_values_def image_image)
  then have "c \<in> fst ` set ?es" using assms by (simp add: image_image)
  then obtain v where v: "map_of ?es c = Some v"
    using map_of_eq_None_iff [of ?es c] by (cases "map_of ?es c") simp_all
  then have "(c, v) \<in> (\<lambda>c. (c, 7)) ` set (family_codes family)" unfolding s [symmetric] by (rule map_of_SomeD)
  then show ?thesis using v by (auto simp: pydict_def)
qed

lemma sample_risks:
  assumes "qc_health q = ''HEALTHY''" "qc_fitness q = ''FIT''"
  shows "commit_risks sample_request q sample_facts t = Inr ([limitation_finding True True], [PAUSE])"
proof -
  have "list_ex (\<lambda>code. by_code sample_facts code = None) guardian_codes"
    by (simp add: by_code_def sample_facts_def pydict_def guardian_codes_def guardian_rules_def)
  then show ?thesis by (simp add: commit_risks_def Let_def is_unavailable_def)
qed

lemma sample_scout:
  "scout_findings (by_code sample_facts) (pydict (ts_entries (sample_set uid ''SCOUT''))) = Inr []"
proof -
  let ?t = "pydict (ts_entries (sample_set uid ''SCOUT''))"
  have t: "?t c = Some 7" if "c \<in> set scout_codes" for c
    by (rule sample_thresholds) (use that in \<open>simp add: family_codes_def\<close>)
  then have "set scout_codes \<subseteq> dom ?t" by blast
  note total = scout_findings_total [OF this, of "by_code sample_facts"]
  have "filter (\<lambda>(code, tag). \<exists>u v. by_code sample_facts code = Some (u, v) \<and> the (?t code) \<le> v) scout_rules = []"
    unfolding filter_empty_conv
  proof (intro ballI, clarify)
    fix code tag u v
    assume "(code, tag) \<in> set scout_rules" "by_code sample_facts code = Some (u, v)" "the (?t code) \<le> v"
    moreover then have "code \<in> set scout_codes" by (force simp: scout_codes_def)
    ultimately show False using t by (simp add: by_code_def sample_facts_def pydict_def split: if_splits)
  qed
  then show ?thesis using total by simp
qed

lemmas command_defs = bindC_def readC_def getC_def checkC_def raiseC_def new_uid_def execC_def returnC_def
  absent_def present_def one_or_none_def Let_def

definition sample_state_hash :: string where
  "sample_state_hash = canonical_hash sample_hash (state_document ''n'' ''OFFICIAL'' ''AVAILABLE'' (Some ''OBSERVING'') [''f''])"

definition sample_after_state :: db where
  "sample_after_state = sample_market
      \<lparr>uid_count := 2,
       states := [\<lparr>se_uid = [], se_snapshot = ''N'', se_subject = ''SUB'', se_disposition = ''OFFICIAL'',
         se_availability = ''AVAILABLE'', se_lifecycle = Some ''OBSERVING'', se_hash = sample_state_hash, se_created = 9\<rparr>],
       state_facts := [([], ''F'')],
       transitions := [\<lparr>tr_uid = ''u'', tr_subject = ''SUB'', tr_from = None, tr_to = ''OBSERVING'',
         tr_evaluation = [], tr_occurred = 9\<rparr>],
       projections := [next_projection ''SUB'' ''AVAILABLE'' (Some ''OBSERVING'') None [] 9 1]\<rparr>"

lemma sample_state:
  "insert_state sample_hash sample_snapshot sample_request sample_facts sample_market =
     Inr (([], sample_state_hash), sample_after_state)"
  by (simp add: insert_state_def sample_facts_def sample_request_def sample_snapshot_def projection_of_def
      actual_version_def previous_state_def check_transition_def insert_state_evaluation_def
      insert_state_fact_def record_transition_def insert_transition_def write_projection_def
      insert_projection_def projection_ok_def next_projection_def availability_states_def lifecycle_states_def
      dispositions_def lifecycle_ok_def command_defs sample_market_def sample_defs sample_after_state_def sample_state_hash_def fact_hash_of_def)

lemma sample_keys: "related_key sample_hash ''SUB'' ''GUARDIAN_RISK'' \<noteq> related_key sample_hash ''SUB'' ''SCOUT_WATCH''"
  by code_simp

lemma sample_command:
  "\<exists>r d'. commit_command sample_hash sample_request sample_plan sample_market = Inr (r, d') \<and>
    cr_event_versions r = [replicate 6 CHR ''u''] \<and>
    length (commits d') = 1 \<and> length (projections d') = 1 \<and> length (events d') = 1 \<and> length (deliveries d') = 1"
proof -
  let ?q = "\<lparr>qc_uid = ''Q'', qc_health = ''HEALTHY'', qc_fitness = ''FIT'', qc_sufficiency = ''HIGH''\<rparr>"
  have q: "snapshot_quality sample_market ''N'' = Inr (sample_snapshot, ?q)"
    by (simp add: snapshot_quality_def sample_market_def sample_snapshot_def one_def)
  have risks: "commit_risks sample_request ?q sample_facts t = Inr ([limitation_finding True True], [PAUSE])" for t
    by (rule sample_risks) simp_all
  have none: "filter (\<lambda>c. ac_snapshot c = ''N'') (commits sample_market) = []"
    by (simp add: sample_market_def sample_registry_def empty_db_def)
  have channels: "commit_channels sample_request = [''IN_APP'']"
    by (simp add: sample_request_def commit_channels_def)
  have fields: "rq_snapshot_uid sample_request = ''N''" "snap_status sample_snapshot = ''SEALED''"
    "snap_disposition sample_snapshot = ''OFFICIAL''"
    by (simp_all add: sample_request_def sample_snapshot_def)
  have state: "commit_command sample_hash sample_request sample_plan sample_market =
    bindC (insert_guardian sample_hash sample_snapshot ?q [] sample_state_hash sample_request sample_facts
        (sample_set ''G'' ''GUARDIAN'')) (\<lambda>guardian.
    bindC (insert_scout sample_hash sample_snapshot [] guardian sample_facts
        (sample_set ''S'' ''SCOUT'')) (\<lambda>scout.
    commit_records sample_hash sample_request sample_plan sample_snapshot ?q [] guardian scout)) sample_after_state"
    by (simp add: commit_command_def bindC_def readC_def checkC_def one_or_none_def none fields q sample_state
        sample_plan_def)
  show ?thesis
    unfolding state
    by (simp add: risks sample_scout sample_plan_def command_defs
      insert_guardian_def write_guardian_def insert_guardian_evaluation_def insert_risk_def insert_risk_tag_def
      risk_tag_names_def limitation_finding_def pymax_or_def
      insert_scout_def write_scout_def insert_scout_evaluation_def scout_status_def scout_strength_def
      commit_records_def insert_analysis_commit_def parse_generation_def all_digits_def digits_int_def
      decide_events_def desired_events_def decide_event_def event_projection_of_def plan_event_def write_event_def
      insert_market_event_def insert_event_version_def event_statuses_def event_evidence_facts_def
      insert_event_projection_def event_projection_ok_def emit_intent_def insert_intent_def insert_delivery_def
      delivery_ok_def write_audit_def insert_audit_def sample_keys
      fields channels sample_snapshot_def
      sample_after_state_def sample_market_def sample_defs)
qed

lemma sample_commits:
  "\<exists>r d'. analysis_commit sample_hash sample_request sample_market = Inr (r, d')"
proof -
  have "existing_commit sample_market (rq_snapshot_uid sample_request) = Inr None"
    by (simp add: existing_commit_def one_or_none_def sample_market_def sample_defs)
  moreover obtain r d' where "commit_command sample_hash sample_request sample_plan sample_market = Inr (r, d')"
    using sample_command by blast
  ultimately show ?thesis by (simp add: analysis_commit_def bindC_def readC_def sample_prepares)
qed

lemma sample_uncommitted: "\<forall>c \<in> set (commits sample_market). ac_snapshot c \<noteq> rq_snapshot_uid sample_request"
  by (simp add: sample_market_def sample_defs)

end
