(* ===== verification/Commit_Theorems.thy ===== *)
theory Commit_Theorems
  imports Sample_Commit
begin

text \<open>
  The properties of one analysis commit: its Guardian row is the decision of \<open>guardian.py\<close> on the
  caller's metrics and the officially resolved thresholds, committing again returns the same commit,
  and a snapshot is committed once.
\<close>

section \<open>The decision\<close>

text \<open>A decision depends on the metrics at the Guardian codes only.\<close>

lemma decision_cong:
  assumes t: "set guardian_codes \<subseteq> dom t" and m: "\<And>c. c \<in> set guardian_codes \<Longrightarrow> m c = m' c"
    and d: "guardian_decision m (Some t) av dh fit u = Inr d"
    and d': "guardian_decision m' (Some t) av dh fit u' = Inr d'"
  shows "guardian_effect d = guardian_effect d'" "blocking d = blocking d'" "max_severity d = max_severity d'"
proof -
  have missing: "missing_metrics m = missing_metrics m'"
    using m by (simp add: missing_metrics_def list_ex_iff)
  have hit: "rules_hit m t = rules_hit m' t"
    unfolding rules_hit_def
  proof (rule filter_cong [OF refl])
    fix r assume "r \<in> set guardian_rules"
    then have "fst r \<in> set guardian_codes" by (simp flip: set_guardian_rules_codes)
    then show "(case r of (c, _, _, _) \<Rightarrow> \<exists>v. m c = Some v \<and> the (t c) \<le> v) =
        (case r of (c, _, _, _) \<Rightarrow> \<exists>v. m' c = Some v \<and> the (t c) \<le> v)"
      using m by (cases r) simp
  qed
  have "guardian_effect d = guardian_effect d' \<and> max_severity d = max_severity d'"
  proof (cases "is_unavailable (missing_metrics m) av dh fit")
    case True
    then show ?thesis
      using d d' decision_unavailable [OF True] decision_unavailable [of m' av dh fit] missing by simp
  next
    case False
    then have False': "\<not> is_unavailable (missing_metrics m') av dh fit" by (simp add: missing)
    have "severity (rule_finding w r) = fst (snd (snd r))" for w r
      by (cases r) (simp add: rule_finding_def)
    then show ?thesis
      using d d' decision_available [OF False t] decision_available [OF False' t]
      by (auto simp: hit conclude_def Let_def comp_def)
  qed
  then show "guardian_effect d = guardian_effect d'" "max_severity d = max_severity d'" by blast+
  then show "blocking d = blocking d'" using decision_blocking [OF d] decision_blocking [OF d'] by simp
qed

lemma snapshot_quality_unique:
  assumes "filter (\<lambda>s. snap_uid s = u) (snapshots d) = [n]" and "snapshot_quality d u = Inr (n', q)"
  shows "n' = n"
  using assms unfolding snapshot_quality_def one_eq_Inr by auto

lemma analysis_commit_new:
  assumes "analysis_commit sha request d = Inr (r, d')"
    and "\<forall>c \<in> set (commits d). ac_snapshot c \<noteq> rq_snapshot_uid request"
  obtains plan where "commit_prepare sha request d = Inr plan" "commit_command sha request plan d = Inr (r, d')"
proof -
  obtain plan where plan: "commit_prepare sha request d = Inr plan"
    and rest: "bindC (readC (\<lambda>d. existing_commit d (rq_snapshot_uid request))) (\<lambda>existing.
     case existing of
       Some (h, r) \<Rightarrow>
         bindC (checkC (h \<noteq> cp_hash plan) (ValueError ''snapshot already has a different Analysis Commit'')) (\<lambda>_.
         returnC r)
     | None \<Rightarrow> commit_command sha request plan) d = Inr (r, d')"
    using assms(1) unfolding analysis_commit_def bindC_eq_Inr [of "readC (commit_prepare sha request)"] readC_eq by blast
  have "filter (\<lambda>c. ac_snapshot c = rq_snapshot_uid request) (commits d) = []"
    using assms(2) by (auto simp: filter_empty_conv)
  then have "existing_commit d (rq_snapshot_uid request) = Inr None"
    by (simp add: existing_commit_def one_or_none_def)
  then have "commit_command sha request plan d = Inr (r, d')"
    using rest by (simp add: bindC_def readC_def)
  then show thesis using that plan by blast
qed

text \<open>C22: an OFFICIAL commit records the Guardian decision on the caller's metrics: a new commit has a
  SEALED and OFFICIAL snapshot, the thresholds in force at its instant are officially resolved, and the
  Guardian row's effect, blocking flag and severity are those of the decision function on the request's
  metrics, those thresholds and the snapshot's quality.\<close>

theorem official_commit_decides:
  assumes run: "analysis_commit sha request d = Inr (r, d')"
    and new: "\<forall>c \<in> set (commits d). ac_snapshot c \<noteq> rq_snapshot_uid request"
    and keys: "distinct (map fst (rq_guardian_metrics request))"
  shows "\<exists>n q thresholds g decision.
    n \<in> set (snapshots d) \<and> snap_uid n = rq_snapshot_uid request \<and>
    snap_status n = ''SEALED'' \<and> snap_disposition n = ''OFFICIAL'' \<and>
    q \<in> set (qualities d) \<and> qc_uid q = snap_quality n \<and>
    resolve_official sha d ''GUARDIAN'' (snap_as_of n) = Inr thresholds \<and>
    g \<in> set (guardians d') \<and> g_uid g = cr_guardian_uid r \<and>
    guardian_decision (map_of (rq_guardian_metrics request)) (Some (pydict (ts_entries thresholds)))
      (rq_availability request) (qc_health q) (qc_fitness q) None = Inr decision \<and>
    g_effect g = guardian_effect decision \<and> g_blocking g = blocking decision \<and>
    g_severity g = max_severity decision"
proof -
  obtain plan where prep: "commit_prepare sha request d = Inr plan"
    and cmd: "commit_command sha request plan d = Inr (r, d')"
    using run new by (rule analysis_commit_new)
  let ?fs = "cp_guardian_facts plan @ cp_scout_facts plan"
  let ?t = "pydict (ts_entries (cp_guardian_set plan))"
  let ?m = "map_of (rq_guardian_metrics request)"
  obtain n where n: "filter (\<lambda>s. snap_uid s = rq_snapshot_uid request) (snapshots d) = [n]"
    "snap_status n = ''SEALED''" "snap_disposition n = ''OFFICIAL''"
    "resolve_official sha d ''GUARDIAN'' (snap_as_of n) = Inr (cp_guardian_set plan)"
    and codes: "distinct (codes_of (cp_guardian_facts plan))" "set (codes_of (cp_guardian_facts plan)) \<subseteq> set guardian_codes"
    "distinct (codes_of (cp_scout_facts plan))" "set (codes_of (cp_scout_facts plan)) \<subseteq> set scout_codes"
    and metrics: "set (rq_guardian_metrics request) = set (metrics_of (cp_guardian_facts plan))"
    using prep by (rule commit_prepare_Inr)
  obtain g rs es n' q where sq: "snapshot_quality d (rq_snapshot_uid request) = Inr (n', q)"
    and g: "g \<in> set (guardians d')" "g_uid g = cr_guardian_uid r"
      "g_effect g = pymax_or effect_order ALLOW es" "g_blocking g \<longleftrightarrow> g_effect g \<in> {SUPPRESS, PAUSE}"
      "g_severity g = pymax_or severity_order SEV_NONE (map severity rs)"
    and risks: "commit_risks request q ?fs (cp_guardian_set plan) = Inr (rs, es)"
    by (rule commit_command_rows [OF cmd]) metis
  have n': "n' = n" by (rule snapshot_quality_unique [OF n(1) sq])
  have "n \<in> set (filter (\<lambda>s. snap_uid s = rq_snapshot_uid request) (snapshots d))" by (simp add: n(1))
  then have nn: "n \<in> set (snapshots d)" "snap_uid n = rq_snapshot_uid request" by auto
  have t: "set guardian_codes \<subseteq> dom ?t"
    using resolve_official_codes [OF n(4)] by (simp add: dom_pydict family_codes_def)
  obtain un ms where dec: "guardian_decision (fact_values ?fs) (Some ?t) (rq_availability request) (qc_health q)
      (qc_fitness q) (Some (fact_uids ?fs)) = Inr (conclude ms rs es un)"
    using commit_risks_decision [OF t risks] by blast
  obtain decision where decision:
    "guardian_decision ?m (Some ?t) (rq_availability request) (qc_health q) (qc_fitness q) None = Inr decision"
    using decision_total [OF t] by blast
  have "fact_values ?fs c = ?m c" if "c \<in> set guardian_codes" for c
    by (rule commit_metrics [OF codes metrics keys that])
  note same = decision_cong [OF t this dec decision]
  show ?thesis
    using nn n snapshot_quality_Inr(3,4) [OF sq] g decision same n'
    by (intro exI [of _ n] exI [of _ q] exI [of _ "cp_guardian_set plan"] exI [of _ g] exI [of _ decision])
      (simp add: conclude_def Let_def)
qed

theorem official_commit_decides_witness:
  "\<exists>r d'. analysis_commit sample_hash sample_request sample_market = Inr (r, d') \<and>
    (\<exists>g (decision :: guardian_decision_record). g \<in> set (guardians d') \<and>
      g_uid g = cr_guardian_uid r \<and> g_effect g = guardian_effect decision)"
proof -
  obtain r d' where run: "analysis_commit sample_hash sample_request sample_market = Inr (r, d')"
    using sample_commits by blast
  have "distinct (map fst (rq_guardian_metrics sample_request))" by (simp add: sample_request_def)
  from official_commit_decides [OF run sample_uncommitted this]
  obtain g and decision :: guardian_decision_record where "g \<in> set (guardians d')"
    "g_uid g = cr_guardian_uid r" "g_effect g = guardian_effect decision"
    by blast
  then show ?thesis using run by blast
qed

section \<open>Committing again\<close>

text \<open>What the preparation reads: a commit changes none of it.\<close>

definition same_sources :: "db \<Rightarrow> db \<Rightarrow> bool" where
  "same_sources d d' \<longleftrightarrow> same_inputs d d' \<and> rule_executions d' = rule_executions d \<and> facts d' = facts d \<and>
     threshold_versions d' = threshold_versions d \<and> threshold_entries d' = threshold_entries d \<and>
     validations d' = validations d \<and> activations d' = activations d"

lemmas same_sources_defs = same_sources_def same_inputs_def

lemma same_sources_order: "reflp same_sources" "transp same_sources"
  by (rule reflpI, simp add: same_sources_defs) (rule transpI, simp add: same_sources_defs)

lemma same_sources_emit_intent: "keeps same_sources (emit_intent sha src u k f ch)"
  by (rule keepsI) (auto simp: same_sources_defs emit_intent_def insert_intent_def insert_delivery_def result_simps)

interpretation sources: analysis_writes same_sources
  by unfold_locales (simp_all add: same_sources_order same_sources_emit_intent, simp_all add: same_sources_defs)

lemma set_from_row_sources:
  "same_sources d d' \<Longrightarrow> set_from_row sha d' v f w t = set_from_row sha d v f w t"
  by (simp add: same_sources_def set_from_row_def)

lemma resolve_official_same:
  assumes "same_sources d d'" shows "resolve_official sha d' f t = resolve_official sha d f t"
proof -
  have join: "activation_join d' = activation_join d"
    using assms by (simp add: same_sources_def activation_join_def)
  have pass: "latest_validations_pass d' = latest_validations_pass d"
    using assms
    by (intro ext) (simp add: same_sources_def latest_validations_pass_def latest_validation_status_def)
  show ?thesis unfolding resolve_official_def set_from_row_sources [OF assms] join pass ..
qed

lemma commit_prepare_same:
  assumes s: "same_sources d d'" shows "commit_prepare sha request d' = commit_prepare sha request d"
proof -
  have "verified_provenance d' p = verified_provenance d p" for p
    using s by (simp add: same_sources_defs verified_provenance_def load_json_def open_verified_def)
  moreover have "official_thresholds sha d' u = official_thresholds sha d u" for u
    using s unfolding official_thresholds_def resolve_official_same [OF s] by (simp add: same_sources_defs)
  moreover have "verified_execution sha d' u p e g w = verified_execution sha d u p e g w" for u p e g w
  proof -
    have eqs: "rule_executions d' = rule_executions d" "facts d' = facts d" using s by (simp_all add: same_sources_def)
    have "snapshot_lineage d' = snapshot_lineage d" "expected_lineage d' = expected_lineage d"
      using s by (intro ext, simp add: same_sources_defs snapshot_lineage_def expected_lineage_def)+
    moreover have "metric_execution_facts d' = metric_execution_facts d"
      unfolding metric_execution_facts_def [abs_def] eqs ..
    ultimately show ?thesis unfolding verified_execution_def verify_evidence_lineage_def by simp
  qed
  ultimately show ?thesis by (simp add: commit_prepare_def)
qed

lemma new_commit_found:
  assumes cmd: "commit_command sha request plan d = Inr (r, d')"
    and new: "\<forall>c \<in> set (commits d). ac_snapshot c \<noteq> rq_snapshot_uid request"
  obtains c where "filter (\<lambda>c. ac_snapshot c = rq_snapshot_uid request) (commits d') = [c]"
    "ac_hash c = cp_hash plan" "ac_uid c = cr_commit_uid r" "ac_state c = cr_state_uid r"
    "ac_guardian c = cr_guardian_uid r" "ac_scout c = cr_scout_uid r"
proof -
  obtain c where c: "commits d' = commits d @ [c]" "ac_uid c = cr_commit_uid r" "ac_snapshot c = rq_snapshot_uid request"
    "ac_hash c = cp_hash plan" "ac_state c = cr_state_uid r" "ac_guardian c = cr_guardian_uid r" "ac_scout c = cr_scout_uid r"
    using cmd by (rule commit_command_rows) metis
  have "filter (\<lambda>c. ac_snapshot c = rq_snapshot_uid request) (commits d') = [c]"
    using new c(1,3) by (auto simp: filter_empty_conv)
  then show thesis using that c by blast
qed

text \<open>C23: committing is idempotent: the same request after a successful commit returns the same commit,
  state, Guardian and Scout identifiers and leaves the database unchanged.\<close>

theorem commit_idempotent:
  assumes run: "analysis_commit sha request d = Inr (r, d')"
    and new: "\<forall>c \<in> set (commits d). ac_snapshot c \<noteq> rq_snapshot_uid request"
  shows "\<exists>r'. analysis_commit sha request d' = Inr (r', d') \<and>
    cr_commit_uid r' = cr_commit_uid r \<and> cr_state_uid r' = cr_state_uid r \<and>
    cr_guardian_uid r' = cr_guardian_uid r \<and> cr_scout_uid r' = cr_scout_uid r"
proof -
  obtain plan where prep: "commit_prepare sha request d = Inr plan"
    and cmd: "commit_command sha request plan d = Inr (r, d')"
    using run new by (rule analysis_commit_new)
  have again: "commit_prepare sha request d' = Inr plan"
    using prep commit_prepare_same [OF keepsD [OF sources.command cmd]] by simp
  obtain c where c: "filter (\<lambda>c. ac_snapshot c = rq_snapshot_uid request) (commits d') = [c]"
    "ac_hash c = cp_hash plan" "ac_uid c = cr_commit_uid r" "ac_state c = cr_state_uid r"
    "ac_guardian c = cr_guardian_uid r" "ac_scout c = cr_scout_uid r"
    using cmd new by (rule new_commit_found)
  show ?thesis
    by (simp add: analysis_commit_def bindC_def readC_def checkC_def returnC_def again existing_commit_def
        one_or_none_def Let_def c)
qed

theorem commit_idempotent_witness:
  "\<exists>r d' r'. analysis_commit sample_hash sample_request sample_market = Inr (r, d') \<and>
    analysis_commit sample_hash sample_request d' = Inr (r', d') \<and> cr_commit_uid r' = cr_commit_uid r"
  using sample_commits commit_idempotent [OF _ sample_uncommitted] by blast

text \<open>C24: a snapshot is committed once: after a commit, a transaction prepared by a concurrent writer for
  the same snapshot fails, whatever it asks for, and a request that hashes differently is refused.\<close>

theorem commit_once:
  assumes run: "analysis_commit sha request d = Inr (r, d')"
    and new: "\<forall>c \<in> set (commits d). ac_snapshot c \<noteq> rq_snapshot_uid request"
    and same: "rq_snapshot_uid request' = rq_snapshot_uid request"
  shows "commit_command sha request' plan' d' = Inl (ValueError ''snapshot was committed concurrently'') \<and>
    (\<forall>plan. commit_prepare sha request d = Inr plan \<longrightarrow> commit_prepare sha request' d' = Inr plan' \<longrightarrow>
       cp_hash plan' \<noteq> cp_hash plan \<longrightarrow>
       analysis_commit sha request' d' = Inl (ValueError ''snapshot already has a different Analysis Commit''))"
proof -
  obtain plan where prep: "commit_prepare sha request d = Inr plan"
    and cmd: "commit_command sha request plan d = Inr (r, d')"
    using run new by (rule analysis_commit_new)
  obtain c where c: "filter (\<lambda>c. ac_snapshot c = rq_snapshot_uid request) (commits d') = [c]"
    "ac_hash c = cp_hash plan"
    using cmd new by (rule new_commit_found)
  have "commit_command sha request' plan' d' = Inl (ValueError ''snapshot was committed concurrently'')"
    by (simp add: commit_command_def bindC_def readC_def checkC_def one_or_none_def c same)
  moreover have "analysis_commit sha request' d' = Inl (ValueError ''snapshot already has a different Analysis Commit'')"
    if "commit_prepare sha request' d' = Inr plan'" "cp_hash plan' \<noteq> cp_hash plan"
    using that
    by (simp add: analysis_commit_def bindC_def readC_def checkC_def existing_commit_def one_or_none_def Let_def c same)
  ultimately show ?thesis using prep by simp
qed

theorem commit_once_witness:
  "\<exists>r d'. analysis_commit sample_hash sample_request sample_market = Inr (r, d') \<and>
    commit_command sample_hash sample_request sample_plan d' =
      Inl (ValueError ''snapshot was committed concurrently'')"
  using sample_commits commit_once [OF _ sample_uncommitted refl] by blast

end
