(* ===== verification/Event_Properties.thy ===== *)
theory Event_Properties
  imports Commit_Chain
begin

text \<open>
  The event history of the analysis commit (\<open>analysis_commit.py\<close>, \<open>_decide_events\<close>): the versions of
  an event are numbered from one without gaps, only its last version can be resolved, the current
  projection of a subject and kind shows the last version of its last event, and every earlier event
  of that subject and kind is resolved.
\<close>

section \<open>The invariant\<close>

definition versions_of :: "string \<Rightarrow> db \<Rightarrow> event_version_row list" where
  "versions_of e d = filter (\<lambda>v. vv_event v = e) (event_versions d)"

definition event_open :: "db \<Rightarrow> event_row \<Rightarrow> bool" where
  "event_open d e \<longleftrightarrow> vv_status (last (versions_of (ev_uid e) d)) = ''ACTIVE''"

definition event_ok :: "(string \<Rightarrow> string) \<Rightarrow> db \<Rightarrow> event_row \<Rightarrow> bool" where
  "event_ok sha d e \<longleftrightarrow>
     ev_related e = related_key sha (ev_subject e) (ev_kind e) \<and>
     versions_of (ev_uid e) d \<noteq> [] \<and>
     map vv_version (versions_of (ev_uid e) d) = [1..int (length (versions_of (ev_uid e) d))] \<and>
     set (map vv_status (butlast (versions_of (ev_uid e) d))) \<subseteq> {''ACTIVE''} \<and>
     vv_status (last (versions_of (ev_uid e) d)) \<in> {''ACTIVE'', ''RESOLVED''} \<and>
     (event_open d e \<longrightarrow> (\<exists>p \<in> set (event_projections d). ep_related p = ev_related e \<and> ep_event p = ev_uid e))"

definition shows_last :: "db \<Rightarrow> event_projection_row \<Rightarrow> bool" where
  "shows_last d p \<longleftrightarrow>
     (\<exists>e \<in> set (events d). ev_uid e = ep_event p \<and> ev_related e = ep_related p) \<and>
     vv_uid (last (versions_of (ep_event p) d)) = ep_version_uid p \<and>
     vv_status (last (versions_of (ep_event p) d)) = ep_status p \<and>
     vv_version (last (versions_of (ep_event p) d)) = ep_version p"

definition event_inv :: "(string \<Rightarrow> string) \<Rightarrow> db \<Rightarrow> bool" where
  "event_inv sha d \<longleftrightarrow>
     distinct (map ev_uid (events d)) \<and> distinct (map vv_uid (event_versions d)) \<and>
     distinct (map ep_related (event_projections d)) \<and>
     (\<forall>e \<in> set (events d). event_ok sha d e) \<and>
     (\<forall>v \<in> set (event_versions d). vv_event v \<in> ev_uid ` set (events d)) \<and>
     (\<forall>p \<in> set (event_projections d). shows_last d p)"

lemma event_inv_cong:
  assumes "events d' = events d" "event_versions d' = event_versions d" "event_projections d' = event_projections d"
  shows "event_inv sha d' = event_inv sha d"
proof -
  have "versions_of e d' = versions_of e d" for e by (simp add: versions_of_def assms)
  then show ?thesis by (simp add: event_inv_def event_ok_def event_open_def shows_last_def assms)
qed

section \<open>One event\<close>

definition same_events :: "db \<Rightarrow> db \<Rightarrow> bool" where
  "same_events d d' \<longleftrightarrow>
     events d' = events d \<and> event_versions d' = event_versions d \<and> event_projections d' = event_projections d"

lemma same_events_order: "reflp same_events" "transp same_events"
  by (rule reflpI, simp add: same_events_def) (rule transpI, simp add: same_events_def)

lemma same_events_emit_intent: "keeps same_events (emit_intent sha src u k f ch)"
  by (rule keepsI) (auto simp: same_events_def emit_intent_def insert_intent_def insert_delivery_def result_simps)

lemma same_events_evidence: "keeps same_events (insert_event_evidence x y)"
  unfolding insert_event_evidence_def by (rule keeps_exec) (simp add: same_events_def)

text \<open>What the plan says about the current projection.\<close>

lemma plan_event_cases:
  assumes "plan_event kind active current = Some step"
  obtains "st_change step = ''CREATED''" "st_version step = 1" "st_status step = ''ACTIVE''" "active"
      "\<forall>p. current = Some p \<longrightarrow> ep_status p \<in> {''RESOLVED'', ''INVALIDATED''}"
  | p where "current = Some p" "st_change step \<noteq> ''CREATED''" "st_version step = ep_version p + 1"
      "st_status step \<in> {''ACTIVE'', ''RESOLVED''}" "ep_status p \<notin> {''RESOLVED'', ''INVALIDATED''}"
      "st_status step = ''ACTIVE'' \<longleftrightarrow> active"
  using assms
  by (auto simp: plan_event_def split: if_splits option.splits)

lemma event_projection_of_Inr:
  "event_projection_of key d = Inr (current, d') \<longleftrightarrow>
    d' = d \<and> (case current of
       None \<Rightarrow> filter (\<lambda>p. ep_related p = key) (event_projections d) = []
     | Some p \<Rightarrow> filter (\<lambda>p. ep_related p = key) (event_projections d) = [p])"
  by (cases current) (auto simp: event_projection_of_def result_simps)

definition new_version :: "event_source \<Rightarrow> event_step \<Rightarrow> string \<Rightarrow> event_version_row \<Rightarrow> bool" where
  "new_version src step eid v \<longleftrightarrow>
     vv_event v = eid \<and> vv_version v = st_version step \<and> vv_status v = st_status step \<and>
     vv_change v = st_change step \<and> vv_commit v = es_commit src \<and> vv_state v = es_state src \<and>
     vv_guardian v = go_uid (es_guardian src) \<and> vv_scout v = so_uid (es_scout src)"

lemma write_event_Inr:
  assumes run: "write_event sha src kind active current step d = Inr (res, d')"
    and cur: "current = None \<longrightarrow> st_change step = ''CREATED''"
  defines "key \<equiv> related_key sha (snap_subject (es_snapshot src)) kind"
  shows "\<exists>eid v row. new_version src step eid v \<and> vv_uid v \<notin> vv_uid ` set (event_versions d) \<and>
    event_versions d' = event_versions d @ [v] \<and> fst res = [vv_uid v] \<and>
    ep_related row = key \<and> ep_event row = eid \<and> ep_version_uid row = vv_uid v \<and>
    ep_status row = st_status step \<and> ep_version row = st_version step \<and>
    event_projections d' = (if current = None then event_projections d @ [row]
      else map (\<lambda>p. if ep_related p = key then row else p) (event_projections d)) \<and>
    (if st_change step = ''CREATED''
     then \<exists>e. events d' = events d @ [e] \<and> ev_uid e = eid \<and> ev_related e = key \<and> ev_kind e = kind \<and>
       ev_subject e = snap_subject (es_snapshot src) \<and> eid \<notin> ev_uid ` set (events d)
     else events d' = events d \<and> eid = ep_event (the current))"
proof -
  let ?created = "st_change step = ''CREATED''"
  have "\<exists>eid d1 d2 v vid d3 d4 d5 row frozen ids.
    (case current of Some p \<Rightarrow> if ?created then new_uid else returnC (ep_event p) | None \<Rightarrow> new_uid) d = Inr (eid, d1) \<and>
    (if ?created then insert_market_event
          \<lparr>ev_uid = eid, ev_subject = snap_subject (es_snapshot src), ev_kind = kind, ev_related = key,
           ev_created = snap_as_of (es_snapshot src)\<rparr> else returnC ()) d1 = Inr ((), d2) \<and>
    insert_event_version v (d2\<lparr>uid_count := Suc (uid_count d2)\<rparr>) = Inr ((), d3) \<and>
    forC (insert_event_evidence vid) (sort (remdups (event_evidence_facts src kind active))) d3 = Inr ((), d4) \<and>
    (if current = None then insert_event_projection row else update_event_projection row) d4 = Inr ((), d5) \<and>
    mapC (emit_intent sha src vid (st_intent step) frozen) (es_channels src) d5 = Inr (ids, d') \<and>
    res = ([vid], ids) \<and> vv_uid v = vid \<and> new_version src step eid v \<and>
    ep_related row = key \<and> ep_event row = eid \<and> ep_version_uid row = vid \<and>
    ep_status row = st_status step \<and> ep_version row = st_version step"
    using run unfolding write_event_def Let_def bindC_eq_Inr new_uid_eq returnC_eq ex_unit key_def [symmetric]
    by (elim exE conjE, hypsubst) (intro exI conjI, assumption+, rule refl, simp_all add: new_version_def)
  then obtain eid d1 d2 v d3 d4 d5 row frozen ids where
    head: "(case current of Some p \<Rightarrow> if ?created then new_uid else returnC (ep_event p) | None \<Rightarrow> new_uid) d = Inr (eid, d1)"
    and ev: "(if ?created then insert_market_event
          \<lparr>ev_uid = eid, ev_subject = snap_subject (es_snapshot src), ev_kind = kind, ev_related = key,
           ev_created = snap_as_of (es_snapshot src)\<rparr> else returnC ()) d1 = Inr ((), d2)"
    and version: "insert_event_version v (d2\<lparr>uid_count := Suc (uid_count d2)\<rparr>) = Inr ((), d3)" "new_version src step eid v"
    and evidence: "forC (insert_event_evidence (vv_uid v)) (sort (remdups (event_evidence_facts src kind active))) d3 = Inr ((), d4)"
    and projection: "(if current = None then insert_event_projection row else update_event_projection row) d4 = Inr ((), d5)"
    and row: "ep_related row = key" "ep_event row = eid" "ep_version_uid row = vv_uid v"
      "ep_status row = st_status step" "ep_version row = st_version step"
    and intents: "mapC (emit_intent sha src (vv_uid v) (st_intent step) frozen) (es_channels src) d5 = Inr (ids, d')"
    and res: "res = ([vv_uid v], ids)"
    by metis
  have tables1: "events d1 = events d" "event_versions d1 = event_versions d" "event_projections d1 = event_projections d"
    using head by (auto simp: new_uid_eq returnC_eq split: option.splits if_splits)
  have eid: "\<not> ?created \<longrightarrow> eid = ep_event (the current)"
    using head cur by (auto simp: returnC_eq split: option.splits if_splits)
  have tables2: "event_versions d2 = event_versions d" "event_projections d2 = event_projections d"
    using ev tables1 by (auto simp: insert_market_event_def execC_eq returnC_eq split: if_splits)
  have ev2: "if ?created
     then \<exists>e. events d2 = events d @ [e] \<and> ev_uid e = eid \<and> ev_related e = key \<and> ev_kind e = kind \<and>
       ev_subject e = snap_subject (es_snapshot src) \<and> eid \<notin> ev_uid ` set (events d)
     else events d2 = events d"
    using ev tables1 by (auto simp: insert_market_event_def execC_eq returnC_eq absent_iff)
  have tables3: "events d3 = events d2" "event_versions d3 = event_versions d @ [v]"
    "event_projections d3 = event_projections d" "vv_uid v \<notin> vv_uid ` set (event_versions d)"
    using version(1) tables2 by (auto simp: insert_event_version_def execC_eq absent_iff)
  have "keeps same_events (forC (insert_event_evidence (vv_uid v)) (sort (remdups (event_evidence_facts src kind active))))"
    by (rule keeps_for [OF same_events_order same_events_evidence])
  then have same4: "same_events d3 d4" using evidence by (rule keepsD)
  have tables5: "events d5 = events d4" "event_versions d5 = event_versions d4"
    "event_projections d5 = (if current = None then event_projections d4 @ [row]
      else map (\<lambda>p. if ep_related p = key then row else p) (event_projections d4))"
    using projection row(1)
    by (auto simp: insert_event_projection_def update_event_projection_def execC_eq split: if_splits)
  have "keeps same_events (mapC (emit_intent sha src (vv_uid v) (st_intent step) frozen) (es_channels src))"
    by (rule keeps_map [OF same_events_order same_events_emit_intent])
  then have same6: "same_events d5 d'" using intents by (rule keepsD)
  show ?thesis
    using version(2) tables3 tables5 same4 same6 ev2 eid row res cur
    unfolding same_events_def
    by (intro exI [of _ eid] exI [of _ v] exI [of _ row]) (cases "current = None"; simp)
qed

lemma projection_rows:
  assumes cur: "case current of None \<Rightarrow> filter (\<lambda>p. ep_related p = ep_related row) ps = []
      | Some p \<Rightarrow> filter (\<lambda>p. ep_related p = ep_related row) ps = [p]"
    and ps': "ps' = (if current = None then ps @ [row] else map (\<lambda>p. if ep_related p = ep_related row then row else p) ps)"
    and dist: "distinct (map ep_related ps)"
  shows "distinct (map ep_related ps')" "set ps' = insert row {p \<in> set ps. ep_related p \<noteq> ep_related row}"
proof -
  have "distinct (map ep_related ps') \<and> set ps' = insert row {p \<in> set ps. ep_related p \<noteq> ep_related row}"
  proof (cases current)
    case None
    then show ?thesis using assms by (auto simp: filter_empty_conv)
  next
    case (Some q)
    then have q: "filter (\<lambda>p. ep_related p = ep_related row) ps = [q]" using cur by simp
    then have "q \<in> set (filter (\<lambda>p. ep_related p = ep_related row) ps)" by simp
    then have q': "q \<in> set ps" "ep_related q = ep_related row" by auto
    let ?g = "\<lambda>p. if ep_related p = ep_related row then row else p"
    have ps': "ps' = map ?g ps" using ps' Some by simp
    have "ep_related (?g p) = ep_related p" for p by simp
    then have "map ep_related (map ?g ps) = map ep_related ps" by simp
    moreover have "set (map ?g ps) = insert row {p \<in> set ps. ep_related p \<noteq> ep_related row}"
    proof
      show "insert row {p \<in> set ps. ep_related p \<noteq> ep_related row} \<subseteq> set (map ?g ps)"
        using q' by (auto simp: image_iff intro: bexI [of _ q])
    qed auto
    ultimately show ?thesis unfolding ps' using dist by metis
  qed
  then show "distinct (map ep_related ps')" "set ps' = insert row {p \<in> set ps. ep_related p \<noteq> ep_related row}"
    by blast+
qed

lemma versions_snoc:
  assumes "event_versions d' = event_versions d @ [v]" and "vv_event v = eid"
  shows "versions_of eid d' = versions_of eid d @ [v]" "x \<noteq> eid \<Longrightarrow> versions_of x d' = versions_of x d"
  using assms by (simp_all add: versions_of_def)

lemma event_inv_unique:
  assumes "event_inv sha d"
  shows "p \<in> set (event_projections d) \<Longrightarrow> q \<in> set (event_projections d) \<Longrightarrow> ep_related p = ep_related q \<Longrightarrow> p = q"
    "e \<in> set (events d) \<Longrightarrow> f \<in> set (events d) \<Longrightarrow> ev_uid e = ev_uid f \<Longrightarrow> e = f"
  using assms by (auto simp: event_inv_def distinct_map dest: inj_onD)

text \<open>An event of the key that is open is the one the projection shows.\<close>

lemma open_event_current:
  assumes inv: "event_inv sha d" and e: "e \<in> set (events d)" "event_open d e" "ev_related e = key"
    and p: "p \<in> set (event_projections d)" "ep_related p = key"
  shows "ep_event p = ev_uid e" "ep_status p = ''ACTIVE''"
proof -
  have "event_ok sha d e" using inv e(1) by (simp add: event_inv_def)
  then obtain q where q: "q \<in> set (event_projections d)" "ep_related q = ev_related e" "ep_event q = ev_uid e"
    using e(2) by (auto simp: event_ok_def)
  have "q = p" using event_inv_unique(1) [OF inv q(1) p(1)] q(2) e(3) p(2) by simp
  then show "ep_event p = ev_uid e" using q(3) by simp
  moreover have "shows_last d p" using inv p(1) by (simp add: event_inv_def)
  ultimately show "ep_status p = ''ACTIVE''" using e(2) by (simp add: shows_last_def event_open_def)
qed

text \<open>The events and projections that the step leaves alone.\<close>

lemma event_ok_other:
  assumes ok: "event_ok sha d e" and same: "versions_of (ev_uid e) d' = versions_of (ev_uid e) d"
    and key: "event_open d e \<Longrightarrow> ev_related e \<noteq> ep_related row"
    and ps: "set (event_projections d') = insert row {p \<in> set (event_projections d). ep_related p \<noteq> ep_related row}"
  shows "event_ok sha d' e"
proof -
  have opn: "event_open d' e = event_open d e" by (simp add: event_open_def same)
  have "\<exists>p \<in> set (event_projections d'). ep_related p = ev_related e \<and> ep_event p = ev_uid e" if "event_open d e"
    using ok key [OF that] that unfolding event_ok_def ps by auto
  then show ?thesis using ok by (simp add: event_ok_def same opn)
qed

lemma shows_last_other:
  assumes "shows_last d p" and "set (events d) \<subseteq> set (events d')"
    and "versions_of (ep_event p) d' = versions_of (ep_event p) d"
  shows "shows_last d' p"
  using assms by (auto simp: shows_last_def)

lemma write_event_keeps:
  assumes inv: "event_inv sha d" and plan: "plan_event kind active current = Some step"
    and cur: "event_projection_of (related_key sha (snap_subject (es_snapshot src)) kind) d = Inr (current, d)"
    and run: "write_event sha src kind active current step d = Inr (res, d')"
  shows "event_inv sha d'"
proof -
  define key where "key = related_key sha (snap_subject (es_snapshot src)) kind"
  let ?created = "st_change step = ''CREATED''"
  have none: "current = None \<longrightarrow> ?created" using plan by (rule plan_event_cases) simp_all
  obtain eid v row where v: "new_version src step eid v" "vv_uid v \<notin> vv_uid ` set (event_versions d)"
      "event_versions d' = event_versions d @ [v]"
    and row: "ep_related row = key" "ep_event row = eid" "ep_version_uid row = vv_uid v"
      "ep_status row = st_status step" "ep_version row = st_version step"
    and ps: "event_projections d' = (if current = None then event_projections d @ [row]
      else map (\<lambda>p. if ep_related p = key then row else p) (event_projections d))"
    and es: "if ?created
     then \<exists>e. events d' = events d @ [e] \<and> ev_uid e = eid \<and> ev_related e = key \<and> ev_kind e = kind \<and>
       ev_subject e = snap_subject (es_snapshot src) \<and> eid \<notin> ev_uid ` set (events d)
     else events d' = events d \<and> eid = ep_event (the current)"
    using write_event_Inr [OF run none] unfolding key_def [symmetric]
    by (elim exE conjE) (rule that, assumption+)
  have vv: "vv_event v = eid" "vv_version v = st_version step" "vv_status v = st_status step"
    using v(1) by (simp_all add: new_version_def)
  have cur': "case current of None \<Rightarrow> filter (\<lambda>p. ep_related p = ep_related row) (event_projections d) = []
      | Some p \<Rightarrow> filter (\<lambda>p. ep_related p = ep_related row) (event_projections d) = [p]"
    unfolding row(1) key_def using cur by (simp add: event_projection_of_Inr)
  have dist: "distinct (map ep_related (event_projections d))" using inv by (simp add: event_inv_def)
  note proj = projection_rows [OF cur' ps [folded row(1)] dist]
  have shown: "p \<in> set (event_projections d)" "ep_related p = key" if "current = Some p" for p
  proof -
    have "p \<in> set (filter (\<lambda>p. ep_related p = ep_related row) (event_projections d))" using cur' that by simp
    then show "p \<in> set (event_projections d)" "ep_related p = key" using row(1) by auto
  qed
  have ok: "event_ok sha d e" if "e \<in> set (events d)" for e using inv that by (simp add: event_inv_def)
  note vs = versions_snoc [OF v(3) vv(1)]
  have versions: "distinct (map vv_uid (event_versions d'))" using inv v(2,3) by (simp add: event_inv_def)
  show ?thesis using plan
  proof (rule plan_event_cases)
    assume st: "?created" "st_version step = 1" "st_status step = ''ACTIVE''"
      "\<forall>p. current = Some p \<longrightarrow> ep_status p \<in> {''RESOLVED'', ''INVALIDATED''}"
    obtain e where e: "events d' = events d @ [e]" "ev_uid e = eid" "ev_related e = key" "ev_kind e = kind"
      "ev_subject e = snap_subject (es_snapshot src)" "eid \<notin> ev_uid ` set (events d)"
      using es st(1) by auto
    have "versions_of eid d = []"
      using inv e(6) unfolding event_inv_def versions_of_def filter_empty_conv by metis
    then have new: "versions_of eid d' = [v]" using vs(1) by simp
    have "event_ok sha d' e"
      using e new vv st row unfolding event_ok_def event_open_def proj(2) by (auto simp: key_def)
    moreover have "event_ok sha d' f" if "f \<in> set (events d)" for f
    proof (rule event_ok_other [OF ok [OF that] _ _ proj(2)])
      show "versions_of (ev_uid f) d' = versions_of (ev_uid f) d" using vs(2) e(6) that by (metis image_eqI)
      show "ev_related f \<noteq> ep_related row" if "event_open d f"
      proof
        assume "ev_related f = ep_related row"
        then have fk: "ev_related f = key" using row(1) by simp
        obtain p where p: "p \<in> set (event_projections d)" "ep_related p = ev_related f"
          using ok [OF \<open>f \<in> set (events d)\<close>] \<open>event_open d f\<close> by (auto simp: event_ok_def)
        have "current \<noteq> None" using cur' p fk row(1) by (cases current) (auto simp: filter_empty_conv)
        then obtain q where q: "current = Some q" by blast
        show False
          using open_event_current(2) [OF inv \<open>f \<in> set (events d)\<close> \<open>event_open d f\<close> fk shown [OF q]] st(4) q by simp
      qed
    qed
    moreover have "shows_last d' p" if "p \<in> set (event_projections d)" for p
    proof (rule shows_last_other)
      show "shows_last d p" using inv that by (simp add: event_inv_def)
      then have "ep_event p \<in> ev_uid ` set (events d)" unfolding shows_last_def by (metis image_eqI)
      then show "versions_of (ep_event p) d' = versions_of (ep_event p) d" using vs(2) e(6) by metis
    qed (use e in auto)
    moreover have "shows_last d' row" using e row new vv by (auto simp: shows_last_def)
    ultimately show ?thesis
      using inv versions proj e v(3) vv(1) unfolding event_inv_def by auto
  next
    fix p
    assume st: "current = Some p" "\<not> ?created" "st_version step = ep_version p + 1"
      "st_status step \<in> {''ACTIVE'', ''RESOLVED''}" "ep_status p \<notin> {''RESOLVED'', ''INVALIDATED''}"
    note p = shown [OF st(1)]
    have e': "events d' = events d" "eid = ep_event p" using es st(1,2) by simp_all
    have last: "shows_last d p" using inv p(1) by (simp add: event_inv_def)
    then obtain e where e: "e \<in> set (events d)" "ev_uid e = eid" "ev_related e = key"
      using p(2) e'(2) by (auto simp: shows_last_def)
    have oke: "event_ok sha d e" by (rule ok [OF e(1)])
    have active: "vv_status (last (versions_of eid d)) = ''ACTIVE''"
      using oke last st(5) e(2) e'(2) by (auto simp: event_ok_def shows_last_def)
    let ?vs = "versions_of eid d"
    have old: "?vs \<noteq> []" "map vv_version ?vs = [1..int (length ?vs)]" "set (map vv_status (butlast ?vs)) \<subseteq> {''ACTIVE''}"
      using oke e(2) by (simp_all add: event_ok_def)
    have "vv_version (last ?vs) = last (map vv_version ?vs)" using old(1) by (simp add: last_map)
    also have "\<dots> = int (length ?vs)"
    proof -
      have "int (length ?vs) \<ge> 1" using old(1) by (simp add: Suc_leI)
      then show ?thesis unfolding old(2) by (simp add: upto_rec2)
    qed
    finally have number: "vv_version v = int (length ?vs) + 1" using vv(2) st(3) last e'(2) by (simp add: shows_last_def)
    have "set (map vv_status ?vs) \<subseteq> {''ACTIVE''}"
      using old(1,3) active by (subst append_butlast_last_id [OF old(1), symmetric]) (simp del: append_butlast_last_id)
    moreover have "map vv_version (?vs @ [v]) = [1..int (length (?vs @ [v]))]"
      using old(2) number by (simp add: upto_rec2)
    ultimately have "event_ok sha d' e"
      using oke e vs(1) vv(3) st(4) row unfolding event_ok_def event_open_def proj(2) by auto
    moreover have "event_ok sha d' f" if "f \<in> set (events d)" "f \<noteq> e" for f
    proof -
      have ne: "ev_uid f \<noteq> eid" using event_inv_unique(2) [OF inv that(1) e(1)] that(2) e(2) by auto
      show ?thesis
      proof (rule event_ok_other [OF ok [OF that(1)] vs(2) [OF ne] _ proj(2)])
        show "ev_related f \<noteq> ep_related row" if "event_open d f"
          using open_event_current(1) [OF inv \<open>f \<in> set (events d)\<close> that _ p] ne e'(2) row(1) by auto
      qed
    qed
    moreover have "shows_last d' q" if "q \<in> set (event_projections d)" "ep_related q \<noteq> key" for q
    proof (rule shows_last_other)
      show sq: "shows_last d q" using inv that(1) by (simp add: event_inv_def)
      then obtain f where "f \<in> set (events d)" "ev_uid f = ep_event q" "ev_related f = ep_related q"
        by (auto simp: shows_last_def)
      then have "ep_event q \<noteq> eid" using event_inv_unique(2) [OF inv _ e(1)] e(2,3) that(2) by metis
      then show "versions_of (ep_event q) d' = versions_of (ep_event q) d" by (rule vs(2))
    qed (simp add: e')
    moreover have "shows_last d' row" using e e' row vs(1) vv by (auto simp: shows_last_def)
    moreover have "eid \<in> ev_uid ` set (events d)" using e(1,2) by (metis image_eqI)
    ultimately show ?thesis
      using inv versions proj e e' v(3) vv(1) row(1) unfolding event_inv_def by auto
  qed
qed

section \<open>The commit\<close>

lemma decide_event_keeps:
  assumes "decide_event sha src ka d = Inr (res, d')" and inv: "event_inv sha d"
  shows "event_inv sha d'"
proof -
  obtain kind active where ka: "ka = (kind, active)" by (cases ka)
  obtain current where cur: "event_projection_of (related_key sha (snap_subject (es_snapshot src)) kind) d = Inr (current, d)"
    and rest: "(case plan_event kind active current of None \<Rightarrow> returnC ([], [])
      | Some step \<Rightarrow> write_event sha src kind active current step) d = Inr (res, d')"
    using assms(1) unfolding decide_event_def ka prod.case bindC_eq_Inr
    by (auto simp: event_projection_of_Inr)
  show ?thesis
  proof (cases "plan_event kind active current")
    case None
    then show ?thesis using rest inv by (simp add: returnC_eq)
  next
    case (Some step)
    then show ?thesis using write_event_keeps [OF inv Some cur] rest by simp
  qed
qed

definition keeps_events :: "(string \<Rightarrow> string) \<Rightarrow> db \<Rightarrow> db \<Rightarrow> bool" where
  "keeps_events sha d d' \<longleftrightarrow> (event_inv sha d \<longrightarrow> event_inv sha d')"

lemma keeps_events_order: "reflp (keeps_events sha)" "transp (keeps_events sha)"
  by (rule reflpI, simp add: keeps_events_def) (rule transpI, simp add: keeps_events_def)

lemma keeps_eventsI: "same_events d d' \<Longrightarrow> keeps_events sha d d'"
  unfolding keeps_events_def same_events_def using event_inv_cong by metis

text \<open>Everything else in a commit leaves the event tables alone.\<close>

interpretation eventless: decision_writes same_events
  by unfold_locales (simp_all add: same_events_order, simp_all add: same_events_def)

interpretation eventless: state_writes same_events
  by unfold_locales (simp_all add: same_events_def)

lemma decide_events_keeps: "keeps (keeps_events sha) (decide_events sha src)"
  unfolding decide_events_def
  by (intro keeps_bind keeps_return keeps_map keeps_events_order)
    (rule keepsI, use decide_event_keeps in \<open>auto simp: keeps_events_def\<close>)

lemma commit_command_events:
  assumes run: "commit_command sha request plan d = Inr (result, d')" and inv: "event_inv sha d"
  shows "event_inv sha d'"
proof -
  let ?fs = "cp_guardian_facts plan @ cp_scout_facts plan"
  obtain n q su sh d1 guardian d2 scout d3 where
    st: "insert_state sha n request ?fs d = Inr ((su, sh), d1)"
    and gu: "insert_guardian sha n q su sh request ?fs (cp_guardian_set plan) d1 = Inr (guardian, d2)"
    and sc: "insert_scout sha n su guardian ?fs (cp_scout_set plan) d2 = Inr (scout, d3)"
    and re: "commit_records sha request plan n q su guardian scout d3 = Inr (result, d')"
    using run by (rule commit_command_Inr)
  have "same_events d d3"
    using keepsD [OF eventless.state st] keepsD [OF eventless.decisions(1) gu]
      keepsD [OF eventless.decisions(2) sc] by (simp add: same_events_def)
  then have inv3: "event_inv sha d3" using keeps_eventsI inv by (simp add: keeps_events_def)
  obtain c d3' d4 src d5 versions ids u h where
    c: "insert_analysis_commit c d3' = Inr ((), d4)" "same_events d3 d3'"
    and de: "decide_events sha src d4 = Inr ((versions, ids), d5)"
    and au: "write_audit sha n u h versions ids d5 = Inr ((), d')"
    using records_Inr [OF re] same_events_def [of d3 "d3\<lparr>uid_count := Suc (uid_count d3)\<rparr>"] by auto
  have "same_events d3 d4" using c by (auto simp: insert_analysis_commit_def execC_eq same_events_def)
  then have "event_inv sha d4" using keeps_eventsI inv3 by (simp add: keeps_events_def)
  then have "event_inv sha d5" using keepsD [OF decide_events_keeps de] by (simp add: keeps_events_def)
  moreover have "same_events d5 d'"
    using au by (auto simp: write_audit_def insert_audit_def bindC_eq_Inr new_uid_eq execC_eq same_events_def)
  ultimately show ?thesis using keeps_eventsI by (simp add: keeps_events_def)
qed

end
