(* ===== verification/Facts.thy ===== *)
theory Facts
  imports Registry_Properties
begin

text \<open>
  \<open>facts.py\<close>: the fact executor. It turns the quotes of a sealed snapshot into summary facts,
  records the metric facts of a Guardian or Scout rule execution under one threshold version, and
  versions baselines. Recording is idempotent: the digest of the inputs identifies the execution.
\<close>

record fact_view =
  fv_uid :: string
  fv_code :: string
  fv_value :: int
  fv_scale :: int
  fv_unit :: string
  fv_hash :: string

definition fact_view_of :: "fact_row \<Rightarrow> fact_view result" where
  "fact_view_of row =
     bindR (require (TypeError ''int() argument must be a number'') (f_value row)) (\<lambda>v.
     Inr \<lparr>fv_uid = f_uid row, fv_code = f_code row, fv_value = v, fv_scale = f_scale row,
          fv_unit = f_unit row, fv_hash = f_hash row\<rparr>)"

definition facts_for_execution :: "string \<Rightarrow> db \<Rightarrow> fact_view list result" where
  "facts_for_execution execution_uid d =
     mapR fact_view_of (sort_key f_code (filter (\<lambda>f. f_exec f = execution_uid) (facts d)))"

definition existing_execution :: "string \<Rightarrow> string \<Rightarrow> string \<Rightarrow> string \<Rightarrow> db \<Rightarrow> string option result" where
  "existing_execution snapshot_uid rule_key rule_version input_hash d =
     bindR (one_or_none (filter (\<lambda>r. rx_snapshot r = snapshot_uid \<and> rx_key r = rule_key \<and>
       rx_version r = rule_version \<and> rx_input r = input_hash) (rule_executions d)))
       (\<lambda>r. Inr (map_option rx_uid r))"

section \<open>Quote summary\<close>

definition quote_uids_of :: "json \<Rightarrow> string list result" where
  "quote_uids_of document =
     (case document of
        JObj ps \<Rightarrow> (case pydict ps ''quote_uids'' of
            None \<Rightarrow> Inl (KeyError ''quote_uids'')
          | Some (JArr xs) \<Rightarrow> Inr (concat (map (\<lambda>x. case x of JStr s \<Rightarrow> [s] | _ \<Rightarrow> []) xs))
          | Some _ \<Rightarrow> Inl (TypeError ''quote_uids is not a list''))
      | _ \<Rightarrow> Inl (TypeError ''manifest is not an object''))"

definition load_document :: "db \<Rightarrow> string \<Rightarrow> json result" where
  "load_document d digest =
     bindR (open_verified d digest) (\<lambda>f. case f of
       JsonFile j \<Rightarrow> Inr j
     | _ \<Rightarrow> Inl (ValueError ''invalid JSON''))"

text \<open>The four values: counts of quotes, and the share with a price in parts per million.\<close>

definition summary_values :: "quote_row list \<Rightarrow> (string \<times> int \<times> string) list" where
  "summary_values rows =
     (let total = int (List.length rows);
          valid = int (List.length (filter (\<lambda>q. q_price_status q = ''VALUE'') rows))
      in [(''QUOTE_COUNT'', total, ''COUNT''),
          (''VALID_PRICE_COUNT'', valid, ''COUNT''),
          (''MISSING_PRICE_COUNT'', total - valid, ''COUNT''),
          (''COVERAGE_PPM'', if total = 0 then 0 else valid * 1000000 div total, ''PPM'')])"

definition quote_json :: "quote_row \<Rightarrow> json" where
  "quote_json q =
     JArr [JStr (q_uid q), JStr (q_price_status q),
           (case q_price_scaled q of None \<Rightarrow> JNull | Some v \<Rightarrow> JInt v),
           JInt (q_price_scale q), JStr (q_volume_status q)]"

definition snapshot_manifest :: "db \<Rightarrow> string \<Rightarrow> (snapshot_row \<times> manifest_row) result" where
  "snapshot_manifest d snapshot_uid =
     one (concat (map (\<lambda>s. map (\<lambda>m. (s, m)) (filter (\<lambda>m. man_uid m = snap_manifest s) (manifests d)))
       (filter (\<lambda>s. snap_uid s = snapshot_uid) (snapshots d))))"

definition insert_summary_fact ::
    "(string \<Rightarrow> string) \<Rightarrow> snapshot_row \<Rightarrow> string \<Rightarrow> string \<Rightarrow> string \<Rightarrow> string \<times> int \<times> string \<Rightarrow> unit cmd" where
  "insert_summary_fact sha snapshot rule_key rule_version execution_uid =
     (\<lambda>(code, value, unit_name).
       bindC new_uid (\<lambda>uid. insert_fact
         \<lparr>f_uid = uid, f_snapshot = snap_uid snapshot, f_exec = execution_uid,
          f_quality = snap_quality snapshot, f_code = code, f_value = Some value, f_scale = 0,
          f_status = ''VALUE'', f_unit = unit_name,
          f_hash = canonical_hash sha (JObj
            [(''snapshot_hash'', JStr (snap_hash snapshot)), (''rule_key'', JStr rule_key),
             (''rule_version'', JStr rule_version), (''fact_code'', JStr code),
             (''value_scaled'', JInt value), (''value_scale'', JInt 0), (''unit'', JStr unit_name)])\<rparr>))"

definition execute_facts ::
    "(string \<Rightarrow> string) \<Rightarrow> string \<Rightarrow> string \<Rightarrow> string \<Rightarrow> fact_view list cmd" where
  "execute_facts sha snapshot_uid rule_key rule_version =
     bindC (checkC (rule_key \<noteq> ''OBJECTIVE_QUOTE_SUMMARY'') (UnknownFactRuleError rule_key)) (\<lambda>_.
     bindC (readC (\<lambda>d. snapshot_manifest d snapshot_uid)) (\<lambda>(snapshot, manifest).
     bindC (checkC (snap_status snapshot \<noteq> ''SEALED'')
       (SnapshotNotSealedError ''facts require a sealed snapshot'')) (\<lambda>_.
     bindC (readC (\<lambda>d. load_document d (man_artifact manifest))) (\<lambda>document.
     bindC (readC (\<lambda>_. quote_uids_of document)) (\<lambda>uids.
     bindC (getC (\<lambda>d. sort_key q_uid (filter (\<lambda>q. q_uid q \<in> set uids) (quotes d)))) (\<lambda>rows.
     let input_hash = canonical_hash sha (JArr (map quote_json rows));
         values = summary_values rows;
         output_hash = canonical_hash sha (JArr (map (\<lambda>(code, value, unit_name).
           JArr [JStr code, JInt value, JInt 0, JStr unit_name]) values)) in
     bindC (readC (existing_execution snapshot_uid rule_key rule_version input_hash)) (\<lambda>existing.
     case existing of
       Some uid \<Rightarrow> readC (facts_for_execution uid)
     | None \<Rightarrow>
         bindC new_uid (\<lambda>execution_uid.
         bindC (insert_rule_execution
           \<lparr>rx_uid = execution_uid, rx_snapshot = snapshot_uid, rx_key = rule_key,
            rx_version = rule_version, rx_threshold = None, rx_status = ''VALID'',
            rx_input = input_hash, rx_output = output_hash, rx_started = snap_as_of snapshot,
            rx_finished = snap_as_of snapshot\<rparr>) (\<lambda>_.
         bindC (forC (insert_summary_fact sha snapshot rule_key rule_version execution_uid) values) (\<lambda>_.
         readC (facts_for_execution execution_uid)))))))))))"

section \<open>Metric facts\<close>

definition metric_document ::
    "string \<Rightarrow> string \<Rightarrow> string \<Rightarrow> threshold_set \<Rightarrow> string option \<Rightarrow> (string \<times> json) list \<Rightarrow> json" where
  "metric_document snapshot_hash rule_key rule_version thresholds evidence rest =
     JObj ([(''snapshot_hash'', JStr snapshot_hash), (''rule_key'', JStr rule_key),
            (''producer_version'', JStr rule_version),
            (''threshold_version_uid'', JStr (ts_uid thresholds)),
            (''threshold_definition_hash'', JStr (ts_definition_hash thresholds)),
            (''evidence_sha256'', JOpt evidence)] @ rest)"

definition metrics_json :: "(string \<times> int) list \<Rightarrow> json" where
  "metrics_json values = JArr (map (\<lambda>(code, value). JArr [JStr code, JInt value]) values)"

definition insert_metric_fact ::
    "(string \<Rightarrow> string) \<Rightarrow> snapshot_row \<Rightarrow> string \<Rightarrow> string \<Rightarrow> threshold_set \<Rightarrow> string option \<Rightarrow> string \<Rightarrow>
     string \<times> int \<Rightarrow> unit cmd" where
  "insert_metric_fact sha snapshot rule_key rule_version thresholds evidence execution_uid entry =
     bindC new_uid (\<lambda>uid. insert_fact
       \<lparr>f_uid = uid, f_snapshot = snap_uid snapshot, f_exec = execution_uid,
        f_quality = snap_quality snapshot, f_code = fst entry, f_value = Some (snd entry), f_scale = 0,
        f_status = ''VALUE'', f_unit = ''PPM'',
        f_hash = canonical_hash sha (metric_document (snap_hash snapshot) rule_key rule_version
          thresholds evidence
          [(''fact_code'', JStr (fst entry)), (''value_scaled'', JInt (snd entry)),
           (''value_scale'', JInt 0), (''unit'', JStr ''PPM'')])\<rparr>)"

definition metric_in_range :: "string \<times> int \<Rightarrow> bool" where
  "metric_in_range entry = (0 \<le> snd entry \<and> snd entry \<le> 1000000)"

definition insert_execution ::
    "(string \<Rightarrow> string) \<Rightarrow> snapshot_row \<Rightarrow> string \<Rightarrow> string \<Rightarrow> threshold_set \<Rightarrow> string option \<Rightarrow>
     (string \<times> int) list \<Rightarrow> string \<Rightarrow> string cmd" where
  "insert_execution sha snapshot rule_key rule_version thresholds evidence values digest =
     bindC new_uid (\<lambda>execution_uid.
     bindC (insert_rule_execution
       \<lparr>rx_uid = execution_uid, rx_snapshot = snap_uid snapshot, rx_key = rule_key,
        rx_version = rule_version, rx_threshold = Some (ts_uid thresholds), rx_status = ''VALID'',
        rx_input = digest,
        rx_output = (case evidence of Some (c # cs) \<Rightarrow> c # cs | _ \<Rightarrow> digest),
        rx_started = snap_as_of snapshot, rx_finished = snap_as_of snapshot\<rparr>) (\<lambda>_.
     bindC (forC (insert_metric_fact sha snapshot rule_key rule_version thresholds evidence execution_uid)
       values) (\<lambda>_.
     returnC execution_uid)))"

definition record_family_metrics ::
    "(string \<Rightarrow> string) \<Rightarrow> string \<Rightarrow> string \<Rightarrow> string \<Rightarrow> (string \<times> int) list \<Rightarrow> string list \<Rightarrow> string \<Rightarrow>
     string \<Rightarrow> string option \<Rightarrow> fact_view list cmd" where
  "record_family_metrics sha snapshot_uid rule_key rule_version metrics allowed family threshold_uid evidence =
     bindC (checkC (\<not> set (map fst metrics) \<subseteq> set allowed)
       (UnknownFactCodeError ''metric code is not approved for this objective rule set'')) (\<lambda>_.
     bindC (checkC (\<not> list_all metric_in_range metrics)
       (ValueError ''Guardian metrics must be integer PPM values from 0 to 1000000'')) (\<lambda>_.
     bindC (readC (\<lambda>d. one (filter (\<lambda>s. snap_uid s = snapshot_uid) (snapshots d)))) (\<lambda>snapshot.
     bindC (checkC (snap_status snapshot \<noteq> ''SEALED'')
       (SnapshotNotSealedError ''facts require a sealed snapshot'')) (\<lambda>_.
     bindC (readC (\<lambda>d. resolve_threshold_by_uid sha d family threshold_uid)) (\<lambda>thresholds.
     bindC (getC (\<lambda>d. case evidence of None \<Rightarrow> False | Some e \<Rightarrow> e \<notin> set (artifact_objects d))) (\<lambda>missing.
     bindC (checkC missing (ValueError ''metric evidence artifact is not registered'')) (\<lambda>_.
     bindC (readC (\<lambda>d. case evidence of None \<Rightarrow> Inr NotJson | Some e \<Rightarrow> open_verified d e)) (\<lambda>_.
     let values = sort metrics;
         digest = canonical_hash sha (metric_document (snap_hash snapshot) rule_key rule_version
           thresholds evidence [(''metrics'', metrics_json values)]) in
     bindC (readC (existing_execution snapshot_uid rule_key rule_version digest)) (\<lambda>existing.
     bindC (case existing of
         Some uid \<Rightarrow> returnC uid
       | None \<Rightarrow> insert_execution sha snapshot rule_key rule_version thresholds evidence values digest) (\<lambda>uid.
     readC (facts_for_execution uid)))))))))))"

definition record_metrics ::
    "(string \<Rightarrow> string) \<Rightarrow> string \<Rightarrow> string \<Rightarrow> string \<Rightarrow> (string \<times> int) list \<Rightarrow> string \<Rightarrow> string option \<Rightarrow>
     fact_view list cmd" where
  "record_metrics sha snapshot_uid rule_key rule_version metrics threshold_uid evidence =
     record_family_metrics sha snapshot_uid rule_key rule_version metrics guardian_codes ''GUARDIAN''
       threshold_uid evidence"

definition record_scout_metrics ::
    "(string \<Rightarrow> string) \<Rightarrow> string \<Rightarrow> string \<Rightarrow> string \<Rightarrow> (string \<times> int) list \<Rightarrow> string \<Rightarrow> string option \<Rightarrow>
     fact_view list cmd" where
  "record_scout_metrics sha snapshot_uid rule_key rule_version metrics threshold_uid evidence =
     record_family_metrics sha snapshot_uid rule_key rule_version metrics scout_codes ''SCOUT''
       threshold_uid evidence"

section \<open>Baselines\<close>

definition baseline_versions :: "db \<Rightarrow> string \<Rightarrow> string \<Rightarrow> string \<Rightarrow> string \<Rightarrow> int list" where
  "baseline_versions d subject code kind key =
     map bl_version (filter (\<lambda>b. bl_subject b = subject \<and> bl_code b = code \<and>
       bl_period_kind b = kind \<and> bl_period_key b = key) (baselines d))"

definition next_baseline_version :: "int list \<Rightarrow> int" where
  "next_baseline_version versions = (if versions = [] then 1 else foldr max versions (hd versions) + 1)"

definition record_baseline :: "string \<Rightarrow> string \<Rightarrow> string \<Rightarrow> string \<Rightarrow> (string \<times> int) cmd" where
  "record_baseline subject fact_uid kind key =
     bindC new_uid (\<lambda>uid.
     bindC (readC (\<lambda>d. one (filter (\<lambda>f. f_uid f = fact_uid) (facts d)))) (\<lambda>fact.
     bindC (getC (\<lambda>d. next_baseline_version (baseline_versions d subject (f_code fact) kind key))) (\<lambda>version.
     bindC (readC (\<lambda>d. one (filter (\<lambda>s. snap_uid s = f_snapshot fact) (snapshots d)))) (\<lambda>snapshot.
     bindC (insert_baseline
       \<lparr>bl_uid = uid, bl_subject = subject, bl_code = f_code fact, bl_period_kind = kind,
        bl_period_key = key, bl_version = version, bl_value = f_value fact, bl_scale = f_scale fact,
        bl_status = f_status fact, bl_snapshot = f_snapshot fact, bl_created = snap_as_of snapshot\<rparr>) (\<lambda>_.
     returnC (uid, version))))))"

end
