(* ===== verification/Market.thy ===== *)
theory Market
  imports Commit_Theorems Event_Properties Facts
begin

text \<open>
  The components together: registry operations, fact recording, state, Guardian and Scout
  evaluations, analysis commits prepared outside their transaction and run inside it, and the
  delivery workers, interleaved in any order over one database. The relation \<open>quiet\<close> holds between
  databases that agree on everything the lifecycle, commit, event and delivery invariants speak of;
  the interpretations show which commands are quiet, and the invariants of the components then
  compose into one invariant of the machine.
\<close>

section \<open>Fact rows\<close>

locale fact_writes = command_order +
  assumes execution_row: "R d (d\<lparr>rule_executions := rule_executions d @ [x]\<rparr>)"
    and fact_row: "R d (d\<lparr>facts := facts d @ [f]\<rparr>)"
    and baseline_row: "R d (d\<lparr>baselines := baselines d @ [b]\<rparr>)"
begin

lemma insert_fact_rows:
  "keeps R (insert_rule_execution x)" "keeps R (insert_fact f)" "keeps R (insert_baseline b)"
  unfolding insert_rule_execution_def insert_fact_def insert_baseline_def
  by (rule keeps_exec; rule execution_row fact_row baseline_row)+

lemma summary: "keeps R (execute_facts sha u k v)"
  unfolding execute_facts_def Let_def insert_summary_fact_def case_prod_unfold
  by (intro monad insert_fact_rows)

lemma execution: "keeps R (insert_execution sha s k v t e vs digest)"
  unfolding insert_execution_def insert_metric_fact_def by (intro monad insert_fact_rows)

lemma family_metrics: "keeps R (record_family_metrics sha u k v ms allowed fam t e)"
  unfolding record_family_metrics_def Let_def by (intro monad execution)

lemma metrics: "keeps R (record_metrics sha u k v ms t e)" "keeps R (record_scout_metrics sha u k v ms t e)"
  unfolding record_metrics_def record_scout_metrics_def by (rule family_metrics)+

lemma baseline: "keeps R (record_baseline sub f kind key)"
  unfolding record_baseline_def by (intro monad insert_fact_rows)

end

section \<open>Quiet commands\<close>

definition official_rows :: "db \<Rightarrow> state_row list" where
  "official_rows d = filter (\<lambda>s. se_disposition s = ''OFFICIAL'') (states d)"

definition quiet :: "db \<Rightarrow> db \<Rightarrow> bool" where
  "quiet d d' \<longleftrightarrow> grows d d' \<and> official_rows d' = official_rows d \<and> transitions d' = transitions d \<and>
     projections d' = projections d \<and> commits d' = commits d \<and> same_events d d' \<and>
     deliveries d' = deliveries d \<and> attempts d' = attempts d"

lemma quiet_order: "reflp quiet" "transp quiet"
proof -
  show "reflp quiet" by (rule reflpI) (simp add: quiet_def grows_refl same_events_def)
  show "transp quiet"
    by (rule transpI) (use grows_trans in \<open>auto simp: quiet_def same_events_def\<close>)
qed

lemma quietI:
  assumes "grows d d'" "states d' = states d" "transitions d' = transitions d"
    "projections d' = projections d" "commits d' = commits d" "events d' = events d"
    "event_versions d' = event_versions d" "event_projections d' = event_projections d"
    "deliveries d' = deliveries d" "attempts d' = attempts d"
  shows "quiet d d'"
  using assms by (simp add: quiet_def official_rows_def same_events_def)

interpretation quiet: decision_writes quiet
  by unfold_locales (simp_all add: quiet_order, (rule quietI; simp add: grows_defs)+)

interpretation quiet: fact_writes quiet
  by unfold_locales (rule quietI; simp add: grows_defs)+

interpretation quiet: registry_writes quiet
  by unfold_locales
    (unfold insert_threshold_version_def insert_threshold_entry_def insert_validation_def
      insert_activation_evidence_def insert_activation_def,
     (rule keeps_exec, rule quietI; simp add: grows_defs)+)

interpretation registry: fact_writes keeps_registry
  by unfold_locales (rule keeps_registryI; simp)+

text \<open>A state evaluation outside the commit is never OFFICIAL, so it is quiet too, conflicts included.\<close>

lemma insert_state_evaluation_quiet:
  "se_disposition e \<noteq> ''OFFICIAL'' \<Longrightarrow> keeps quiet (insert_state_evaluation e)"
  unfolding insert_state_evaluation_def
  by (rule keeps_exec) (simp add: quiet_def official_rows_def grows_defs same_events_def)

lemma insert_state_fact_quiet: "keeps quiet (insert_state_fact x y)"
  unfolding insert_state_fact_def by (rule keeps_exec, rule quietI) (simp_all add: grows_defs)

lemma state_command_quiet:
  "snap_disposition n \<noteq> ''OFFICIAL'' \<Longrightarrow> keeps quiet (state_command n av l fs expected digest uid)"
  unfolding state_command_def Let_def projection_of_def
  by (simp only: if_True simp_thms)
    (intro quiet.monad insert_state_evaluation_quiet insert_state_fact_quiet, simp)

lemma stale_audit_quiet: "keeps quiet (record_stale_audit sha sn sub av l fs h t)"
  unfolding record_stale_audit_def Let_def
  by (intro quiet.monad insert_state_evaluation_quiet insert_state_fact_quiet) simp

lemma state_prepare_Inr:
  assumes "state_prepare sha u av l fs d = Inr ((n, fl, digest), d')"
  shows "snap_disposition n \<noteq> ''OFFICIAL''" "n \<in> set (snapshots d)" "snap_status n = ''SEALED''"
proof -
  have "filter (\<lambda>s. snap_uid s = u) (snapshots d) = [n] \<and> snap_disposition n \<noteq> ''OFFICIAL'' \<and> snap_status n = ''SEALED''"
    using assms unfolding state_prepare_def Let_def bindC_eq_Inr checkC_eq readC_eq getC_eq returnC_eq one_eq_Inr
    by (elim exE conjE) simp
  then show "snap_disposition n \<noteq> ''OFFICIAL''" "n \<in> set (snapshots d)" "snap_status n = ''SEALED''"
    by (auto simp: filter_eq_Cons_iff)
qed

text \<open>\<open>StateService.evaluate\<close> keeps what its transaction and its audit keep.\<close>

lemma state_evaluate_keeps:
  assumes order: "reflp R" "transp R" and tick: "\<And>d. R d (d\<lparr>uid_count := Suc (uid_count d)\<rparr>)"
    and command: "\<And>n x y z w v. snap_disposition n \<noteq> ''OFFICIAL'' \<Longrightarrow> keeps R (state_command n av l x y z w)"
    and audit: "\<And>x y z w v. keeps R (record_stale_audit sha u x av l y z w)"
    and run: "state_evaluate sha u av l fs expected d = (res, d')"
  shows "R d d'"
proof (cases "state_prepare sha u av l fs d")
  case (Inl e)
  then show ?thesis using run order(1) by (simp add: state_evaluate_def reflpD)
next
  case (Inr p)
  obtain n fl digest d0 where p: "p = ((n, fl, digest), d0)" by (metis prod_cases3 prod.collapse)
  have prep: "state_prepare sha u av l fs d = Inr ((n, fl, digest), d0)" using Inr p by simp
  note n = state_prepare_Inr(1) [OF prep]
  let ?d1 = "d\<lparr>uid_count := Suc (uid_count d)\<rparr>"
  let ?cmd = "state_command n av l fl expected digest (uid_source d (uid_count d)) ?d1"
  show ?thesis
  proof (cases "existing_state digest d")
    case (Inl e)
    then show ?thesis using run prep order(1) by (simp add: state_evaluate_def reflpD)
  next
    case ex: (Inr o')
    show ?thesis
    proof (cases o')
      case (Some r)
      then show ?thesis using run prep ex order(1) by (simp add: state_evaluate_def reflpD)
    next
      case None
      show ?thesis
      proof (cases ?cmd)
        case (Inr q)
        obtain pr d2 where q: "q = (pr, d2)" by (cases q)
        have "d' = d2" using run prep ex None Inr q by (simp add: state_evaluate_def Let_def)
        moreover have "R ?d1 d2" using keepsD [OF command [OF n], of fl expected digest _ ?d1] Inr q by blast
        ultimately show ?thesis using tick [of d] transpD [OF order(2)] by blast
      next
        case e: (Inl e)
        let ?aud = "record_stale_audit sha u (snap_subject n) av l fl digest (snap_as_of n) ?d1"
        have "d' = ?d1 \<or> (\<exists>x. ?aud = Inr (x, d'))"
          using run prep ex None e by (cases e; cases ?aud) (auto simp: state_evaluate_def Let_def)
        then show ?thesis
          using tick [of d] keepsD [OF audit] transpD [OF order(2), of d ?d1 d'] by blast
      qed
    qed
  qed
qed

lemma state_evaluate_quiet: "state_evaluate sha u av l fs expected d = (res, d') \<Longrightarrow> quiet d d'"
  by (rule state_evaluate_keeps [OF quiet_order quiet.tick state_command_quiet stale_audit_quiet])

lemma state_evaluate_registry: "state_evaluate sha u av l fs expected d = (res, d') \<Longrightarrow> keeps_registry d d'"
  by (rule state_evaluate_keeps [OF reflp_keeps_registry transp_keeps_registry reg.tick
      registry.service registry.stale_audit])

text \<open>What a quiet command keeps.\<close>

lemma official_states_quiet: "official_rows d' = official_rows d \<Longrightarrow> official_states s d' = official_states s d"
proof -
  have "official_states s d = filter (\<lambda>x. se_subject x = s) (official_rows d)" for d
    by (simp add: official_states_def official_rows_def conj_commute)
  then show "official_rows d' = official_rows d \<Longrightarrow> official_states s d' = official_states s d" by simp
qed

lemma quiet_keeps:
  assumes "quiet d d'"
  shows "lifecycle_inv d \<Longrightarrow> lifecycle_inv d'" "chain_inv d \<Longrightarrow> chain_inv d'"
    "event_inv sha d \<Longrightarrow> event_inv sha d'" "delivery_inv limit d \<Longrightarrow> delivery_inv limit d'"
proof -
  have q: "grows d d'" "official_rows d' = official_rows d" "transitions d' = transitions d"
    "projections d' = projections d" "commits d' = commits d" "events d' = events d"
    "event_versions d' = event_versions d" "event_projections d' = event_projections d"
    "deliveries d' = deliveries d" "attempts d' = attempts d"
    using assms unfolding quiet_def same_events_def by blast+
  have eqs: "official_states s d' = official_states s d" "history s d' = history s d" for s
    by (rule official_states_quiet [OF q(2)]) (simp add: history_def q(3))
  show "lifecycle_inv d \<Longrightarrow> lifecycle_inv d'"
    unfolding lifecycle_inv_def projection_inv_def eqs q(4) .
  show "chain_inv d \<Longrightarrow> chain_inv d'" by (rule chain_grows [OF q(1,5)])
  show "event_inv sha d \<Longrightarrow> event_inv sha d'" unfolding event_inv_cong [OF q(6-8)] .
  show "delivery_inv limit d \<Longrightarrow> delivery_inv limit d'"
    using keeps_deliveryI [OF q(9,10), of limit] by (simp add: keeps_delivery_def)
qed

section \<open>Delivery rows\<close>

locale delivery_writes = command_order +
  assumes delivery_rows: "R d (d\<lparr>deliveries := rs\<rparr>)"
    and attempt_row: "R d (d\<lparr>attempts := attempts d @ [a]\<rparr>)"
    and intent_row: "R d (d\<lparr>intents := intents d @ [i]\<rparr>)"
    and metadata_rows: "R d (d\<lparr>system_metadata := m\<rparr>)"
    and audit_rows: "R d (d\<lparr>audits := audits d @ [u]\<rparr>)"
begin

lemma insert_delivery_rows:
  "keeps R (insert_delivery r)" "keeps R (insert_attempt a)" "keeps R (insert_intent i)"
  "keeps R (expire_due now)"
  unfolding insert_delivery_def insert_attempt_def insert_intent_def expire_due_def
  by (rule keeps_exec; rule delivery_rows attempt_row intent_row)+

lemma update: "keeps R (update_delivery x v f)"
  unfolding update_delivery_def by (intro monad keeps_exec delivery_rows)

lemma lease: "keeps R (lease_first c now g rows)"
proof (cases rows)
  case Nil
  then show ?thesis unfolding lease_first_def by (simp add: keeps_return order_refl)
next
  case (Cons p ps)
  then show ?thesis
    unfolding lease_first_def by (cases p) (simp only: list.case prod.case, intro monad update)
qed

lemma claim: "keeps R (claim_intent c now)"
  unfolding claim_intent_def by (intro monad insert_delivery_rows lease)

lemma finish: "keeps R (finish_delivery c cl outcome started completed)"
  unfolding finish_delivery_def record_attempt_def Let_def case_prod_unfold
  by (intro monad insert_delivery_rows update)

lemma emit: "keeps R (emit_intent sha src v k f ch)"
  unfolding emit_intent_def Let_def by (intro monad insert_delivery_rows)

lemma restore: "keeps R (advance_restore_generation sha t)"
  unfolding advance_restore_generation_def cancel_open_def insert_audit_def Let_def
  by (intro monad keeps_exec delivery_rows metadata_rows audit_rows)

end

text \<open>The workers leave every table but their own and the intents alone.\<close>

definition same_business :: "db \<Rightarrow> db \<Rightarrow> bool" where
  "same_business d d' \<longleftrightarrow> snapshots d' = snapshots d \<and> states d' = states d \<and>
     transitions d' = transitions d \<and> projections d' = projections d \<and> guardians d' = guardians d \<and>
     scouts d' = scouts d \<and> commits d' = commits d \<and> events d' = events d \<and>
     event_versions d' = event_versions d \<and> event_projections d' = event_projections d \<and>
     threshold_versions d' = threshold_versions d \<and> threshold_entries d' = threshold_entries d \<and>
     activations d' = activations d \<and> activation_evidence d' = activation_evidence d"

lemma same_business_order: "reflp same_business" "transp same_business"
  by (rule reflpI, simp add: same_business_def) (rule transpI, simp add: same_business_def)

interpretation business: delivery_writes same_business
  by unfold_locales (simp_all add: same_business_order, simp_all add: same_business_def)

lemma worker_step_business:
  "worker_step limit s s' \<Longrightarrow> same_business (sy_db s) (sy_db s')"
  by (induction rule: worker_step.induct)
    (auto dest: keepsD [OF business.claim] keepsD [OF business.finish] keepsD [OF business.emit]
      keepsD [OF business.restore],
     auto simp: same_business_def)

text \<open>Input rows written outside the modelled commands: sealed snapshots stay as they are.\<close>

definition sealed_stay :: "db \<Rightarrow> db \<Rightarrow> bool" where
  "sealed_stay d d' \<longleftrightarrow>
     (\<forall>n \<in> set (snapshots d). snap_status n = ''SEALED'' \<longrightarrow> n \<in> set (snapshots d'))"

definition new_inputs :: "db \<Rightarrow> db \<Rightarrow> bool" where
  "new_inputs d d' \<longleftrightarrow> sealed_stay d d' \<and>
     d' = d\<lparr>snapshots := snapshots d', qualities := qualities d', limitations := limitations d',
       manifests := manifests d', bundles := bundles d', reference_entries := reference_entries d',
       capabilities := capabilities d', quotes := quotes d', artifact_files := artifact_files d',
       artifact_objects := artifact_objects d'\<rparr>"

lemma chained_cong:
  assumes "sealed_stay d d'" "states d' = states d" "guardians d' = guardians d" "scouts d' = scouts d"
  shows "chained d c \<Longrightarrow> chained d' c"
  using assms(1) unfolding chained_def assms(2-4) sealed_stay_def by blast

lemma chain_inv_cong:
  assumes "sealed_stay d d'" "states d' = states d" "guardians d' = guardians d" "scouts d' = scouts d"
    "commits d' = commits d"
  shows "chain_inv d \<Longrightarrow> chain_inv d'"
  using chained_cong [OF assms(1-4)] by (simp add: chain_inv_def assms(5))

section \<open>The machine\<close>

definition business_inv :: "(string \<Rightarrow> string) \<Rightarrow> db \<Rightarrow> bool" where
  "business_inv sha d \<longleftrightarrow> registry_inv d \<and> lifecycle_inv d \<and> chain_inv d \<and> event_inv sha d"

lemma business_cong:
  assumes s: "sealed_stay d d'" and e: "states d' = states d"
    "transitions d' = transitions d" "projections d' = projections d" "guardians d' = guardians d"
    "scouts d' = scouts d" "commits d' = commits d" "events d' = events d"
    "event_versions d' = event_versions d" "event_projections d' = event_projections d"
    "threshold_versions d' = threshold_versions d" "threshold_entries d' = threshold_entries d"
    "activations d' = activations d" "activation_evidence d' = activation_evidence d"
  shows "business_inv sha d \<Longrightarrow> business_inv sha d'"
  unfolding business_inv_def
  using chain_inv_cong [OF s e(1,4,5,6)] registry_inv_cong [OF e(10-13)] lifecycle_inv_cong [OF e(1-3)]
    event_inv_cong [OF e(7-9)] by simp

text \<open>A command of the services, with the database it leaves.\<close>

inductive service_step :: "(string \<Rightarrow> string) \<Rightarrow> db \<Rightarrow> db \<Rightarrow> bool" for sha :: "string \<Rightarrow> string" where
  service_registry: "registry_step d d' \<Longrightarrow> service_step sha d d'"
| service_summary: "execute_facts sha u k v d = Inr (fs, d') \<Longrightarrow> service_step sha d d'"
| service_metrics: "record_metrics sha u k v ms t e d = Inr (fs, d') \<Longrightarrow> service_step sha d d'"
| service_scout_metrics: "record_scout_metrics sha u k v ms t e d = Inr (fs, d') \<Longrightarrow> service_step sha d d'"
| service_baseline: "record_baseline sub f kind key d = Inr (b, d') \<Longrightarrow> service_step sha d d'"
| service_state: "state_evaluate sha u av l fs expected d = (res, d') \<Longrightarrow> service_step sha d d'"
| service_guardian: "evaluate_guardian sha u d = Inr (g, d') \<Longrightarrow> service_step sha d d'"
| service_scout: "evaluate_scout sha u d = Inr (s, d') \<Longrightarrow> service_step sha d d'"

lemma registry_step_quiet: "registry_step d d' \<Longrightarrow> quiet d d'"
  by (induction rule: registry_step.induct)
    (auto dest: keepsD [OF quiet.register] keepsD [OF quiet.validate]
      keepsD [OF quiet.evidence] keepsD [OF quiet.activate])

lemma service_step_quiet: "service_step sha d d' \<Longrightarrow> quiet d d'"
  by (induction rule: service_step.induct)
    (auto dest: registry_step_quiet state_evaluate_quiet keepsD [OF quiet.summary] keepsD [OF quiet.metrics(1)]
      keepsD [OF quiet.metrics(2)] keepsD [OF quiet.baseline] keepsD [OF quiet.services(1)]
      keepsD [OF quiet.services(2)])

lemma service_step_registry: "service_step sha d d' \<Longrightarrow> keeps_registry d d'"
  by (induction rule: service_step.induct)
    (auto dest: registry_step_keeps state_evaluate_registry keepsD [OF registry.summary] keepsD [OF registry.metrics(1)]
      keepsD [OF registry.metrics(2)] keepsD [OF registry.baseline] keepsD [OF registry.services(1)]
      keepsD [OF registry.services(2)] simp: keeps_registry_def [of d d' for d d'])

text \<open>
  The system: the delivery workers over the one database, and the commits that are prepared and wait
  for the writer. A commit may run on a database that changed since it was prepared.
\<close>

record market =
  mk_workers :: delivery_system
  mk_plans :: "(analysis_commit_request \<times> commit_plan) list"

definition market_db :: "market \<Rightarrow> db" where
  "market_db s = sy_db (mk_workers s)"

definition with_db :: "db \<Rightarrow> market \<Rightarrow> market" where
  "with_db d s = s\<lparr>mk_workers := (mk_workers s)\<lparr>sy_db := d\<rparr>\<rparr>"

inductive market_step :: "(string \<Rightarrow> string) \<Rightarrow> int \<Rightarrow> market \<Rightarrow> market \<Rightarrow> bool"
    for sha :: "string \<Rightarrow> string" and limit :: int where
  market_worker: "worker_step limit (mk_workers s) w \<Longrightarrow> market_step sha limit s (s\<lparr>mk_workers := w\<rparr>)"
| market_service: "service_step sha (market_db s) d' \<Longrightarrow> market_step sha limit s (with_db d' s)"
| market_inputs: "new_inputs (market_db s) d' \<Longrightarrow> market_step sha limit s (with_db d' s)"
| market_prepare: "commit_prepare sha request (market_db s) = Inr plan \<Longrightarrow>
    market_step sha limit s (s\<lparr>mk_plans := (request, plan) # mk_plans s\<rparr>)"
| market_commit: "(request, plan) \<in> set (mk_plans s) \<Longrightarrow>
    commit_command sha request plan (market_db s) = Inr (result, d') \<Longrightarrow>
    market_step sha limit s (with_db d' s)"

inductive_cases market_stepE: "market_step sha limit s s'"

definition market_inv :: "(string \<Rightarrow> string) \<Rightarrow> int \<Rightarrow> market \<Rightarrow> bool" where
  "market_inv sha limit s \<longleftrightarrow> business_inv sha (market_db s) \<and> system_inv limit (mk_workers s)"

lemma with_db_simps [simp]: "market_db (with_db d s) = d" "mk_plans (with_db d s) = mk_plans s"
  by (simp_all add: market_db_def with_db_def)

lemma market_invD:
  "market_inv sha limit s \<Longrightarrow> business_inv sha (market_db s)"
  "market_inv sha limit s \<Longrightarrow> delivery_inv limit (market_db s)"
  by (simp_all add: market_inv_def system_inv_def market_db_def)

lemma market_inv_with_db:
  assumes "market_inv sha limit s" "business_inv sha d" "delivery_inv limit d"
  shows "market_inv sha limit (with_db d s)"
  using assms by (simp add: market_inv_def system_inv_def) (simp add: with_db_def)

text \<open>The commit's transaction keeps every component's invariant.\<close>

lemma commit_command_lifecycle:
  assumes run: "commit_command sha request plan d = Inr (result, d')" and inv: "lifecycle_inv d"
  shows "lifecycle_inv d'"
proof -
  let ?fs = "cp_guardian_facts plan @ cp_scout_facts plan"
  obtain n q su sh d1 guardian d2 scout d3 where
    st: "insert_state sha n request ?fs d = Inr ((su, sh), d1)"
    and gu: "insert_guardian sha n q su sh request ?fs (cp_guardian_set plan) d1 = Inr (guardian, d2)"
    and sc: "insert_scout sha n su guardian ?fs (cp_scout_set plan) d2 = Inr (scout, d3)"
    and re: "commit_records sha request plan n q su guardian scout d3 = Inr (result, d')"
    using run by (rule commit_command_Inr)
  have "lifecycle_inv d1" using insert_state_Inr [OF inv st] by simp
  moreover have "same_lifecycle d1 d'"
    using keepsD [OF frame.decisions(1) gu] keepsD [OF frame.decisions(2) sc] keepsD [OF frame.records re]
    by (simp add: same_lifecycle_def)
  ultimately show ?thesis using lifecycle_inv_cong [of d' d1] by (simp add: same_lifecycle_def)
qed

lemma commit_command_business:
  assumes run: "commit_command sha request plan d = Inr (result, d')" and inv: "business_inv sha d"
  shows "business_inv sha d'"
proof -
  have "registry_inv d'" using keepsD [OF registry.command run] inv by (simp add: keeps_registry_def business_inv_def)
  moreover have "lifecycle_inv d'" using commit_command_lifecycle [OF run] inv by (simp add: business_inv_def)
  moreover have "chain_inv d'" using commit_command_chain [OF run] inv by (simp add: business_inv_def)
  moreover have "event_inv sha d'" using commit_command_events [OF run] inv by (simp add: business_inv_def)
  ultimately show ?thesis by (simp add: business_inv_def)
qed

lemma new_inputs_Inr:
  assumes "new_inputs d d'"
  shows "sealed_stay d d'" "states d' = states d" "transitions d' = transitions d"
    "projections d' = projections d" "guardians d' = guardians d" "scouts d' = scouts d"
    "commits d' = commits d" "events d' = events d" "event_versions d' = event_versions d"
    "event_projections d' = event_projections d" "threshold_versions d' = threshold_versions d"
    "threshold_entries d' = threshold_entries d" "activations d' = activations d"
    "activation_evidence d' = activation_evidence d" "deliveries d' = deliveries d" "attempts d' = attempts d"
proof -
  obtain ss qs ls ms bs es cs ts fs os where d': "d' = d\<lparr>snapshots := ss, qualities := qs, limitations := ls,
       manifests := ms, bundles := bs, reference_entries := es, capabilities := cs, quotes := ts,
       artifact_files := fs, artifact_objects := os\<rparr>"
    using assms unfolding new_inputs_def by blast
  show "sealed_stay d d'" using assms by (simp add: new_inputs_def)
  show "states d' = states d" "transitions d' = transitions d"
    "projections d' = projections d" "guardians d' = guardians d" "scouts d' = scouts d"
    "commits d' = commits d" "events d' = events d" "event_versions d' = event_versions d"
    "event_projections d' = event_projections d" "threshold_versions d' = threshold_versions d"
    "threshold_entries d' = threshold_entries d" "activations d' = activations d"
    "activation_evidence d' = activation_evidence d" "deliveries d' = deliveries d" "attempts d' = attempts d"
    by (simp_all add: d')
qed

lemma delivery_inv_cong:
  "deliveries d' = deliveries d \<Longrightarrow> attempts d' = attempts d \<Longrightarrow> delivery_inv limit d' = delivery_inv limit d"
  by (simp add: delivery_inv_def delivery_row_inv_def attempts_of_def)

lemma sealed_stay_refl: "snapshots d' = snapshots d \<Longrightarrow> sealed_stay d d'"
  by (simp add: sealed_stay_def)

lemma market_step_keeps:
  assumes "market_step sha limit s s'" and "market_inv sha limit s"
  shows "market_inv sha limit s'"
  using assms
proof (induction rule: market_step.induct)
  case (market_worker s w)
  have b: "same_business (market_db s) (sy_db w)"
    using worker_step_business [OF market_worker(1)] by (simp add: market_db_def)
  have "business_inv sha (sy_db w)"
    by (rule business_cong [of "market_db s"])
      (use b market_worker(2) in \<open>simp_all add: same_business_def sealed_stay_refl market_inv_def\<close>)
  then show ?case
    using worker_step_keeps [OF market_worker(1)] market_worker(2) by (simp add: market_inv_def market_db_def)
next
  case (market_service s d')
  note q = service_step_quiet [OF market_service(1)]
  have "business_inv sha d'"
    using market_invD(1) [OF market_service(2)] quiet_keeps(1-3) [OF q] service_step_registry [OF market_service(1)]
    by (simp add: business_inv_def keeps_registry_def)
  then show ?case
    by (rule market_inv_with_db [OF market_service(2) _ quiet_keeps(4) [OF q market_invD(2) [OF market_service(2)]]])
next
  case (market_inputs s d')
  note same = new_inputs_Inr [OF market_inputs(1)]
  have "business_inv sha d'" by (rule business_cong [OF same(1-14) market_invD(1) [OF market_inputs(2)]])
  moreover have "delivery_inv limit d'"
    using market_invD(2) [OF market_inputs(2)] unfolding delivery_inv_cong [OF same(15,16)] .
  ultimately show ?case by (rule market_inv_with_db [OF market_inputs(2)])
next
  case (market_prepare request s plan)
  then show ?case by (simp add: market_inv_def market_db_def)
next
  case (market_commit request plan s result d')
  have "business_inv sha d'"
    by (rule commit_command_business [OF market_commit(2) market_invD(1) [OF market_commit(3)]])
  moreover have "delivery_inv limit d'"
    using keepsD [OF delivering.command market_commit(2)] market_invD(2) [OF market_commit(3)]
    by (simp add: keeps_delivery_def)
  ultimately show ?case by (rule market_inv_with_db [OF market_commit(3)])
qed

lemma market_steps_keep:
  assumes "(market_step sha limit)\<^sup>*\<^sup>* s s'" and "market_inv sha limit s"
  shows "market_inv sha limit s'"
  using assms by (induction rule: rtranclp_induct) (auto intro: market_step_keeps)

end
