(* ===== verification/Market_Theorems.thy ===== *)
theory Market_Theorems
  imports Market
begin

text \<open>
  What holds in every state the interleaved components reach from a well-formed one. An empty
  database is well formed (\<open>market_inv_fresh\<close>), and so is the sample market of the witnesses.
\<close>

section \<open>Well-formed starts\<close>

lemma market_inv_fresh:
  assumes "0 < limit"
  shows "market_inv sha limit \<lparr>mk_workers = \<lparr>sy_db = empty_db, sy_now = t, sy_claims = []\<rparr>, mk_plans = []\<rparr>"
  using assms
  by (simp add: market_inv_def business_inv_def system_inv_def market_db_def registry_inv_def lifecycle_inv_def
      chain_inv_def event_inv_def delivery_inv_def history_def official_states_def empty_db_def)

definition sample_start :: market where
  "sample_start = \<lparr>mk_workers = \<lparr>sy_db = sample_market, sy_now = 9, sy_claims = []\<rparr>, mk_plans = []\<rparr>"

lemma sample_market_registry: "registry_inv sample_market"
  by (auto simp: registry_inv_def sample_market_def sample_defs sample_entries_def sample_activations_def
      activation_backed_def activation_has_evidence_def approved_statuses_def)

lemma sample_start_inv: "market_inv sha 3 sample_start"
  using sample_market_registry
  by (simp add: market_inv_def business_inv_def system_inv_def market_db_def sample_start_def lifecycle_inv_def
      chain_inv_def event_inv_def delivery_inv_def history_def official_states_def sample_market_def sample_defs)

lemma sample_run:
  obtains s' where "(market_step sample_hash 3)\<^sup>*\<^sup>* sample_start s'" "length (commits (market_db s')) = 1"
    "length (projections (market_db s')) = 1" "length (events (market_db s')) = 1"
    "length (deliveries (market_db s')) = 1"
proof -
  let ?s = "sample_start\<lparr>mk_plans := [(sample_request, sample_plan)]\<rparr>"
  have db: "market_db sample_start = sample_market" "market_db ?s = sample_market"
    by (simp_all add: market_db_def sample_start_def)
  obtain r d' where run: "commit_command sample_hash sample_request sample_plan sample_market = Inr (r, d')"
    and rows: "length (commits d') = 1" "length (projections d') = 1" "length (events d') = 1" "length (deliveries d') = 1"
    using sample_command by blast
  have "market_step sample_hash 3 sample_start ?s"
    using market_prepare [of sample_hash sample_request sample_start sample_plan 3] sample_prepares
    by (simp add: db) (simp add: sample_start_def)
  moreover have "market_step sample_hash 3 ?s (with_db d' ?s)"
    by (rule market_commit) (use run in \<open>simp_all add: db\<close>)
  ultimately have "(market_step sample_hash 3)\<^sup>*\<^sup>* sample_start (with_db d' ?s)"
    by (meson rtranclp.rtrancl_refl rtranclp.rtrancl_into_rtrancl)
  then show thesis by (rule that) (simp_all add: rows)
qed

section \<open>The lifecycle\<close>

text \<open>C25: in every state the interleaved components reach, a subject has one projection; the history of
  its transitions is a path of the lifecycle state machine from its first state, the projection's last
  valid state is the end of that path, an effective state is that end, and the projection's version
  counts the OFFICIAL evaluations of the subject. A subject without projection has no OFFICIAL
  evaluation.\<close>

theorem lifecycle_reachable:
  assumes "(market_step sha limit)\<^sup>*\<^sup>* s s'" and "market_inv sha limit s"
  shows "distinct (map pr_subject (projections (market_db s'))) \<and>
    (\<forall>x. path_from None (history x (market_db s'))) \<and>
    (\<forall>p \<in> set (projections (market_db s')).
      pr_last_valid p = end_of None (history (pr_subject p) (market_db s')) \<and>
      (pr_effective p = None \<or> pr_effective p = pr_last_valid p) \<and>
      pr_version p = int (length (official_states (pr_subject p) (market_db s')))) \<and>
    (\<forall>x. x \<in> pr_subject ` set (projections (market_db s')) \<or> official_states x (market_db s') = [])"
proof -
  have "lifecycle_inv (market_db s')"
    using market_invD(1) [OF market_steps_keep [OF assms]] by (simp add: business_inv_def)
  then show ?thesis unfolding lifecycle_inv_def projection_inv_def by blast
qed

theorem lifecycle_reachable_witness:
  "\<exists>s'. (market_step sample_hash 3)\<^sup>*\<^sup>* sample_start s' \<and> length (projections (market_db s')) = 1 \<and>
    (\<forall>p \<in> set (projections (market_db s')).
      pr_version p = int (length (official_states (pr_subject p) (market_db s'))))"
  by (rule sample_run) (use lifecycle_reachable [OF _ sample_start_inv] in blast)

section \<open>Commits\<close>

text \<open>C26: in every reachable state each snapshot is committed at most once, and each commit names a
  SEALED and OFFICIAL snapshot, an OFFICIAL state evaluation of that snapshot and its subject, a Guardian
  evaluation of that state whose blocking flag says whether its effect is SUPPRESS or PAUSE, and a Scout
  evaluation that copied the Guardian's effect and is suppressed exactly when the Guardian blocks.\<close>

theorem commits_reachable:
  assumes "(market_step sha limit)\<^sup>*\<^sup>* s s'" and "market_inv sha limit s"
  shows "distinct (map ac_snapshot (commits (market_db s'))) \<and>
    (\<forall>c \<in> set (commits (market_db s')).
      \<exists>n \<in> set (snapshots (market_db s')). \<exists>e \<in> set (states (market_db s')).
      \<exists>g \<in> set (guardians (market_db s')). \<exists>w \<in> set (scouts (market_db s')).
        snap_uid n = ac_snapshot c \<and> snap_status n = ''SEALED'' \<and> snap_disposition n = ''OFFICIAL'' \<and>
        se_uid e = ac_state c \<and> se_snapshot e = snap_uid n \<and> se_subject e = snap_subject n \<and>
        se_disposition e = ''OFFICIAL'' \<and>
        g_uid g = ac_guardian c \<and> g_state g = se_uid e \<and> g_blocking g = (g_effect g \<in> {SUPPRESS, PAUSE}) \<and>
        s_uid w = ac_scout c \<and> s_guardian w = g_uid g \<and> s_effect w = g_effect g \<and>
        s_suppressed w = g_blocking g)"
proof -
  have inv: "chain_inv (market_db s')"
    using market_invD(1) [OF market_steps_keep [OF assms]] by (simp add: business_inv_def)
  then have chain: "\<forall>c \<in> set (commits (market_db s')). chained (market_db s') c"
    by (simp add: chain_inv_def)
  have "distinct (map ac_snapshot (commits (market_db s')))" using inv by (simp add: chain_inv_def)
  then show ?thesis
    using chain unfolding chained_def
    by (elim conjI) (rule ballI, drule (1) bspec, elim bexE, intro bexI, auto)
qed

theorem commits_reachable_witness:
  "\<exists>s'. (market_step sample_hash 3)\<^sup>*\<^sup>* sample_start s' \<and> length (commits (market_db s')) = 1 \<and>
    (\<forall>c \<in> set (commits (market_db s')). \<exists>n \<in> set (snapshots (market_db s')). snap_status n = ''SEALED'')"
  by (rule sample_run) (use commits_reachable [OF _ sample_start_inv] in blast)

section \<open>Events\<close>

text \<open>On one database.\<close>

lemma open_event_unique:
  assumes inv: "event_inv sha d" and e: "e \<in> set (events d)" "event_open d e"
    and f: "f \<in> set (events d)" "event_open d f" and same: "ev_subject e = ev_subject f" "ev_kind e = ev_kind f"
  shows "e = f"
proof -
  have ok: "event_ok sha d e" "event_ok sha d f" using inv e(1) f(1) by (simp_all add: event_inv_def)
  obtain p where p: "p \<in> set (event_projections d)" "ep_related p = ev_related e" "ep_event p = ev_uid e"
    using ok(1) e(2) by (auto simp: event_ok_def)
  have "ev_related f = ep_related p" using ok same p(2) by (simp add: event_ok_def)
  then have "ep_event p = ev_uid f" using open_event_current(1) [OF inv f _ p(1)] by simp
  then show ?thesis using event_inv_unique(2) [OF inv e(1) f(1)] p(3) by simp
qed

lemma projection_shows:
  assumes "event_inv sha d" and "p \<in> set (event_projections d)"
  shows "\<exists>e \<in> set (events d). ev_uid e = ep_event p \<and> ep_related p = related_key sha (ev_subject e) (ev_kind e) \<and>
      (let v = last (versions_of (ev_uid e) d) in
         vv_uid v = ep_version_uid p \<and> vv_status v = ep_status p \<and> vv_version v = ep_version p)"
proof -
  obtain e where e: "e \<in> set (events d)" "ev_uid e = ep_event p" "ev_related e = ep_related p"
    and last: "shows_last d p"
    using assms by (auto simp: event_inv_def shows_last_def)
  have "event_ok sha d e" using assms(1) e(1) by (simp add: event_inv_def)
  then show ?thesis using e last by (intro bexI [OF _ e(1)]) (simp add: shows_last_def event_ok_def Let_def)
qed

text \<open>C27: in every reachable state the versions of an event are numbered from one without gaps and only
  the last one can be other than ACTIVE; at most one event of a subject and kind is open; and the current
  projection of a subject and kind shows the last version of one of its events, with its status and
  number.\<close>

theorem events_reachable:
  assumes "(market_step sha limit)\<^sup>*\<^sup>* s s'" and "market_inv sha limit s"
  shows "(\<forall>e \<in> set (events (market_db s')).
      map vv_version (versions_of (ev_uid e) (market_db s')) =
        [1..int (length (versions_of (ev_uid e) (market_db s')))] \<and>
      versions_of (ev_uid e) (market_db s') \<noteq> [] \<and>
      set (map vv_status (butlast (versions_of (ev_uid e) (market_db s')))) \<subseteq> {''ACTIVE''}) \<and>
    (\<forall>e f. e \<in> set (events (market_db s')) \<and> f \<in> set (events (market_db s')) \<and>
      event_open (market_db s') e \<and> event_open (market_db s') f \<and>
      ev_subject e = ev_subject f \<and> ev_kind e = ev_kind f \<longrightarrow> e = f) \<and>
    (\<forall>p \<in> set (event_projections (market_db s')). \<exists>e \<in> set (events (market_db s')).
      ev_uid e = ep_event p \<and> ep_related p = related_key sha (ev_subject e) (ev_kind e) \<and>
      (let v = last (versions_of (ev_uid e) (market_db s')) in
         vv_uid v = ep_version_uid p \<and> vv_status v = ep_status p \<and> vv_version v = ep_version p))"
proof -
  have inv: "event_inv sha (market_db s')"
    using market_invD(1) [OF market_steps_keep [OF assms]] by (simp add: business_inv_def)
  then have "event_ok sha (market_db s') e" if "e \<in> set (events (market_db s'))" for e
    using that by (simp add: event_inv_def)
  then show ?thesis
    using open_event_unique [OF inv] projection_shows [OF inv]
    by (intro conjI ballI allI impI) (simp_all add: event_ok_def)
qed

theorem events_reachable_witness:
  "\<exists>s'. (market_step sample_hash 3)\<^sup>*\<^sup>* sample_start s' \<and> length (events (market_db s')) = 1 \<and>
    (\<forall>e \<in> set (events (market_db s')). versions_of (ev_uid e) (market_db s') \<noteq> [])"
  by (rule sample_run) (use events_reachable [OF _ sample_start_inv] in blast)

end
