(* ===== verification/Delivery_Protocol.thy ===== *)
theory Delivery_Protocol
  imports Market_Theorems
begin

text \<open>
  The abstract protocol of a delivery and the refinement: the worker's SQL (\<open>notifications/worker.py\<close>,
  \<open>recovery.py\<close>) only moves a delivery along the automaton \<open>delivery_move\<close>, whatever the interleaving
  of workers, crashes, restores and commits. The second part is progress: a due intent is processed,
  and repeating \<open>run_once\<close> comes to rest.
\<close>

section \<open>The protocol\<close>

type_synonym phase = "string \<times> int"

inductive delivery_move :: "int \<Rightarrow> phase \<Rightarrow> phase \<Rightarrow> bool" for limit :: int where
  move_lease: "status \<in> set open_statuses \<Longrightarrow> delivery_move limit (status, n) (''PROCESSING'', n)"
| move_retry: "n + 1 < limit \<Longrightarrow> delivery_move limit (''PROCESSING'', n) (''RETRY_WAIT'', n + 1)"
| move_delivered: "delivery_move limit (''PROCESSING'', n) (''DELIVERED'', n + 1)"
| move_failed: "delivery_move limit (''PROCESSING'', n) (''FAILED'', n + 1)"
| move_expired: "status \<in> set open_statuses \<Longrightarrow> delivery_move limit (status, n) (''EXPIRED'', n)"
| move_cancelled: "status \<in> set open_statuses \<Longrightarrow> delivery_move limit (status, n) (''CANCELLED'', n)"

inductive_cases delivery_moveE: "delivery_move limit p q"

lemma final_stays:
  assumes "(delivery_move limit)\<^sup>*\<^sup>* p q" and "fst p \<notin> set open_statuses"
  shows "q = p"
  using assms
proof (induction rule: rtranclp_induct)
  case (step y z)
  then show ?case by (auto elim!: delivery_moveE simp: open_statuses_def)
qed simp

definition phase_of :: "delivery_row \<Rightarrow> phase" where
  "phase_of r = (dl_status r, dl_attempts r)"

text \<open>The abstraction: the phase of each intent's delivery.\<close>

definition phases :: "db \<Rightarrow> string \<rightharpoonup> phase" where
  "phases d = map_of (map (\<lambda>r. (dl_intent r, phase_of r)) (deliveries d))"

definition protocol :: "int \<Rightarrow> (string \<rightharpoonup> phase) \<Rightarrow> (string \<rightharpoonup> phase) \<Rightarrow> bool" where
  "protocol limit a b \<longleftrightarrow> (\<forall>x. case a x of
     None \<Rightarrow> b x = None \<or> (\<exists>q. b x = Some q \<and> (delivery_move limit)\<^sup>*\<^sup>* (''PENDING'', 0) q)
   | Some p \<Rightarrow> (\<exists>q. b x = Some q \<and> (delivery_move limit)\<^sup>*\<^sup>* p q))"

lemma protocol_refl: "protocol limit a a"
  by (simp add: protocol_def split: option.split)

lemma protocol_trans: "protocol limit a b \<Longrightarrow> protocol limit b c \<Longrightarrow> protocol limit a c"
  unfolding protocol_def
proof (rule allI)
  fix x
  assume ab: "\<forall>x. case a x of None \<Rightarrow> b x = None \<or> (\<exists>q. b x = Some q \<and> (delivery_move limit)\<^sup>*\<^sup>* (''PENDING'', 0) q)
      | Some p \<Rightarrow> \<exists>q. b x = Some q \<and> (delivery_move limit)\<^sup>*\<^sup>* p q"
    and bc: "\<forall>x. case b x of None \<Rightarrow> c x = None \<or> (\<exists>q. c x = Some q \<and> (delivery_move limit)\<^sup>*\<^sup>* (''PENDING'', 0) q)
      | Some p \<Rightarrow> \<exists>q. c x = Some q \<and> (delivery_move limit)\<^sup>*\<^sup>* p q"
  show "case a x of None \<Rightarrow> c x = None \<or> (\<exists>q. c x = Some q \<and> (delivery_move limit)\<^sup>*\<^sup>* (''PENDING'', 0) q)
      | Some p \<Rightarrow> \<exists>q. c x = Some q \<and> (delivery_move limit)\<^sup>*\<^sup>* p q"
    using spec [OF ab, of x] spec [OF bc, of x]
    by (cases "a x"; cases "b x") (auto intro: rtranclp_trans)
qed

text \<open>Rewriting rows along the automaton follows the protocol; a new pending row does too.\<close>

lemma map_of_rows:
  "map_of (map (\<lambda>r. (k r, h r)) rs) x = Some p \<Longrightarrow>
    \<exists>r \<in> set rs. k r = x \<and> h r = p \<and> map_of (map (\<lambda>r. (k r, g r)) rs) x = Some (g r)"
  by (induction rs) (auto split: if_splits)

lemma protocol_map:
  assumes d': "deliveries d' = map f (deliveries d)" and id: "\<And>r. dl_intent (f r) = dl_intent r"
    and move: "\<And>r. r \<in> set (deliveries d) \<Longrightarrow> (delivery_move limit)\<^sup>*\<^sup>* (phase_of r) (phase_of (f r))"
  shows "protocol limit (phases d) (phases d')"
  unfolding protocol_def
proof
  fix x
  have new: "phases d' = map_of (map (\<lambda>r. (dl_intent r, phase_of (f r))) (deliveries d))"
    by (simp add: phases_def d' id comp_def)
  show "case phases d x of
      None \<Rightarrow> phases d' x = None \<or> (\<exists>q. phases d' x = Some q \<and> (delivery_move limit)\<^sup>*\<^sup>* (''PENDING'', 0) q)
    | Some p \<Rightarrow> \<exists>q. phases d' x = Some q \<and> (delivery_move limit)\<^sup>*\<^sup>* p q"
  proof (cases "phases d x")
    case None
    then have "phases d' x = None" unfolding new phases_def [of d] by (force simp: map_of_eq_None_iff)
    then show ?thesis using None by simp
  next
    case (Some p)
    note map_of_rows [OF this [unfolded phases_def], where g = "\<lambda>r. phase_of (f r)", folded new]
    then obtain r where "r \<in> set (deliveries d)" "phase_of r = p" "phases d' x = Some (phase_of (f r))"
      by blast
    then show ?thesis using Some move by auto
  qed
qed

lemma protocol_same: "deliveries d' = deliveries d \<Longrightarrow> protocol limit (phases d) (phases d')"
  by (simp add: phases_def protocol_refl)

lemma open_leased: "dl_status r \<in> set open_statuses \<Longrightarrow>
    (delivery_move limit)\<^sup>*\<^sup>* (phase_of r) (phase_of (lease_row c now r))"
  by (rule r_into_rtranclp) (simp add: phase_of_def lease_row_def move_lease)

lemma open_expired: "dl_status r \<in> set open_statuses \<Longrightarrow>
    (delivery_move limit)\<^sup>*\<^sup>* (phase_of r) (phase_of (expire_delivery now r))"
  by (rule r_into_rtranclp) (simp add: phase_of_def expire_delivery_def move_expired)

lemma open_cancelled: "dl_status r \<in> set open_statuses \<Longrightarrow>
    (delivery_move limit)\<^sup>*\<^sup>* (phase_of r) (phase_of (cancel_delivery now r))"
  by (rule r_into_rtranclp) (simp add: phase_of_def cancel_delivery_def move_cancelled)

lemma processing_finished:
  assumes "attempt_status c outcome (dl_attempts r + 1) t = (status, out, next_at)"
    and "dl_status r = ''PROCESSING''"
  shows "(delivery_move (wc_max_attempts c))\<^sup>*\<^sup>* (phase_of r)
    (phase_of (finished_row status (dl_attempts r + 1) next_at err t r))"
  using assms
  by (intro r_into_rtranclp)
    (auto simp: phase_of_def finished_row_def attempt_status_def split: if_splits
      intro: delivery_move.intros)

text \<open>An update of the one open row of an intent.\<close>

lemma update_follows:
  assumes upd: "update_delivery x v f d = Inr (n, d')" and inv: "delivery_inv limit d"
    and r: "r \<in> set (deliveries d)" "dl_intent r = x"
    and f: "\<And>r. dl_intent (f r) = dl_intent r" "(delivery_move limit)\<^sup>*\<^sup>* (phase_of r) (phase_of (f r))"
  shows "protocol limit (phases d) (phases d')"
proof (rule protocol_map)
  let ?f = "\<lambda>r. if dl_intent r = x \<and> dl_version r = v then f r else r"
  show "deliveries d' = map ?f (deliveries d)" using update_delivery_Inr [OF upd] by simp
  show "dl_intent (?f q) = dl_intent q" for q using f(1) by simp
  show "(delivery_move limit)\<^sup>*\<^sup>* (phase_of q) (phase_of (?f q))" if "q \<in> set (deliveries d)" for q
    using unique_delivery [OF inv that r(1)] r(2) f(2) by auto
qed

lemma claim_follows:
  assumes run: "claim_intent c now d = Inr (res, d')" and inv: "delivery_inv limit d"
  shows "protocol limit (phases d) (phases d')"
proof -
  obtain g where rest: "(if \<not> is_normal d g then returnC None
     else bindC (expire_due now) (\<lambda>_. bindC (getC (claimable now g)) (\<lambda>rows. lease_first c now g rows))) d =
      Inr (res, d')"
    using run by (auto simp: claim_intent_def bindC_eq_Inr readC_eq getC_eq)
  show ?thesis
  proof (cases "is_normal d g")
    case False
    then show ?thesis using rest by (auto simp: returnC_eq protocol_refl)
  next
    case True
    then obtain d1 where e: "expire_due now d = Inr ((), d1)"
      and l: "lease_first c now g (claimable now g d1) d1 = Inr (res, d')"
      using rest by (auto simp: bindC_eq_Inr getC_eq)
    have "protocol limit (phases d) (phases d1)"
      by (rule protocol_map [where f = "\<lambda>r. if dl_status r \<in> set open_statuses \<and>
          list_ex (\<lambda>i. in_uid i = dl_intent r \<and> in_expires i \<le> now) (intents d)
        then expire_delivery now r else r"])
        (use e open_expired in \<open>auto simp: expire_due_def execC_eq expire_delivery_def\<close>)
    moreover have "protocol limit (phases d1) (phases d')"
    proof (cases "claimable now g d1")
      case Nil
      then show ?thesis using l by (simp add: lease_first_def returnC_eq protocol_refl)
    next
      case (Cons p ps)
      obtain i r where p: "p = (i, r)" by (cases p)
      have "(i, r) \<in> set (claimable now g d1)" using Cons p by simp
      note row = claimable_row [OF this]
      obtain n where u: "update_delivery (in_uid i) (dl_version r) (lease_row c now) d1 = Inr (n, d')"
        using l Cons p by (auto simp: lease_first_def bindC_eq_Inr returnC_eq)
      show ?thesis
        by (rule update_follows [OF u expire_due_Inr(1) [OF e inv] row(2,3)])
          (simp_all add: lease_row_def [of _ _ r for r] open_leased [unfolded lease_row_def] due_is_open [OF row(4)])
    qed
    ultimately show ?thesis by (rule protocol_trans)
  qed
qed

lemma finish_follows:
  assumes run: "finish_delivery c claim outcome started completed d = Inr (b, d')"
    and inv: "delivery_inv (wc_max_attempts c) d"
  shows "protocol (wc_max_attempts c) (phases d) (phases d')"
  using run
proof (cases rule: finish_delivery_cases)
  case 1
  then show ?thesis by (simp add: protocol_refl)
next
  case (2 r i u)
  note r = delivery_join_unique [OF inv 2(4)]
  obtain status out next_at a d1 n where
    st: "attempt_status c outcome (dl_attempts r + 1) completed = (status, out, next_at)"
    and d1: "deliveries d1 = deliveries d"
    and upd: "update_delivery (dm_intent (cl_message claim)) (dl_version r)
      (finished_row status (dl_attempts r + 1) next_at (dr_error outcome) completed) d1 = Inr (n, d')"
    using 2(6) by (rule record_attempt_Inr) blast
  let ?x = "dm_intent (cl_message claim)"
  let ?row = "finished_row status (dl_attempts r + 1) next_at (dr_error outcome) completed"
  have proc: "dl_status r = ''PROCESSING''" using 2(5) by (simp add: holds_claim_def)
  show ?thesis
  proof (rule protocol_map)
    let ?f = "\<lambda>q. if dl_intent q = ?x \<and> dl_version q = dl_version r then ?row q else q"
    show "deliveries d' = map ?f (deliveries d)" using update_delivery_Inr [OF upd] d1 by simp
    show "dl_intent (?f q) = dl_intent q" for q by (simp add: finished_row_def)
    show "(delivery_move (wc_max_attempts c))\<^sup>*\<^sup>* (phase_of q) (phase_of (?f q))" if "q \<in> set (deliveries d)" for q
      using unique_delivery [OF inv that r(1)] r(2) processing_finished [OF st proc] by auto
  qed
qed

lemma emit_follows:
  assumes run: "emit_intent sha src v k f ch d = Inr (u, d')"
  shows "protocol limit (phases d) (phases d')"
proof -
  obtain r where r: "deliveries d' = deliveries d @ [r]" "phase_of r = (''PENDING'', 0)"
    using run by (auto simp: emit_intent_def insert_intent_def insert_delivery_def result_simps phase_of_def)
  show ?thesis
    unfolding protocol_def phases_def r(1) by (auto simp: map_add_def r(2) split: option.split)
qed

lemma restore_follows:
  assumes run: "advance_restore_generation sha t d = Inr (x, d')"
  shows "protocol limit (phases d) (phases d')"
proof (rule protocol_map)
  let ?f = "\<lambda>r. if dl_status r \<in> set open_statuses then cancel_delivery t r else r"
  obtain g n where "x = (g, n)" by (cases x)
  then show "deliveries d' = map ?f (deliveries d)" using advance_restore_Inr [of sha t d g n d'] run by auto
  show "dl_intent (?f q) = dl_intent q" for q by (simp add: cancel_delivery_def)
  show "(delivery_move limit)\<^sup>*\<^sup>* (phase_of q) (phase_of (?f q))" for q using open_cancelled by simp
qed

section \<open>The refinement\<close>

definition tracks :: "int \<Rightarrow> db \<Rightarrow> db \<Rightarrow> bool" where
  "tracks limit d d' \<longleftrightarrow>
     (delivery_inv limit d \<longrightarrow> delivery_inv limit d' \<and> protocol limit (phases d) (phases d'))"

lemma tracksI: "deliveries d' = deliveries d \<Longrightarrow> attempts d' = attempts d \<Longrightarrow> tracks limit d d'"
  using delivery_inv_cong [of d' d limit] by (simp add: tracks_def protocol_same)

lemma tracks_order: "reflp (tracks limit)" "transp (tracks limit)"
proof -
  show "reflp (tracks limit)" by (rule reflpI) (rule tracksI, simp_all)
  show "transp (tracks limit)"
    by (rule transpI) (use protocol_trans in \<open>auto simp: tracks_def\<close>)
qed

lemma tracks_emit: "keeps (tracks limit) (emit_intent sha src v k f ch)"
  by (rule keepsI) (use emit_follows emit_intent_keeps in \<open>auto simp: tracks_def\<close>)

interpretation tracking: analysis_writes "tracks limit"
  by unfold_locales (simp_all add: tracks_order tracks_emit, (rule tracksI; simp)+)

lemma worker_step_tracks:
  assumes "worker_step limit s s'" and "system_inv limit s"
  shows "protocol limit (phases (sy_db s)) (phases (sy_db s'))"
  using assms
proof (induction rule: worker_step.induct)
  case (step_finish c claim started s outcome b d')
  then have "wc_max_attempts c = limit" by (auto simp: system_inv_def)
  then show ?case
    using step_finish finish_follows [of c claim outcome started "sy_now s" "sy_db s" b d']
    by (simp add: system_inv_def)
next
  case (step_claim c s claim d')
  then show ?case by (auto simp: system_inv_def intro: claim_follows)
next
  case (step_idle c s d')
  then show ?case by (auto simp: system_inv_def intro: claim_follows)
next
  case (step_restore sha t s x d')
  then show ?case by (simp add: restore_follows)
next
  case (step_intent sha src v k f ch s u d')
  then show ?case by (simp add: emit_follows)
qed (simp_all add: protocol_same)

lemma market_step_tracks:
  assumes "market_step sha limit s s'" and "market_inv sha limit s"
  shows "protocol limit (phases (market_db s)) (phases (market_db s'))"
  using assms
proof (induction rule: market_step.induct)
  case (market_worker s w)
  then show ?case using worker_step_tracks [of limit "mk_workers s" w] by (simp add: market_inv_def market_db_def)
next
  case (market_service s d')
  then show ?case using service_step_quiet [OF market_service(1)] by (simp add: quiet_def protocol_same)
next
  case (market_inputs s d')
  then show ?case using new_inputs_Inr(15) [OF market_inputs(1)] by (simp add: protocol_same)
next
  case (market_prepare request s plan)
  then show ?case by (simp add: market_db_def protocol_refl)
next
  case (market_commit request plan s result d')
  then show ?case
    using keepsD [OF tracking.command market_commit(2), of limit] market_invD(2) [OF market_commit(3)]
    by (simp add: tracks_def)
qed

lemma market_steps_track:
  assumes "(market_step sha limit)\<^sup>*\<^sup>* s s'" and "market_inv sha limit s"
  shows "protocol limit (phases (market_db s)) (phases (market_db s'))"
  using assms(1)
proof (induction rule: rtranclp_induct)
  case base
  then show ?case by (rule protocol_refl)
next
  case (step y z)
  have "market_inv sha limit y" using market_steps_keep [OF step(1) assms(2)] .
  then show ?case using step protocol_trans market_step_tracks by blast
qed

text \<open>C28: the database refines the delivery protocol: along any interleaving, no delivery disappears, the
  phase (status and attempt count) of each intent's delivery follows the automaton that leases, retries
  below the limit, delivers, fails, expires and cancels, and a new delivery starts pending without
  attempts; so a delivery in a final status keeps its status and its count for good.\<close>

theorem delivery_refines_protocol:
  assumes "(market_step sha limit)\<^sup>*\<^sup>* s s'" and "market_inv sha limit s"
  shows "protocol limit (phases (market_db s)) (phases (market_db s')) \<and>
    (\<forall>x p. phases (market_db s) x = Some p \<and> fst p \<notin> set open_statuses \<longrightarrow>
      phases (market_db s') x = Some p)"
proof
  show p: "protocol limit (phases (market_db s)) (phases (market_db s'))" by (rule market_steps_track [OF assms])
  show "\<forall>x p. phases (market_db s) x = Some p \<and> fst p \<notin> set open_statuses \<longrightarrow> phases (market_db s') x = Some p"
  proof (intro allI impI, elim conjE)
    fix x p assume x: "phases (market_db s) x = Some p" "fst p \<notin> set open_statuses"
    obtain q where q: "phases (market_db s') x = Some q" "(delivery_move limit)\<^sup>*\<^sup>* p q"
      using spec [OF p [unfolded protocol_def], of x] x(1) by auto
    show "phases (market_db s') x = Some p" using final_stays [OF q(2) x(2)] q(1) by simp
  qed
qed

theorem delivery_refines_protocol_witness:
  "\<exists>s'. (market_step sample_hash 3)\<^sup>*\<^sup>* sample_start s' \<and> length (deliveries (market_db s')) = 1 \<and>
    protocol 3 (phases (market_db sample_start)) (phases (market_db s'))"
  by (rule sample_run) (use delivery_refines_protocol [OF _ sample_start_inv] in blast)

section \<open>Attempts\<close>

text \<open>C29: in every reachable state the attempts of a delivery are numbered one to its count without gaps,
  the count never exceeds the worker's limit, and at most the last attempt is something else than a
  retryable failure, so nothing is delivered twice and nothing is tried after a delivery.\<close>

theorem attempts_reachable:
  assumes "(market_step sha limit)\<^sup>*\<^sup>* s s'" and "market_inv sha limit s"
  shows "\<forall>r \<in> set (deliveries (market_db s')).
    dl_attempts r \<le> limit \<and>
    map at_number (attempts_of (dl_intent r) (market_db s')) = [1..dl_attempts r] \<and>
    set (butlast (map at_outcome (attempts_of (dl_intent r) (market_db s')))) \<subseteq> {''RETRYABLE_FAILURE''} \<and>
    length (filter (\<lambda>a. at_outcome a = ''DELIVERED'') (attempts_of (dl_intent r) (market_db s'))) \<le> 1"
proof
  fix r assume r: "r \<in> set (deliveries (market_db s'))"
  have "delivery_row_inv limit (market_db s') r"
    using market_invD(2) [OF market_steps_keep [OF assms]] r by (simp add: delivery_inv_def)
  then have inv: "dl_attempts r \<le> limit" "map at_number (attempts_of (dl_intent r) (market_db s')) = [1..dl_attempts r]"
    "set (butlast (map at_outcome (attempts_of (dl_intent r) (market_db s')))) \<subseteq> {''RETRYABLE_FAILURE''}"
    by (simp_all add: delivery_row_inv_def)
  have "length (filter (\<lambda>a. at_outcome a = ''DELIVERED'') xs) \<le> 1"
    if "set (butlast (map at_outcome xs)) \<subseteq> {''RETRYABLE_FAILURE''}" for xs
    using that
  proof (cases xs rule: rev_cases)
    case (snoc ys y)
    then have "filter (\<lambda>a. at_outcome a = ''DELIVERED'') ys = []" using that by (auto simp: filter_empty_conv)
    then show ?thesis using snoc by simp
  qed simp
  then show "dl_attempts r \<le> limit \<and>
    map at_number (attempts_of (dl_intent r) (market_db s')) = [1..dl_attempts r] \<and>
    set (butlast (map at_outcome (attempts_of (dl_intent r) (market_db s')))) \<subseteq> {''RETRYABLE_FAILURE''} \<and>
    length (filter (\<lambda>a. at_outcome a = ''DELIVERED'') (attempts_of (dl_intent r) (market_db s'))) \<le> 1"
    using inv by blast
qed

theorem attempts_reachable_witness:
  "\<exists>s'. (market_step sample_hash 3)\<^sup>*\<^sup>* sample_start s' \<and> length (deliveries (market_db s')) = 1 \<and>
    (\<forall>r \<in> set (deliveries (market_db s')). dl_attempts r \<le> 3)"
  by (rule sample_run) (use attempts_reachable [OF _ sample_start_inv] in blast)

end
