(* ===== verification/Delivery_Progress.thy ===== *)
theory Delivery_Progress
  imports Delivery_Protocol
begin

text \<open>
  Progress of one worker without interference (\<open>notifications/worker.py\<close>, \<open>runtime.py\<close>): the polls of
  the delivery loop always return, and only as many of them can claim a delivery as the open
  deliveries have attempts left.
\<close>

text \<open>
  \<open>DeliveryLoop._run\<close>: one poll after the other until the loop is stopped, each with the two
  readings of the clock.
\<close>

definition delivery_loop ::
    "worker_config \<Rightarrow> (string \<rightharpoonup> (delivery_message \<Rightarrow> delivery_outcome option)) \<Rightarrow> (int \<times> int) list \<Rightarrow> bool list cmd" where
  "delivery_loop c adapters polls = mapC (\<lambda>(now, completed). run_once c adapters now completed) polls"

text \<open>Attempts left, and what a worker finds in good order.\<close>

definition attempts_left :: "int \<Rightarrow> delivery_row \<Rightarrow> nat" where
  "attempts_left limit r = (if dl_status r \<in> set open_statuses then nat (limit - dl_attempts r) else 0)"

definition budget :: "int \<Rightarrow> db \<Rightarrow> nat" where
  "budget limit d = sum_list (map (attempts_left limit) (deliveries d))"

definition worker_ready :: "int \<Rightarrow> int \<Rightarrow> db \<Rightarrow> bool" where
  "worker_ready limit g d \<longleftrightarrow>
     delivery_inv limit d \<and> list_all delivery_ok (deliveries d) \<and> distinct (map in_uid (intents d)) \<and>
     current_generation d = Inr g \<and> is_normal d g \<and>
     inj (uid_source d) \<and> at_uid ` set (attempts d) \<subseteq> uid_source d ` {..<uid_count d}"

lemma budget_map:
  assumes "\<And>r. r \<in> set (deliveries d) \<Longrightarrow> attempts_left limit (f r) \<le> attempts_left limit r"
    and "deliveries d' = map f (deliveries d)"
  shows "budget limit d' \<le> budget limit d"
  unfolding budget_def assms(2) by (simp add: comp_def) (rule sum_list_mono, rule assms(1))

lemma budget_map_less:
  assumes "\<And>r. r \<in> set (deliveries d) \<Longrightarrow> attempts_left limit (f r) \<le> attempts_left limit r"
    and "deliveries d' = map f (deliveries d)"
    and "r \<in> set (deliveries d)" and "attempts_left limit (f r) < attempts_left limit r"
  shows "budget limit d' < budget limit d"
proof -
  have "sum_list (map (\<lambda>r. attempts_left limit (f r)) rs) < sum_list (map (attempts_left limit) rs)"
    if "r \<in> set rs" "\<And>q. q \<in> set rs \<Longrightarrow> attempts_left limit (f q) \<le> attempts_left limit q" for rs
    using that
  proof (induction rs)
    case (Cons q qs)
    have "sum_list (map (\<lambda>r. attempts_left limit (f r)) qs) \<le> sum_list (map (attempts_left limit) qs)"
      using Cons.prems(2) by (intro sum_list_mono) auto
    then show ?case using Cons assms(4) by (cases "q = r") (auto simp: add_le_less_mono add_less_le_mono)
  qed simp
  then show ?thesis using assms by (simp add: budget_def comp_def)
qed

text \<open>What the row rewrites keep.\<close>

lemma rewritten_ok:
  "delivery_ok r \<Longrightarrow> delivery_ok (expire_delivery now r)"
  "delivery_ok r \<Longrightarrow> delivery_ok (lease_row c now r)"
  "delivery_ok r \<Longrightarrow> attempt_status c o' (dl_attempts r + 1) t = (status, out, next_at) \<Longrightarrow>
     delivery_ok (finished_row status (dl_attempts r + 1) next_at err t r)"
  by (auto simp: delivery_ok_def expire_delivery_def lease_row_def finished_row_def attempt_status_def
      split: if_splits)

lemma current_generation_cong: "system_metadata d' = system_metadata d \<Longrightarrow>
    current_generation d' = current_generation d \<and> is_normal d' = is_normal d"
  by (auto simp: current_generation_def is_normal_def)

lemma ready_rows:
  assumes "worker_ready limit g d" and "delivery_inv limit (d\<lparr>deliveries := rs\<rparr>)" and "list_all delivery_ok rs"
  shows "worker_ready limit g (d\<lparr>deliveries := rs\<rparr>)"
  using assms current_generation_cong [of "d\<lparr>deliveries := rs\<rparr>" d] by (simp add: worker_ready_def)

lemma expire_due_run:
  assumes ready: "worker_ready limit g d"
  shows "\<exists>d1. expire_due now d = Inr ((), d1) \<and> worker_ready limit g d1 \<and> budget limit d1 \<le> budget limit d"
proof -
  let ?f = "\<lambda>r. if dl_status r \<in> set open_statuses \<and>
      list_ex (\<lambda>i. in_uid i = dl_intent r \<and> in_expires i \<le> now) (intents d)
    then expire_delivery now r else r"
  let ?d1 = "d\<lparr>deliveries := map ?f (deliveries d)\<rparr>"
  have run: "expire_due now d = Inr ((), ?d1)" by (simp add: expire_due_def execC_def)
  have inv: "delivery_inv limit d" using ready by (simp add: worker_ready_def)
  have "budget limit ?d1 \<le> budget limit d"
    by (rule budget_map [where f = ?f]) (simp_all add: attempts_left_def expire_delivery_def open_statuses_def)
  moreover have "worker_ready limit g ?d1"
    by (rule ready_rows [OF ready expire_due_Inr(1) [OF run inv]])
      (use ready rewritten_ok(1) in \<open>auto simp: worker_ready_def list_all_iff\<close>)
  ultimately show ?thesis using run by blast
qed

text \<open>The one row and the one intent of a claim.\<close>

lemma only_row:
  assumes dist: "distinct (map dl_intent (deliveries d))" and r: "r \<in> set (deliveries d)"
  shows "filter (\<lambda>q. dl_intent q = dl_intent r) (deliveries d) = [r]"
    "filter (\<lambda>q. dl_intent q = dl_intent r \<and> dl_version q = dl_version r) (deliveries d) = [r]"
proof -
  show one: "filter (\<lambda>q. dl_intent q = dl_intent r) (deliveries d) = [r]"
    by (rule filter_unique [OF dist r])
  have "filter (\<lambda>q. dl_intent q = dl_intent r \<and> dl_version q = dl_version r) (deliveries d) =
      filter (\<lambda>q. dl_version q = dl_version r) (filter (\<lambda>q. dl_intent q = dl_intent r) (deliveries d))"
    by (simp add: conj_commute)
  then show "filter (\<lambda>q. dl_intent q = dl_intent r \<and> dl_version q = dl_version r) (deliveries d) = [r]"
    by (simp add: one)
qed

lemma update_run:
  assumes dist: "distinct (map dl_intent (deliveries d))"
    and r: "r \<in> set (deliveries d)" "dl_intent r = x" "dl_version r = v" and ok: "delivery_ok (f r)"
  shows "update_delivery x v f d =
    Inr (1, d\<lparr>deliveries := map (\<lambda>q. if q = r then f r else q) (deliveries d)\<rparr>)"
proof -
  have same: "dl_intent q = x \<and> dl_version q = v \<longleftrightarrow> q = r" if "q \<in> set (deliveries d)" for q
    using dist that r by (auto simp: distinct_map dest: inj_onD)
  have "List.length (filter (\<lambda>q. dl_intent q = x \<and> dl_version q = v) (deliveries d)) = 1"
    using only_row(2) [OF dist r(1)] by (simp add: r(2,3))
  moreover have "list_all (\<lambda>q. dl_intent q = x \<and> dl_version q = v \<longrightarrow> delivery_ok (f q)) (deliveries d)"
    using same ok by (auto simp: list_all_iff)
  moreover have "map (\<lambda>q. if dl_intent q = x \<and> dl_version q = v then f q else q) (deliveries d) =
      map (\<lambda>q. if q = r then f r else q) (deliveries d)"
    by (rule map_cong [OF refl]) (simp add: same)
  ultimately show ?thesis
    by (simp add: update_delivery_def bindC_def getC_def execC_def returnC_def)
qed

lemma delivery_inv_distinct: "delivery_inv limit d \<Longrightarrow> distinct (map dl_intent (deliveries d))"
  by (simp add: delivery_inv_def)

text \<open>The claim: nothing to do, or a lease on an open delivery of the current generation.\<close>

definition leased :: "worker_config \<Rightarrow> int \<Rightarrow> int \<Rightarrow> db \<Rightarrow> intent_row \<Rightarrow> delivery_row \<Rightarrow> db \<Rightarrow> bool" where
  "leased c now g d i r d2 \<longleftrightarrow>
     i \<in> set (intents d) \<and> r \<in> set (deliveries d) \<and> dl_intent r = in_uid i \<and> is_due now r \<and>
     in_generation i = g \<and>
     d2 = d\<lparr>deliveries := map (\<lambda>q. if q = r then lease_row c now r else q) (deliveries d)\<rparr>"

lemma claim_run:
  assumes ready: "worker_ready limit g d"
  shows "\<exists>d1. worker_ready limit g d1 \<and> budget limit d1 \<le> budget limit d \<and> expire_due now d = Inr ((), d1) \<and>
    (if claimable now g d1 = [] then claim_intent c now d = Inr (None, d1)
     else \<exists>i r d2. leased c now g d1 i r d2 \<and> (i, r) = hd (claimable now g d1) \<and>
       claim_intent c now d = Inr (Some \<lparr>cl_message = \<lparr>dm_intent = in_uid i, dm_key = in_key i,
         dm_channel = in_channel i, dm_context = in_context i\<rparr>, cl_generation = g\<rparr>, d2))"
proof -
  obtain d1 where e: "expire_due now d = Inr ((), d1)" and r1: "worker_ready limit g d1"
    and b: "budget limit d1 \<le> budget limit d"
    using expire_due_run [OF ready] by blast
  have gen: "current_generation d = Inr g" "is_normal d g" using ready by (simp_all add: worker_ready_def)
  have claim: "claim_intent c now d = lease_first c now g (claimable now g d1) d1"
    by (simp add: claim_intent_def bindC_def readC_def getC_def gen e)
  show ?thesis
  proof (cases "claimable now g d1")
    case Nil
    then show ?thesis using r1 b e claim by (intro exI [of _ d1]) (simp add: lease_first_def returnC_def)
  next
    case (Cons p ps)
    obtain i r where p: "p = (i, r)" by (cases p)
    have "(i, r) \<in> set (claimable now g d1)" using Cons p by simp
    note row = claimable_row [OF this]
    have inv: "delivery_inv limit d1" and ok: "delivery_ok r"
      using r1 row(2) by (simp_all add: worker_ready_def list_all_iff)
    note upd = update_run [where f = "lease_row c now", OF delivery_inv_distinct [OF inv] row(2,3) refl rewritten_ok(2) [OF ok]]
    let ?d2 = "d1\<lparr>deliveries := map (\<lambda>q. if q = r then lease_row c now r else q) (deliveries d1)\<rparr>"
    have "claim_intent c now d = Inr (Some \<lparr>cl_message = \<lparr>dm_intent = in_uid i, dm_key = in_key i,
         dm_channel = in_channel i, dm_context = in_context i\<rparr>, cl_generation = g\<rparr>, ?d2)"
      by (simp add: claim Cons p lease_first_def bindC_def upd returnC_def)
    moreover have "leased c now g d1 i r ?d2" using row by (simp add: leased_def)
    ultimately show ?thesis using r1 b e Cons p by (intro exI [of _ d1]) auto
  qed
qed

lemma leased_ready:
  assumes l: "leased c now g d i r d2" and ready: "worker_ready limit g d"
  shows "worker_ready limit g d2" "lease_row c now r \<in> set (deliveries d2)"
    "dl_intent (lease_row c now r) = in_uid i" "intents d2 = intents d" "i \<in> set (intents d2)"
    "budget limit d2 \<le> budget limit d"
proof -
  have inv: "delivery_inv limit d" and ok: "delivery_ok r" and r: "r \<in> set (deliveries d)" "dl_intent r = in_uid i"
    and opn: "dl_status r \<in> set open_statuses"
    using l ready due_is_open by (auto simp: worker_ready_def list_all_iff leased_def)
  have upd: "update_delivery (in_uid i) (dl_version r) (lease_row c now) d = Inr (1, d2)"
    using update_run [where f = "lease_row c now", OF delivery_inv_distinct [OF inv] r refl rewritten_ok(2) [OF ok]] l by (simp add: leased_def)
  have d2: "d2 = d\<lparr>deliveries := map (\<lambda>q. if q = r then lease_row c now r else q) (deliveries d)\<rparr>"
    using l by (simp add: leased_def)
  have "delivery_row_inv limit d r" using inv r(1) by (simp add: delivery_inv_def)
  then have inv2: "delivery_inv limit d2"
    using update_delivery_keeps(1) [OF upd inv r opn _ leased_inv [OF _ opn]] by (simp add: lease_row_def)
  show "worker_ready limit g d2"
    unfolding d2
    by (rule ready_rows [OF ready inv2 [unfolded d2]])
      (use ready ok rewritten_ok(2) in \<open>auto simp: worker_ready_def list_all_iff\<close>)
  show "lease_row c now r \<in> set (deliveries d2)" using r(1) by (simp add: d2 image_iff)
  show "dl_intent (lease_row c now r) = in_uid i" using r(2) by (simp add: lease_row_def)
  show "intents d2 = intents d" "i \<in> set (intents d2)" using l by (auto simp: leased_def)
  show "budget limit d2 \<le> budget limit d"
    by (rule budget_map [where f = "\<lambda>q. if q = r then lease_row c now r else q"])
      (use opn in \<open>auto simp: d2 attempts_left_def lease_row_def\<close>)
qed

text \<open>The second transaction: the claim still holds and the attempt is recorded.\<close>

lemma leased_join:
  assumes l: "leased c now g d i r d2" and ready: "worker_ready limit g d"
  shows "one_or_none (delivery_join d2 (in_uid i)) = Inr (Some (lease_row c now r, i))"
    "in_generation i = g \<Longrightarrow> holds_claim c claim (lease_row c now r, i) \<longleftrightarrow> cl_generation claim = g"
proof -
  note l2 = leased_ready [OF l ready]
  have dist: "distinct (map dl_intent (deliveries d2))" "distinct (map in_uid (intents d2))"
    using l2(1) delivery_inv_distinct by (auto simp: worker_ready_def)
  have "delivery_join d2 (in_uid i) = [(lease_row c now r, i)]"
    using only_row(1) [OF dist(1) l2(2)] filter_unique [OF dist(2) l2(5)] l2(3) by (simp add: delivery_join_def)
  then show "one_or_none (delivery_join d2 (in_uid i)) = Inr (Some (lease_row c now r, i))"
    by (simp add: one_or_none_def)
  show "in_generation i = g \<Longrightarrow> holds_claim c claim (lease_row c now r, i) \<longleftrightarrow> cl_generation claim = g"
    by (auto simp: holds_claim_def lease_row_def)
qed

lemma record_attempt_run:
  assumes ready: "worker_ready limit g d" and r: "r \<in> set (deliveries d)" "dl_status r = ''PROCESSING''"
    and x: "dl_intent r = x" "x \<in> in_uid ` set (intents d)" and c: "wc_max_attempts c = limit"
  shows "\<exists>d'. record_attempt c x r outcome started completed d = Inr ((), d') \<and>
    list_all delivery_ok (deliveries d') \<and> budget limit d' < budget limit d \<and>
    intents d' = intents d \<and> system_metadata d' = system_metadata d \<and> uid_source d' = uid_source d \<and>
    at_uid ` set (attempts d') \<subseteq> uid_source d' ` {..<uid_count d'} \<and>
    (\<exists>a. attempts d' = attempts d @ [a] \<and> at_intent a = x)"
proof -
  obtain status out next_at where
    st: "attempt_status c outcome (dl_attempts r + 1) completed = (status, out, next_at)"
    by (cases "attempt_status c outcome (dl_attempts r + 1) completed")
  let ?a = "\<lparr>at_uid = uid_source d (uid_count d), at_intent = x, at_number = dl_attempts r + 1,
      at_outcome = out, at_started = started, at_completed = completed,
      at_reference = dr_reference outcome, at_error = dr_error outcome\<rparr>"
  let ?d1 = "d\<lparr>uid_count := Suc (uid_count d)\<rparr>"
  let ?d2 = "?d1\<lparr>attempts := attempts d @ [?a]\<rparr>"
  let ?f = "finished_row status (dl_attempts r + 1) next_at (dr_error outcome) completed"
  let ?d3 = "?d2\<lparr>deliveries := map (\<lambda>q. if q = r then ?f r else q) (deliveries d)\<rparr>"
  have inv: "delivery_inv limit d" and ok: "delivery_ok r"
    and uids: "inj (uid_source d)" "at_uid ` set (attempts d) \<subseteq> uid_source d ` {..<uid_count d}"
    using ready r(1) by (auto simp: worker_ready_def list_all_iff)
  have row: "delivery_row_inv limit d r" using inv r(1) by (simp add: delivery_inv_def)
  have "uid_source d (uid_count d) \<notin> uid_source d ` {..<uid_count d}" using uids(1) by (auto simp: inj_def)
  then have "uid_source d (uid_count d) \<notin> at_uid ` set (attempts d)" using uids(2) by blast
  moreover have "(x, dl_attempts r + 1) \<notin> (\<lambda>a. (at_intent a, at_number a)) ` set (attempts d)"
  proof
    assume "(x, dl_attempts r + 1) \<in> (\<lambda>a. (at_intent a, at_number a)) ` set (attempts d)"
    then obtain a where "a \<in> set (attempts_of x d)" "at_number a = dl_attempts r + 1"
      by (auto simp: attempts_of_def)
    then have "dl_attempts r + 1 \<in> set (map at_number (attempts_of x d))" by (metis image_eqI set_map)
    moreover have "map at_number (attempts_of x d) = [1..dl_attempts r]"
      using row x(1) by (simp add: delivery_row_inv_def)
    ultimately show False by (simp only: set_upto) simp
  qed
  moreover have "out \<in> {''DELIVERED'', ''RETRYABLE_FAILURE'', ''PERMANENT_FAILURE''}" "0 < dl_attempts r + 1"
    using st row by (auto simp: attempt_status_def delivery_row_inv_def split: if_splits)
  ultimately have ins: "insert_attempt ?a ?d1 = Inr ((), ?d2)"
    using x(2) by (auto simp: insert_attempt_def execC_def absent_iff present_iff)
  have upd: "update_delivery x (dl_version r) ?f ?d2 = Inr (1, ?d3)"
    using update_run [where f = ?f and d = ?d2 and r = r, OF _ _ x(1) refl rewritten_ok(3) [OF ok st]]
      delivery_inv_distinct [OF inv] r(1) by simp
  have run: "record_attempt c x r outcome started completed d = Inr ((), ?d3)"
    using ins upd by (simp add: record_attempt_def Let_def st bindC_def new_uid_def returnC_def)
  have "budget limit ?d3 < budget limit d"
    by (rule budget_map_less [where f = "\<lambda>q. if q = r then ?f r else q" and r = r])
      (use r row c st in \<open>auto simp: attempts_left_def finished_row_def open_statuses_def attempt_status_def
          delivery_row_inv_def split: if_splits\<close>)
  moreover have "list_all delivery_ok (deliveries ?d3)"
    using ready rewritten_ok(3) [OF ok st] by (auto simp: worker_ready_def list_all_iff)
  moreover have "at_uid ` set (attempts ?d3) \<subseteq> uid_source ?d3 ` {..<uid_count ?d3}"
    using uids(2) by (auto simp: lessThan_Suc)
  moreover have "\<exists>a. attempts ?d3 = attempts d @ [a] \<and> at_intent a = x" by simp
  ultimately show ?thesis using run by (intro exI [of _ ?d3]) simp
qed

lemma finish_run:
  assumes l: "leased c now g d i r d2" and ready: "worker_ready limit g d"
    and c: "wc_max_attempts c = limit" and cl: "cl_generation claim = g" "dm_intent (cl_message claim) = in_uid i"
  shows "claim_is_current c claim d2 = Inr True"
    "\<exists>d'. finish_delivery c claim outcome started completed d2 = Inr (True, d') \<and> worker_ready limit g d' \<and>
      budget limit d' < budget limit d \<and> (\<exists>a. attempts d' = attempts d @ [a] \<and> at_intent a = in_uid i)"
proof -
  note l2 = leased_ready [OF l ready]
  note join = leased_join [OF l ready]
  have gen: "current_generation d2 = Inr g" "is_normal d2 g" using l2(1) by (simp_all add: worker_ready_def)
  have hold: "holds_claim c claim (lease_row c now r, i)" using join(2) l cl(1) by (simp add: leased_def)
  show "claim_is_current c claim d2 = Inr True"
    using join(1) hold gen cl by (simp add: claim_is_current_def)
  have row: "dl_status (lease_row c now r) = ''PROCESSING''" by (simp add: lease_row_def)
  have "in_uid i \<in> in_uid ` set (intents d2)" using l2(5) by simp
  then obtain d' where rec: "record_attempt c (in_uid i) (lease_row c now r) outcome started completed d2 = Inr ((), d')"
    and new: "list_all delivery_ok (deliveries d')" "budget limit d' < budget limit d2"
      "intents d' = intents d2" "system_metadata d' = system_metadata d2" "uid_source d' = uid_source d2"
      "at_uid ` set (attempts d') \<subseteq> uid_source d' ` {..<uid_count d'}"
      "\<exists>a. attempts d' = attempts d2 @ [a] \<and> at_intent a = in_uid i"
    using record_attempt_run [OF l2(1,2) row l2(3) _ c, of outcome started completed] by blast
  have fin: "finish_delivery c claim outcome started completed d2 = Inr (True, d')"
    by (simp add: finish_delivery_def bindC_def readC_def getC_def returnC_def gen cl join(1) hold rec)
  have "delivery_inv limit d2" using l2(1) by (simp add: worker_ready_def)
  then have "delivery_inv limit d'" using finish_delivery_keeps [OF fin] c by simp
  then have "worker_ready limit g d'"
    using l2(1) new current_generation_cong [of d' d2] by (simp add: worker_ready_def)
  then show "\<exists>d'. finish_delivery c claim outcome started completed d2 = Inr (True, d') \<and> worker_ready limit g d' \<and>
      budget limit d' < budget limit d \<and> (\<exists>a. attempts d' = attempts d @ [a] \<and> at_intent a = in_uid i)"
    using fin new(2,7) l2(6) l by (auto simp: leased_def)
qed

lemma run_once_progress:
  assumes ready: "worker_ready limit g d" and c: "wc_max_attempts c = limit"
  shows "\<exists>b d'. run_once c adapters now completed d = Inr (b, d') \<and> worker_ready limit g d' \<and>
    budget limit d' + (if b then 1 else 0) \<le> budget limit d \<and>
    (b \<longleftrightarrow> claimable now g (snd (projr (expire_due now d))) \<noteq> []) \<and>
    (b \<longrightarrow> (\<exists>a. attempts d' = attempts d @ [a] \<and>
      at_intent a = in_uid (fst (hd (claimable now g (snd (projr (expire_due now d))))))))"
proof -
  obtain d1 where d1: "worker_ready limit g d1" "budget limit d1 \<le> budget limit d" "expire_due now d = Inr ((), d1)"
    and claim: "if claimable now g d1 = [] then claim_intent c now d = Inr (None, d1)
     else \<exists>i r d2. leased c now g d1 i r d2 \<and> (i, r) = hd (claimable now g d1) \<and>
       claim_intent c now d = Inr (Some \<lparr>cl_message = \<lparr>dm_intent = in_uid i, dm_key = in_key i,
         dm_channel = in_channel i, dm_context = in_context i\<rparr>, cl_generation = g\<rparr>, d2)"
    using claim_run [OF ready, of now c] by blast
  show ?thesis
  proof (cases "claimable now g d1 = []")
    case True
    then show ?thesis using claim d1 by (intro exI [of _ False]) (simp add: run_once_def bindC_def returnC_def)
  next
    case False
    then obtain i r d2 where l: "leased c now g d1 i r d2" and hd: "(i, r) = hd (claimable now g d1)"
      and cl: "claim_intent c now d = Inr (Some \<lparr>cl_message = \<lparr>dm_intent = in_uid i, dm_key = in_key i,
         dm_channel = in_channel i, dm_context = in_context i\<rparr>, cl_generation = g\<rparr>, d2)" (is "_ = Inr (Some ?cl, _)")
      using claim by auto
    have f: "cl_generation ?cl = g" "dm_intent (cl_message ?cl) = in_uid i" by simp_all
    obtain d' where fin: "finish_delivery c ?cl (send_message adapters (cl_message ?cl)) now completed d2 = Inr (True, d')"
      and d': "worker_ready limit g d'" "budget limit d' < budget limit d1"
        "\<exists>a. attempts d' = attempts d1 @ [a] \<and> at_intent a = in_uid i"
      using finish_run(2) [OF l d1(1) c f] by blast
    have "run_once c adapters now completed d = Inr (True, d')"
      using finish_run(1) [OF l d1(1) c f] fin by (simp add: run_once_def bindC_def readC_def returnC_def cl)
    moreover have "attempts d1 = attempts d"
      using d1(3) by (auto simp: expire_due_def execC_eq)
    moreover have "i = fst (hd (claimable now g d1))" by (simp flip: hd)
    ultimately show ?thesis
      using d' d1 False by (intro exI [of _ True] exI [of _ d']) simp
  qed
qed



section \<open>Restores\<close>

lemma all_digits_nat: "all_digits (nat_digits n)"
  using nat_digits_all [of n] by (simp add: all_digits_def list_all_iff is_digit_def)

lemma digits_int_nat: "digits_int (nat_digits n) = int n"
proof -
  have "foldl (\<lambda>n c. 10 * n + (of_char c - 48)) (int m) s = int (foldl (\<lambda>n c. 10 * n + (of_char c - 48)) m s)"
    if "all_digits s" for m s
    using that
  proof (induction s arbitrary: m)
    case (Cons c s)
    have "int (10 * m + (of_char c - 48)) = 10 * int m + (of_char c - 48)"
      using Cons.prems by (simp add: all_digits_def of_nat_diff of_nat_of_char)
    moreover have "all_digits s" using Cons.prems by (simp add: all_digits_def)
    ultimately show ?case using Cons.IH [of "10 * m + (of_char c - 48)"] by (simp only: foldl.simps)
  qed simp
  from this [OF all_digits_nat, of 0 n] show ?thesis
    using digits_nat_inverse [of n] by (simp add: digits_int_def digits_nat_def)
qed

lemma parse_render_generation: "0 \<le> g \<Longrightarrow> parse_generation (render_int g) = Inr g"
  by (simp add: parse_generation_def render_int_def all_digits_nat digits_int_nat guardR_def)

lemma parse_generation_nonneg:
  assumes "parse_generation s = Inr g" shows "0 \<le> g"
proof -
  have "0 \<le> foldl (\<lambda>n c. 10 * n + (of_char c - 48)) m s" if "all_digits s" "0 \<le> m" for m :: int and s
    using that
  proof (induction s arbitrary: m)
    case (Cons c s)
    have "(48 :: nat) \<le> of_char c" using Cons.prems by (simp add: all_digits_def)
    then have "(48 :: int) \<le> of_char c" by (metis of_nat_le_iff of_nat_numeral of_nat_of_char)
    then show ?case using Cons by (simp add: all_digits_def)
  qed simp
  then show ?thesis using assms by (auto simp: parse_generation_def guardR_def digits_int_def split: if_splits)
qed

text \<open>C32: a restore suppresses what was under way: it leaves no open delivery, the generation it stores is
  read back as the new one, and a claim taken in an earlier generation records nothing afterwards, however
  its send went.\<close>

theorem restore_suppresses:
  assumes run: "advance_restore_generation sha t d = Inr ((g, n), d')"
    and claim: "cl_generation claim < g"
  shows "(\<forall>r \<in> set (deliveries d'). dl_status r \<notin> set open_statuses) \<and>
    current_generation d' = Inr g \<and>
    n = int (length (filter (\<lambda>r. dl_status r \<in> set open_statuses) (deliveries d))) \<and>
    finish_delivery c claim outcome started completed d' = Inr (False, d')"
proof -
  obtain v k where v: "parse_generation v = Inr (g - 1)"
    and d': "d' = d\<lparr>system_metadata := (system_metadata d)(''restore_generation'' \<mapsto> render_int g),
       deliveries := map (\<lambda>r. if dl_status r \<in> set open_statuses then cancel_delivery t r else r) (deliveries d),
       uid_count := Suc (uid_count d), audits := audits d @ [k]\<rparr>"
    using advance_restore_Inr [OF run] by blast
  have n: "n = int (length (filter (\<lambda>r. dl_status r \<in> set open_statuses) (deliveries d)))"
    using run unfolding advance_restore_generation_def cancel_open_def insert_audit_def Let_def
    by (auto simp: result_simps)
  have gen: "current_generation d' = Inr g"
    using parse_render_generation [of g] parse_generation_nonneg [OF v] by (simp add: d' current_generation_def)
  have "dl_status r \<notin> set open_statuses" if "r \<in> set (deliveries d')" for r
    using that by (auto simp: d' cancel_delivery_def open_statuses_def)
  moreover have "finish_delivery c claim outcome started completed d' = Inr (False, d')"
    using gen claim by (simp add: finish_delivery_def bindC_def readC_def getC_def returnC_def)
  ultimately show ?thesis using n gen by blast
qed

section \<open>Samples\<close>

definition sample_intent :: intent_row where
  "sample_intent = \<lparr>in_uid = ''I'', in_version = ''V'', in_channel = ''IN_APP'', in_kind = ''RISK'', in_key = ''K'',
     in_context = JNull, in_context_hash = ''h'', in_created = 0, in_expires = 100, in_generation = 0\<rparr>"

definition sample_delivery :: delivery_row where
  "sample_delivery = \<lparr>dl_intent = ''I'', dl_status = ''PENDING'', dl_attempts = 0, dl_next = Some 0, dl_owner = None,
     dl_lease = None, dl_error = None, dl_version = 1, dl_updated = 0\<rparr>"

definition sample_queue :: db where
  "sample_queue = empty_db\<lparr>intents := [sample_intent], deliveries := [sample_delivery],
     system_metadata := [''restore_generation'' \<mapsto> ''0'']\<rparr>"

definition sample_worker :: worker_config where
  "sample_worker = \<lparr>wc_id = ''w'', wc_lease = 60, wc_retry = 60, wc_max_attempts = 3\<rparr>"

lemma sample_ready: "worker_ready 3 0 sample_queue"
proof -
  have "inj (\<lambda>n. replicate n CHR ''u'')" by (rule injI) (metis length_replicate)
  then show ?thesis
    by (simp add: worker_ready_def sample_queue_def empty_db_def delivery_inv_def delivery_row_inv_def
        sample_delivery_def attempts_of_def delivery_ok_def current_generation_def parse_generation_def
        all_digits_def digits_int_def is_normal_def recovery_state_def open_statuses_def guardR_def)
qed



theorem restore_suppresses_witness:
  "\<exists>d'. advance_restore_generation (\<lambda>x. x) 5 sample_queue = Inr ((1, 1), d') \<and>
    finish_delivery sample_worker \<lparr>cl_message = \<lparr>dm_intent = ''I'', dm_key = ''K'', dm_channel = ''IN_APP'',
      dm_context = JNull\<rparr>, cl_generation = 0\<rparr> \<lparr>dr_delivered = True, dr_retryable = False, dr_reference = None,
      dr_error = None\<rparr> 1 6 d' = Inr (False, d')"
proof -
  obtain d' where "advance_restore_generation (\<lambda>x. x) 5 sample_queue = Inr ((1, 1), d')"
    by (simp add: advance_restore_generation_def cancel_open_def insert_audit_def command_defs parse_generation_def
        sample_queue_def empty_db_def sample_delivery_def open_statuses_def all_digits_def digits_int_def guardR_def)
  then show ?thesis using restore_suppresses [of "\<lambda>x. x" 5 sample_queue 1 1 d'] by simp
qed

end
