(* ===== verification/Clock.thy ===== *)
theory Clock
  imports Tables Time_Text
begin

text \<open>
  \<open>clock.py\<close>: the trading calendar. Its two tables hold the days of an exchange with the sessions of
  each day; every question about market time (phase, elapsed minutes, completed minutes, readiness of
  the calendar) is answered from them. Instants are microseconds since the epoch, an argument that may
  be a naive \<open>datetime\<close> is an option, and a session time that \<open>parse_rfc3339\<close> rejects is \<open>None\<close>. A trading
  date is text, as in the tables. \<open>total_seconds() // 60\<close> is exact for the spans at hand (fewer than
  \<open>2 ^ 53\<close> microseconds) and is written as integer division.
\<close>

section \<open>Tables\<close>

record calendar_day =
  cd_exchange :: string
  cd_date :: string
  cd_trading :: bool
  cd_timezone :: string

record session_row =
  sn_exchange :: string
  sn_date :: string
  sn_sequence :: nat
  sn_phase :: string
  sn_opens :: int
  sn_closes :: int

record calendar =
  cal_days :: "calendar_day list"
  cal_sessions :: "session_row list"

text \<open>A session: phase, begins and ends instant.\<close>

type_synonym session = "string \<times> int \<times> int"

definition insert_day :: "calendar_day \<Rightarrow> calendar \<Rightarrow> calendar result" where
  "insert_day r cal =
     guardR (\<not> absent (\<lambda>x. (cd_exchange x, cd_date x)) (cal_days cal) (cd_exchange r, cd_date r))
       (IntegrityError ''trading_calendar_day'')
       (Inr (cal\<lparr>cal_days := cal_days cal @ [r]\<rparr>))"

definition insert_session :: "session_row \<Rightarrow> calendar \<Rightarrow> calendar result" where
  "insert_session r cal =
     guardR (\<not> absent (\<lambda>x. (sn_exchange x, sn_date x, sn_sequence x)) (cal_sessions cal)
           (sn_exchange r, sn_date r, sn_sequence r) \<or>
         \<not> present (\<lambda>x. (cd_exchange x, cd_date x)) (cal_days cal) (sn_exchange r, sn_date r) \<or>
         sn_closes r \<le> sn_opens r)
       (IntegrityError ''trading_session'')
       (Inr (cal\<lparr>cal_sessions := cal_sessions cal @ [r]\<rparr>))"

text \<open>\<open>for sequence, ... in enumerate(normalized_sessions): INSERT\<close>.\<close>

fun insert_sessions :: "string \<Rightarrow> string \<Rightarrow> nat \<Rightarrow> session list \<Rightarrow> calendar \<Rightarrow> calendar result" where
  "insert_sessions ex date n [] cal = Inr cal"
| "insert_sessions ex date n ((phase, begins, ends) # rest) cal =
     bindR (insert_session \<lparr>sn_exchange = ex, sn_date = date, sn_sequence = n, sn_phase = phase,
         sn_opens = begins, sn_closes = ends\<rparr> cal) (insert_sessions ex date (Suc n) rest)"

definition day_rows :: "calendar \<Rightarrow> string \<Rightarrow> string \<Rightarrow> calendar_day list" where
  "day_rows cal ex date = filter (\<lambda>r. cd_exchange r = ex \<and> cd_date r = date) (cal_days cal)"

definition session_rows :: "calendar \<Rightarrow> string \<Rightarrow> string \<Rightarrow> session_row list" where
  "session_rows cal ex date =
     sort_key sn_sequence (filter (\<lambda>r. sn_exchange r = ex \<and> sn_date r = date) (cal_sessions cal))"

definition session_of :: "session_row \<Rightarrow> session" where
  "session_of r = (sn_phase r, sn_opens r, sn_closes r)"

section \<open>Dates\<close>

definition date_text :: "int \<Rightarrow> string" where
  "date_text n = (case of_ordinal n of (y, m, d) \<Rightarrow>
     pad_digits 4 (nat y) @ ''-'' @ pad_digits 2 (nat m) @ ''-'' @ pad_digits 2 (nat d))"

text \<open>\<open>_isoweek_to_gregorian\<close> of \<open>datetime\<close>: the ordinal of a day of an ISO week.\<close>

definition iso_week_one :: "int \<Rightarrow> int" where
  "iso_week_one y =
     (let first = to_ordinal (y, 1, 1); weekday = (first + 6) mod 7; monday = first - weekday
      in if weekday > 3 then monday + 7 else monday)"

definition iso_week_ordinal :: "int \<Rightarrow> int \<Rightarrow> int \<Rightarrow> int option" where
  "iso_week_ordinal y week day =
     (let first_weekday = to_ordinal (y, 1, 1) mod 7;
          n = iso_week_one y + (week - 1) * 7 + (day - 1)
      in if 1 \<le> y \<and> y \<le> 9999 \<and>
            (0 < week \<and> week < 53 \<or> week = 53 \<and> (first_weekday = 4 \<or> first_weekday = 3 \<and> is_leap y)) \<and>
            0 < day \<and> day < 8 \<and> 1 \<le> n \<and> n \<le> 3652059
         then Some n else None)"

definition number_at :: "nat \<Rightarrow> nat \<Rightarrow> string \<Rightarrow> int option" where
  "number_at start len s =
     (let p = piece start len s in if List.length p = len \<and> all_digits p then Some (digits_int p) else None)"

definition date_fields :: "int option \<Rightarrow> int option \<Rightarrow> int option \<Rightarrow> int option" where
  "date_fields y m d =
     (case (y, m, d) of
        (Some y', Some m', Some d') \<Rightarrow> if valid_date (y', m', d') then Some (to_ordinal (y', m', d')) else None
      | _ \<Rightarrow> None)"

definition week_fields :: "int option \<Rightarrow> int option \<Rightarrow> int option \<Rightarrow> int option" where
  "week_fields y w d =
     (case (y, w, d) of (Some y', Some w', Some d') \<Rightarrow> iso_week_ordinal y' w' d' | _ \<Rightarrow> None)"

text \<open>\<open>date.fromisoformat\<close>: the calendar and week forms, with and without separators.\<close>

definition date_fromisoformat :: "string \<Rightarrow> int option" where
  "date_fromisoformat s =
     (let year = number_at 0 4 s in
      if List.length s = 10 \<and> piece 4 1 s = ''-'' \<and> piece 5 1 s \<noteq> ''W'' \<and> piece 7 1 s = ''-''
      then date_fields year (number_at 5 2 s) (number_at 8 2 s)
      else if List.length s = 8 \<and> piece 4 1 s \<notin> {''-'', ''W''}
      then date_fields year (number_at 4 2 s) (number_at 6 2 s)
      else if List.length s = 10 \<and> piece 4 2 s = ''-W'' \<and> piece 8 1 s = ''-''
      then week_fields year (number_at 6 2 s) (number_at 9 1 s)
      else if List.length s = 8 \<and> piece 4 2 s = ''-W'' then week_fields year (number_at 6 2 s) (Some 1)
      else if List.length s = 8 \<and> piece 4 1 s = ''W'' then week_fields year (number_at 5 2 s) (number_at 7 1 s)
      else if List.length s = 7 \<and> piece 4 1 s = ''W'' then week_fields year (number_at 5 2 s) (Some 1)
      else None)"

definition iso_ordinal :: "string \<Rightarrow> int result" where
  "iso_ordinal s = require (ValueError ''Invalid isoformat string'') (date_fromisoformat s)"

definition day_length :: int where "day_length = 86400000000"

definition minute :: int where "minute = 60000000"

definition utc_day :: "int \<Rightarrow> int" where
  "utc_day t = epoch_ordinal + t div day_length"

text \<open>The date at UTC+8.\<close>

definition china_day :: "int \<Rightarrow> int" where
  "china_day t = utc_day (t + 8 * 60 * minute)"

section \<open>Import\<close>

definition normalize_session :: "string \<times> int option \<times> int option \<Rightarrow> session result" where
  "normalize_session = (\<lambda>(phase, begins, ends).
     bindR (require (ValueError ''Invalid isoformat string'') begins) (\<lambda>opens_at.
     bindR (require (ValueError ''Invalid isoformat string'') ends) (\<lambda>closes_at.
     Inr (phase, opens_at, closes_at))))"

text \<open>The transaction: an existing day must be the same day, a new one is inserted with its sessions.\<close>

definition import_command ::
    "string \<Rightarrow> string \<Rightarrow> string \<Rightarrow> session list \<Rightarrow> calendar \<Rightarrow> (bool \<times> calendar) result" where
  "import_command ex date tz normalized cal =
     bindR (one_or_none (day_rows cal ex date)) (\<lambda>existing.
       case existing of
         Some r \<Rightarrow>
           guardR (cd_trading r \<noteq> (normalized \<noteq> []) \<or> cd_timezone r \<noteq> tz \<or>
               map session_of (session_rows cal ex date) \<noteq> normalized)
             (ValueError ''calendar day conflicts with existing immutable history'')
             (Inr (False, cal))
       | None \<Rightarrow>
           bindR (insert_day \<lparr>cd_exchange = ex, cd_date = date, cd_trading = (normalized \<noteq> []),
               cd_timezone = tz\<rparr> cal) (\<lambda>c.
           bindR (insert_sessions ex date 0 normalized c) (\<lambda>c'. Inr (True, c'))))"

definition import_day ::
    "string \<Rightarrow> string \<Rightarrow> string \<Rightarrow> (string \<times> int option \<times> int option) list \<Rightarrow> calendar \<Rightarrow>
     (bool \<times> calendar) result" where
  "import_day ex date tz sessions cal =
     guardR (blank ex \<or> blank tz) (ValueError ''exchange and timezone are required'')
    (bindR (iso_ordinal date) (\<lambda>_.
     bindR (mapR normalize_session sessions) (\<lambda>normalized.
     guardR (list_ex (\<lambda>(phase, _, _). blank phase) normalized) (ValueError ''session phase is required'')
    (guardR (list_ex (\<lambda>(_, begins, ends). ends \<le> begins) normalized)
       (ValueError ''session close must follow open'')
    (import_command ex date tz normalized cal)))))"

section \<open>Phase\<close>

fun phase_in :: "session list \<Rightarrow> int \<Rightarrow> string option" where
  "phase_in [] t = None"
| "phase_in ((phase, begins, ends) # rest) t =
     (if begins \<le> t \<and> t < ends then Some phase else phase_in rest t)"

definition phase_of_day :: "session list \<Rightarrow> int \<Rightarrow> string" where
  "phase_of_day sessions t =
     (case phase_in sessions t of
        Some phase \<Rightarrow> phase
      | None \<Rightarrow>
          if sessions \<noteq> [] \<and> t < fst (snd (hd sessions)) then ''PRE_OPEN''
          else if sessions \<noteq> [] \<and> snd (snd (last sessions)) \<le> t then ''CLOSED''
          else ''BREAK'')"

text \<open>The day looked up is the UTC date of the instant.\<close>

definition phase_at :: "calendar \<Rightarrow> string \<Rightarrow> int option \<Rightarrow> string result" where
  "phase_at cal ex instant =
     bindR (require (ValueError ''datetime must include a timezone'') instant) (\<lambda>t.
     let date = date_text (utc_day t) in
     bindR (one_or_none (day_rows cal ex date)) (\<lambda>day.
       case day of
         None \<Rightarrow> Inr ''CALENDAR_COVERAGE_MISSING''
       | Some r \<Rightarrow>
           Inr (if \<not> cd_trading r then ''NON_TRADING_DAY''
                else phase_of_day (map session_of (session_rows cal ex date)) t)))"

section \<open>Coverage\<close>

record coverage_readiness =
  rd_exchange :: string
  rd_observed :: string
  rd_start :: "string option"
  rd_end :: "string option"
  rd_future :: int
  rd_minimum :: int
  rd_missing :: "string list"
  rd_state :: string

text \<open>
  \<open>while current <= coverage_end\<close>: the uncovered dates. The increment leaves the range of \<open>date\<close> after
  9999-12-31.
\<close>

function missing_dates :: "(int \<Rightarrow> bool) \<Rightarrow> int \<Rightarrow> int \<Rightarrow> string list result" where
  "missing_dates covered current last_day =
     (if last_day < current then Inr []
      else if current \<ge> 3652059 then Inl (OverflowError ''date value out of range'')
      else bindR (missing_dates covered (current + 1) last_day) (\<lambda>rest.
        Inr (if covered current then rest else date_text current # rest)))"
  by pat_completeness auto

termination by (relation "measure (\<lambda>(_, current, last_day). nat (last_day + 1 - current))") auto

definition min_key :: "int list \<Rightarrow> int option" where
  "min_key ks = (case ks of [] \<Rightarrow> None | k # rest \<Rightarrow> Some (foldr min rest k))"

definition max_key :: "int list \<Rightarrow> int option" where
  "max_key ks = (case ks of [] \<Rightarrow> None | k # rest \<Rightarrow> Some (foldr max rest k))"

definition calendar_coverage_readiness ::
    "calendar \<Rightarrow> string \<Rightarrow> int option \<Rightarrow> int \<Rightarrow> coverage_readiness result" where
  "calendar_coverage_readiness cal ex observed_at minimum =
     bindR (require (ValueError ''calendar readiness instant must be timezone-aware'') observed_at) (\<lambda>t.
     guardR (minimum < 0) (ValueError ''minimum future trading days must be non-negative'')
    (let today = china_day t in
     bindR (mapR (\<lambda>r. bindR (iso_ordinal (cd_date r)) (\<lambda>n. Inr (n, cd_trading r)))
       (sort_key cd_date (filter (\<lambda>r. cd_exchange r = ex) (cal_days cal)))) (\<lambda>pairs.
     let covered = pydict pairs; keys = remdups (map fst pairs) in
     bindR (case max_key keys of
         None \<Rightarrow> Inr [date_text today]
       | Some last_day \<Rightarrow> if last_day < today then Inr [date_text today]
           else missing_dates (\<lambda>n. covered n \<noteq> None) today last_day) (\<lambda>missing.
     let future = int (List.length (filter (\<lambda>n. today < n \<and> covered n = Some True) keys)) in
     Inr \<lparr>rd_exchange = ex, rd_observed = date_text today,
          rd_start = map_option date_text (min_key keys), rd_end = map_option date_text (max_key keys),
          rd_future = future, rd_minimum = minimum, rd_missing = missing,
          rd_state = (if missing \<noteq> [] then ''CALENDAR_COVERAGE_MISSING''
            else if future < minimum then ''CALENDAR_COVERAGE_INSUFFICIENT'' else ''READY'')\<rparr>))))"

definition ready :: "coverage_readiness \<Rightarrow> bool" where
  "ready r = (rd_state r = ''READY'')"

section \<open>Continuous minutes\<close>

definition continuous_sessions :: "calendar \<Rightarrow> string \<Rightarrow> string \<Rightarrow> session list" where
  "continuous_sessions cal ex date =
     map session_of (filter (\<lambda>r. sn_phase r \<in> {''CONTINUOUS_AM'', ''CONTINUOUS_PM''}) (session_rows cal ex date))"

definition floor_minute :: "int \<Rightarrow> int" where
  "floor_minute t = t - t mod minute"

definition overlap :: "int \<Rightarrow> int \<Rightarrow> session \<Rightarrow> int" where
  "overlap start_at end_at = (\<lambda>(_, begins, ends).
     let a = max start_at begins; b = min end_at ends in if a < b then b - a else 0)"

definition market_minutes_between :: "calendar \<Rightarrow> string \<Rightarrow> int option \<Rightarrow> int option \<Rightarrow> int result" where
  "market_minutes_between cal ex start end_time =
     bindR (require (ValueError ''market-minute bounds must be timezone-aware'') start) (\<lambda>start_at.
     bindR (require (ValueError ''market-minute bounds must be timezone-aware'') end_time) (\<lambda>end_at.
     if end_at \<le> start_at then Inr 0
     else let date = date_text (china_day start_at) in
       guardR (date_text (china_day end_at) \<noteq> date) (ValueError ''market-minute bounds must use one trading day'')
        (Inr (sum_list (map (overlap start_at end_at) (continuous_sessions cal ex date)) div minute))))"

fun minute_index :: "session list \<Rightarrow> int \<Rightarrow> int \<Rightarrow> int option" where
  "minute_index [] elapsed t = None"
| "minute_index ((_, begins, ends) # rest) elapsed t =
     (if t < begins then None
      else if t \<le> ends then Some ((elapsed + t - begins) div minute)
      else minute_index rest (elapsed + (ends - begins)) t)"

definition market_minute_index :: "calendar \<Rightarrow> string \<Rightarrow> int option \<Rightarrow> int option result" where
  "market_minute_index cal ex instant =
     bindR (require (ValueError ''market-minute instant must be timezone-aware'') instant) (\<lambda>t.
     Inr (minute_index (continuous_sessions cal ex (date_text (china_day t))) 0 t))"

definition final_continuous_close :: "calendar \<Rightarrow> string \<Rightarrow> int option \<Rightarrow> int option result" where
  "final_continuous_close cal ex instant =
     bindR (require (ValueError ''final-close instant must be timezone-aware'') instant) (\<lambda>t.
     let sessions = continuous_sessions cal ex (date_text (china_day t)) in
     Inr (if sessions = [] then None else Some (snd (snd (last sessions)))))"

definition continuous_session_at :: "calendar \<Rightarrow> string \<Rightarrow> int option \<Rightarrow> session option result" where
  "continuous_session_at cal ex instant =
     bindR (require (ValueError ''continuous-session instant must be timezone-aware'') instant) (\<lambda>t.
     Inr (find (\<lambda>(_, begins, ends). begins \<le> t \<and> t < ends)
       (continuous_sessions cal ex (date_text (china_day t)))))"

definition latest_completed_continuous_minute :: "calendar \<Rightarrow> string \<Rightarrow> int option \<Rightarrow> int option result" where
  "latest_completed_continuous_minute cal ex instant =
     bindR (require (ValueError ''market-minute instant must be timezone-aware'') instant) (\<lambda>t.
     bindR (continuous_session_at cal ex (Some t)) (\<lambda>session.
       case session of
         None \<Rightarrow> Inr None
       | Some (_, begins, ends) \<Rightarrow>
           let e = floor_minute t in Inr (if e \<le> begins \<or> ends < e then None else Some e)))"

fun latest_minute :: "session list \<Rightarrow> int option \<Rightarrow> int \<Rightarrow> int option" where
  "latest_minute [] candidate t = candidate"
| "latest_minute ((_, begins, ends) # rest) candidate t =
     (let completed_until = min t ends in
      if completed_until \<le> begins then latest_minute rest candidate t
      else let e = floor_minute completed_until;
               candidate' = (if begins < e \<and> e \<le> ends then Some e else candidate)
           in if t < ends then candidate' else latest_minute rest candidate' t)"

definition latest_completed_legal_minute :: "calendar \<Rightarrow> string \<Rightarrow> int option \<Rightarrow> int option result" where
  "latest_completed_legal_minute cal ex instant =
     bindR (require (ValueError ''market-minute instant must be timezone-aware'') instant) (\<lambda>t.
     Inr (latest_minute (continuous_sessions cal ex (date_text (china_day t))) None t))"

text \<open>\<open>while current > opens_at and len(values) < count\<close>, with the count that is left.\<close>

function minutes_down :: "int \<Rightarrow> int \<Rightarrow> nat \<Rightarrow> int list" where
  "minutes_down current begins left =
     (if begins < current \<and> 0 < left then current # minutes_down (current - minute) begins (left - 1) else [])"
  by pat_completeness auto

termination by (relation "measure (\<lambda>(current, begins, left). left)") auto

declare minutes_down.simps [simp del]

text \<open>The sessions from the last to the first; the values are collected backwards.\<close>

fun minute_tail :: "session list \<Rightarrow> int \<Rightarrow> nat \<Rightarrow> int list" where
  "minute_tail [] target left = []"
| "minute_tail ((_, begins, ends) # rest) target left =
     (let values = minutes_down (min target ends) begins left in
      if List.length values = left then values
      else values @ minute_tail rest target (left - List.length values))"

definition completed_legal_minute_tail ::
    "calendar \<Rightarrow> string \<Rightarrow> int option \<Rightarrow> int \<Rightarrow> int list result" where
  "completed_legal_minute_tail cal ex target wanted =
     bindR (require (ValueError ''market-minute target must be timezone-aware'') target) (\<lambda>t.
     guardR (wanted < 1) (ValueError ''market-minute tail count must be positive'')
    (guardR (t \<noteq> floor_minute t) (ValueError ''market-minute target must be a whole-minute right edge'')
    (bindR (latest_completed_legal_minute cal ex (Some t)) (\<lambda>latest.
     guardR (latest \<noteq> Some t) (ValueError ''market-minute target must be a completed legal right edge'')
    (Inr (rev (minute_tail (rev (continuous_sessions cal ex (date_text (china_day t)))) t (nat wanted))))))))"

section \<open>Source times and dates\<close>

definition quote_clock :: "int \<Rightarrow> int \<times> int \<times> int \<times> int" where
  "quote_clock raw =
     (if raw > 235959
      then (raw div 1000000, raw mod 1000000 div 10000, raw mod 10000 div 100, raw mod 100)
      else (raw div 10000, raw mod 10000 div 100, raw mod 100, 0))"

definition tdx_quote_time :: "calendar \<Rightarrow> string \<Rightarrow> int \<Rightarrow> int \<Rightarrow> string option result" where
  "tdx_quote_time cal ex received_at raw =
     (if raw < 0 then Inr None
      else case quote_clock raw of (hours, minutes, seconds, centiseconds) \<Rightarrow>
        if \<not> (0 \<le> hours \<and> hours \<le> 23 \<and> 0 \<le> minutes \<and> minutes \<le> 59 \<and> 0 \<le> seconds \<and> seconds \<le> 59)
        then Inr None
        else
          let instant = (china_day received_at - epoch_ordinal) * day_length - 8 * 60 * minute +
                (hours * 3600 + minutes * 60 + seconds) * 1000000 + centiseconds * 10000
          in bindR (phase_at cal ex (Some instant)) (\<lambda>phase.
             Inr (if phase \<in> {''CONTINUOUS_AM'', ''CONTINUOUS_PM''} then Some (format_rfc3339 instant) else None)))"

definition previous_valid_trading_dates ::
    "calendar \<Rightarrow> string \<Rightarrow> string \<Rightarrow> int \<Rightarrow> string list result" where
  "previous_valid_trading_dates cal ex before wanted =
     guardR (wanted < 0) (ValueError ''count must be non-negative'')
    (bindR (iso_ordinal before) (\<lambda>_.
     Inr (rev (take (nat wanted) (rev (sort (map cd_date
       (filter (\<lambda>r. cd_exchange r = ex \<and> cd_trading r \<and> cd_date r < before) (cal_days cal)))))))))"

end
