(* ===== verification/Clock_Properties.thy ===== *)
theory Clock_Properties
  imports Clock
begin

text \<open>
  Market time (\<open>clock.py\<close>) against a reference: the legal minutes of a day are the right edges of the
  whole minutes of its continuous sessions, as one list. Elapsed minutes are counts of that list, the
  latest completed minute is its last element up to the instant, and the tail is its suffix. The
  sessions are assumed ordered, disjoint and on whole minutes, which the import does not check.
\<close>

section \<open>The reference\<close>

definition session_minutes :: "int \<Rightarrow> int \<Rightarrow> int list" where
  "session_minutes begins ends = map (\<lambda>k. begins + k * minute) [1..(ends - begins) div minute]"

definition legal_minutes :: "session list \<Rightarrow> int list" where
  "legal_minutes ss = concat (map (\<lambda>(_, begins, ends). session_minutes begins ends) ss)"

definition whole_sessions :: "session list \<Rightarrow> bool" where
  "whole_sessions ss \<longleftrightarrow>
     (\<forall>(_, begins, ends) \<in> set ss. begins < ends \<and> begins mod minute = 0 \<and> ends mod minute = 0) \<and>
     sorted_wrt (\<lambda>(_, _, ends) (_, begins, _). ends \<le> begins) ss"

lemma minute_pos [simp]: "0 < minute" "minute \<noteq> 0"
  by (simp_all add: minute_def)

lemma minutes_le_div: "k * minute \<le> d \<longleftrightarrow> k \<le> d div minute"
proof
  assume "k * minute \<le> d"
  then have "k * minute div minute \<le> d div minute" by (rule zdiv_mono1) simp
  then show "k \<le> d div minute" by simp
next
  assume "k \<le> d div minute"
  then have "k * minute \<le> d div minute * minute" by (simp add: mult_right_mono)
  also have "\<dots> \<le> d" using pos_mod_sign [of minute d] by (simp add: minus_mod_eq_div_mult [symmetric])
  finally show "k * minute \<le> d" .
qed

lemma whole_diff:
  assumes "a mod minute = 0" "b mod minute = 0" shows "b - a = (b - a) div minute * minute"
proof -
  have "minute dvd b - a" using assms by (simp add: dvd_eq_mod_eq_0 [symmetric])
  then show ?thesis by simp
qed

lemma whole_sessions_Cons:
  "whole_sessions ((p, begins, ends) # ss) \<longleftrightarrow>
    begins < ends \<and> begins mod minute = 0 \<and> ends mod minute = 0 \<and> whole_sessions ss \<and>
    (\<forall>(_, o', _) \<in> set ss. ends \<le> o')"
  by (auto simp: whole_sessions_def)

lemma whole_sessions_append: "whole_sessions (ss @ ts) \<Longrightarrow> whole_sessions ss"
  by (auto simp: whole_sessions_def sorted_wrt_append)

lemma filter_upto: "filter (\<lambda>k. k \<le> m) [1..n] = [1..min n m]" for m n :: int
proof (cases "m \<le> n")
  case True
  show ?thesis
  proof (cases "1 \<le> m")
    case m: True
    have "[1..n] = [1..m] @ [m + 1..n]" by (rule upto_split2) (use m True in simp_all)
    then show ?thesis using True by (simp add: filter_empty_conv)
  next
    case False
    then show ?thesis using True by (simp add: filter_empty_conv)
  qed
next
  case False
  then show ?thesis by (simp add: filter_id_conv)
qed

lemma session_minutes_bounds:
  assumes "m \<in> set (session_minutes begins ends)" shows "begins < m" "m \<le> ends"
proof -
  obtain k where k: "m = begins + k * minute" "1 \<le> k" "k \<le> (ends - begins) div minute"
    using assms by (auto simp: session_minutes_def)
  show "begins < m" using k by simp
  have "k * minute \<le> ends - begins" using k(3) by (simp add: minutes_le_div)
  then show "m \<le> ends" using k(1) by simp
qed

lemma session_minutes_empty: "ends \<le> begins \<Longrightarrow> session_minutes begins ends = []"
proof -
  assume "ends \<le> begins"
  then have "\<not> 1 * minute \<le> ends - begins" using minute_pos(1) by linarith
  then have "\<not> 1 \<le> (ends - begins) div minute" by (simp only: minutes_le_div not_False_eq_True)
  then show ?thesis by (simp add: session_minutes_def)
qed

lemma session_minutes_up_to:
  "filter (\<lambda>m. m \<le> t) (session_minutes begins ends) = session_minutes begins (min t ends)"
proof -
  have edge: "begins + k * minute \<le> t \<longleftrightarrow> k \<le> (t - begins) div minute" for k
    using minutes_le_div [of k "t - begins"] by linarith
  have "min ((ends - begins) div minute) ((t - begins) div minute) = (min t ends - begins) div minute"
    by (cases "t \<le> ends") (simp_all add: min_absorb1 min_absorb2 zdiv_mono1)
  then show ?thesis by (simp add: session_minutes_def filter_map comp_def edge filter_upto)
qed

lemma session_minutes_snoc:
  assumes "begins < e" "begins mod minute = 0" "e mod minute = 0"
  shows "session_minutes begins e = session_minutes begins (e - minute) @ [e]"
proof -
  let ?n = "(e - begins) div minute"
  have n: "e - begins = ?n * minute" by (rule whole_diff) (fact assms)+
  then have "0 < ?n * minute" using assms(1) by linarith
  then have "1 \<le> ?n" using minute_pos(1) by (auto simp: zero_less_mult_iff)
  then have "[1..?n] = [1..?n - 1] @ [?n]" by (rule upto_rec2)
  moreover have "e - minute - begins = (?n - 1) * minute" using n by (simp add: algebra_simps)
  then have "(e - minute - begins) div minute = ?n - 1" by simp
  ultimately show ?thesis using n by (simp add: session_minutes_def)
qed

lemma floor_minute_simps:
  "floor_minute t \<le> t" "t < floor_minute t + minute" "floor_minute t mod minute = 0"
  "t mod minute = 0 \<Longrightarrow> floor_minute t = t"
proof -
  show "floor_minute t \<le> t" "t < floor_minute t + minute"
    using pos_mod_sign [of minute t] pos_mod_bound [of minute t] by (simp_all add: floor_minute_def)
  show "floor_minute t mod minute = 0" by (simp add: floor_minute_def minus_mod_eq_div_mult)
  show "t mod minute = 0 \<Longrightarrow> floor_minute t = t" by (simp add: floor_minute_def)
qed

lemma session_minutes_floor:
  assumes "begins mod minute = 0"
  shows "session_minutes begins (floor_minute t) = session_minutes begins t"
proof -
  let ?x = "(floor_minute t - begins) div minute"
  have "floor_minute t - begins = ?x * minute" by (rule whole_diff) (simp_all add: assms floor_minute_simps)
  then have "t - begins = ?x * minute + t mod minute" by (simp add: floor_minute_def)
  then have "(t - begins) div minute = ?x" by (simp only: div_mult_self3 [OF minute_pos(2)]) simp
  then show ?thesis by (simp add: session_minutes_def)
qed

section \<open>The latest completed minute\<close>

lemma later_minutes:
  assumes "\<forall>(_, o', _) \<in> set ss. t \<le> o'" shows "filter (\<lambda>m. m \<le> t) (legal_minutes ss) = []"
  using assms session_minutes_bounds(1) by (fastforce simp: legal_minutes_def filter_empty_conv)

definition last_or :: "'a option \<Rightarrow> 'a list \<Rightarrow> 'a option" where
  "last_or candidate xs = (if xs = [] then candidate else Some (last xs))"

lemma last_or_simps [simp]:
  "last_or c [] = c" "last_or c [x] = Some x" "last_or c (xs @ [x]) = Some x" "last_or c (xs @ ys) = last_or (last_or c xs) ys"
  by (simp_all add: last_or_def)

lemma last_or_session:
  assumes "begins mod minute = 0" "t \<le> ends"
  shows "last_or candidate (session_minutes begins t) =
    (if begins < floor_minute t \<and> floor_minute t \<le> ends then Some (floor_minute t) else candidate)"
proof -
  have e: "session_minutes begins t = session_minutes begins (floor_minute t)"
    by (rule session_minutes_floor [OF assms(1), symmetric])
  have "floor_minute t \<le> ends" using floor_minute_simps(1) [of t] assms(2) by linarith
  moreover have "last_or candidate (session_minutes begins (floor_minute t)) = Some (floor_minute t)"
    if "begins < floor_minute t"
    by (simp add: session_minutes_snoc [OF that assms(1) floor_minute_simps(3)])
  ultimately show ?thesis unfolding e by (auto simp: session_minutes_empty)
qed

lemma latest_minute_reference:
  assumes "whole_sessions ss"
  shows "latest_minute ss candidate t = last_or candidate (filter (\<lambda>m. m \<le> t) (legal_minutes ss))"
  using assms
proof (induction ss arbitrary: candidate)
  case Nil
  then show ?case by (simp add: legal_minutes_def)
next
  case (Cons s ss)
  obtain p begins ends where s: "s = (p, begins, ends)" by (cases s)
  have w: "begins mod minute = 0" "whole_sessions ss" "\<forall>(_, o', _) \<in> set ss. ends \<le> o'"
    using Cons.prems by (auto simp: s whole_sessions_Cons)
  let ?rest = "filter (\<lambda>m. m \<le> t) (legal_minutes ss)"
  have all: "last_or candidate (filter (\<lambda>m. m \<le> t) (legal_minutes ((p, begins, ends) # ss))) =
      last_or (last_or candidate (session_minutes begins (min t ends))) ?rest"
    by (simp add: legal_minutes_def session_minutes_up_to)
  note IH = Cons.IH [OF w(2)] and cand = last_or_session [OF w(1), of "min t ends" ends candidate]
  show ?case
  proof (cases "t < ends")
    case True
    then have "?rest = []" using w(3) by (intro later_minutes) fastforce
    then show ?thesis
      using cand True IH unfolding s all by (auto simp: Let_def session_minutes_empty)
  next
    case False
    then show ?thesis using cand IH unfolding s all by (auto simp: Let_def session_minutes_empty)
  qed
qed

section \<open>The tail\<close>

lemma minutes_down_reference:
  assumes "begins mod minute = 0" "e mod minute = 0"
  shows "minutes_down e begins left = take left (rev (session_minutes begins e))"
  using assms(2)
proof (induction left arbitrary: e)
  case 0
  then show ?case by (simp add: minutes_down.simps)
next
  case (Suc left)
  show ?case
  proof (cases "begins < e")
    case True
    have "(e - minute) mod minute = 0" using Suc.prems by simp
    then show ?thesis
      using Suc.IH True by (simp add: minutes_down.simps [of e] session_minutes_snoc [OF True assms(1) Suc.prems])
  next
    case False
    then show ?thesis by (simp add: minutes_down.simps [of e] session_minutes_empty)
  qed
qed

lemma minute_tail_reference:
  assumes "whole_sessions ss" and "t mod minute = 0"
  shows "minute_tail (rev ss) t left = take left (rev (filter (\<lambda>m. m \<le> t) (legal_minutes ss)))"
  using assms(1)
proof (induction ss arbitrary: left rule: rev_induct)
  case Nil
  then show ?case by (simp add: legal_minutes_def)
next
  case (snoc s ss)
  obtain p begins ends where s: "s = (p, begins, ends)" by (cases s)
  have w: "begins mod minute = 0" "ends mod minute = 0" using snoc.prems by (auto simp: s whole_sessions_def)
  then have e: "min t ends mod minute = 0" using assms(2) by (simp add: min_def)
  let ?sm = "session_minutes begins (min t ends)"
  have all: "rev (filter (\<lambda>m. m \<le> t) (legal_minutes (ss @ [(p, begins, ends)]))) =
      rev ?sm @ rev (filter (\<lambda>m. m \<le> t) (legal_minutes ss))"
    by (simp add: legal_minutes_def session_minutes_up_to)
  have down: "minutes_down (min t ends) begins left = take left (rev ?sm)"
    by (rule minutes_down_reference [OF w(1) e])
  note IH = snoc.IH [OF whole_sessions_append [OF snoc.prems]]
  show ?case
    unfolding s all by (simp add: down IH Let_def)
qed

section \<open>The list of legal minutes\<close>

lemma session_minutes_sorted: "sorted_wrt (<) (session_minutes begins ends)"
proof -
  have "sorted_wrt (\<lambda>j k. begins + j * minute < begins + k * minute) [1..n]" for n :: int
    by (rule sorted_wrt_mono_rel [OF _ sorted_wrt_upto]) (simp add: mult_strict_right_mono)
  then show ?thesis by (simp add: session_minutes_def sorted_wrt_map)
qed

lemma legal_minutes_sorted: "whole_sessions ss \<Longrightarrow> sorted_wrt (<) (legal_minutes ss)"
proof (induction ss)
  case (Cons s ss)
  obtain p begins ends where s: "s = (p, begins, ends)" by (cases s)
  have w: "whole_sessions ss" "\<forall>(_, o', _) \<in> set ss. ends \<le> o'"
    using Cons.prems by (auto simp: s whole_sessions_Cons)
  have "m < m'" if m: "m \<in> set (session_minutes begins ends)" "m' \<in> set (legal_minutes ss)" for m m'
  proof -
    obtain x where x: "x \<in> set ss" "m' \<in> set (session_minutes (fst (snd x)) (snd (snd x)))"
      using m(2) by (auto simp: legal_minutes_def)
    then have "ends \<le> fst (snd x)" using w(2) by auto
    then show ?thesis
      using session_minutes_bounds(2) [OF m(1)] session_minutes_bounds(1) [OF x(2)] by linarith
  qed
  then show ?case
    using Cons.IH [OF w(1)] session_minutes_sorted [of begins ends]
    by (simp add: s legal_minutes_def sorted_wrt_append)
qed (simp add: legal_minutes_def)

lemma legal_minute_whole: "whole_sessions ss \<Longrightarrow> m \<in> set (legal_minutes ss) \<Longrightarrow> m mod minute = 0"
  by (auto simp: legal_minutes_def session_minutes_def whole_sessions_def mod_simps
      split: prod.splits)

lemma last_up_to:
  fixes t :: int
  assumes "sorted_wrt (<) xs"
  shows "last_or None (filter (\<lambda>m. m \<le> t) xs) = Some t \<longleftrightarrow> t \<in> set xs"
proof
  assume "last_or None (filter (\<lambda>m. m \<le> t) xs) = Some t"
  then show "t \<in> set xs" by (metis filter_is_subset last_in_set last_or_def option.distinct(1) option.inject subsetD)
next
  assume t: "t \<in> set xs"
  let ?ys = "filter (\<lambda>m. m \<le> t) xs"
  have in': "t \<in> set ?ys" using t by simp
  then obtain us m where us: "?ys = us @ [m]" by (cases ?ys rule: rev_cases) auto
  have "sorted_wrt (<) (us @ [m])" using sorted_wrt_filter [OF assms] us by metis
  then have "t \<le> m" using in' unfolding us by (auto simp: sorted_wrt_append)
  moreover have "m \<in> set ?ys" by (simp add: us)
  then have "m \<le> t" by simp
  ultimately have "m = t" by simp
  then show "last_or None ?ys = Some t" unfolding us by simp
qed

lemma tail_reference:
  assumes w: "whole_sessions (continuous_sessions cal ex (date_text (china_day t)))" (is "whole_sessions ?ss")
    and "1 \<le> wanted"
  shows "if t \<in> set (legal_minutes ?ss)
    then completed_legal_minute_tail cal ex (Some t) wanted =
      Inr (rev (take (nat wanted) (rev (filter (\<lambda>m. m \<le> t) (legal_minutes ?ss)))))
    else \<exists>e. completed_legal_minute_tail cal ex (Some t) wanted = Inl (ValueError e)"
proof -
  have latest: "latest_completed_legal_minute cal ex (Some t) =
      Inr (last_or None (filter (\<lambda>m. m \<le> t) (legal_minutes ?ss)))"
    by (simp add: latest_completed_legal_minute_def latest_minute_reference [OF w])
  note mem = last_up_to [OF legal_minutes_sorted [OF w], of t]
  show ?thesis
  proof (cases "t \<in> set (legal_minutes ?ss)")
    case True
    have "t mod minute = 0" by (rule legal_minute_whole [OF w True])
    then show ?thesis
      using True assms(2) mem
      by (simp add: completed_legal_minute_tail_def latest minute_tail_reference [OF w] floor_minute_def)
  next
    case False
    then have "last_or None (filter (\<lambda>m. m \<le> t) (legal_minutes ?ss)) \<noteq> Some t" using mem by simp
    then show ?thesis
      using False assms(2)
      by (cases "t = floor_minute t") (simp_all add: completed_legal_minute_tail_def latest)
  qed
qed

section \<open>Counting\<close>

text \<open>The market time of a session up to an instant.\<close>

definition elapsed_to :: "int \<Rightarrow> session \<Rightarrow> int" where
  "elapsed_to t = (\<lambda>(_, begins, ends). max 0 (min t ends - begins))"

lemma overlap_elapsed:
  "begins < ends \<Longrightarrow> a < b \<Longrightarrow>
    overlap a b (p, begins, ends) = elapsed_to b (p, begins, ends) - elapsed_to a (p, begins, ends)"
  by (auto simp: overlap_def elapsed_to_def Let_def)

lemma elapsed_session:
  assumes "begins mod minute = 0"
  shows "elapsed_to t (p, begins, ends) div minute =
    int (length (filter (\<lambda>m. m \<le> t) (session_minutes begins ends)))"
proof -
  have "length (session_minutes begins e) = nat ((e - begins) div minute)" for e
    by (simp add: session_minutes_def)
  moreover have "int (nat (x div minute)) = max 0 x div minute" for x
    by (cases "0 \<le> x") (simp_all add: max_def pos_imp_zdiv_nonneg_iff div_nonpos_pos_le0)
  ultimately show ?thesis by (simp add: session_minutes_up_to elapsed_to_def)
qed

lemma elapsed_whole: "begins mod minute = 0 \<Longrightarrow> ends mod minute = 0 \<Longrightarrow> t mod minute = 0 \<Longrightarrow>
    minute dvd elapsed_to t (p, begins, ends)"
  by (auto simp: elapsed_to_def max_def min_def mod_eq_0_iff_dvd)

lemma elapsed_total:
  assumes "whole_sessions ss" "t mod minute = 0"
  shows "sum_list (map (elapsed_to t) ss) = minute * int (length (filter (\<lambda>m. m \<le> t) (legal_minutes ss)))"
  using assms(1)
proof (induction ss)
  case (Cons s ss)
  obtain p begins ends where s: "s = (p, begins, ends)" by (cases s)
  have w: "whole_sessions ss" "begins mod minute = 0" "ends mod minute = 0"
    using Cons.prems by (auto simp: s whole_sessions_Cons)
  have "elapsed_to t s = minute * int (length (filter (\<lambda>m. m \<le> t) (session_minutes begins ends)))"
    unfolding s elapsed_session [OF w(2), of t p ends, symmetric]
    using elapsed_whole [OF w(2,3) assms(2), of p] by simp
  then show ?case using Cons.IH [OF w(1)] by (simp add: s legal_minutes_def algebra_simps)
qed (simp add: legal_minutes_def)

lemma between_reference:
  assumes w: "whole_sessions ss" and ab: "a < b" "a mod minute = 0" "b mod minute = 0"
  shows "sum_list (map (overlap a b) ss) div minute =
    int (length (filter (\<lambda>m. a < m \<and> m \<le> b) (legal_minutes ss)))"
proof -
  have "sum_list (map (overlap a b) ss) = sum_list (map (elapsed_to b) ss) - sum_list (map (elapsed_to a) ss)"
    using w
  proof (induction ss)
    case (Cons s ss)
    then show ?case using overlap_elapsed [OF _ ab(1)] by (cases s) (simp add: whole_sessions_Cons)
  qed simp
  also have "\<dots> = minute * (int (length (filter (\<lambda>m. m \<le> b) (legal_minutes ss))) -
      int (length (filter (\<lambda>m. m \<le> a) (legal_minutes ss))))"
    by (simp add: elapsed_total [OF w] ab(2,3) right_diff_distrib)
  also have "int (length (filter (\<lambda>m. m \<le> b) xs)) - int (length (filter (\<lambda>m. m \<le> a) xs)) =
      int (length (filter (\<lambda>m. a < m \<and> m \<le> b) xs))" for xs :: "int list"
    using ab(1) by (induction xs) auto
  finally show ?thesis by simp
qed

text \<open>The minute index of an instant in or at the end of a session.\<close>

lemma index_reference:
  assumes "whole_sessions ss" and "elapsed mod minute = 0"
  shows "minute_index ss elapsed t =
    (if \<exists>(_, begins, ends) \<in> set ss. begins \<le> t \<and> t \<le> ends
     then Some (elapsed div minute + int (length (filter (\<lambda>m. m \<le> t) (legal_minutes ss)))) else None)"
  using assms
proof (induction ss arbitrary: elapsed)
  case (Cons s ss)
  obtain p begins ends where s: "s = (p, begins, ends)" by (cases s)
  have w: "begins < ends" "begins mod minute = 0" "ends mod minute = 0" "whole_sessions ss"
    "\<forall>(_, o', _) \<in> set ss. ends \<le> o'"
    using Cons.prems(1) by (auto simp: s whole_sessions_Cons)
  let ?n = "\<lambda>xs. int (length (filter (\<lambda>m. m \<le> t) xs))"
  have all: "?n (legal_minutes ((p, begins, ends) # ss)) = ?n (session_minutes begins ends) + ?n (legal_minutes ss)"
    by (simp add: legal_minutes_def)
  have here: "?n (session_minutes begins ends) = max 0 (min t ends - begins) div minute"
    using elapsed_session [OF w(2), of t p ends] by (simp add: elapsed_to_def)
  have el: "minute dvd elapsed" using Cons.prems(2) by (simp add: mod_eq_0_iff_dvd)
  show ?case
  proof (cases "t < begins")
    case True
    then show ?thesis using w(1,5) by (fastforce simp: s)
  next
    case t1: False
    show ?thesis
    proof (cases "t \<le> ends")
      case True
      have "?n (legal_minutes ss) = 0"
        using later_minutes [of ss t] w(5) True by fastforce
      moreover have "(elapsed + t - begins) div minute = elapsed div minute + (t - begins) div minute"
        using el by (simp add: div_plus_div_distrib_dvd_left add_diff_eq [symmetric])
      ultimately show ?thesis
        using True t1 here by (simp add: s all del: of_nat_eq_0_iff)
    next
      case False
      have "(elapsed + (ends - begins)) mod minute = 0" using Cons.prems(2) w(2,3) by (simp add: mod_eq_0_iff_dvd)
      note IH = Cons.IH [OF w(4) this]
      have "(elapsed + (ends - begins)) div minute = elapsed div minute + (ends - begins) div minute"
        using el by (simp add: div_plus_div_distrib_dvd_left)
      then show ?thesis using IH False t1 here w(1) by (simp add: s all)
    qed
  qed
qed simp

end
