(* ===== verification/Clock_Theorems.thy ===== *)
theory Clock_Theorems
  imports Clock_Properties Registry_Properties
begin

text \<open>
  The properties of the trading clock (\<open>clock.py\<close>): the calendar is immutable history and stays well
  formed, and market time is counted on the legal minutes of the day.
\<close>

section \<open>The calendar\<close>

definition rows_of :: "calendar \<Rightarrow> string \<Rightarrow> string \<Rightarrow> session_row list" where
  "rows_of cal ex date = filter (\<lambda>r. sn_exchange r = ex \<and> sn_date r = date) (cal_sessions cal)"

definition day_ok :: "calendar \<Rightarrow> calendar_day \<Rightarrow> bool" where
  "day_ok cal d \<longleftrightarrow>
     (let rows = rows_of cal (cd_exchange d) (cd_date d) in
      map sn_sequence rows = [0..<length rows] \<and> (cd_trading d \<longleftrightarrow> rows \<noteq> []) \<and>
      (\<forall>r \<in> set rows. sn_opens r < sn_closes r))"

definition calendar_inv :: "calendar \<Rightarrow> bool" where
  "calendar_inv cal \<longleftrightarrow>
     distinct (map (\<lambda>d. (cd_exchange d, cd_date d)) (cal_days cal)) \<and>
     (\<forall>d \<in> set (cal_days cal). day_ok cal d) \<and>
     (\<forall>r \<in> set (cal_sessions cal). (sn_exchange r, sn_date r) \<in> (\<lambda>d. (cd_exchange d, cd_date d)) ` set (cal_days cal))"

lemma sort_key_sorted: "sorted (map f xs) \<Longrightarrow> sort_key f xs = xs"
proof (induction xs)
  case (Cons x xs)
  then have "insort_key f x xs = x # xs" by (cases xs) auto
  then show ?case using Cons by simp
qed simp

lemma session_rows_ordered:
  assumes "calendar_inv cal" and "d \<in> set (cal_days cal)"
  shows "session_rows cal (cd_exchange d) (cd_date d) = rows_of cal (cd_exchange d) (cd_date d)"
proof -
  have "map sn_sequence (rows_of cal (cd_exchange d) (cd_date d)) =
      [0..<length (rows_of cal (cd_exchange d) (cd_date d))]"
    using assms by (simp add: calendar_inv_def day_ok_def Let_def)
  then have "sorted (map sn_sequence (rows_of cal (cd_exchange d) (cd_date d)))" by simp
  then show ?thesis unfolding session_rows_def rows_of_def by (rule sort_key_sorted)
qed

text \<open>The rows of one import.\<close>

definition session_entries :: "string \<Rightarrow> string \<Rightarrow> nat \<Rightarrow> session list \<Rightarrow> session_row list" where
  "session_entries ex date n ss =
     map (\<lambda>(k, p, b, e). \<lparr>sn_exchange = ex, sn_date = date, sn_sequence = k, sn_phase = p,
       sn_opens = b, sn_closes = e\<rparr>) (enumerate n ss)"

lemma session_entries_Cons:
  "session_entries ex date n ((p, b, e) # ss) =
    \<lparr>sn_exchange = ex, sn_date = date, sn_sequence = n, sn_phase = p, sn_opens = b, sn_closes = e\<rparr> #
      session_entries ex date (Suc n) ss"
  by (simp add: session_entries_def)

lemma session_entries_Nil: "session_entries ex date n [] = []"
  by (simp add: session_entries_def)

lemma insert_sessions_Inr:
  assumes "insert_sessions ex date n ss cal = Inr cal'"
  shows "cal_days cal' = cal_days cal" "cal_sessions cal' = cal_sessions cal @ session_entries ex date n ss"
    "\<forall>(_, b, e) \<in> set ss. b < e"
proof -
  have "cal_days cal' = cal_days cal \<and> cal_sessions cal' = cal_sessions cal @ session_entries ex date n ss \<and>
    (\<forall>(_, b, e) \<in> set ss. b < e)"
    using assms
  proof (induction ss arbitrary: n cal)
    case Nil
    then show ?case by (simp add: session_entries_def)
  next
    case (Cons s ss)
    obtain p b e where s: "s = (p, b, e)" by (cases s)
    let ?row = "\<lparr>sn_exchange = ex, sn_date = date, sn_sequence = n, sn_phase = p, sn_opens = b, sn_closes = e\<rparr>"
    have be: "b < e" and rest: "insert_sessions ex date (Suc n) ss (cal\<lparr>cal_sessions := cal_sessions cal @ [?row]\<rparr>) = Inr cal'"
      using Cons.prems by (auto simp: s insert_session_def bindR_eq_Inr)
    show ?case using Cons.IH [OF rest] be by (simp add: s session_entries_Cons)
  qed
  then show "cal_days cal' = cal_days cal" "cal_sessions cal' = cal_sessions cal @ session_entries ex date n ss"
    "\<forall>(_, b, e) \<in> set ss. b < e" by blast+
qed

lemma session_entries_rows:
  "map sn_sequence (session_entries ex date n ss) = [n..<n + length ss]"
  "map session_of (session_entries ex date n ss) = ss"
  "filter (\<lambda>r. sn_exchange r = x \<and> sn_date r = d) (session_entries ex date n ss) =
    (if x = ex \<and> d = date then session_entries ex date n ss else [])"
  "r \<in> set (session_entries ex date n ss) \<Longrightarrow> sn_exchange r = ex \<and> sn_date r = date"
  "\<forall>(_, b, e) \<in> set ss. b < e \<Longrightarrow> r \<in> set (session_entries ex date n ss) \<Longrightarrow> sn_opens r < sn_closes r"
  "length (session_entries ex date n ss) = length ss"
proof -
  show "map sn_sequence (session_entries ex date n ss) = [n..<n + length ss]"
    "map session_of (session_entries ex date n ss) = ss"
    "filter (\<lambda>r. sn_exchange r = x \<and> sn_date r = d) (session_entries ex date n ss) =
      (if x = ex \<and> d = date then session_entries ex date n ss else [])"
    "r \<in> set (session_entries ex date n ss) \<Longrightarrow> sn_exchange r = ex \<and> sn_date r = date"
    "\<forall>(_, b, e) \<in> set ss. b < e \<Longrightarrow> r \<in> set (session_entries ex date n ss) \<Longrightarrow> sn_opens r < sn_closes r"
    "length (session_entries ex date n ss) = length ss"
    by (induction ss arbitrary: n)
      (auto simp: session_entries_Cons session_entries_Nil session_of_def upt_conv_Cons simp del: upt_Suc)
qed

lemma import_command_Inr:
  assumes run: "import_command ex date tz ss cal = Inr (new, cal')" and inv: "calendar_inv cal"
  shows "calendar_inv cal'"
    "\<exists>d \<in> set (cal_days cal'). cd_exchange d = ex \<and> cd_date d = date \<and> cd_timezone d = tz \<and>
      cd_trading d = (ss \<noteq> []) \<and> map session_of (rows_of cal' ex date) = ss"
    "prefix (cal_days cal) (cal_days cal')" "prefix (cal_sessions cal) (cal_sessions cal')"
    "\<not> new \<Longrightarrow> cal' = cal" "new \<longleftrightarrow> day_rows cal ex date = []"
    "x \<noteq> ex \<or> y \<noteq> date \<Longrightarrow> rows_of cal' x y = rows_of cal x y"
proof -
  let ?P = "calendar_inv cal' \<and>
    (\<exists>d \<in> set (cal_days cal'). cd_exchange d = ex \<and> cd_date d = date \<and> cd_timezone d = tz \<and>
      cd_trading d = (ss \<noteq> []) \<and> map session_of (rows_of cal' ex date) = ss) \<and>
    prefix (cal_days cal) (cal_days cal') \<and> prefix (cal_sessions cal) (cal_sessions cal') \<and>
    (\<not> new \<longrightarrow> cal' = cal) \<and> (new \<longleftrightarrow> day_rows cal ex date = []) \<and>
    (x \<noteq> ex \<or> y \<noteq> date \<longrightarrow> rows_of cal' x y = rows_of cal x y)"
  obtain existing where one: "one_or_none (day_rows cal ex date) = Inr existing"
    using run by (auto simp: import_command_def bindR_eq_Inr)
  have ?P
  proof (cases existing)
    case (Some d)
    have rows: "day_rows cal ex date = [d]" using one Some by (simp add: one_or_none_eq_Some)
    then have "d \<in> set (filter (\<lambda>r. cd_exchange r = ex \<and> cd_date r = date) (cal_days cal))"
      by (simp add: day_rows_def)
    then have d: "d \<in> set (cal_days cal)" "cd_exchange d = ex" "cd_date d = date" by auto
    have "new = False \<and> cal' = cal \<and> cd_trading d = (ss \<noteq> []) \<and> cd_timezone d = tz \<and>
        map session_of (session_rows cal ex date) = ss"
      using run one Some by (auto simp: import_command_def)
    then show ?thesis
      using session_rows_ordered [OF inv d(1)] d rows inv by auto
  next
    case None
    have rows: "day_rows cal ex date = []" using one None by (simp add: one_or_none_eq_None)
    let ?d = "\<lparr>cd_exchange = ex, cd_date = date, cd_trading = (ss \<noteq> []), cd_timezone = tz\<rparr>"
    obtain c where new: "new" and c: "c = cal\<lparr>cal_days := cal_days cal @ [?d]\<rparr>"
      and ins: "insert_sessions ex date 0 ss c = Inr cal'"
      using run one None by (auto simp: import_command_def insert_day_def bindR_eq_Inr)
    note ins = insert_sessions_Inr [OF ins]
    let ?es = "session_entries ex date 0 ss"
    have tables: "cal_days cal' = cal_days cal @ [?d]" "cal_sessions cal' = cal_sessions cal @ ?es"
      using ins(1,2) by (simp_all add: c)
    have fresh: "(ex, date) \<notin> (\<lambda>d. (cd_exchange d, cd_date d)) ` set (cal_days cal)"
      using rows by (auto simp: day_rows_def filter_empty_conv)
    have "(sn_exchange r, sn_date r) \<noteq> (ex, date)" if "r \<in> set (cal_sessions cal)" for r
      using inv fresh that unfolding calendar_inv_def by metis
    then have none: "rows_of cal ex date = []" by (auto simp: rows_of_def filter_empty_conv)
    have new_rows: "rows_of cal' x y = rows_of cal x y @ (if x = ex \<and> y = date then ?es else [])" for x y
      by (simp add: rows_of_def tables(2) session_entries_rows(3))
    have "day_ok cal' ?d"
      using session_entries_rows(1) [of ex date 0 ss] session_entries_rows(5) [OF ins(3), of _ ex date 0]
        session_entries_rows(6) [of ex date 0 ss]
      by (auto simp: day_ok_def Let_def new_rows none)
    moreover have "day_ok cal' d" if "d \<in> set (cal_days cal)" for d
    proof -
      have "\<not> (cd_exchange d = ex \<and> cd_date d = date)" using fresh that by (auto simp: image_iff)
      then have "rows_of cal' (cd_exchange d) (cd_date d) = rows_of cal (cd_exchange d) (cd_date d)"
        by (auto simp: new_rows)
      then show ?thesis using inv that by (simp add: calendar_inv_def day_ok_def)
    qed
    ultimately have "calendar_inv cal'"
      using inv fresh session_entries_rows(4) by (fastforce simp: calendar_inv_def tables)
    then show ?thesis
      using new rows none tables session_entries_rows(2) [of ex date 0 ss] by (auto simp: new_rows)
  qed
  then show "calendar_inv cal'"
    "\<exists>d \<in> set (cal_days cal'). cd_exchange d = ex \<and> cd_date d = date \<and> cd_timezone d = tz \<and>
      cd_trading d = (ss \<noteq> []) \<and> map session_of (rows_of cal' ex date) = ss"
    "prefix (cal_days cal) (cal_days cal')" "prefix (cal_sessions cal) (cal_sessions cal')"
    "\<not> new \<Longrightarrow> cal' = cal" "new \<longleftrightarrow> day_rows cal ex date = []"
    "x \<noteq> ex \<or> y \<noteq> date \<Longrightarrow> rows_of cal' x y = rows_of cal x y"
    by blast+
qed

text \<open>C33: the calendar is immutable, well-formed history: an import keeps one row per exchange and date with
  its sessions numbered from zero, non-empty exactly on trading days and closing after they open; it only
  appends, leaves every other day alone, and importing the same day again is accepted and changes nothing.\<close>

theorem import_day_immutable:
  assumes run: "import_day ex date tz sessions cal = Inr (new, cal')" and inv: "calendar_inv cal"
  shows "calendar_inv cal' \<and> prefix (cal_days cal) (cal_days cal') \<and>
    (new = (day_rows cal ex date = [])) \<and> (new \<or> cal' = cal) \<and>
    (\<forall>x y. (x, y) \<noteq> (ex, date) \<longrightarrow> rows_of cal' x y = rows_of cal x y) \<and>
    import_day ex date tz sessions cal' = Inr (False, cal')"
proof -
  obtain n ss where pre: "\<not> (blank ex \<or> blank tz)" "iso_ordinal date = Inr n" "mapR normalize_session sessions = Inr ss"
    "\<not> list_ex (\<lambda>(phase, _, _). blank phase) ss" "\<not> list_ex (\<lambda>(_, b, e). e \<le> b) ss"
    and cmd: "import_command ex date tz ss cal = Inr (new, cal')"
    using run by (auto simp: import_day_def bindR_eq_Inr)
  note post = import_command_Inr [OF cmd inv]
  obtain d where d: "d \<in> set (cal_days cal')" "cd_exchange d = ex" "cd_date d = date" "cd_timezone d = tz"
    "cd_trading d = (ss \<noteq> [])" "map session_of (rows_of cal' ex date) = ss"
    using post(2) by blast
  have "distinct (map (\<lambda>d. (cd_exchange d, cd_date d)) (cal_days cal'))" using post(1) by (simp add: calendar_inv_def)
  from filter_unique [OF this d(1)] have "day_rows cal' ex date = [d]" by (simp add: day_rows_def d)
  then have "import_command ex date tz ss cal' = Inr (False, cal')"
    using session_rows_ordered [OF post(1) d(1)] d by (simp add: import_command_def one_or_none_def)
  then have "import_day ex date tz sessions cal' = Inr (False, cal')"
    using pre by (simp add: import_day_def)
  then show ?thesis using post by auto
qed

section \<open>Market time\<close>

text \<open>C34: on ordered sessions of whole minutes, the tail of completed minutes is the suffix of the day's legal
  minutes up to the target, at most as long as asked; a target that is no legal minute is rejected.\<close>

theorem minute_tail_is_suffix:
  assumes "whole_sessions (continuous_sessions cal ex (date_text (china_day t)))" and "1 \<le> wanted"
  shows "completed_legal_minute_tail cal ex (Some t) wanted =
      Inr (let ms = filter (\<lambda>m. m \<le> t) (legal_minutes (continuous_sessions cal ex (date_text (china_day t))))
           in drop (length ms - nat wanted) ms) \<and>
      t \<in> set (legal_minutes (continuous_sessions cal ex (date_text (china_day t)))) \<or>
    (\<exists>e. completed_legal_minute_tail cal ex (Some t) wanted = Inl (ValueError e)) \<and>
      t \<notin> set (legal_minutes (continuous_sessions cal ex (date_text (china_day t))))"
  using tail_reference [OF assms] by (auto simp: Let_def rev_take split: if_splits)


section \<open>Samples\<close>

definition sample_sessions :: "(string \<times> int option \<times> int option) list" where
  "sample_sessions = [(''CONTINUOUS_AM'', Some (10 * minute), Some (13 * minute)),
     (''CONTINUOUS_PM'', Some (20 * minute), Some (22 * minute))]"

definition sample_calendar :: calendar where
  "sample_calendar = \<lparr>cal_days = [\<lparr>cd_exchange = ''SSE'', cd_date = ''1970-01-01'', cd_trading = True,
       cd_timezone = ''Asia/Shanghai''\<rparr>],
     cal_sessions = session_entries ''SSE'' ''1970-01-01'' 0
       [(''CONTINUOUS_AM'', 10 * minute, 13 * minute), (''CONTINUOUS_PM'', 20 * minute, 22 * minute)]\<rparr>"

lemma sample_import:
  "import_day ''SSE'' ''1970-01-01'' ''Asia/Shanghai'' sample_sessions \<lparr>cal_days = [], cal_sessions = []\<rparr> =
     Inr (True, sample_calendar)"
  by code_simp

lemma sample_day: "date_text (china_day (21 * minute)) = ''1970-01-01''" "date_text (china_day (11 * minute)) = ''1970-01-01''"
  by code_simp+

lemma sample_continuous:
  "continuous_sessions sample_calendar ''SSE'' ''1970-01-01'' =
     [(''CONTINUOUS_AM'', 10 * minute, 13 * minute), (''CONTINUOUS_PM'', 20 * minute, 22 * minute)]"
  by code_simp

lemma sample_whole: "whole_sessions (continuous_sessions sample_calendar ''SSE'' ''1970-01-01'')"
  unfolding sample_continuous by (simp add: whole_sessions_def minute_def)

theorem import_day_immutable_witness:
  "\<exists>cal'. import_day ''SSE'' ''1970-01-01'' ''Asia/Shanghai'' sample_sessions \<lparr>cal_days = [], cal_sessions = []\<rparr> =
      Inr (True, cal') \<and> calendar_inv cal' \<and>
    import_day ''SSE'' ''1970-01-01'' ''Asia/Shanghai'' sample_sessions cal' = Inr (False, cal')"
proof -
  have "calendar_inv \<lparr>cal_days = [], cal_sessions = []\<rparr>" by (simp add: calendar_inv_def)
  from import_day_immutable [OF sample_import this] show ?thesis using sample_import by blast
qed

theorem minute_tail_is_suffix_witness:
  "completed_legal_minute_tail sample_calendar ''SSE'' (Some (21 * minute)) 3 =
    Inr [12 * minute, 13 * minute, 21 * minute]"
proof -
  have ms: "legal_minutes (continuous_sessions sample_calendar ''SSE'' ''1970-01-01'') =
      [11 * minute, 12 * minute, 13 * minute, 21 * minute, 22 * minute]"
    unfolding sample_continuous
    by (simp add: legal_minutes_def session_minutes_def minute_def upto_rec1)
  have "whole_sessions (continuous_sessions sample_calendar ''SSE'' (date_text (china_day (21 * minute))))"
    unfolding sample_day by (rule sample_whole)
  from minute_tail_is_suffix [OF this, of 3] show ?thesis
    unfolding sample_day ms by (simp add: minute_def Let_def)
qed


section \<open>The date of a phase\<close>

text \<open>
  \<open>phase_at\<close> looks up the UTC date while the other questions use the date at UTC+8: at seven in the
  morning of a covered trading day the phase is not \<open>PRE_OPEN\<close> but that of the previous date.
\<close>

theorem phase_at_uses_utc_date:
  "date_text (china_day (- 60 * minute)) = ''1970-01-01'' \<and>
   day_rows sample_calendar ''SSE'' (date_text (china_day (- 60 * minute))) \<noteq> [] \<and>
   phase_at sample_calendar ''SSE'' (Some (- 60 * minute)) = Inr ''CALENDAR_COVERAGE_MISSING'' \<and>
   phase_at sample_calendar ''SSE'' (Some (5 * minute)) = Inr ''PRE_OPEN''"
  by code_simp

end
