(* ===== verification/Tdx_Protocol.thy ===== *)
theory Tdx_Protocol
  imports Decimal_Arith Time_Text "HOL-Library.Word"
begin

text \<open>
  \<open>tdx/protocol.py\<close>: the binary protocol of the quote servers. Bytes are words of eight bits, a parser
  reads a body at a position as the code does, and \<open>struct.unpack\<close> and indexing fail as Python's do when
  the bytes are not there. The inflation of a compressed body and the GBK code table are arguments. The
  powers of two of the float format are \<open>Decimal(2) ** k\<close> in the default context, which is the correctly
  rounded power for every exponent that occurs.
\<close>

unbundle bit_operations_syntax

type_synonym bytes = "8 word list"

section \<open>Little-endian fields\<close>

fun le_value :: "bytes \<Rightarrow> int" where
  "le_value [] = 0"
| "le_value (b # bs) = uint b + 256 * le_value bs"

fun le_bytes :: "nat \<Rightarrow> int \<Rightarrow> bytes" where
  "le_bytes 0 v = []"
| "le_bytes (Suc n) v = word_of_int v # le_bytes n (v div 256)"

text \<open>\<open>struct.pack\<close> of one unsigned field and of a text field padded with zeros.\<close>

definition pack_field :: "nat \<Rightarrow> int \<Rightarrow> bytes result" where
  "pack_field n v =
     guardR (v < 0 \<or> 256 ^ n \<le> v) (StructError ''format requires a number in range'') (Inr (le_bytes n v))"

fun pack_fields :: "(nat \<times> int) list \<Rightarrow> bytes result" where
  "pack_fields [] = Inr []"
| "pack_fields ((n, v) # rest) =
     bindR (pack_field n v) (\<lambda>bs. bindR (pack_fields rest) (\<lambda>more. Inr (bs @ more)))"

definition ascii_bytes :: "string \<Rightarrow> bytes" where
  "ascii_bytes s = map of_char s"

definition pack_text :: "nat \<Rightarrow> string \<Rightarrow> bytes" where
  "pack_text n s = take n (ascii_bytes s @ replicate n 0)"

definition slice :: "bytes \<Rightarrow> nat \<Rightarrow> nat \<Rightarrow> bytes" where
  "slice body position n = take n (drop position body)"

definition unpack :: "nat \<Rightarrow> bytes \<Rightarrow> bytes result" where
  "unpack n bs = guardR (List.length bs \<noteq> n) (StructError ''unpack requires a buffer of n bytes'') (Inr bs)"

definition byte_at :: "bytes \<Rightarrow> nat \<Rightarrow> 8 word result" where
  "byte_at body position =
     (if position < List.length body then Inr (body ! position) else Inl (IndexError ''index out of range''))"

text \<open>\<open>_require\<close>.\<close>

definition need :: "bytes \<Rightarrow> nat \<Rightarrow> nat \<Rightarrow> 'a result \<Rightarrow> 'a result" where
  "need body position n k =
     guardR (List.length body < position + n) (TdxProtocolError ''truncated TDX response'') k"

definition read_u16 :: "bytes \<Rightarrow> nat \<Rightarrow> int result" where
  "read_u16 body position =
     need body position 2 (bindR (unpack 2 (slice body position 2)) (\<lambda>bs. Inr (le_value bs)))"

text \<open>\<open>bytes.decode("ascii")\<close>.\<close>

definition ascii_decode :: "exc \<Rightarrow> bytes \<Rightarrow> string result" where
  "ascii_decode e bs = guardR (list_ex (\<lambda>b. 128 \<le> uint b) bs) e (Inr (map (\<lambda>b. char_of (unat b)) bs))"

definition is_code :: "string \<Rightarrow> bool" where
  "is_code s = (List.length s = 6 \<and> all_digits s)"

section \<open>Data\<close>

record tdx_instrument =
  ti_market :: int
  ti_code :: string
  ti_kind :: string

definition tdx_instrument_check :: "tdx_instrument \<Rightarrow> tdx_instrument result" where
  "tdx_instrument_check i =
     guardR (ti_market i \<notin> {0, 1}) (ValueError ''TDX market must be Shenzhen (0) or Shanghai (1)'')
    (guardR (\<not> is_code (ti_code i)) (ValueError ''TDX code must contain six digits'') (Inr i))"

record tdx_directory_record =
  td_code :: string
  td_name :: "nat list"
  td_volume_unit :: int
  td_decimal_point :: int

record tdx_raw_quote =
  rq_market :: int
  rq_code :: string
  rq_price :: rat
  rq_last_close :: rat
  rq_open :: rat
  rq_high :: rat
  rq_low :: rat
  rq_volume_lots :: int
  rq_current_volume_lots :: int
  rq_amount :: rat
  rq_server_time_raw :: int

record tdx_raw_bar =
  rb_market :: int
  rb_code :: string
  rb_timestamp :: int
  rb_open :: rat
  rb_high :: rat
  rb_low :: rat
  rb_close :: rat
  rb_volume :: int
  rb_amount :: rat

record tdx_block_meta =
  bm_size :: int
  bm_hash :: "string option"

section \<open>Requests\<close>

definition market_check :: "int \<Rightarrow> 'a result \<Rightarrow> 'a result" where
  "market_check market k = guardR (market \<notin> {0, 1}) (TdxProtocolError ''invalid TDX market'') k"

definition block_filenames :: "string list" where
  "block_filenames = [''block.dat'', ''block_zs.dat'', ''block_gn.dat'', ''block_fg.dat'']"

definition block_filename_check :: "string \<Rightarrow> 'a result \<Rightarrow> 'a result" where
  "block_filename_check name k =
     guardR (name \<notin> set block_filenames) (TdxProtocolError ''unsupported TDX block file'') k"

definition setup_requests :: "bytes list" where
  "setup_requests =
     [[0x0c, 0x02, 0x18, 0x93, 0x00, 0x01, 0x03, 0x00, 0x03, 0x00, 0x0d, 0x00, 0x01],
      [0x0c, 0x02, 0x18, 0x94, 0x00, 0x01, 0x03, 0x00, 0x03, 0x00, 0x0d, 0x00, 0x02],
      [0x0c, 0x03, 0x18, 0x99, 0x00, 0x01, 0x20, 0x00, 0x20, 0x00, 0xdb, 0x0f, 0xd5, 0xd0, 0xc9, 0xcc,
       0xd6, 0xa4, 0xa8, 0xaf, 0x00, 0x00, 0x00, 0x8f, 0xc2, 0x25, 0x40, 0x13, 0x00, 0x00, 0xd5, 0x00,
       0xc9, 0xcc, 0xbd, 0xf0, 0xd7, 0xea, 0x00, 0x00, 0x00, 0x02]]"

definition security_count_request :: "int \<Rightarrow> bytes result" where
  "security_count_request market =
     market_check market (bindR (pack_field 2 market) (\<lambda>m.
       Inr ([0x0c, 0x0c, 0x18, 0x6c, 0x00, 0x01, 0x08, 0x00, 0x08, 0x00, 0x4e, 0x04] @ m @
            [0x75, 0xc7, 0x33, 0x01])))"

definition security_list_request :: "int \<Rightarrow> int \<Rightarrow> bytes result" where
  "security_list_request market start =
     market_check market
    (guardR (\<not> (0 \<le> start \<and> start \<le> 0xFFFF))
       (TdxProtocolError ''security directory start is outside uint16 range'')
    (bindR (pack_fields [(2, market), (2, start)]) (\<lambda>f.
       Inr ([0x0c, 0x01, 0x18, 0x64, 0x01, 0x01, 0x06, 0x00, 0x06, 0x00, 0x50, 0x04] @ f))))"

definition bar_request :: "int \<Rightarrow> tdx_instrument \<Rightarrow> int \<Rightarrow> int \<Rightarrow> bytes result" where
  "bar_request category i start wanted =
     guardR (\<not> (0 \<le> category \<and> category \<le> 11)) (TdxProtocolError ''unsupported TDX bar category'')
    (guardR (start < 0 \<or> \<not> (1 \<le> wanted \<and> wanted \<le> 800)) (TdxProtocolError ''invalid TDX bar range'')
    (bindR (pack_fields [(2, 0x10C), (4, 0x01016408), (2, 0x1C), (2, 0x1C), (2, 0x052D), (2, ti_market i)]) (\<lambda>h.
     bindR (pack_fields [(2, category), (2, 1), (2, start), (2, wanted), (4, 0), (4, 0), (2, 0)]) (\<lambda>t.
     Inr (h @ pack_text 6 (ti_code i) @ t)))))"

definition block_meta_request :: "string \<Rightarrow> bytes result" where
  "block_meta_request name =
     block_filename_check name
       (Inr ([0x0c, 0x39, 0x18, 0x69, 0x00, 0x01, 0x2a, 0x00, 0x2a, 0x00, 0xc5, 0x02] @ pack_text 40 name))"

definition block_chunk_request :: "string \<Rightarrow> int \<Rightarrow> int \<Rightarrow> bytes result" where
  "block_chunk_request name offset wanted =
     block_filename_check name
    (guardR (offset < 0 \<or> \<not> (1 \<le> wanted \<and> wanted \<le> 0x7530)) (TdxProtocolError ''invalid TDX block chunk range'')
    (bindR (pack_fields [(4, offset), (4, wanted)]) (\<lambda>f.
       Inr ([0x0c, 0x37, 0x18, 0x6a, 0x00, 0x01, 0x6e, 0x00, 0x6e, 0x00, 0xb9, 0x06] @ f @ pack_text 100 name))))"

fun quote_entries :: "tdx_instrument list \<Rightarrow> bytes result" where
  "quote_entries [] = Inr []"
| "quote_entries (i # rest) =
     bindR (pack_field 1 (ti_market i)) (\<lambda>m. bindR (quote_entries rest) (\<lambda>more.
       Inr (m @ pack_text 6 (ti_code i) @ more)))"

definition max_quote_batch :: nat where
  "max_quote_batch = 75"

definition quote_request :: "tdx_instrument list \<Rightarrow> bytes result" where
  "quote_request is =
     guardR (is = []) (TdxProtocolError ''empty quote request'')
    (guardR (max_quote_batch < List.length is) (TdxProtocolError ''quote request exceeds 75 symbols'')
    (let n = int (List.length is); data = n * 7 + 12 in
     bindR (pack_fields [(2, 0x10C), (4, 0x02006320), (2, data), (2, data), (4, 0x5053E), (4, 0), (2, 0), (2, n)])
       (\<lambda>h. bindR (quote_entries is) (\<lambda>es. Inr (h @ es)))))"

section \<open>Responses\<close>

definition max_response_bytes :: int where
  "max_response_bytes = 32 * 1024 * 1024"

text \<open>\<open>inflate\<close> is \<open>zlib.decompress\<close>, \<open>None\<close> for \<open>zlib.error\<close>.\<close>

definition decode_response :: "(bytes \<Rightarrow> bytes option) \<Rightarrow> bytes \<Rightarrow> bytes \<Rightarrow> bytes result" where
  "decode_response inflate header body =
     guardR (List.length header \<noteq> 16) (TdxProtocolError ''invalid response header'')
    (bindR (unpack 16 header) (\<lambda>h.
     let packed = le_value (slice h 12 2); unpacked = le_value (slice h 14 2) in
     guardR (packed > max_response_bytes \<or> unpacked > max_response_bytes)
       (TdxProtocolError ''response exceeds safe size'')
    (guardR (int (List.length body) \<noteq> packed) (TdxProtocolError ''truncated response body'')
    (bindR (if packed = unpacked then Inr body
        else require (TdxProtocolError ''invalid compressed response'') (inflate body)) (\<lambda>decoded.
     guardR (int (List.length decoded) \<noteq> unpacked) (TdxProtocolError ''response length mismatch'')
       (Inr decoded))))))"

definition parse_security_count :: "bytes \<Rightarrow> int result" where
  "parse_security_count body =
     guardR (List.length body \<noteq> 2) (TdxProtocolError ''invalid security count response'') (read_u16 body 0)"

text \<open>\<open>rstrip("\x00")\<close>.\<close>

definition rstrip_zero :: "nat list \<Rightarrow> nat list" where
  "rstrip_zero cs = rev (dropWhile (\<lambda>c. c = 0) (rev cs))"

definition parse_directory :: "(bytes \<Rightarrow> nat list) \<Rightarrow> bytes \<Rightarrow> nat \<Rightarrow> tdx_directory_record result" where
  "parse_directory gbk body position =
     bindR (unpack 29 (slice body position 29)) (\<lambda>bs.
     bindR (ascii_decode (TdxProtocolError ''invalid directory code'') (slice bs 0 6)) (\<lambda>code.
     guardR (\<not> is_code code) (TdxProtocolError ''invalid directory code'')
       (Inr \<lparr>td_code = code, td_name = rstrip_zero (gbk (slice bs 8 8)),
             td_volume_unit = le_value (slice bs 6 2), td_decimal_point = le_value (slice bs 20 1)\<rparr>)))"

definition parse_security_list :: "(bytes \<Rightarrow> nat list) \<Rightarrow> bytes \<Rightarrow> tdx_directory_record list result" where
  "parse_security_list gbk body =
     bindR (read_u16 body 0) (\<lambda>n.
     guardR (int (List.length body) \<noteq> 2 + n * 29) (TdxProtocolError ''truncated security directory response'')
       (mapR (\<lambda>k. parse_directory gbk body (2 + k * 29)) [0..<nat n]))"

text \<open>
  The variable-length number: six bits in the first byte with the sign, seven in each further one while
  the top bit is set.
\<close>

function read_more :: "bytes \<Rightarrow> 8 word \<Rightarrow> int \<Rightarrow> nat \<Rightarrow> nat \<Rightarrow> (int \<times> nat) result" where
  "read_more body first magnitude shift position =
     (if first AND 0x80 = 0 then Inr (magnitude, position)
      else need body position 1 (bindR (byte_at body position) (\<lambda>b.
        let m = magnitude OR push_bit shift (uint (b AND 0x7F)) in
        if 63 < shift + 7 then Inl (TdxProtocolError ''variable number exceeds safe range'')
        else read_more body b m (shift + 7) (position + 1))))"
  by pat_completeness auto

termination by (relation "measure (\<lambda>(_, _, _, shift, _). 64 - shift)") auto

declare read_more.simps [simp del]

definition read_number :: "bytes \<Rightarrow> nat \<Rightarrow> (int \<times> nat) result" where
  "read_number body position =
     need body position 1 (bindR (byte_at body position) (\<lambda>first.
     bindR (read_more body first (uint (first AND 0x3F)) 6 (position + 1)) (\<lambda>(m, p).
     Inr (if first AND 0x40 \<noteq> 0 then - m else m, p))))"

fun read_numbers :: "nat \<Rightarrow> bytes \<Rightarrow> nat \<Rightarrow> (int list \<times> nat) result" where
  "read_numbers 0 body position = Inr ([], position)"
| "read_numbers (Suc n) body position =
     bindR (read_number body position) (\<lambda>(v, p).
     bindR (read_numbers n body p) (\<lambda>(vs, q). Inr (v # vs, q)))"

definition dpow2 :: "int \<Rightarrow> rat" where
  "dpow2 k = dround (2 powi k)"

definition read_float_decimal :: "bytes \<Rightarrow> rat result" where
  "read_float_decimal data =
     bindR (unpack 4 data) (\<lambda>bs.
     let bits = le_value bs;
         sign = (if bits div 2 ^ 31 \<noteq> 0 then - 1 else 1);
         exponent = bits div 2 ^ 23 mod 256;
         mantissa = bits mod 2 ^ 23
     in guardR (exponent = 0xFF) (TdxProtocolError ''non-finite TDX floating value'')
       (Inr (dmul sign
         (if exponent = 0 then dmul (of_int mantissa) (dpow2 (- 149))
          else dmul (dadd 1 (ddiv (of_int mantissa) (2 ^ 23))) (dpow2 (exponent - 127))))))"

definition quote_price :: "int \<Rightarrow> rat" where
  "quote_price value = ddiv (of_int value) 100"

definition bar_price :: "int \<Rightarrow> rat" where
  "bar_price value = ddiv (of_int value) 1000"

definition quote_of :: "int \<Rightarrow> string \<Rightarrow> int list \<Rightarrow> rat \<Rightarrow> tdx_raw_quote" where
  "quote_of market code vs amount =
     (let price = vs ! 0 in
      \<lparr>rq_market = market, rq_code = code, rq_price = quote_price price,
       rq_last_close = quote_price (price + vs ! 1), rq_open = quote_price (price + vs ! 2),
       rq_high = quote_price (price + vs ! 3), rq_low = quote_price (price + vs ! 4),
       rq_volume_lots = vs ! 7, rq_current_volume_lots = vs ! 8, rq_amount = amount,
       rq_server_time_raw = vs ! 5\<rparr>)"

definition parse_quote :: "bytes \<Rightarrow> nat \<Rightarrow> (tdx_raw_quote \<times> nat) result" where
  "parse_quote body position =
     need body position 9 (bindR (unpack 9 (slice body position 9)) (\<lambda>bs.
     let market = le_value (slice bs 0 1) in
     guardR (market \<notin> {0, 1}) (TdxProtocolError ''invalid quote market'')
    (bindR (ascii_decode (TdxProtocolError ''invalid quote code'') (slice bs 1 6)) (\<lambda>code.
     guardR (\<not> is_code code) (TdxProtocolError ''invalid quote code'')
    (bindR (read_numbers 9 body (position + 9)) (\<lambda>(vs, p1).
     need body p1 4 (bindR (read_float_decimal (slice body p1 4)) (\<lambda>amount.
     bindR (read_numbers 24 body (p1 + 4)) (\<lambda>(_, p2).
     need body p2 2 (bindR (read_numbers 4 body (p2 + 2)) (\<lambda>(_, p3).
     need body p3 4 (Inr (quote_of market code vs amount, p3 + 4)))))))))))))"

fun parse_quotes :: "nat \<Rightarrow> bytes \<Rightarrow> nat \<Rightarrow> (tdx_raw_quote list \<times> nat) result" where
  "parse_quotes 0 body position = Inr ([], position)"
| "parse_quotes (Suc n) body position =
     bindR (parse_quote body position) (\<lambda>(r, p).
     bindR (parse_quotes n body p) (\<lambda>(rs, q). Inr (r # rs, q)))"

definition parse_quote_response :: "bytes \<Rightarrow> tdx_raw_quote list result" where
  "parse_quote_response body =
     guardR (List.length body < 4) (TdxProtocolError ''truncated quote response'')
    (bindR (read_u16 body 2) (\<lambda>n.
     bindR (parse_quotes (nat n) body 4) (\<lambda>(rs, p).
     guardR (p \<noteq> List.length body) (TdxProtocolError ''unexpected quote response trailing bytes'') (Inr rs))))"

text \<open>\<open>datetime(year, month, day, hour, minute)\<close> at UTC+8.\<close>

definition bar_instant :: "int \<Rightarrow> int \<Rightarrow> int \<Rightarrow> int \<Rightarrow> int \<Rightarrow> int result" where
  "bar_instant y m d hour mi =
     guardR (\<not> valid_date (y, m, d) \<or> \<not> (0 \<le> hour \<and> hour < 24 \<and> 0 \<le> mi \<and> mi < 60))
       (TdxProtocolError ''invalid TDX bar timestamp'')
       (Inr ((to_ordinal (y, m, d) - epoch_ordinal) * 86400000000 + (hour - 8) * 3600000000 + mi * 60000000))"

definition read_bar_time :: "bytes \<Rightarrow> nat \<Rightarrow> int \<Rightarrow> (int \<times> nat) result" where
  "read_bar_time body position category =
     need body position 4 (bindR (unpack 4 (slice body position 4)) (\<lambda>bs.
     bindR (if category < 4 \<or> category \<in> {7, 8}
        then let day = le_value (slice bs 0 2); minutes = le_value (slice bs 2 2) in
          bar_instant (day div 2048 + 2004) (day mod 2048 div 100) (day mod 2048 mod 100) (minutes div 60) (minutes mod 60)
        else let day = le_value bs in
          bar_instant (day div 10000) (day mod 10000 div 100) (day mod 100) 15 0) (\<lambda>t.
     Inr (t, position + 4))))"

definition bar_of :: "tdx_instrument \<Rightarrow> int \<Rightarrow> int \<Rightarrow> int list \<Rightarrow> rat \<Rightarrow> rat \<Rightarrow> tdx_raw_bar" where
  "bar_of i timestamp open_raw vs volume amount =
     \<lparr>rb_market = ti_market i, rb_code = ti_code i, rb_timestamp = timestamp,
      rb_open = bar_price open_raw, rb_high = bar_price (open_raw + vs ! 2),
      rb_low = bar_price (open_raw + vs ! 3), rb_close = bar_price (open_raw + vs ! 1),
      rb_volume = \<lfloor>volume\<rfloor>, rb_amount = amount\<rparr>"

text \<open>One bar: the bar, the next base price and the position behind it.\<close>

definition parse_bar :: "bytes \<Rightarrow> int \<Rightarrow> tdx_instrument \<Rightarrow> int \<Rightarrow> nat \<Rightarrow> (tdx_raw_bar \<times> int \<times> nat) result" where
  "parse_bar body category i base position =
     bindR (read_bar_time body position category) (\<lambda>(timestamp, p0).
     bindR (read_numbers 4 body p0) (\<lambda>(vs, p1).
     need body p1 8 (bindR (read_float_decimal (slice body p1 4)) (\<lambda>volume.
     bindR (read_float_decimal (slice body (p1 + 4) 4)) (\<lambda>amount.
     let p2 = p1 + 8 in
     bindR (if ti_kind i = ''INDEX'' then need body p2 4 (Inr (p2 + 4)) else Inr p2) (\<lambda>p3.
     guardR (volume < 0 \<or> volume \<noteq> of_int \<lfloor>volume\<rfloor>) (TdxProtocolError ''invalid TDX bar volume'')
       (let open_raw = base + vs ! 0 in
        Inr (bar_of i timestamp open_raw vs volume amount, open_raw + vs ! 1, p3))))))))"

fun parse_bars ::
    "nat \<Rightarrow> bytes \<Rightarrow> int \<Rightarrow> tdx_instrument \<Rightarrow> int \<Rightarrow> nat \<Rightarrow> (tdx_raw_bar list \<times> nat) result" where
  "parse_bars 0 body category i base position = Inr ([], position)"
| "parse_bars (Suc n) body category i base position =
     bindR (parse_bar body category i base position) (\<lambda>(r, base', p).
     bindR (parse_bars n body category i base' p) (\<lambda>(rs, q). Inr (r # rs, q)))"

definition parse_bar_response :: "bytes \<Rightarrow> int \<Rightarrow> tdx_instrument \<Rightarrow> tdx_raw_bar list result" where
  "parse_bar_response body category i =
     bindR (read_u16 body 0) (\<lambda>n.
     bindR (parse_bars (nat n) body category i 0 2) (\<lambda>(rs, p).
     guardR (p \<noteq> List.length body) (TdxProtocolError ''unexpected bar response trailing bytes'') (Inr rs)))"

definition hex_nibble :: "nat \<Rightarrow> char" where
  "hex_nibble n = (if n < 10 then char_of (48 + n) else char_of (87 + n))"

definition hex_text :: "bytes \<Rightarrow> string" where
  "hex_text bs = concat (map (\<lambda>b. [hex_nibble (unat b div 16), hex_nibble (unat b mod 16)]) bs)"

definition parse_block_meta_response :: "bytes \<Rightarrow> tdx_block_meta result" where
  "parse_block_meta_response body =
     guardR (List.length body \<noteq> 38) (TdxProtocolError ''invalid TDX block metadata response'')
    (bindR (unpack 38 body) (\<lambda>bs.
     let value = rev (dropWhile (\<lambda>b. b = 0) (rev (slice bs 5 32))) in
     Inr \<lparr>bm_size = le_value (slice bs 0 4),
          bm_hash = (if value = [] then None
            else Some (case ascii_decode (TdxProtocolError []) value of Inr s \<Rightarrow> s | Inl _ \<Rightarrow> hex_text value))\<rparr>))"

definition parse_block_chunk_response :: "bytes \<Rightarrow> bytes result" where
  "parse_block_chunk_response body =
     guardR (List.length body < 4) (TdxProtocolError ''truncated TDX block chunk response'') (Inr (drop 4 body))"

end
