(* ===== verification/Tdx_Properties.thy ===== *)
theory Tdx_Properties
  imports Tdx_Protocol
begin

text \<open>
  Lemmas on the protocol of \<open>Tdx_Protocol\<close>: bytes as numbers, a reference encoder of the variable-length
  number and its agreement with the reader, how far a reader advances, which exceptions a parser raises,
  and what an accepted record looks like.
\<close>

named_theorems parse_fails "exceptions of the parsers"
named_theorems parse_moves "positions behind the parsed fields"

section \<open>Bytes as numbers\<close>

lemma byte_less: "uint (b :: 8 word) < 256"
  using uint_lt2p [of b] by simp

lemma low_bits: "uint ((b :: 8 word) AND 0x7F) = uint b mod 128" "uint (b AND 0x3F) = uint b mod 64"
proof -
  have "(k :: int) AND 127 = k mod 128" "k AND 63 = k mod 64" for k
    using take_bit_eq_mask [of 7 k] take_bit_eq_mask [of 6 k] by (simp_all add: take_bit_eq_mod mask_eq_exp_minus_1)
  then show "uint (b AND 0x7F) = uint b mod 128" "uint (b AND 0x3F) = uint b mod 64"
    by (simp_all add: unsigned_and_eq)
qed

lemma top_bit: "(b :: 8 word) AND 0x80 = 0 \<longleftrightarrow> uint b < 128"
proof -
  have "b AND 0x80 = 0 \<longleftrightarrow> \<not> bit b 7" using and_exp_eq_0_iff_not_bit [of b 7] by simp
  also have "\<dots> \<longleftrightarrow> \<not> bit (uint b) 7" by (simp add: bit_uint_iff)
  also have "\<dots> \<longleftrightarrow> even (uint b div 128)" by (simp add: bit_iff_odd)
  also have "\<dots> \<longleftrightarrow> uint b < 128"
  proof (cases "uint b < 128")
    case True
    then have "uint b div 128 = 0" using uint_ge_0 [of b] by (simp add: div_pos_pos_trivial)
    then show ?thesis using True by simp
  next
    case False
    then have "uint b div 128 = (uint b - 128) div 128 + 1" by (simp add: div_pos_geq)
    also have "(uint b - 128) div 128 = 0" using False byte_less [of b] by (simp add: div_pos_pos_trivial)
    finally show ?thesis using False by simp
  qed
  finally show ?thesis .
qed

lemma sign_bit: "(b :: 8 word) AND 0x40 = 0 \<longleftrightarrow> even (uint b div 64)"
proof -
  have "b AND 0x40 = 0 \<longleftrightarrow> \<not> bit b 6" using and_exp_eq_0_iff_not_bit [of b 6] by simp
  also have "\<dots> \<longleftrightarrow> \<not> bit (uint b) 6" by (simp add: bit_uint_iff)
  also have "\<dots> \<longleftrightarrow> even (uint b div 64)" by (simp add: bit_iff_odd)
  finally show ?thesis .
qed

lemma or_push_bit: "0 \<le> m \<Longrightarrow> m < 2 ^ n \<Longrightarrow> m OR push_bit n x = m + 2 ^ n * (x :: int)"
proof -
  assume "0 \<le> m" "m < 2 ^ n"
  then have "take_bit n m = m" by (simp add: take_bit_int_eq_self)
  then have "\<not> bit m i" if "n \<le> i" for i using that by (metis bit_take_bit_iff linorder_not_le)
  then have "m AND push_bit n x = 0" by (intro bit_eqI) (auto simp: bit_and_iff bit_push_bit_iff)
  then have "m + push_bit n x = m OR push_bit n x" by (rule disjunctive_add_eq_or)
  then show ?thesis by (simp add: push_bit_eq_mult ac_simps)
qed

lemma uint_word_of_byte: "0 \<le> k \<Longrightarrow> k < 256 \<Longrightarrow> uint (word_of_int k :: 8 word) = k"
  by (simp add: uint_word_of_int)

section \<open>The variable-length number\<close>

text \<open>The reference encoder: six bits and the sign, then seven bits a byte, the last one without the top bit.\<close>

fun encode_tail :: "nat \<Rightarrow> bytes" where
  "encode_tail m =
     (if m < 128 then [word_of_int (int m)] else word_of_int (128 + int (m mod 128)) # encode_tail (m div 128))"

declare encode_tail.simps [simp del]

definition encode_number :: "int \<Rightarrow> bytes" where
  "encode_number v =
     (let m = nat \<bar>v\<bar>; sign = if v < 0 then 64 else 0 in
      if m < 64 then [word_of_int (sign + int m)]
      else word_of_int (128 + sign + int (m mod 64)) # encode_tail (m div 64))"

lemma shift_digit: "m + 2 ^ s * int (n mod 128) + 2 ^ (s + 7) * int (n div 128) = m + 2 ^ s * int n"
proof -
  have "r + k * a + k * 128 * b = r + k * (a + 128 * b)" for r k a b :: int by (simp add: algebra_simps)
  moreover have "int (n mod 128) + 128 * int (n div 128) = int n"
    by (simp only: zmod_int zdiv_int of_nat_numeral mod_mult_div_eq)
  ultimately show ?thesis by (simp add: power_add)
qed

lemma need_ok: "position + n \<le> List.length body \<Longrightarrow> need body position n k = k"
  by (simp add: need_def)

lemma read_more_step:
  assumes "128 \<le> uint first" and "body = pre @ b # post" and "0 \<le> m" and "m < 2 ^ shift" and "shift \<le> 56"
  shows "read_more body first m shift (List.length pre) =
    read_more body b (m + 2 ^ shift * (uint b mod 128)) (shift + 7) (Suc (List.length pre))"
  using assms by (subst read_more.simps) (simp add: top_bit need_ok byte_at_def low_bits or_push_bit Let_def)

lemma read_more_done: "uint first < 128 \<Longrightarrow> read_more body first m shift position = Inr (m, position)"
  by (subst read_more.simps) (simp add: top_bit)

lemma read_more_encoded:
  assumes "128 \<le> uint first" and "0 \<le> m" and "m < 2 ^ shift" and "shift mod 7 = 6" and "shift \<le> 55"
    and "n < 2 ^ (62 - shift)" and "body = pre @ encode_tail n @ post"
  shows "read_more body first m shift (List.length pre) =
    Inr (m + 2 ^ shift * int n, List.length pre + List.length (encode_tail n))"
  using assms
proof (induction n arbitrary: first m shift pre rule: encode_tail.induct)
  case (1 n)
  show ?case
  proof (cases "n < 128")
    case True
    let ?b = "word_of_int (int n) :: 8 word"
    from True have e: "encode_tail n = [?b]" by (simp add: encode_tail.simps)
    have u: "uint ?b = int n" using True by (intro uint_word_of_byte) simp_all
    have "read_more body first m shift (List.length pre) =
      read_more body ?b (m + 2 ^ shift * (uint ?b mod 128)) (shift + 7) (Suc (List.length pre))"
      by (rule read_more_step [OF "1.prems"(1) _ "1.prems"(2,3), where post = post]) (simp_all only: "1.prems"(7) e append.simps, use "1.prems"(5) in simp)
    then show ?thesis using True e u by (simp add: read_more_done)
  next
    case False
    let ?b = "word_of_int (128 + int (n mod 128)) :: 8 word"
    let ?m = "m + 2 ^ shift * int (n mod 128)"
    from False have e: "encode_tail n = ?b # encode_tail (n div 128)" by (subst encode_tail.simps) simp
    have u: "uint ?b = 128 + int (n mod 128)" by (intro uint_word_of_byte) simp_all
    have "(2 :: nat) ^ 7 \<le> n" using False by simp
    then have "(2 :: nat) ^ 7 < 2 ^ (62 - shift)" using "1.prems"(6) by linarith
    then have "7 < 62 - shift" by (rule power_less_imp_less_exp [rotated]) simp
    then have s: "shift \<le> 48" using "1.prems"(4) by presburger
    have bound: "?m < 2 ^ (shift + 7)"
    proof -
      have "(2 :: int) ^ shift * int (n mod 128) \<le> 2 ^ shift * 127" by (intro mult_left_mono) auto
      moreover have "(2 :: int) ^ (shift + 7) = 2 ^ shift * 127 + 2 ^ shift" by (simp add: power_add)
      ultimately show ?thesis using "1.prems"(3) by linarith
    qed
    have small: "n div 128 < 2 ^ (62 - (shift + 7))"
    proof -
      have "(2 :: nat) ^ (62 - shift) = 2 ^ (62 - (shift + 7)) * 128"
        using power_add [of "2 :: nat" "62 - (shift + 7)" 7] s by simp
      then show ?thesis using "1.prems"(6) by (simp add: less_mult_imp_div_less)
    qed
    have bd: "body = pre @ ?b # (encode_tail (n div 128) @ post)"
      by (simp only: "1.prems"(7) e append.simps)
    have "read_more body first m shift (List.length pre) =
      read_more body ?b (m + 2 ^ shift * (uint ?b mod 128)) (shift + 7) (Suc (List.length pre))"
      by (rule read_more_step [OF "1.prems"(1) bd "1.prems"(2,3)]) (use s in simp)
    also have "\<dots> = read_more body ?b ?m (shift + 7) (List.length (pre @ [?b]))" using u by simp
    also have "\<dots> = Inr (?m + 2 ^ (shift + 7) * int (n div 128), List.length (pre @ [?b]) + List.length (encode_tail (n div 128)))"
    proof (rule "1.IH")
      show "\<not> n < 128" by (rule False)
      show "128 \<le> uint ?b" unfolding u by simp
      show "0 \<le> ?m" using "1.prems"(2) by simp
      show "?m < 2 ^ (shift + 7)" by (rule bound)
      show "(shift + 7) mod 7 = 6" using "1.prems"(4) by simp
      show "shift + 7 \<le> 55" using s by simp
      show "n div 128 < 2 ^ (62 - (shift + 7))" by (rule small)
      show "body = (pre @ [?b]) @ encode_tail (n div 128) @ post" using bd by simp
    qed
    also have "?m + 2 ^ (shift + 7) * int (n div 128) = m + 2 ^ shift * int n" by (rule shift_digit)
    finally show ?thesis using e by simp
  qed
qed

lemma read_number_encoded:
  assumes "\<bar>v\<bar> < 2 ^ 62"
  shows "read_number (pre @ encode_number v @ post) (List.length pre) =
    Inr (v, List.length pre + List.length (encode_number v))"
proof -
  define m where "m = nat \<bar>v\<bar>"
  define sign :: int where "sign = (if v < 0 then 64 else 0)"
  define b :: "8 word" where "b = word_of_int ((if m < 64 then 0 else 128) + sign + int (m mod 64))"
  define tail where "tail = (if m < 64 then [] else encode_tail (m div 64))"
  let ?body = "pre @ encode_number v @ post" and ?p = "Suc (List.length pre)"
  have e: "encode_number v = b # tail"
    by (simp add: encode_number_def Let_def m_def sign_def b_def tail_def)
  have "0 \<le> int (m mod 64)" "int (m mod 64) < 64" by simp_all
  then have u: "uint b = (if m < 64 then 0 else 128) + sign + int (m mod 64)"
    unfolding b_def sign_def by - (rule uint_word_of_byte; auto split: if_splits)
  define k where "k = int (m mod 64)"
  define c :: int where "c = (if m < 64 then 0 else 2) + (if v < 0 then 1 else 0)"
  have ub: "uint b = k + 64 * c" by (simp add: u sign_def k_def c_def)
  have k: "0 \<le> k" "k < 64" by (simp_all add: k_def)
  have "uint b mod 64 = k" "uint b div 64 = c" unfolding ub using k by simp_all
  then have low: "uint (b AND 0x3F) = int (m mod 64)" and neg: "b AND 0x40 \<noteq> 0 \<longleftrightarrow> v < 0"
    by (simp_all only: low_bits sign_bit k_def) (simp add: c_def)
  have "read_more ?body b (int (m mod 64)) 6 ?p = Inr (int m, ?p + List.length tail)"
  proof (cases "m < 64")
    case True
    then show ?thesis using u by (simp add: read_more_done sign_def tail_def)
  next
    case False
    have "int m < 2 ^ 62" using assms by (simp add: m_def)
    then have "m < 2 ^ 62" by simp
    then have "m div 64 < 2 ^ (62 - 6)" by (simp add: less_mult_imp_div_less)
    then have "read_more ?body b (int (m mod 64)) 6 (List.length (pre @ [b])) =
        Inr (int (m mod 64) + 2 ^ 6 * int (m div 64), List.length (pre @ [b]) + List.length (encode_tail (m div 64)))"
      using False u e by (intro read_more_encoded [where post = post]) (simp_all add: sign_def tail_def)
    moreover have "int (m mod 64) + 64 * int (m div 64) = int m" by presburger
    ultimately show ?thesis using False by (simp add: tail_def)
  qed
  moreover have "(if v < 0 then - int m else int m) = v" by (simp add: m_def)
  ultimately show ?thesis
    by (simp add: read_number_def need_ok byte_at_def e low neg)
qed

text \<open>What the reader returns is always in range, and the position is behind it and inside the body.\<close>

lemma read_more_range:
  "read_more body first m shift position = Inr (v, q) \<Longrightarrow> 0 \<le> m \<Longrightarrow> m < 2 ^ shift \<Longrightarrow> shift \<le> 62 \<Longrightarrow>
    position \<le> List.length body \<Longrightarrow> shift mod 7 = 6 \<Longrightarrow>
    0 \<le> v \<and> v < 2 ^ 62 \<and> position \<le> q \<and> q + shift div 7 \<le> position + 8 \<and> q \<le> List.length body"
proof (induction body first m shift position rule: read_more.induct)
  case (1 body first m shift position)
  show ?case
  proof (cases "first AND 0x80 = 0")
    case True
    then have "v = m" "q = position" using "1.prems"(1) by (simp_all add: read_more.simps)
    moreover have "(2 :: int) ^ shift \<le> 2 ^ 62" using "1.prems"(4) by (intro power_increasing) simp_all
    ultimately show ?thesis using "1.prems" by simp
  next
    case False
    define b where "b = body ! position"
    define m' where "m' = m OR push_bit shift (uint (b AND 0x7F))"
    from False "1.prems"(1) have p: "position < List.length body" and s: "\<not> 63 < shift + 7"
      and rec: "read_more body b m' (shift + 7) (position + 1) = Inr (v, q)"
      by (subst (asm) read_more.simps; auto simp: need_def byte_at_def Let_def b_def m'_def split: if_splits)+
    have m': "m' = m + 2 ^ shift * (uint b mod 128)"
      unfolding m'_def using "1.prems"(2,3) by (simp add: or_push_bit low_bits)
    have "0 \<le> m'" using "1.prems"(2) m' by simp
    moreover have "m' < 2 ^ (shift + 7)"
    proof -
      have "(2 :: int) ^ shift * (uint b mod 128) \<le> 2 ^ shift * 127" by (intro mult_left_mono) auto
      moreover have "(2 :: int) ^ (shift + 7) = 2 ^ shift * 127 + 2 ^ shift" by (simp add: power_add)
      ultimately show ?thesis using "1.prems"(3) m' by linarith
    qed
    moreover have "(shift + 7) mod 7 = 6" "shift + 7 \<le> 62" using "1.prems"(6) s by presburger+
    ultimately have "0 \<le> v \<and> v < 2 ^ 62 \<and> position + 1 \<le> q \<and> q + (shift + 7) div 7 \<le> position + 1 + 8 \<and>
        q \<le> List.length body"
      using "1.IH" [OF False m'_def] rec p s by (simp add: b_def)
    then show ?thesis by simp
  qed
qed


lemma need_Inr [simp, result_simps]:
  "need body position n k = Inr r \<longleftrightarrow> position + n \<le> List.length body \<and> k = Inr r"
  by (auto simp: need_def)

lemma read_number_range [parse_moves]:
  assumes "read_number body position = Inr (v, q)"
  shows "\<bar>v\<bar> < 2 ^ 62 \<and> position < q \<and> q \<le> position + 9 \<and> q \<le> List.length body"
proof -
  define first where "first = body ! position"
  from assms obtain m where p: "position < List.length body" and v: "v = (if first AND 0x40 \<noteq> 0 then - m else m)"
    and run: "read_more body first (uint (first AND 0x3F)) 6 (position + 1) = Inr (m, q)"
    by (auto simp: read_number_def byte_at_def bindR_eq_Inr first_def)
  have "0 \<le> m \<and> m < 2 ^ 62 \<and> position + 1 \<le> q \<and> q + 6 div 7 \<le> position + 1 + 8 \<and> q \<le> List.length body"
    by (rule read_more_range [OF run]) (use p in \<open>simp_all add: low_bits\<close>)
  then show ?thesis using v by simp
qed

lemma read_numbers_encoded:
  "list_all (\<lambda>v. \<bar>v\<bar> < 2 ^ 62) vs \<Longrightarrow>
    read_numbers (List.length vs) (pre @ concat (map encode_number vs) @ post) (List.length pre) =
    Inr (vs, List.length pre + List.length (concat (map encode_number vs)))"
proof (induction vs arbitrary: pre)
  case (Cons v vs)
  have "read_number (pre @ encode_number v @ concat (map encode_number vs) @ post) (List.length pre) =
      Inr (v, List.length pre + List.length (encode_number v))"
    by (rule read_number_encoded) (use Cons.prems in simp)
  moreover have "read_numbers (List.length vs) ((pre @ encode_number v) @ concat (map encode_number vs) @ post)
      (List.length (pre @ encode_number v)) =
      Inr (vs, List.length (pre @ encode_number v) + List.length (concat (map encode_number vs)))"
    by (rule Cons.IH) (use Cons.prems in simp)
  ultimately show ?case by simp
qed simp

lemma read_numbers_range [parse_moves]:
  "read_numbers n body position = Inr (vs, q) \<Longrightarrow>
    List.length vs = n \<and> list_all (\<lambda>v. \<bar>v\<bar> < 2 ^ 62) vs \<and> position \<le> q \<and>
    (position \<le> List.length body \<longrightarrow> q \<le> List.length body)"
proof (induction n arbitrary: position vs q)
  case (Suc n)
  from Suc.prems obtain v p ws where v: "read_number body position = Inr (v, p)"
    and ws: "read_numbers n body p = Inr (ws, q)" and vs: "vs = v # ws"
    by (auto simp: bindR_eq_Inr)
  show ?case using read_number_range [OF v] Suc.IH [OF ws] vs by auto
qed simp

section \<open>Longer bodies\<close>

text \<open>What was read from a body is read from every extension of it.\<close>

lemma slice_append [simp]:
  "position + n \<le> List.length body \<Longrightarrow> slice (body @ extra) position n = slice body position n"
  by (simp add: slice_def)

lemma length_slice [simp]: "position + n \<le> List.length body \<Longrightarrow> List.length (slice body position n) = n"
  by (simp add: slice_def)

lemma unpack_slice [simp]:
  "position + n \<le> List.length body \<Longrightarrow> unpack n (slice body position n) = Inr (slice body position n)"
  by (simp add: unpack_def)

lemma byte_at_need [simp]: "position < List.length body \<Longrightarrow> byte_at body position = Inr (body ! position)"
  by (simp add: byte_at_def)

named_theorems parse_longer "fields read from an extended body"

lemma read_more_longer:
  "read_more body first m shift position = Inr r \<Longrightarrow> read_more (body @ extra) first m shift position = Inr r"
proof (induction body first m shift position rule: read_more.induct)
  case (1 body first m shift position)
  show ?case
  proof (cases "first AND 0x80 = 0")
    case True
    then show ?thesis using "1.prems" by (simp add: read_more.simps)
  next
    case False
    let ?b = "body ! position" let ?m = "m OR push_bit shift (uint (?b AND 0x7F))"
    from False "1.prems" have p: "position < List.length body" and s: "\<not> 63 < shift + 7"
      and rec: "read_more body ?b ?m (shift + 7) (position + 1) = Inr r"
      by (subst (asm) read_more.simps; auto simp: byte_at_def Let_def split: if_splits)+
    have "read_more (body @ extra) ?b ?m (shift + 7) (position + 1) = Inr r"
      using "1.IH" [OF False refl s rec] .
    then show ?thesis
      using False p s by (subst read_more.simps) (simp add: nth_append)
  qed
qed

lemma read_number_longer [parse_longer]:
  assumes "read_number body position = Inr r"
  shows "read_number (body @ extra) position = Inr r"
proof -
  let ?b = "body ! position"
  from assms obtain m q where p: "position < List.length body"
    and run: "read_more body ?b (uint (?b AND 0x3F)) 6 (position + 1) = Inr (m, q)"
    and r: "r = (if ?b AND 0x40 \<noteq> 0 then - m else m, q)"
    unfolding read_number_def by (auto simp: bindR_eq_Inr)
  show ?thesis
    unfolding read_number_def need_def using p read_more_longer [OF run, of extra] by (simp add: nth_append r)
qed

lemma read_numbers_longer [parse_longer]:
  "read_numbers n body position = Inr r \<Longrightarrow> read_numbers n (body @ extra) position = Inr r"
proof (induction n arbitrary: position r)
  case (Suc n)
  from Suc.prems obtain v p ws q where "read_number body position = Inr (v, p)"
    and "read_numbers n body p = Inr (ws, q)" and "r = (v # ws, q)"
    by (auto simp: bindR_eq_Inr)
  then show ?case using read_number_longer [of body position "(v, p)" extra] Suc.IH [of p "(ws, q)"] by simp
qed simp

lemma read_u16_longer [parse_longer]:
  "read_u16 body position = Inr n \<Longrightarrow> read_u16 (body @ extra) position = Inr n"
  by (auto simp: read_u16_def bindR_eq_Inr)

text \<open>The steps of a quote, as the parser passes them.\<close>

lemma parse_quote_Inr:
  "parse_quote body position = Inr (r, q) \<longleftrightarrow>
    (\<exists>code vs p1 amount us p2 ws p3. position + 9 \<le> List.length body \<and>
      le_value (slice (slice body position 9) 0 1) \<in> {0, 1} \<and>
      ascii_decode (TdxProtocolError ''invalid quote code'') (slice (slice body position 9) 1 6) = Inr code \<and>
      is_code code \<and> read_numbers 9 body (position + 9) = Inr (vs, p1) \<and>
      p1 + 4 \<le> List.length body \<and> read_float_decimal (slice body p1 4) = Inr amount \<and>
      read_numbers 24 body (p1 + 4) = Inr (us, p2) \<and> p2 + 2 \<le> List.length body \<and>
      read_numbers 4 body (p2 + 2) = Inr (ws, p3) \<and> p3 + 4 \<le> List.length body \<and>
      r = quote_of (le_value (slice (slice body position 9) 0 1)) code vs amount \<and> q = p3 + 4)"
  unfolding parse_quote_def by (fastforce simp: bindR_eq_Inr Let_def)

lemma parse_quote_longer [parse_longer]:
  assumes "parse_quote body position = Inr r"
  shows "parse_quote (body @ extra) position = Inr r"
proof -
  obtain q p where r: "r = (q, p)" by (cases r)
  from assms show ?thesis
    unfolding r parse_quote_Inr
    by (elim exE conjE) (intro exI conjI; (assumption | erule read_numbers_longer | simp))
qed

lemma parse_quotes_longer [parse_longer]:
  "parse_quotes n body position = Inr r \<Longrightarrow> parse_quotes n (body @ extra) position = Inr r"
proof (induction n arbitrary: position r)
  case (Suc n)
  from Suc.prems obtain v p ws q where "parse_quote body position = Inr (v, p)"
    and "parse_quotes n body p = Inr (ws, q)" and "r = (v # ws, q)"
    by (auto simp: bindR_eq_Inr)
  then show ?case using parse_quote_longer [of body position "(v, p)" extra] Suc.IH [of p "(ws, q)"] by simp
qed simp

lemma read_bar_time_longer [parse_longer]:
  "read_bar_time body position category = Inr r \<Longrightarrow> read_bar_time (body @ extra) position category = Inr r"
  unfolding read_bar_time_def need_Inr by (elim conjE) (simp only: slice_append, simp)

lemma parse_bar_Inr:
  "parse_bar body category i base position = Inr (r, base', q) \<longleftrightarrow>
    (\<exists>t p0 vs p1 volume amount. read_bar_time body position category = Inr (t, p0) \<and>
      read_numbers 4 body p0 = Inr (vs, p1) \<and> p1 + 8 \<le> List.length body \<and>
      read_float_decimal (slice body p1 4) = Inr volume \<and>
      read_float_decimal (slice body (p1 + 4) 4) = Inr amount \<and>
      q = p1 + 8 + (if ti_kind i = ''INDEX'' then 4 else 0) \<and> q \<le> List.length body \<and>
      0 \<le> volume \<and> volume = of_int \<lfloor>volume\<rfloor> \<and>
      r = bar_of i t (base + vs ! 0) vs volume amount \<and> base' = base + vs ! 0 + vs ! 1)"
  unfolding parse_bar_def by (cases "ti_kind i = ''INDEX''") (fastforce simp: bindR_eq_Inr Let_def)+

lemma parse_bar_longer [parse_longer]:
  assumes "parse_bar body category i base position = Inr r"
  shows "parse_bar (body @ extra) category i base position = Inr r"
proof -
  obtain b base' q where r: "r = (b, base', q)" by (cases r)
  from assms show ?thesis
    unfolding r parse_bar_Inr
    by (elim exE conjE)
      (intro exI conjI; (assumption | erule read_numbers_longer | erule read_bar_time_longer | simp))
qed

lemma parse_bars_longer [parse_longer]:
  "parse_bars n body category i base position = Inr r \<Longrightarrow> parse_bars n (body @ extra) category i base position = Inr r"
proof (induction n arbitrary: base position r)
  case (Suc n)
  from Suc.prems obtain v base' p ws q where "parse_bar body category i base position = Inr (v, base', p)"
    and "parse_bars n body category i base' p = Inr (ws, q)" and "r = (v # ws, q)"
    by (auto simp: bindR_eq_Inr)
  then show ?case
    using parse_bar_longer [of body category i base position "(v, base', p)" extra] Suc.IH [of base' p "(ws, q)"]
    by simp
qed simp

section \<open>Failures\<close>

text \<open>A parser that fails, fails with the protocol's own exception.\<close>

definition fails_closed :: "'a result \<Rightarrow> bool" where
  "fails_closed r \<longleftrightarrow> (\<forall>e. r = Inl e \<longrightarrow> (\<exists>m. e = TdxProtocolError m))"

lemma fails_closedD: "fails_closed r \<Longrightarrow> r = Inl e \<Longrightarrow> \<exists>m. e = TdxProtocolError m"
  by (simp add: fails_closed_def)

lemma fails_closed_Inr [parse_fails]: "fails_closed (Inr x)"
  by (simp add: fails_closed_def)

lemma fails_closed_bind [parse_fails]:
  "fails_closed r \<Longrightarrow> (\<And>x. r = Inr x \<Longrightarrow> fails_closed (f x)) \<Longrightarrow> fails_closed (bindR r f)"
  by (cases r) (auto simp: fails_closed_def)

lemma fails_closed_guard [parse_fails]:
  "(\<not> b \<Longrightarrow> fails_closed k) \<Longrightarrow> fails_closed (guardR b (TdxProtocolError m) k)"
  by (auto simp: fails_closed_def guardR_def)

lemma fails_closed_need [parse_fails]:
  "(position + n \<le> List.length body \<Longrightarrow> fails_closed k) \<Longrightarrow> fails_closed (need body position n k)"
  unfolding need_def by (rule fails_closed_guard) simp

lemma fails_closed_require [parse_fails]: "fails_closed (require (TdxProtocolError m) x)"
  by (cases x) (simp_all add: fails_closed_def)

lemma fails_closed_ascii [parse_fails]: "fails_closed (ascii_decode (TdxProtocolError m) bs)"
  unfolding ascii_decode_def by (intro parse_fails)

lemma fails_closed_mapR [parse_fails]:
  "(\<And>x. x \<in> set xs \<Longrightarrow> fails_closed (f x)) \<Longrightarrow> fails_closed (mapR f xs)"
  by (induction xs) (simp_all add: parse_fails)

lemma unpack_fails_closed: "List.length bs = n \<Longrightarrow> fails_closed (unpack n bs)"
  by (simp add: unpack_def fails_closed_Inr)

lemma read_u16_fails_closed [parse_fails]: "fails_closed (read_u16 body position)"
  unfolding read_u16_def by (intro parse_fails unpack_fails_closed) simp

lemma read_more_fails_closed [parse_fails]: "fails_closed (read_more body first m shift position)"
proof (induction body first m shift position rule: read_more.induct)
  case (1 body first m shift position)
  show ?case
  proof (cases "first AND 0x80 = 0 \<or> List.length body \<le> position")
    case True
    then show ?thesis by (subst read_more.simps) (auto simp: fails_closed_def need_def)
  next
    case False
    let ?b = "body ! position" let ?m = "m OR push_bit shift (uint (?b AND 0x7F))"
    from False have "\<not> 63 < shift + 7 \<Longrightarrow> fails_closed (read_more body ?b ?m (shift + 7) (position + 1))"
      by (intro "1.IH") simp_all
    then show ?thesis
      using False by (subst read_more.simps) (auto simp: need_def fails_closed_def Let_def)
  qed
qed

lemma read_number_fails_closed [parse_fails]: "fails_closed (read_number body position)"
  unfolding read_number_def by (intro parse_fails) (auto simp: fails_closed_Inr split: prod.splits)

lemma read_numbers_fails_closed [parse_fails]: "fails_closed (read_numbers n body position)"
  by (induction n arbitrary: position)
    (auto simp: parse_fails fails_closed_Inr split: prod.splits intro!: fails_closed_bind read_number_fails_closed)

lemma read_float_fails_closed [parse_fails]:
  "List.length bs = 4 \<Longrightarrow> fails_closed (read_float_decimal bs)"
  unfolding read_float_decimal_def Let_def by (intro parse_fails unpack_fails_closed)

lemma bar_instant_fails_closed [parse_fails]: "fails_closed (bar_instant y m d h mi)"
  unfolding bar_instant_def by (intro parse_fails)

lemma read_bar_time_fails_closed [parse_fails]: "fails_closed (read_bar_time body position category)"
  unfolding read_bar_time_def Let_def
  by (intro parse_fails unpack_fails_closed) (simp_all add: bar_instant_fails_closed)

lemma parse_quote_fails_closed [parse_fails]: "fails_closed (parse_quote body position)"
  unfolding parse_quote_def Let_def
  by (auto intro!: parse_fails unpack_fails_closed split: prod.splits)

lemma parse_quotes_fails_closed [parse_fails]: "fails_closed (parse_quotes n body position)"
  by (induction n arbitrary: position)
    (auto simp: fails_closed_Inr split: prod.splits intro!: fails_closed_bind parse_quote_fails_closed)

lemma parse_bar_fails_closed [parse_fails]: "fails_closed (parse_bar body category i base position)"
  unfolding parse_bar_def Let_def
  by (auto intro!: parse_fails unpack_fails_closed split: prod.splits)

lemma parse_bars_fails_closed [parse_fails]: "fails_closed (parse_bars n body category i base position)"
  by (induction n arbitrary: base position)
    (auto simp: fails_closed_Inr split: prod.splits intro!: fails_closed_bind parse_bar_fails_closed)

lemma parse_directory_fails_closed:
  "position + 29 \<le> List.length body \<Longrightarrow> fails_closed (parse_directory gbk body position)"
  unfolding parse_directory_def by (intro parse_fails unpack_fails_closed) simp

lemma parse_security_list_fails_closed [parse_fails]: "fails_closed (parse_security_list gbk body)"
proof -
  have "fails_closed (parse_directory gbk body (2 + k * 29))"
    if "int (List.length body) = 2 + n * 29" and "k \<in> set [0..<nat n]" for n k
  proof (rule parse_directory_fails_closed)
    have "int k + 1 \<le> n" using that(2) by auto
    then show "2 + k * 29 + 29 \<le> List.length body" using that(1) by linarith
  qed
  then show ?thesis unfolding parse_security_list_def by (intro parse_fails) simp_all
qed

lemma parse_quote_response_fails_closed [parse_fails]: "fails_closed (parse_quote_response body)"
  unfolding parse_quote_response_def by (auto intro!: parse_fails split: prod.splits)

lemma parse_bar_response_fails_closed [parse_fails]: "fails_closed (parse_bar_response body category i)"
  unfolding parse_bar_response_def by (auto intro!: parse_fails split: prod.splits)

section \<open>Accepted records\<close>

lemma le_value_nonneg: "0 \<le> le_value bs"
  by (induction bs) simp_all

definition quote_ok :: "tdx_raw_quote \<Rightarrow> bool" where
  "quote_ok r \<longleftrightarrow> rq_market r \<in> {0, 1} \<and> is_code (rq_code r) \<and>
     list_all (\<lambda>v. \<bar>v\<bar> < 2 ^ 62) [rq_volume_lots r, rq_current_volume_lots r, rq_server_time_raw r]"

definition bar_ok :: "tdx_instrument \<Rightarrow> tdx_raw_bar \<Rightarrow> bool" where
  "bar_ok i r \<longleftrightarrow> rb_market r = ti_market i \<and> rb_code r = ti_code i \<and> 0 \<le> rb_volume r"

lemma parse_quote_ok:
  assumes "parse_quote body position = Inr (r, q)"
  shows "quote_ok r \<and> position < q \<and> q \<le> List.length body"
proof -
  from assms obtain code vs p1 amount us p2 ws p3 where
    c: "le_value (slice (slice body position 9) 0 1) \<in> {0, 1}" "is_code code" and
    v: "read_numbers 9 body (position + 9) = Inr (vs, p1)" and
    u: "read_numbers 24 body (p1 + 4) = Inr (us, p2)" and
    w: "read_numbers 4 body (p2 + 2) = Inr (ws, p3)" and
    r: "r = quote_of (le_value (slice (slice body position 9) 0 1)) code vs amount" "q = p3 + 4" "q \<le> List.length body"
    unfolding parse_quote_Inr by blast
  have "List.length vs = 9" and "list_all (\<lambda>v. \<bar>v\<bar> < 2 ^ 62) vs" using read_numbers_range [OF v] by blast+
  then have "\<bar>vs ! 5\<bar> < 2 ^ 62" "\<bar>vs ! 7\<bar> < 2 ^ 62" "\<bar>vs ! 8\<bar> < 2 ^ 62"
    by (simp_all add: list_all_length)
  moreover have "position + 9 \<le> p1" "p1 + 4 \<le> p2" "p2 + 2 \<le> p3"
    using read_numbers_range [OF v] read_numbers_range [OF u] read_numbers_range [OF w] by blast+
  ultimately show ?thesis using c r by (auto simp: quote_ok_def quote_of_def Let_def)
qed

lemma parse_quotes_ok:
  "parse_quotes n body position = Inr (rs, q) \<Longrightarrow> List.length rs = n \<and> list_all quote_ok rs"
proof (induction n arbitrary: position rs q)
  case (Suc n)
  from Suc.prems obtain v p ws where "parse_quote body position = Inr (v, p)"
    and "parse_quotes n body p = Inr (ws, q)" and "rs = v # ws"
    by (auto simp: bindR_eq_Inr)
  then show ?case using parse_quote_ok Suc.IH by fastforce
qed simp

lemma parse_bars_ok:
  "parse_bars n body category i base position = Inr (rs, q) \<Longrightarrow> List.length rs = n \<and> list_all (bar_ok i) rs"
proof (induction n arbitrary: base position rs q)
  case (Suc n)
  from Suc.prems obtain v base' p ws where v: "parse_bar body category i base position = Inr (v, base', p)"
    and ws: "parse_bars n body category i base' p = Inr (ws, q)" and rs: "rs = v # ws"
    by (auto simp: bindR_eq_Inr)
  have "bar_ok i v" using v unfolding parse_bar_Inr by (auto simp: bar_ok_def bar_of_def)
  then show ?case using Suc.IH [OF ws] rs by simp
qed simp

text \<open>An accepted body followed by anything is rejected, so no accepted body begins another.\<close>

lemma quote_response_Inr:
  "parse_quote_response body = Inr rs \<longleftrightarrow> 4 \<le> List.length body \<and>
    (\<exists>n. read_u16 body 2 = Inr n \<and> parse_quotes (nat n) body 4 = Inr (rs, List.length body))"
  unfolding parse_quote_response_def by (auto simp: bindR_eq_Inr)

lemma bar_response_Inr:
  "parse_bar_response body category i = Inr rs \<longleftrightarrow>
    (\<exists>n. read_u16 body 0 = Inr n \<and> parse_bars (nat n) body category i 0 2 = Inr (rs, List.length body))"
  unfolding parse_bar_response_def by (auto simp: bindR_eq_Inr)

lemma quote_response_prefix:
  assumes "parse_quote_response body = Inr rs" and "k < List.length body"
  shows "\<exists>e. parse_quote_response (take k body) = Inl e"
proof (cases "parse_quote_response (take k body)")
  case (Inr us)
  then obtain n where "read_u16 (take k body) 2 = Inr n"
    and "parse_quotes (nat n) (take k body) 4 = Inr (us, List.length (take k body))"
    unfolding quote_response_Inr by blast
  then have "read_u16 body 2 = Inr n" "parse_quotes (nat n) body 4 = Inr (us, List.length (take k body))"
    using read_u16_longer [of "take k body" 2 n "drop k body"] parse_quotes_longer [of "nat n" "take k body" 4 _ "drop k body"]
    by simp_all
  then show ?thesis using assms unfolding quote_response_Inr by auto
qed simp

lemma bar_response_prefix:
  assumes "parse_bar_response body category i = Inr rs" and "k < List.length body"
  shows "\<exists>e. parse_bar_response (take k body) category i = Inl e"
proof (cases "parse_bar_response (take k body) category i")
  case (Inr us)
  then obtain n where "read_u16 (take k body) 0 = Inr n"
    and "parse_bars (nat n) (take k body) category i 0 2 = Inr (us, List.length (take k body))"
    unfolding bar_response_Inr by blast
  then have "read_u16 body 0 = Inr n" "parse_bars (nat n) body category i 0 2 = Inr (us, List.length (take k body))"
    using read_u16_longer [of "take k body" 0 n "drop k body"]
      parse_bars_longer [of "nat n" "take k body" category i 0 2 _ "drop k body"]
    by simp_all
  then show ?thesis using assms unfolding bar_response_Inr by auto
qed simp

end
