(* ===== verification/Tdx_Theorems.thy ===== *)
theory Tdx_Theorems
  imports Tdx_Properties
begin

text \<open>
  What holds of the binary protocol: numbers are read back as they were encoded and never leave their
  range, every parser rejects with the protocol's own exception, and an accepted response is complete,
  has exactly the records it announces and is accepted at no shorter length.
\<close>

text \<open>C1: a sequence of numbers below 2^62 in magnitude, encoded and placed anywhere in a body, is read back
  unchanged and the reader stops right behind it; conversely every number the reader returns is below 2^62
  in magnitude and took between one and nine bytes of the body.\<close>

theorem numbers_round_trip:
  assumes "list_all (\<lambda>v. \<bar>v\<bar> < 2 ^ 62) vs"
  shows "read_numbers (List.length vs) (pre @ concat (map encode_number vs) @ post) (List.length pre) =
      Inr (vs, List.length pre + List.length (concat (map encode_number vs))) \<and>
    (\<forall>body position v q. read_number body position = Inr (v, q) \<longrightarrow>
      \<bar>v\<bar> < 2 ^ 62 \<and> position < q \<and> q \<le> position + 9 \<and> q \<le> List.length body)"
  using read_numbers_encoded [OF assms] read_number_range by blast

theorem numbers_round_trip_witness:
  "read_numbers 3 ([7] @ concat (map encode_number [- 5, 100, 123456789]) @ [9]) 1 =
     Inr ([- 5, 100, 123456789], 8)"
  using numbers_round_trip [of "[- 5, 100, 123456789]" "[7]" "[9]", THEN conjunct1]
  by (simp add: encode_number_def encode_tail.simps Let_def numeral_3_eq_3 [symmetric] del: read_numbers.simps)

text \<open>C1: whatever the bytes, a parser of the protocol that fails raises TdxProtocolError: no struct.error,
  IndexError or UnicodeDecodeError escapes from a truncated or corrupt response.\<close>

theorem parsers_fail_closed:
  assumes "decode_response inflate header body = Inl e \<or> parse_security_count body = Inl e \<or>
    parse_security_list gbk body = Inl e \<or> parse_quote_response body = Inl e \<or>
    parse_bar_response body category i = Inl e \<or> parse_block_meta_response body = Inl e \<or>
    parse_block_chunk_response body = Inl e"
  shows "\<exists>m. e = TdxProtocolError m"
proof -
  have "fails_closed (decode_response inflate header body)"
    unfolding decode_response_def Let_def by (auto intro!: parse_fails unpack_fails_closed)
  moreover have "fails_closed (parse_security_count body)" "fails_closed (parse_block_chunk_response body)"
    unfolding parse_security_count_def parse_block_chunk_response_def by (intro parse_fails)+
  moreover have "fails_closed (parse_quote_response body)" "fails_closed (parse_bar_response body category i)"
    by (intro parse_fails)+
  moreover have "fails_closed (parse_block_meta_response body)"
    unfolding parse_block_meta_response_def Let_def by (intro parse_fails unpack_fails_closed) simp
  ultimately show ?thesis
    using assms parse_security_list_fails_closed [of gbk body] by (auto dest: fails_closedD)
qed

theorem parsers_fail_closed_witness:
  "\<exists>e m. parse_quote_response [0, 0, 1, 0, 1, 54, 48] = Inl e \<and> e = TdxProtocolError m"
proof -
  have "parse_quote_response [0, 0, 1, 0, 1, 54, 48] = Inl (TdxProtocolError ''truncated TDX response'')"
    by (simp add: parse_quote_response_def read_u16_def need_def unpack_def slice_def parse_quote_def)
  then show ?thesis
    using parsers_fail_closed [where body = "[0, 0, 1, 0, 1, 54, 48]" and header = "[]" and inflate = Some
      and gbk = "\<lambda>_. []" and category = 0 and i = "\<lparr>ti_market = 0, ti_code = [], ti_kind = []\<rparr>"] by blast
qed

text \<open>C1: an accepted quote or bar response has exactly the announced number of records, each well formed
  (a known market, a six-digit code and bounded counters; the requested instrument and a volume that is not
  negative), and no proper prefix of it is accepted: a response cut short is never taken for a complete one.\<close>

theorem accepted_responses_complete:
  assumes "parse_quote_response body = Inr qs" and "parse_bar_response body' category i = Inr bs"
  shows "read_u16 body 2 = Inr (int (List.length qs)) \<and> list_all quote_ok qs \<and>
    (\<forall>k < List.length body. \<exists>m. parse_quote_response (take k body) = Inl (TdxProtocolError m)) \<and>
    read_u16 body' 0 = Inr (int (List.length bs)) \<and> list_all (bar_ok i) bs \<and>
    (\<forall>k < List.length body'. \<exists>m. parse_bar_response (take k body') category i = Inl (TdxProtocolError m))"
proof -
  have nonneg: "0 \<le> n" if "read_u16 b p = Inr n" for b p n
    using that le_value_nonneg by (auto simp: read_u16_def bindR_eq_Inr)
  have "\<exists>m. parse_quote_response (take k body) = Inl (TdxProtocolError m)" if "k < List.length body" for k
    using quote_response_prefix [OF assms(1) that] fails_closedD [OF parse_quote_response_fails_closed] by metis
  moreover have "\<exists>m. parse_bar_response (take k body') category i = Inl (TdxProtocolError m)"
    if "k < List.length body'" for k
    using bar_response_prefix [OF assms(2) that] fails_closedD [OF parse_bar_response_fails_closed] by metis
  moreover have "read_u16 body 2 = Inr (int (List.length qs)) \<and> list_all quote_ok qs"
    using assms(1) nonneg parse_quotes_ok unfolding quote_response_Inr by fastforce
  moreover have "read_u16 body' 0 = Inr (int (List.length bs)) \<and> list_all (bar_ok i) bs"
    using assms(2) nonneg parse_bars_ok unfolding bar_response_Inr by fastforce
  ultimately show ?thesis by blast
qed

text \<open>One quote of 600000 and one daily bar of it.\<close>

definition sample_values :: "int list" where
  "sample_values = [1000, -10, 0, 5, -5, 0, 0, 1234567, 3]"

definition sample_moves :: "int list" where
  "sample_moves = [1000, 10, 20, -30]"

definition sample_quotes :: bytes where
  "sample_quotes = [0, 0, 1, 0, 1, 54, 48, 48, 48, 48, 48, 0, 0] @ concat (map encode_number sample_values) @
     [0, 0, 128, 63] @ concat (map encode_number (replicate 24 0)) @ [0, 0] @
     concat (map encode_number (replicate 4 0)) @ [0, 0, 0, 0]"

definition sample_bars :: bytes where
  "sample_bars = [1, 0, 0xE6, 0xD6, 0x34, 0x01] @ concat (map encode_number sample_moves) @
     [0, 0, 0, 0, 0, 0, 0, 64]"

definition sample_instrument :: tdx_instrument where
  "sample_instrument = \<lparr>ti_market = 1, ti_code = ''600000'', ti_kind = ''STOCK''\<rparr>"

lemma read_numbers_at:
  "body = pre @ concat (map encode_number vs) @ post \<Longrightarrow> list_all (\<lambda>v. \<bar>v\<bar> < 2 ^ 62) vs \<Longrightarrow>
    List.length vs = n \<Longrightarrow> List.length pre = p \<Longrightarrow> p + List.length (concat (map encode_number vs)) = q \<Longrightarrow>
    read_numbers n body p = Inr (vs, q)"
  using read_numbers_encoded [of vs pre post] by simp

lemma sample_numbers:
  "concat (map encode_number sample_values) = [168, 15, 74, 0, 5, 69, 0, 0, 135, 218, 150, 1, 3]"
  "concat (map encode_number sample_moves) = [168, 15, 10, 20, 94]"
  by (simp_all add: sample_values_def sample_moves_def encode_number_def encode_tail.simps Let_def)

lemma sample_zeros:
  "concat (replicate n (encode_number 0)) = replicate n 0" "list_all (\<lambda>v. \<bar>v\<bar> < b) (replicate n 0) \<longleftrightarrow> n = 0 \<or> 0 < (b :: int)"
  by (induction n) (auto simp: encode_number_def Let_def)

lemma sample_quotes_accepted: "\<exists>q. parse_quote_response sample_quotes = Inr [q]"
proof -
  note pieces = sample_quotes_def sample_numbers sample_zeros
  have vs: "read_numbers 9 sample_quotes 13 = Inr (sample_values, 26)"
    by (rule read_numbers_at [where pre = "[0, 0, 1, 0, 1, 54, 48, 48, 48, 48, 48, 0, 0]"])
      (simp only: sample_quotes_def, simp_all add: sample_numbers, simp_all add: sample_values_def)
  have us: "read_numbers 24 sample_quotes 30 = Inr (replicate 24 0, 54)"
    by (rule read_numbers_at [where pre = "take 30 sample_quotes" and post = "drop 54 sample_quotes"])
      (simp_all add: pieces)
  have ws: "read_numbers 4 sample_quotes 56 = Inr (replicate 4 0, 60)"
    by (rule read_numbers_at [where pre = "take 56 sample_quotes" and post = "drop 60 sample_quotes"])
      (simp_all add: pieces)
  have len: "List.length sample_quotes = 64" by (simp add: pieces)
  have head: "slice sample_quotes 4 9 = [1, 54, 48, 48, 48, 48, 48, 0, 0]" "slice sample_quotes 26 4 = [0, 0, 128, 63]"
    "slice sample_quotes 2 2 = [1, 0]" "slice [1, 54, 48, 48, 48, 48, 48, 0, 0 :: 8 word] 0 (Suc 0) = [1]"
    "slice [1, 54, 48, 48, 48, 48, 48, 0, 0 :: 8 word] (Suc 0) 6 = [54, 48, 48, 48, 48, 48]"
    by (simp_all add: pieces slice_def)
  have code: "ascii_decode (TdxProtocolError ''invalid quote code'') [54, 48, 48, 48, 48, 48] = Inr ''600000''"
    and digits: "is_code ''600000''"
    by code_simp+
  have "\<exists>a. read_float_decimal [0, 0, 128, 63] = Inr a"
    by (simp add: read_float_decimal_def unpack_def Let_def)
  then obtain a where amount: "read_float_decimal [0, 0, 128, 63] = Inr a" by blast
  have "parse_quote sample_quotes 4 = Inr (quote_of 1 ''600000'' sample_values a, 64)"
    unfolding parse_quote_Inr
    by (rule exI [of _ "''600000''"], rule exI [of _ sample_values], rule exI [of _ 26], rule exI [of _ a],
        rule exI [of _ "replicate 24 0"], rule exI [of _ 54], rule exI [of _ "replicate 4 0"], rule exI [of _ 60])
      (use vs us ws code digits amount in \<open>simp add: len head\<close>)
  moreover have "read_u16 sample_quotes 2 = Inr 1" by (simp add: read_u16_def need_def len head unpack_def)
  ultimately show ?thesis
    by (simp add: parse_quote_response_def len)
qed

lemma sample_bars_accepted: "\<exists>b. parse_bar_response sample_bars 4 sample_instrument = Inr [b]"
proof -
  have vs: "read_numbers 4 sample_bars 6 = Inr (sample_moves, 11)"
    by (rule read_numbers_at [where pre = "[1, 0, 0xE6, 0xD6, 0x34, 0x01]"])
      (simp only: sample_bars_def, simp_all add: sample_numbers, simp_all add: sample_moves_def)
  have len: "List.length sample_bars = 19" by (simp add: sample_bars_def sample_numbers)
  have head: "slice sample_bars 2 4 = [0xE6, 0xD6, 0x34, 0x01]" "slice sample_bars 0 2 = [1, 0]"
    "slice sample_bars 11 4 = [0, 0, 0, 0]" "slice sample_bars 15 4 = [0, 0, 0, 64]"
    by (simp_all add: sample_bars_def sample_numbers slice_def)
  have "valid_date (2024, 1, 2)" by code_simp
  then have "\<exists>t. read_bar_time sample_bars 2 4 = Inr (t, 6)"
    by (simp add: read_bar_time_def need_def len head unpack_def bar_instant_def Let_def)
  then obtain t where t: "read_bar_time sample_bars 2 4 = Inr (t, 6)" by blast
  have volume: "read_float_decimal [0, 0, 0, 0] = Inr 0"
    and "\<exists>a. read_float_decimal [0, 0, 0, 64] = Inr a"
    by (simp_all add: read_float_decimal_def unpack_def Let_def dmul_def)
  then obtain a where amount: "read_float_decimal [0, 0, 0, 64] = Inr a" by blast
  have "parse_bar sample_bars 4 sample_instrument 0 2 =
      Inr (bar_of sample_instrument t 1000 sample_moves 0 a, 1010, 19)"
    unfolding parse_bar_Inr
    by (rule exI [of _ t], rule exI [of _ 6], rule exI [of _ sample_moves], rule exI [of _ 11],
        rule exI [of _ 0], rule exI [of _ a])
      (use vs [unfolded sample_moves_def] t volume amount in \<open>simp add: len head sample_instrument_def sample_moves_def\<close>)
  moreover have "read_u16 sample_bars 0 = Inr 1" by (simp add: read_u16_def need_def len head unpack_def)
  ultimately show ?thesis
    by (simp add: parse_bar_response_def len)
qed

theorem accepted_responses_complete_witness:
  "\<exists>q b. parse_quote_response sample_quotes = Inr [q] \<and> quote_ok q \<and>
    parse_bar_response sample_bars 4 sample_instrument = Inr [b] \<and> bar_ok sample_instrument b \<and>
    (\<exists>m. parse_quote_response (take 63 sample_quotes) = Inl (TdxProtocolError m))"
proof -
  obtain q b where q: "parse_quote_response sample_quotes = Inr [q]"
    and b: "parse_bar_response sample_bars 4 sample_instrument = Inr [b]"
    using sample_quotes_accepted sample_bars_accepted by blast
  have "63 < List.length sample_quotes"
    by (simp add: sample_quotes_def sample_numbers sample_zeros)
  then show ?thesis
    using accepted_responses_complete [OF q b] q b by (intro exI [of _ q] exI [of _ b] conjI) simp_all
qed

end
