(* ===== verification/Tdx_Records.thy ===== *)
theory Tdx_Records
  imports Tdx_Properties
begin

text \<open>
  What becomes of the parsed records: \<open>tdx/normalization.py\<close> turns a raw quote or bar into a canonical one
  or names the reason why not, and \<open>tdx/blocks.py\<close> reads the block files. A decimal of a raw record is a
  rational and so finite, as the parsers deliver it; the finiteness test of the code is always passed.
  Names are lists of code points, \<open>gbk\<close> decodes; of upper-casing only the ASCII letters matter, since no
  other character of that table has \<open>S\<close> or \<open>T\<close> in its upper case.
\<close>

section \<open>Canonical quotes and bars\<close>

record tdx_quote =
  tq_instrument :: tdx_instrument
  tq_price :: "rat option"
  tq_pre_close :: "rat option"
  tq_open :: "rat option"
  tq_high :: "rat option"
  tq_low :: "rat option"
  tq_volume :: "int option"
  tq_volume_unit :: string
  tq_amount :: "rat option"
  tq_quote_status :: string
  tq_source_time :: "int option"
  tq_server_time_raw :: int
  tq_received_at :: int

record tdx_bar =
  tb_instrument :: tdx_instrument
  tb_interval :: string
  tb_timestamp :: int
  tb_open :: rat
  tb_high :: rat
  tb_low :: rat
  tb_close :: rat
  tb_volume :: int
  tb_volume_unit :: string
  tb_amount :: rat

text \<open>A canonical record or a \<open>TdxInvalidRecord\<close>.\<close>

datatype 'a normalized = Valid_Record 'a | Invalid_Record string string

definition quote_volume :: "int \<Rightarrow> string \<Rightarrow> (int \<times> string) result" where
  "quote_volume volume_lots kind =
     (if kind \<in> {''STOCK'', ''ETF''} then Inr (volume_lots * 100, ''SHARES'')
      else if kind = ''INDEX'' then Inr (volume_lots, ''INDEX_LOT_LIKE'')
      else Inl (ValueError ''unsupported instrument kind''))"

definition quote_volume_unit :: "string \<Rightarrow> string result" where
  "quote_volume_unit kind = bindR (quote_volume 0 kind) (\<lambda>(_, unit). Inr unit)"

definition is_no_valid_quote :: "tdx_raw_quote \<Rightarrow> bool" where
  "is_no_valid_quote raw \<longleftrightarrow>
     rq_price raw = rq_open raw \<and> rq_open raw = rq_high raw \<and> rq_high raw = rq_low raw \<and> rq_low raw = 0 \<and>
     0 < rq_last_close raw \<and> rq_amount raw < 1 / 10 ^ 30"

definition decreases :: "'a :: linorder option \<Rightarrow> 'a option \<Rightarrow> bool" where
  "decreases now before = (case (now, before) of (Some n, Some b) \<Rightarrow> n < b | _ \<Rightarrow> False)"

definition normalize_quote ::
    "tdx_raw_quote \<Rightarrow> tdx_instrument \<Rightarrow> int \<Rightarrow> tdx_quote option \<Rightarrow> tdx_quote normalized result" where
  "normalize_quote raw i received_at previous =
     (if rq_market raw \<noteq> ti_market i \<or> rq_code raw \<noteq> ti_code i
      then Inr (Invalid_Record ''INVALID_RESPONSE'' ''returned market/code does not match request'')
      else if rq_volume_lots raw < 0 \<or> rq_current_volume_lots raw < 0 \<or> rq_amount raw < 0
      then Inr (Invalid_Record ''INVALID_RESPONSE'' ''quote contains a negative cumulative value'')
      else if is_no_valid_quote raw
      then bindR (quote_volume_unit (ti_kind i)) (\<lambda>unit.
        Inr (Valid_Record \<lparr>tq_instrument = i, tq_price = None, tq_pre_close = None, tq_open = None,
          tq_high = None, tq_low = None, tq_volume = None, tq_volume_unit = unit, tq_amount = None,
          tq_quote_status = ''NO_VALID_QUOTE'', tq_source_time = None,
          tq_server_time_raw = rq_server_time_raw raw, tq_received_at = received_at\<rparr>))
      else bindR (quote_volume (rq_volume_lots raw) (ti_kind i)) (\<lambda>(volume, unit).
        let q = \<lparr>tq_instrument = i, tq_price = Some (rq_price raw), tq_pre_close = Some (rq_last_close raw),
            tq_open = Some (rq_open raw), tq_high = Some (rq_high raw), tq_low = Some (rq_low raw),
            tq_volume = Some volume, tq_volume_unit = unit, tq_amount = Some (rq_amount raw),
            tq_quote_status = ''VALUE'', tq_source_time = None,
            tq_server_time_raw = rq_server_time_raw raw, tq_received_at = received_at\<rparr>
        in Inr (case previous of
             Some p \<Rightarrow> if tq_quote_status p = ''VALUE'' \<and>
                 (decreases (tq_volume q) (tq_volume p) \<or> decreases (tq_amount q) (tq_amount p))
               then Invalid_Record ''CUMULATIVE_DECREASE'' ''quote cumulative amount or volume decreased''
               else Valid_Record q
           | None \<Rightarrow> Valid_Record q)))"

definition normalize_bar :: "tdx_raw_bar \<Rightarrow> tdx_instrument \<Rightarrow> string \<Rightarrow> tdx_bar normalized" where
  "normalize_bar raw i interval =
     (if rb_market raw \<noteq> ti_market i \<or> rb_code raw \<noteq> ti_code i
      then Invalid_Record ''INVALID_RESPONSE'' ''returned market/code does not match request''
      else if rb_volume raw < 0 \<or> rb_amount raw < 0
      then Invalid_Record ''INVALID_RESPONSE'' ''bar contains invalid values''
      else if ti_kind i \<notin> {''INDEX'', ''STOCK'', ''ETF''}
      then Invalid_Record ''INVALID_INSTRUMENT'' ''unsupported instrument kind''
      else Valid_Record \<lparr>tb_instrument = i, tb_interval = interval, tb_timestamp = rb_timestamp raw,
        tb_open = rb_open raw, tb_high = rb_high raw, tb_low = rb_low raw, tb_close = rb_close raw,
        tb_volume = rb_volume raw,
        tb_volume_unit = (if ti_kind i \<noteq> ''INDEX'' then ''SHARES''
          else if interval = ''1m'' then ''INDEX_SHARE_LIKE'' else ''INDEX_LOT_LIKE''),
        tb_amount = rb_amount raw\<rparr>)"

section \<open>Block files\<close>

record block_membership =
  bk_name :: "nat list"
  bk_type :: int
  bk_kind :: string
  bk_market :: int
  bk_code :: string

definition max_block_members :: int where
  "max_block_members = 2800 div 7"

fun chunks_data :: "bytes list \<Rightarrow> bytes" where
  "chunks_data [] = []"
| "chunks_data (c # cs) = c @ chunks_data cs"

definition assemble_block_chunks :: "bytes list \<Rightarrow> int \<Rightarrow> bytes result" where
  "assemble_block_chunks chunks expected_size =
     guardR (expected_size < 0) (TdxBlockParseError ''invalid block length'')
    (guardR (int (List.length (chunks_data chunks)) \<noteq> expected_size)
       (TdxBlockParseError ''block chunk length mismatch'') (Inr (chunks_data chunks)))"

text \<open>\<open>word in name\<close>.\<close>

fun occurs :: "nat list \<Rightarrow> nat list \<Rightarrow> bool" where
  "occurs word [] \<longleftrightarrow> word = []"
| "occurs word (c # cs) \<longleftrightarrow> take (List.length word) (c # cs) = word \<or> occurs word cs"

definition upper_ascii :: "nat list \<Rightarrow> nat list" where
  "upper_ascii = map (\<lambda>c. if 97 \<le> c \<and> c \<le> 122 then c - 32 else c)"

text \<open>The words for theme, event and region; for suspension, delisting and status.\<close>

definition theme_words :: "nat list list" where
  "theme_words = [[0x4E3B, 0x9898], [0x4E8B, 0x4EF6], [0x533A, 0x57DF]]"

definition status_words :: "nat list list" where
  "status_words = [[83, 84], [0x505C, 0x724C], [0x9000, 0x5E02], [0x72B6, 0x6001]]"

definition classify_block :: "string \<Rightarrow> nat list \<Rightarrow> string" where
  "classify_block filename name =
     (if filename = ''block_zs.dat'' then ''IndexMembership''
      else if filename = ''block.dat'' then ''TDXCuratedMembership''
      else if filename = ''block_gn.dat''
      then if list_ex (\<lambda>w. occurs w name) theme_words then ''ThemeMembership'' else ''ConceptMembership''
      else if list_ex (\<lambda>w. occurs w (upper_ascii name)) status_words then ''StatusMembership''
      else ''StyleFactorMembership'')"

text \<open>\<open>decode("ascii", errors="ignore").rstrip("\x00")\<close>.\<close>

definition member_text :: "bytes \<Rightarrow> string" where
  "member_text bs =
     rev (dropWhile (\<lambda>c. c = CHR 0x00) (rev (map (\<lambda>b. char_of (unat b)) (filter (\<lambda>b. uint b < 128) bs))))"

definition block_identity :: "string \<Rightarrow> string \<Rightarrow> (int \<times> string) result" where
  "block_identity raw_code filename =
     bindR (if List.length raw_code = 7 \<and> hd raw_code \<in> {CHR ''0'', CHR ''1''}
        then Inr (digits_int (take 1 raw_code), tl raw_code)
        else guardR (\<not> is_code raw_code) (TdxBlockParseError ''invalid TDX block code'')
          (Inr (if hd raw_code \<in> {CHR ''5'', CHR ''6'', CHR ''9''} then 1
                else if filename = ''block_zs.dat'' then 1 else 0, raw_code))) (\<lambda>(market, code).
     guardR (\<not> is_code code) (TdxBlockParseError ''invalid TDX block code'') (Inr (market, code)))"

definition block_need :: "bytes \<Rightarrow> nat \<Rightarrow> nat \<Rightarrow> 'a result \<Rightarrow> 'a result" where
  "block_need body position n k =
     guardR (List.length body < position + n) (TdxBlockParseError ''truncated TDX block artifact'') k"

definition member_key :: "block_membership \<Rightarrow> nat list \<times> int \<times> string" where
  "member_key m = (bk_name m, bk_market m, bk_code m)"

text \<open>The members of one block; \<open>seen\<close> holds the keys of the memberships so far.\<close>

fun parse_members ::
    "bytes \<Rightarrow> string \<Rightarrow> nat list \<Rightarrow> int \<Rightarrow> nat \<Rightarrow> nat list \<Rightarrow> block_membership list \<Rightarrow> block_membership list result" where
  "parse_members data filename name block_type start [] ms = Inr ms"
| "parse_members data filename name block_type start (k # ks) ms =
     bindR (block_identity (member_text (slice data (start + k * 7) 7)) filename) (\<lambda>(market, code).
     let m = \<lparr>bk_name = name, bk_type = block_type, bk_kind = classify_block filename name,
              bk_market = market, bk_code = code\<rparr>
     in parse_members data filename name block_type start ks
          (if member_key m \<in> set (map member_key ms) then ms else ms @ [m]))"

definition parse_block ::
    "(bytes \<Rightarrow> nat list) \<Rightarrow> bytes \<Rightarrow> string \<Rightarrow> nat \<Rightarrow> block_membership list \<Rightarrow> (block_membership list \<times> nat) result" where
  "parse_block gbk data filename position ms =
     block_need data position 13
    (let name = rstrip_zero (gbk (slice data position 9)) in
     bindR (unpack 4 (slice data (position + 9) 4)) (\<lambda>h.
     let stock_count = le_value (slice h 0 2); block_type = le_value (slice h 2 2); start = position + 13 in
     guardR (stock_count > max_block_members) (TdxBlockParseError ''TDX block member count exceeds fixed region'')
    (block_need data start 2800
    (bindR (parse_members data filename name block_type start [0..<nat stock_count] ms) (\<lambda>ms'.
     Inr (ms', start + 2800))))))"

fun parse_blocks ::
    "nat \<Rightarrow> (bytes \<Rightarrow> nat list) \<Rightarrow> bytes \<Rightarrow> string \<Rightarrow> nat \<Rightarrow> block_membership list \<Rightarrow> (block_membership list \<times> nat) result" where
  "parse_blocks 0 gbk data filename position ms = Inr (ms, position)"
| "parse_blocks (Suc n) gbk data filename position ms =
     bindR (parse_block gbk data filename position ms) (\<lambda>(ms', p). parse_blocks n gbk data filename p ms')"

definition parse_block_file :: "(bytes \<Rightarrow> nat list) \<Rightarrow> bytes \<Rightarrow> string \<Rightarrow> block_membership list result" where
  "parse_block_file gbk data filename =
     guardR (filename \<notin> set block_filenames) (TdxBlockParseError ''unsupported TDX block file'')
    (guardR (List.length data < 386) (TdxBlockParseError ''truncated TDX block header'')
    (bindR (unpack 2 (slice data 384 2)) (\<lambda>n.
     bindR (parse_blocks (nat (le_value n)) gbk data filename 386 []) (\<lambda>(ms, p).
     guardR (p \<noteq> List.length data) (TdxBlockParseError ''unexpected TDX block trailing bytes'') (Inr ms)))))"

section \<open>Accepted block files\<close>

definition membership_ok :: "block_membership \<Rightarrow> bool" where
  "membership_ok m \<longleftrightarrow> bk_market m \<in> {0, 1} \<and> is_code (bk_code m)"

lemma block_need_Inr [simp, result_simps]:
  "block_need body position n k = Inr r \<longleftrightarrow> position + n \<le> List.length body \<and> k = Inr r"
  by (auto simp: block_need_def)

lemma block_identity_ok: "block_identity raw filename = Inr (m, c) \<Longrightarrow> m \<in> {0, 1} \<and> is_code c"
proof -
  assume *: "block_identity raw filename = Inr (m, c)"
  have "digits_int (take 1 raw) \<in> {0, 1}" if "List.length raw = 7" "hd raw \<in> {CHR ''0'', CHR ''1''}"
    using that by (cases raw) (auto simp: digits_int_def)
  then show ?thesis
    using * by (auto simp: block_identity_def bindR_eq_Inr split: if_splits)
qed

lemma parse_members_ok:
  "parse_members data filename name t start ks ms = Inr ms' \<Longrightarrow>
    list_all membership_ok ms \<and> distinct (map member_key ms) \<Longrightarrow>
    list_all membership_ok ms' \<and> distinct (map member_key ms')"
proof (induction ks arbitrary: ms)
  case (Cons k ks)
  then obtain market code where "block_identity (member_text (slice data (start + k * 7) 7)) filename = Inr (market, code)"
    by (auto simp: bindR_eq_Inr)
  then show ?case
    using Cons block_identity_ok [of _ filename market code]
    by (auto simp: Let_def membership_ok_def split: if_splits)
qed simp

lemma parse_blocks_ok:
  "parse_blocks n gbk data filename position ms = Inr (ms', q) \<Longrightarrow>
    list_all membership_ok ms \<and> distinct (map member_key ms) \<Longrightarrow>
    list_all membership_ok ms' \<and> distinct (map member_key ms') \<and> q = position + n * 2813"
proof (induction n arbitrary: position ms)
  case (Suc n)
  then obtain us p where u: "parse_block gbk data filename position ms = Inr (us, p)"
    and rest: "parse_blocks n gbk data filename p us = Inr (ms', q)"
    by (auto simp: bindR_eq_Inr)
  have "list_all membership_ok us \<and> distinct (map member_key us)" "p = position + 2813"
    using u parse_members_ok Suc.prems(2) unfolding parse_block_def by (auto simp: bindR_eq_Inr Let_def)
  then show ?case using Suc.IH [OF rest] by simp
qed simp

text \<open>An accepted file is exactly as long as its blocks, its codes are valid and no membership is listed twice.\<close>

lemma parse_block_file_ok:
  assumes "parse_block_file gbk data filename = Inr ms"
  shows "list_all membership_ok ms \<and> distinct (map member_key ms) \<and>
    int (List.length data) = 386 + le_value (slice data 384 2) * 2813"
proof -
  from assms obtain n p where n: "n = slice data 384 2"
    and run: "parse_blocks (nat (le_value n)) gbk data filename 386 [] = Inr (ms, p)" and "p = List.length data"
    unfolding parse_block_file_def by (auto simp: bindR_eq_Inr unpack_def)
  then show ?thesis using parse_blocks_ok [OF run] le_value_nonneg [of n] by simp
qed

end
