(* ===== verification/Acquisition.thy ===== *)
theory Acquisition
  imports Tables Time_Text Tdx_Records
begin

text \<open>
  What the providers deliver, as the tables of migration \<open>0002\<close> hold it, and the services that write it:
  \<open>health.py\<close> (source epochs, capability health, watermarks), \<open>ingestion.py\<close> (batches, lineages, quote
  versions) and the bars of \<open>tdx/storage.py\<close>. A command is a function from the tables to a result and the
  new tables, or an exception, which is the rollback. Columns that only ever hold canonical text are
  instants; the ones a provider fills (\<open>received_at\<close>, raw source times) are text. \<open>parse_time\<close> is
  \<open>parse_rfc3339\<close> on provider text and \<open>decimal\<close> is \<open>Decimal(text)\<close> when it is finite, both \<open>None\<close> where the
  code catches an exception; a price too large for SQLite or for the decimal exponent is not modelled.
\<close>

section \<open>Tables\<close>

record epoch_row =
  so_uid :: string
  so_provider :: string
  so_fingerprint :: string
  so_started :: int
  so_ended :: "int option"
  so_status :: string
  so_rewarm :: bool

record report_row =
  hr_uid :: string
  hr_epoch :: string
  hr_capability :: string
  hr_health :: string
  hr_fitness :: string
  hr_coverage :: int
  hr_latency :: int
  hr_observed :: int
  hr_valid_until :: int

record mark_row =
  wm_epoch :: string
  wm_capability :: string
  wm_event :: int
  wm_received :: int
  wm_version :: int
  wm_rewarm :: bool

record mapping_row =
  pm_uid :: string
  pm_provider :: string
  pm_code :: string
  pm_kind :: string
  pm_instrument :: "string option"
  pm_status :: string
  pm_from :: int
  pm_until :: "int option"

record batch_row =
  mb_uid :: string
  mb_epoch :: string
  mb_provider_id :: string
  mb_artifact :: string
  mb_received :: string
  mb_status :: string

record raw_row =
  rm_batch :: string
  rm_index :: nat
  rm_code :: string
  rm_source_time :: "string option"
  rm_status :: string

record lineage_row =
  ql_uid :: string
  ql_epoch :: string
  ql_instrument :: string
  ql_source :: string
  ql_kind :: string
  ql_key :: string

record quote_version_row =
  qv_uid :: string
  qv_lineage :: string
  qv_version :: int
  qv_batch :: string
  qv_index :: nat
  qv_received :: string
  qv_source_raw :: "string option"
  qv_source :: "int option"
  qv_price :: "int option"
  qv_price_status :: string
  qv_volume :: "int option"
  qv_volume_status :: string
  qv_current :: bool

record issue_row =
  qi_quote :: string
  qi_code :: string
  qi_detail :: string

record bar_row =
  br_uid :: string
  br_epoch :: string
  br_instrument :: string
  br_interval :: string
  br_source :: int
  br_open :: int
  br_high :: int
  br_low :: int
  br_close :: int
  br_volume :: int
  br_volume_unit :: string
  br_amount :: int

record acquisition =
  acq_source :: "nat \<Rightarrow> string"
  acq_next :: nat
  acq_instruments :: "(string \<times> string) list"
  acq_mappings :: "mapping_row list"
  acq_epochs :: "epoch_row list"
  acq_reports :: "report_row list"
  acq_marks :: "mark_row list"
  acq_artifacts :: "string list"
  acq_batches :: "batch_row list"
  acq_raws :: "raw_row list"
  acq_lineages :: "lineage_row list"
  acq_quotes :: "quote_version_row list"
  acq_issues :: "issue_row list"
  acq_bars :: "bar_row list"

type_synonym 'a acquired = "('a \<times> acquisition) result"

definition fresh :: "acquisition \<Rightarrow> string \<times> acquisition" where
  "fresh s = (acq_source s (acq_next s), s\<lparr>acq_next := Suc (acq_next s)\<rparr>)"

definition constrained :: "bool \<Rightarrow> string \<Rightarrow> acquisition \<Rightarrow> acquisition result" where
  "constrained ok table s = guardR (\<not> ok) (IntegrityError table) (Inr s)"

definition insert_epoch :: "epoch_row \<Rightarrow> acquisition \<Rightarrow> acquisition result" where
  "insert_epoch r s = constrained
     (absent so_uid (acq_epochs s) (so_uid r) \<and> so_status r \<in> {''ACTIVE'', ''RETIRED''} \<and>
      (case so_ended r of None \<Rightarrow> True | Some e \<Rightarrow> so_started r < e) \<and>
      (so_status r = ''ACTIVE'' \<longrightarrow>
        absent (\<lambda>x. (so_provider x, so_status x)) (acq_epochs s) (so_provider r, ''ACTIVE'')))
     ''market_source_epoch'' (s\<lparr>acq_epochs := acq_epochs s @ [r]\<rparr>)"

definition insert_report :: "report_row \<Rightarrow> acquisition \<Rightarrow> acquisition result" where
  "insert_report r s = constrained
     (absent hr_uid (acq_reports s) (hr_uid r) \<and> present so_uid (acq_epochs s) (hr_epoch r) \<and>
      0 \<le> hr_coverage r \<and> hr_coverage r \<le> 1000000 \<and> 0 \<le> hr_latency r \<and> hr_observed r < hr_valid_until r \<and>
      (hr_health r \<noteq> ''UNHEALTHY'' \<or> hr_fitness r \<in> {''UNFIT'', ''UNKNOWN''}))
     ''capability_health_report'' (s\<lparr>acq_reports := acq_reports s @ [r]\<rparr>)"

definition insert_mark :: "mark_row \<Rightarrow> acquisition \<Rightarrow> acquisition result" where
  "insert_mark r s = constrained
     (absent (\<lambda>x. (wm_epoch x, wm_capability x)) (acq_marks s) (wm_epoch r, wm_capability r) \<and>
      present so_uid (acq_epochs s) (wm_epoch r) \<and> 0 < wm_version r)
     ''capability_watermark'' (s\<lparr>acq_marks := acq_marks s @ [r]\<rparr>)"

definition insert_batch :: "batch_row \<Rightarrow> acquisition \<Rightarrow> acquisition result" where
  "insert_batch r s = constrained
     (absent mb_uid (acq_batches s) (mb_uid r) \<and> present so_uid (acq_epochs s) (mb_epoch r) \<and>
      mb_artifact r \<in> set (acq_artifacts s) \<and>
      absent (\<lambda>x. (mb_epoch x, mb_provider_id x)) (acq_batches s) (mb_epoch r, mb_provider_id r))
     ''market_data_batch'' (s\<lparr>acq_batches := acq_batches s @ [r]\<rparr>)"

definition insert_raw :: "raw_row \<Rightarrow> acquisition \<Rightarrow> acquisition result" where
  "insert_raw r s = constrained
     (absent (\<lambda>x. (rm_batch x, rm_index x)) (acq_raws s) (rm_batch r, rm_index r) \<and>
      present mb_uid (acq_batches s) (rm_batch r) \<and>
      rm_status r \<in> {''RESOLVED'', ''CONFLICT'', ''UNMAPPED''})
     ''raw_market_record'' (s\<lparr>acq_raws := acq_raws s @ [r]\<rparr>)"

definition insert_lineage :: "lineage_row \<Rightarrow> acquisition \<Rightarrow> acquisition result" where
  "insert_lineage r s = constrained
     (absent ql_uid (acq_lineages s) (ql_uid r) \<and> present so_uid (acq_epochs s) (ql_epoch r) \<and>
      present fst (acq_instruments s) (ql_instrument r) \<and> absent ql_key (acq_lineages s) (ql_key r) \<and>
      absent (\<lambda>x. (ql_epoch x, ql_instrument x, ql_source x, ql_kind x)) (acq_lineages s)
        (ql_epoch r, ql_instrument r, ql_source r, ql_kind r))
     ''quote_lineage'' (s\<lparr>acq_lineages := acq_lineages s @ [r]\<rparr>)"

definition insert_quote :: "quote_version_row \<Rightarrow> acquisition \<Rightarrow> acquisition result" where
  "insert_quote r s = constrained
     (absent qv_uid (acq_quotes s) (qv_uid r) \<and> present ql_uid (acq_lineages s) (qv_lineage r) \<and>
      0 < qv_version r \<and>
      present (\<lambda>x. (rm_batch x, rm_index x)) (acq_raws s) (qv_batch r, qv_index r) \<and>
      absent (\<lambda>x. (qv_lineage x, qv_version x)) (acq_quotes s) (qv_lineage r, qv_version r) \<and>
      (qv_price_status r = ''VALUE'') = (qv_price r \<noteq> None) \<and>
      (qv_volume_status r = ''VALUE'') = (qv_volume r \<noteq> None) \<and>
      (qv_current r \<longrightarrow> absent (\<lambda>x. (qv_lineage x, qv_current x)) (acq_quotes s) (qv_lineage r, True)))
     ''market_quote'' (s\<lparr>acq_quotes := acq_quotes s @ [r]\<rparr>)"

definition insert_issue :: "issue_row \<Rightarrow> acquisition \<Rightarrow> acquisition result" where
  "insert_issue r s = constrained
     (absent (\<lambda>x. (qi_quote x, qi_code x)) (acq_issues s) (qi_quote r, qi_code r) \<and>
      present qv_uid (acq_quotes s) (qi_quote r))
     ''quote_quality_issue'' (s\<lparr>acq_issues := acq_issues s @ [r]\<rparr>)"

section \<open>Source epochs\<close>

text \<open>The old epoch ends: its watermarks must warm up again, and the row is closed.\<close>

definition retire_epoch :: "string \<Rightarrow> int \<Rightarrow> acquisition \<Rightarrow> acquisition result" where
  "retire_epoch uid instant s = constrained
     (list_all (\<lambda>e. so_uid e = uid \<longrightarrow> so_started e < instant) (acq_epochs s)) ''market_source_epoch''
     (s\<lparr>acq_marks := map (\<lambda>w. if wm_epoch w = uid
            then w\<lparr>wm_rewarm := True, wm_version := wm_version w + 1\<rparr> else w) (acq_marks s),
        acq_epochs := map (\<lambda>e. if so_uid e = uid
            then e\<lparr>so_status := ''RETIRED'', so_ended := Some instant, so_rewarm := True\<rparr> else e) (acq_epochs s)\<rparr>)"

definition start_epoch :: "string \<Rightarrow> string \<Rightarrow> int \<Rightarrow> acquisition \<Rightarrow> string acquired" where
  "start_epoch provider fingerprint started_at s =
     (case fresh s of (uid, s1) \<Rightarrow>
      bindR (one_or_none (filter (\<lambda>e. so_provider e = provider \<and> so_status e = ''ACTIVE'') (acq_epochs s1)))
        (\<lambda>active.
      guardR (case active of None \<Rightarrow> False | Some e \<Rightarrow> so_fingerprint e = fingerprint)
        (ValueError ''identical active source epoch already exists'')
     (bindR (case active of None \<Rightarrow> Inr s1 | Some e \<Rightarrow> retire_epoch (so_uid e) started_at s1) (\<lambda>s2.
      bindR (insert_epoch \<lparr>so_uid = uid, so_provider = provider, so_fingerprint = fingerprint,
          so_started = started_at, so_ended = None, so_status = ''ACTIVE'', so_rewarm = (active \<noteq> None)\<rparr> s2)
        (\<lambda>s3. Inr (uid, s3))))))"

section \<open>Capability health\<close>

record health_thresholds =
  ht_coverage :: int
  ht_latency :: int
  ht_valid_for :: int

definition health_thresholds_check :: "health_thresholds \<Rightarrow> health_thresholds result" where
  "health_thresholds_check t =
     guardR (\<not> (0 \<le> ht_coverage t \<and> ht_coverage t \<le> 1000000))
       (ValueError ''minimum coverage must be between 0 and 1000000'')
    (guardR (ht_latency t < 0 \<or> ht_valid_for t \<le> 0)
       (ValueError ''latency must be non-negative and validity positive'') (Inr t))"

text \<open>Health, fitness and the instant until which they are valid.\<close>

type_synonym health_status = "string \<times> string \<times> int"

definition health_severe :: "health_thresholds \<Rightarrow> int \<Rightarrow> int \<Rightarrow> bool" where
  "health_severe t coverage latency \<longleftrightarrow> coverage * 2 < ht_coverage t \<or> ht_latency t * 2 < latency"

definition health_limited :: "health_thresholds \<Rightarrow> int \<Rightarrow> int \<Rightarrow> bool" where
  "health_limited t coverage latency \<longleftrightarrow> coverage < ht_coverage t \<or> ht_latency t < latency"

definition record_health ::
    "health_thresholds \<Rightarrow> string \<Rightarrow> string \<Rightarrow> int \<Rightarrow> int \<Rightarrow> int \<Rightarrow> acquisition \<Rightarrow> health_status acquired" where
  "record_health t epoch_uid capability coverage latency observed_at s =
     guardR (\<not> (0 \<le> coverage \<and> coverage \<le> 1000000) \<or> latency < 0)
       (ValueError ''health measurements are outside valid range'')
    (let severe = health_severe t coverage latency; limited = health_limited t coverage latency;
         health = (if severe then ''UNHEALTHY'' else if limited then ''DEGRADED'' else ''HEALTHY'');
         fitness = (if severe then ''UNFIT'' else if limited then ''FIT_WITH_LIMITATIONS'' else ''FIT'');
         valid_until = observed_at + ht_valid_for t * 1000000
     in case fresh s of (uid, s1) \<Rightarrow>
       bindR (insert_report \<lparr>hr_uid = uid, hr_epoch = epoch_uid, hr_capability = capability,
           hr_health = health, hr_fitness = fitness, hr_coverage = coverage, hr_latency = latency,
           hr_observed = observed_at, hr_valid_until = valid_until\<rparr> s1)
         (\<lambda>s2. Inr ((health, fitness, valid_until), s2)))"

text \<open>\<open>ORDER BY key DESC LIMIT 1\<close>; of equal keys the row inserted last.\<close>

definition newest :: "('r \<Rightarrow> int) \<Rightarrow> 'r list \<Rightarrow> 'r option" where
  "newest key rows =
     fold (\<lambda>r best. case best of None \<Rightarrow> Some r | Some b \<Rightarrow> if key b \<le> key r then Some r else best)
       rows None"

definition report_at :: "acquisition \<Rightarrow> string \<Rightarrow> string \<Rightarrow> int \<Rightarrow> report_row option" where
  "report_at s epoch_uid capability instant =
     newest hr_observed (filter (\<lambda>r. hr_epoch r = epoch_uid \<and> hr_capability r = capability \<and>
       hr_observed r \<le> instant) (acq_reports s))"

definition effective_status :: "acquisition \<Rightarrow> string \<Rightarrow> string \<Rightarrow> int \<Rightarrow> health_status" where
  "effective_status s epoch_uid capability instant =
     (case report_at s epoch_uid capability instant of
        None \<Rightarrow> (''UNKNOWN'', ''UNKNOWN'', instant)
      | Some r \<Rightarrow> if hr_valid_until r < instant then (''UNKNOWN'', ''UNKNOWN'', instant)
          else (hr_health r, hr_fitness r, hr_valid_until r))"

section \<open>Watermarks\<close>

type_synonym watermark = "int \<times> int \<times> int \<times> bool"

definition watermark_of :: "mark_row \<Rightarrow> watermark" where
  "watermark_of w = (wm_event w, wm_received w, wm_version w, wm_rewarm w)"

definition marks_of :: "acquisition \<Rightarrow> string \<Rightarrow> string \<Rightarrow> mark_row list" where
  "marks_of s epoch_uid capability =
     filter (\<lambda>w. wm_epoch w = epoch_uid \<and> wm_capability w = capability) (acq_marks s)"

definition advance_watermark ::
    "string \<Rightarrow> string \<Rightarrow> int \<Rightarrow> int \<Rightarrow> acquisition \<Rightarrow> watermark acquired" where
  "advance_watermark epoch_uid capability event received s =
     bindR (one_or_none (marks_of s epoch_uid capability)) (\<lambda>row.
       case row of
         None \<Rightarrow>
           bindR (insert_mark \<lparr>wm_epoch = epoch_uid, wm_capability = capability, wm_event = event,
               wm_received = received, wm_version = 1, wm_rewarm = False\<rparr> s)
             (\<lambda>s'. Inr ((event, received, 1, False), s'))
       | Some w \<Rightarrow>
           if event \<le> wm_event w then Inr (watermark_of w, s)
           else let version = wm_version w + 1 in
             Inr ((event, received, version, wm_rewarm w),
               s\<lparr>acq_marks := map (\<lambda>x. if wm_epoch x = epoch_uid \<and> wm_capability x = capability
                   then x\<lparr>wm_event := event, wm_received := received, wm_version := version\<rparr> else x)
                   (acq_marks s)\<rparr>))"

definition get_watermark :: "acquisition \<Rightarrow> string \<Rightarrow> string \<Rightarrow> watermark result" where
  "get_watermark s epoch_uid capability =
     bindR (one (marks_of s epoch_uid capability)) (\<lambda>w. Inr (watermark_of w))"

end
