(* ===== verification/Ingestion.thy ===== *)
theory Ingestion
  imports Acquisition
begin

text \<open>
  \<open>ingestion.py\<close> and the bars of \<open>tdx/storage.py\<close>: a provider's batch becomes raw records, lineages and
  quote versions, a correction becomes the next version of a lineage, and canonical bars are stored once.
  The raw artifact of a batch is registered before the transaction; what a failed transaction leaves of
  it is not modelled.
\<close>

section \<open>Prices\<close>

text \<open>
  \<open>to_scaled_integer\<close>: \<open>scaleb\<close> rounds to the context's 28 digits, so only longer coefficients change.
\<close>

definition to_scaled_integer :: "rat \<Rightarrow> nat \<Rightarrow> int result" where
  "to_scaled_integer value scale =
     (let scaled = dround (value * 10 ^ scale) in
      guardR (scaled \<noteq> of_int \<lfloor>scaled\<rfloor>) (ValueError ''value exceeds fixed-point precision'') (Inr \<lfloor>scaled\<rfloor>))"

definition price_of :: "(string \<Rightarrow> rat option) \<Rightarrow> string option \<Rightarrow> int option \<times> string" where
  "price_of decimal value =
     (case value of
        None \<Rightarrow> (None, ''MISSING'')
      | Some text \<Rightarrow>
          (case decimal text of
             None \<Rightarrow> (None, ''INVALID'')
           | Some x \<Rightarrow> (case to_scaled_integer x 4 of Inr n \<Rightarrow> (Some n, ''VALUE'') | Inl _ \<Rightarrow> (None, ''INVALID''))))"

section \<open>Batches\<close>

record provider_record =
  pv_code :: string
  pv_source_time :: "string option"
  pv_price :: "string option"
  pv_volume :: "int option"
  pv_raw :: json

record provider_batch =
  pb_id :: string
  pb_received :: string
  pb_records :: "provider_record list"

record ingestion_result =
  ir_batch :: string
  ir_quotes :: nat
  ir_quarantined :: nat
  ir_lineages :: "string list"

definition batch_payload :: "provider_batch \<Rightarrow> json" where
  "batch_payload b = JObj
     [(''id'', JStr (pb_id b)), (''received_at'', JStr (pb_received b)),
      (''records'', JArr (map (\<lambda>r. JObj
         [(''code'', JStr (pv_code r)), (''source_time'', JOpt (pv_source_time r)),
          (''price'', JOpt (pv_price r)),
          (''volume'', case pv_volume r of None \<Rightarrow> JNull | Some v \<Rightarrow> JInt v), (''raw'', pv_raw r)])
        (pb_records b)))]"

definition existing_batch :: "acquisition \<Rightarrow> string \<Rightarrow> string \<Rightarrow> ingestion_result option result" where
  "existing_batch s epoch_uid provider_id =
     bindR (one_or_none (filter (\<lambda>b. mb_epoch b = epoch_uid \<and> mb_provider_id b = provider_id) (acq_batches s)))
       (\<lambda>row. case row of
          None \<Rightarrow> Inr None
        | Some b \<Rightarrow>
            let lineages = sort (remdups (map qv_lineage (filter (\<lambda>q. qv_batch q = mb_uid b) (acq_quotes s))))
            in Inr (Some \<lparr>ir_batch = mb_uid b, ir_quotes = List.length lineages,
                 ir_quarantined = List.length
                   (filter (\<lambda>r. rm_batch r = mb_uid b \<and> rm_status r \<noteq> ''RESOLVED'') (acq_raws s)),
                 ir_lineages = lineages\<rparr>))"

definition mapping_for :: "acquisition \<Rightarrow> string \<Rightarrow> string \<Rightarrow> string \<Rightarrow> mapping_row option" where
  "mapping_for s provider code received =
     newest pm_from (filter (\<lambda>m. pm_provider m = provider \<and> pm_code m = code \<and>
       format_rfc3339 (pm_from m) \<le> received) (acq_mappings s))"

definition validate_source_time :: "(string \<Rightarrow> int option) \<Rightarrow> string option \<Rightarrow> int option" where
  "validate_source_time parse_time value = (case value of None \<Rightarrow> None | Some t \<Rightarrow> parse_time t)"

definition source_key :: "provider_record \<Rightarrow> string \<Rightarrow> string" where
  "source_key r received =
     (case pv_source_time r of None \<Rightarrow> ''RECEIVED:'' @ received
      | Some t \<Rightarrow> if t = [] then ''RECEIVED:'' @ received else t)"

text \<open>The lineage of a business key: the existing one, or a new one.\<close>

definition lineage_for ::
    "(string \<Rightarrow> string) \<Rightarrow> string \<Rightarrow> string \<Rightarrow> string \<Rightarrow> acquisition \<Rightarrow> string acquired" where
  "lineage_for sha epoch_uid instrument key s =
     (let business_key = sha (epoch_uid @ ''|'' @ instrument @ ''|'' @ key @ ''|LAST'') in
      case fresh s of (uid, s1) \<Rightarrow>
      bindR (one_or_none (filter (\<lambda>l. ql_key l = business_key) (acq_lineages s1))) (\<lambda>existing.
      case existing of
        Some l \<Rightarrow> Inr (ql_uid l, s1)
      | None \<Rightarrow>
          bindR (insert_lineage \<lparr>ql_uid = uid, ql_epoch = epoch_uid, ql_instrument = instrument,
              ql_source = key, ql_kind = ''LAST'', ql_key = business_key\<rparr> s1) (\<lambda>s2. Inr (uid, s2))))"

definition current_quotes :: "acquisition \<Rightarrow> string \<Rightarrow> quote_version_row list" where
  "current_quotes s lineage = filter (\<lambda>q. qv_lineage q = lineage \<and> qv_current q) (acq_quotes s)"

definition volume_status :: "int option \<Rightarrow> string" where
  "volume_status v = (if v \<noteq> None then ''VALUE'' else ''MISSING'')"

definition quote_version ::
    "string \<Rightarrow> string \<Rightarrow> int \<Rightarrow> string \<Rightarrow> nat \<Rightarrow> string \<Rightarrow> string option \<Rightarrow> int option \<Rightarrow> int option \<times> string \<Rightarrow>
     int option \<Rightarrow> quote_version_row" where
  "quote_version uid lineage version batch_uid index received raw source price volume =
     \<lparr>qv_uid = uid, qv_lineage = lineage, qv_version = version, qv_batch = batch_uid, qv_index = index,
      qv_received = received, qv_source_raw = raw, qv_source = source, qv_price = fst price,
      qv_price_status = snd price, qv_volume = volume, qv_volume_status = volume_status volume,
      qv_current = True\<rparr>"

definition first_quote ::
    "(string \<Rightarrow> rat option) \<Rightarrow> (string \<Rightarrow> int option) \<Rightarrow> string \<Rightarrow> string \<Rightarrow> nat \<Rightarrow> string \<Rightarrow> provider_record \<Rightarrow>
     acquisition \<Rightarrow> acquisition result" where
  "first_quote decimal parse_time lineage batch_uid index received r s =
     (let valid_time = validate_source_time parse_time (pv_source_time r) in
      case fresh s of (uid, s1) \<Rightarrow>
      bindR (insert_quote (quote_version uid lineage 1 batch_uid index received (pv_source_time r) valid_time
          (price_of decimal (pv_price r)) (pv_volume r)) s1) (\<lambda>s2.
      case pv_source_time r of
        None \<Rightarrow> Inr s2
      | Some t \<Rightarrow>
          if valid_time \<noteq> None then Inr s2
          else insert_issue \<lparr>qi_quote = uid, qi_code = ''INVALID_SOURCE_TIME'', qi_detail = t\<rparr> s2))"

text \<open>One record: the lineage it contributes to, or \<open>None\<close> when it is quarantined.\<close>

definition ingest_record ::
    "(string \<Rightarrow> string) \<Rightarrow> (string \<Rightarrow> rat option) \<Rightarrow> (string \<Rightarrow> int option) \<Rightarrow> string \<Rightarrow> string \<Rightarrow> string \<Rightarrow>
     string \<Rightarrow> nat \<Rightarrow> provider_record \<Rightarrow> acquisition \<Rightarrow> string option acquired" where
  "ingest_record sha decimal parse_time epoch_uid provider batch_uid received index r s =
     (let mapping = mapping_for s provider (pv_code r) received;
          status = (case mapping of None \<Rightarrow> ''UNMAPPED'' | Some m \<Rightarrow> pm_status m)
      in bindR (insert_raw \<lparr>rm_batch = batch_uid, rm_index = index, rm_code = pv_code r,
             rm_source_time = pv_source_time r, rm_status = status\<rparr> s) (\<lambda>s1.
         case (if status = ''RESOLVED'' then Option.bind mapping pm_instrument else None) of
           None \<Rightarrow> Inr (None, s1)
         | Some instrument \<Rightarrow>
             bindR (lineage_for sha epoch_uid instrument (source_key r received) s1) (\<lambda>(lineage, s2).
             bindR (one_or_none (current_quotes s2 lineage)) (\<lambda>current.
             case current of
               Some _ \<Rightarrow> Inr (Some lineage, s2)
             | None \<Rightarrow>
                 bindR (first_quote decimal parse_time lineage batch_uid index received r s2) (\<lambda>s3.
                 Inr (Some lineage, s3))))))"

fun ingest_records ::
    "(string \<Rightarrow> string) \<Rightarrow> (string \<Rightarrow> rat option) \<Rightarrow> (string \<Rightarrow> int option) \<Rightarrow> string \<Rightarrow> string \<Rightarrow> string \<Rightarrow>
     string \<Rightarrow> nat \<Rightarrow> provider_record list \<Rightarrow> acquisition \<Rightarrow> (string list \<times> nat) acquired" where
  "ingest_records sha decimal parse_time epoch_uid provider batch_uid received index [] s = Inr (([], 0), s)"
| "ingest_records sha decimal parse_time epoch_uid provider batch_uid received index (r # rs) s =
     bindR (ingest_record sha decimal parse_time epoch_uid provider batch_uid received index r s) (\<lambda>(l, s1).
     bindR (ingest_records sha decimal parse_time epoch_uid provider batch_uid received (Suc index) rs s1)
       (\<lambda>((ls, n), s2).
     Inr (case l of Some u \<Rightarrow> ((u # ls, n), s2) | None \<Rightarrow> ((ls, Suc n), s2))))"

definition register_artifact :: "string \<Rightarrow> acquisition \<Rightarrow> acquisition" where
  "register_artifact digest s =
     (if digest \<in> set (acq_artifacts s) then s else s\<lparr>acq_artifacts := acq_artifacts s @ [digest]\<rparr>)"

definition set_batch_status :: "string \<Rightarrow> string \<Rightarrow> acquisition \<Rightarrow> acquisition" where
  "set_batch_status uid status s =
     s\<lparr>acq_batches := map (\<lambda>b. if mb_uid b = uid then b\<lparr>mb_status := status\<rparr> else b) (acq_batches s)\<rparr>"

text \<open>The transaction.\<close>

definition ingest_command ::
    "(string \<Rightarrow> string) \<Rightarrow> (string \<Rightarrow> rat option) \<Rightarrow> (string \<Rightarrow> int option) \<Rightarrow> string \<Rightarrow> string \<Rightarrow> string \<Rightarrow>
     provider_batch \<Rightarrow> acquisition \<Rightarrow> ingestion_result acquired" where
  "ingest_command sha decimal parse_time epoch_uid batch_uid digest b s =
     bindR (one (map so_provider (filter (\<lambda>e. so_uid e = epoch_uid) (acq_epochs s)))) (\<lambda>provider.
     bindR (insert_batch \<lparr>mb_uid = batch_uid, mb_epoch = epoch_uid, mb_provider_id = pb_id b,
         mb_artifact = digest, mb_received = pb_received b, mb_status = ''RECEIVED''\<rparr> s) (\<lambda>s1.
     bindR (ingest_records sha decimal parse_time epoch_uid provider batch_uid (pb_received b) 0
         (pb_records b) s1) (\<lambda>((lineages, quarantined), s2).
     Inr (\<lparr>ir_batch = batch_uid, ir_quotes = List.length lineages, ir_quarantined = quarantined,
           ir_lineages = lineages\<rparr>,
          set_batch_status batch_uid (if lineages \<noteq> [] then ''NORMALIZED'' else ''QUARANTINED'') s2))))"

definition ingest ::
    "(string \<Rightarrow> string) \<Rightarrow> (string \<Rightarrow> rat option) \<Rightarrow> (string \<Rightarrow> int option) \<Rightarrow> string \<Rightarrow> provider_batch \<Rightarrow>
     acquisition \<Rightarrow> ingestion_result acquired" where
  "ingest sha decimal parse_time epoch_uid b s =
     bindR (existing_batch s epoch_uid (pb_id b)) (\<lambda>existing.
       case existing of
         Some r \<Rightarrow> Inr (r, s)
       | None \<Rightarrow>
           let digest = canonical_hash sha (batch_payload b) in
           case fresh (register_artifact digest s) of (batch_uid, s1) \<Rightarrow>
           ingest_command sha decimal parse_time epoch_uid batch_uid digest b s1)"

section \<open>Corrections\<close>

definition retract_current :: "string \<Rightarrow> acquisition \<Rightarrow> acquisition" where
  "retract_current lineage s =
     s\<lparr>acq_quotes := map (\<lambda>q. if qv_lineage q = lineage \<and> qv_current q then q\<lparr>qv_current := False\<rparr> else q)
         (acq_quotes s)\<rparr>"

definition correct_quote ::
    "(string \<Rightarrow> rat option) \<Rightarrow> string \<Rightarrow> string \<Rightarrow> nat \<Rightarrow> string option \<Rightarrow> int option \<Rightarrow> string \<Rightarrow>
     acquisition \<Rightarrow> string acquired" where
  "correct_quote decimal lineage batch_uid index price volume received s =
     (case fresh s of (uid, s1) \<Rightarrow>
      bindR (one (current_quotes s1 lineage)) (\<lambda>current.
      bindR (insert_quote (quote_version uid lineage (qv_version current + 1) batch_uid index received
          (qv_source_raw current) (qv_source current) (price_of decimal price) volume)
        (retract_current lineage s1)) (\<lambda>s2. Inr (uid, s2))))"

definition quote_history :: "acquisition \<Rightarrow> string \<Rightarrow> quote_version_row list" where
  "quote_history s lineage = sort_key qv_version (filter (\<lambda>q. qv_lineage q = lineage) (acq_quotes s))"

section \<open>Bars\<close>

text \<open>\<open>quantize\<close> to four decimals, which fails when the result has more than 28 digits.\<close>

definition amount_storage_value :: "rat \<Rightarrow> int result" where
  "amount_storage_value value =
     (let scaled = half_even (value * 10 ^ 4) in
      guardR (10 ^ 28 \<le> \<bar>scaled\<bar>) (InvalidOperation ''quantize result has too many digits'')
     (guardR (\<not> (- (2 ^ 63) \<le> scaled \<and> scaled \<le> 2 ^ 63 - 1))
        (ValueError ''TDX amount exceeds SQLite fixed-point range'') (Inr scaled)))"

definition external_code :: "tdx_instrument \<Rightarrow> string" where
  "external_code i = render_int (ti_market i) @ '':'' @ ti_code i"

definition bar_instrument :: "acquisition \<Rightarrow> string \<Rightarrow> string \<Rightarrow> string option" where
  "bar_instrument s epoch_uid code =
     Option.bind (newest (\<lambda>(m, _). pm_from m)
         (filter (\<lambda>(m, e). so_uid e = epoch_uid \<and> pm_code m = code \<and> pm_kind m = ''INSTRUMENT'' \<and>
             pm_status m = ''RESOLVED'' \<and> so_provider e = pm_provider m \<and> pm_from m \<le> so_started e \<and>
             (case pm_until m of None \<Rightarrow> True | Some u \<Rightarrow> so_started e < u))
           (List.product (acq_mappings s) (acq_epochs s)))) (\<lambda>(m, _). pm_instrument m)"

definition bar_acceptable :: "bar_row \<Rightarrow> acquisition \<Rightarrow> bool" where
  "bar_acceptable r s \<longleftrightarrow>
     absent br_uid (acq_bars s) (br_uid r) \<and> br_interval r \<in> {''1m'', ''1d''} \<and> 0 \<le> br_volume r \<and>
     br_volume_unit r \<in> {''SHARES'', ''INDEX_SHARE_LIKE'', ''INDEX_LOT_LIKE''} \<and>
     absent (\<lambda>x. (br_epoch x, br_instrument x, br_interval x, br_source x)) (acq_bars s)
       (br_epoch r, br_instrument r, br_interval r, br_source r)"

text \<open>\<open>INSERT OR IGNORE\<close>: a row that violates a constraint is skipped.\<close>

definition insert_bar :: "bar_row \<Rightarrow> acquisition \<Rightarrow> nat \<times> acquisition" where
  "insert_bar r s = (if bar_acceptable r s then (1, s\<lparr>acq_bars := acq_bars s @ [r]\<rparr>) else (0, s))"

definition record_bar :: "string \<Rightarrow> tdx_bar \<Rightarrow> acquisition \<Rightarrow> nat acquired" where
  "record_bar epoch_uid b s =
     bindR (amount_storage_value (tb_amount b)) (\<lambda>amount.
     bindR (require (ValueError ''no TDX mapping'') (bar_instrument s epoch_uid (external_code (tb_instrument b))))
       (\<lambda>instrument.
     bindR (to_scaled_integer (tb_open b) 4) (\<lambda>op. bindR (to_scaled_integer (tb_high b) 4) (\<lambda>hi.
     bindR (to_scaled_integer (tb_low b) 4) (\<lambda>lo. bindR (to_scaled_integer (tb_close b) 4) (\<lambda>cl.
     case fresh s of (uid, s1) \<Rightarrow>
     Inr (insert_bar \<lparr>br_uid = uid, br_epoch = epoch_uid, br_instrument = instrument,
         br_interval = tb_interval b, br_source = tb_timestamp b, br_open = op, br_high = hi, br_low = lo,
         br_close = cl, br_volume = tb_volume b, br_volume_unit = tb_volume_unit b, br_amount = amount\<rparr> s1)))))))"

fun record_bars :: "string \<Rightarrow> tdx_bar list \<Rightarrow> acquisition \<Rightarrow> nat acquired" where
  "record_bars epoch_uid [] s = Inr (0, s)"
| "record_bars epoch_uid (b # bs) s =
     bindR (record_bar epoch_uid b s) (\<lambda>(n, s1).
     bindR (record_bars epoch_uid bs s1) (\<lambda>(k, s2). Inr (n + k, s2)))"

end
