(* ===== verification/Acquisition_Properties.thy ===== *)
theory Acquisition_Properties
  imports Ingestion
begin

text \<open>
  The invariant of the acquisition tables and what no operation takes back. The locale
  \<open>acquisition_writes\<close> names the statements the services execute; whatever order tolerates them is kept by
  every service, and its one interpretation below is the invariant together with \<open>extends\<close>.
\<close>

lemma quote_version_simps [simp]:
  "qv_uid (quote_version uid l v b i rc raw src p vol) = uid"
  "qv_lineage (quote_version uid l v b i rc raw src p vol) = l"
  "qv_version (quote_version uid l v b i rc raw src p vol) = v"
  "qv_current (quote_version uid l v b i rc raw src p vol)"
  by (simp_all add: quote_version_def)

section \<open>The services are made of statements\<close>

locale acquisition_writes =
  fixes R :: "acquisition \<Rightarrow> acquisition \<Rightarrow> bool"
  assumes same: "R s s" and chain: "R s t \<Longrightarrow> R t u \<Longrightarrow> R s u"
    and tick: "R s (s\<lparr>acq_next := n\<rparr>)"
    and artifact: "R s (s\<lparr>acq_artifacts := ds\<rparr>)"
    and batches: "R s (s\<lparr>acq_batches := bs\<rparr>)"
    and epoch: "insert_epoch e s = Inr t \<Longrightarrow> so_status e = ''ACTIVE'' \<Longrightarrow> so_ended e = None \<Longrightarrow> R s t"
    and retire: "filter (\<lambda>e. so_provider e = provider \<and> so_status e = ''ACTIVE'') (acq_epochs s) = [e] \<Longrightarrow>
      retire_epoch (so_uid e) instant s = Inr t \<Longrightarrow> R s t"
    and report: "insert_report r s = Inr t \<Longrightarrow> R s t"
    and mark: "insert_mark w s = Inr t \<Longrightarrow> R s t"
    and advance: "advance_watermark epoch capability event received s = Inr (v, t) \<Longrightarrow>
      marks_of s epoch capability \<noteq> [] \<Longrightarrow> R s t"
    and raw: "insert_raw rw s = Inr t \<Longrightarrow> R s t"
    and lineage: "insert_lineage l s = Inr t \<Longrightarrow> R s t"
    and quote: "insert_quote q s = Inr t \<Longrightarrow> qv_version q = 1 \<Longrightarrow> qv_current q \<Longrightarrow> R s t"
    and issue: "insert_issue i s = Inr t \<Longrightarrow> R s t"
    and correction: "current_quotes s (qv_lineage q) = [c] \<Longrightarrow>
      insert_quote q (retract_current (qv_lineage q) s) = Inr t \<Longrightarrow>
      qv_version q = qv_version c + 1 \<Longrightarrow> qv_current q \<Longrightarrow> R s t"
    and bar: "R s (s\<lparr>acq_bars := acq_bars s @ rs\<rparr>)"
begin

lemmas [trans] = chain

lemma start_epoch:
  assumes "start_epoch provider fingerprint started s = Inr (uid, t)"
  shows "R s t"
proof -
  let ?s1 = "s\<lparr>acq_next := Suc (acq_next s)\<rparr>"
  from assms obtain active s2 where a: "one_or_none (filter (\<lambda>e. so_provider e = provider \<and>
        so_status e = ''ACTIVE'') (acq_epochs ?s1)) = Inr active"
    and r: "(case active of None \<Rightarrow> Inr ?s1 | Some e \<Rightarrow> retire_epoch (so_uid e) started ?s1) = Inr s2"
    and i: "insert_epoch \<lparr>so_uid = acq_source s (acq_next s), so_provider = provider,
        so_fingerprint = fingerprint, so_started = started, so_ended = None, so_status = ''ACTIVE'',
        so_rewarm = (active \<noteq> None)\<rparr> s2 = Inr t"
    unfolding start_epoch_def fresh_def by (auto simp: bindR_eq_Inr)
  have "R ?s1 s2"
  proof (cases active)
    case None
    then show ?thesis using r same by simp
  next
    case (Some e)
    then show ?thesis using a r retire [of provider ?s1 e] by (simp add: one_or_none_eq_Some)
  qed
  moreover have "R s2 t" by (rule epoch [OF i]) simp_all
  ultimately show ?thesis using chain tick by blast
qed

lemma record_health:
  assumes "record_health h uid capability coverage latency observed s = Inr (v, t)"
  shows "R s t"
proof -
  from assms obtain r where "insert_report r (s\<lparr>acq_next := Suc (acq_next s)\<rparr>) = Inr t"
    unfolding record_health_def fresh_def by (auto simp: bindR_eq_Inr Let_def)
  then show ?thesis using chain tick report by blast
qed

lemma advance_watermark:
  assumes "advance_watermark uid capability event received s = Inr (v, t)"
  shows "R s t"
proof (cases "marks_of s uid capability = []")
  case True
  then show ?thesis
    using assms mark by (auto simp: advance_watermark_def bindR_eq_Inr one_or_none_def)
next
  case False
  then show ?thesis using advance [OF assms] by simp
qed

lemma lineage_for:
  assumes "lineage_for sha uid instrument key s = Inr (l, t)"
  shows "R s t"
proof -
  let ?s1 = "s\<lparr>acq_next := Suc (acq_next s)\<rparr>"
  have "R ?s1 t"
    using assms same [of t] lineage unfolding lineage_for_def fresh_def
    by (auto simp: bindR_eq_Inr Let_def split: option.splits)
  then show ?thesis using chain tick by blast
qed

lemma first_quote:
  assumes "first_quote decimal parse_time l batch index received r s = Inr t"
  shows "R s t"
proof -
  let ?s1 = "s\<lparr>acq_next := Suc (acq_next s)\<rparr>"
  let ?q = "quote_version (acq_source s (acq_next s)) l 1 batch index received (pv_source_time r)
    (validate_source_time parse_time (pv_source_time r)) (price_of decimal (pv_price r)) (pv_volume r)"
  from assms obtain s2 where q: "insert_quote ?q ?s1 = Inr s2"
    and rest: "s2 = t \<or> (\<exists>i. insert_issue i s2 = Inr t)"
    unfolding first_quote_def fresh_def
    by (cases "pv_source_time r"; cases "validate_source_time parse_time (pv_source_time r)")
      (auto simp: bindR_eq_Inr Let_def)
  have "R s2 t" using rest same issue by blast
  then show ?thesis using chain tick quote [OF q] by (metis quote_version_simps)
qed

lemma ingest_record:
  assumes "ingest_record sha decimal parse_time uid provider batch received index r s = Inr (l, t)"
  shows "R s t"
proof -
  from assms obtain w s1 where w: "insert_raw w s = Inr s1"
    and rest: "s1 = t \<or> (\<exists>instrument key lin s2. lineage_for sha uid instrument key s1 = Inr (lin, s2) \<and>
      (s2 = t \<or> first_quote decimal parse_time lin batch index received r s2 = Inr t))"
    unfolding ingest_record_def
    by (fastforce simp: bindR_eq_Inr Let_def split: option.splits if_splits)
  have "R s1 t" using rest same chain lineage_for first_quote by metis
  then show ?thesis using chain raw [OF w] by blast
qed

lemma ingest_records:
  "ingest_records sha decimal parse_time uid provider batch received index rs s = Inr (v, t) \<Longrightarrow> R s t"
proof (induction rs arbitrary: index s v)
  case Nil
  then show ?case using same by simp
next
  case (Cons r rs)
  from Cons.prems obtain l s1 v' where
    "ingest_record sha decimal parse_time uid provider batch received index r s = Inr (l, s1)"
    "ingest_records sha decimal parse_time uid provider batch received (Suc index) rs s1 = Inr (v', t)"
    by (auto simp: bindR_eq_Inr split: option.splits)
  then show ?case using Cons.IH chain ingest_record by blast
qed

lemma ingest:
  assumes "ingest sha decimal parse_time uid b s = Inr (v, t)"
  shows "R s t"
proof (cases "\<exists>r. existing_batch s uid (pb_id b) = Inr (Some r)")
  case True
  then show ?thesis using assms same by (auto simp: ingest_def)
next
  case False
  let ?digest = "canonical_hash sha (batch_payload b)"
  let ?s0 = "register_artifact ?digest s"
  let ?s1 = "?s0\<lparr>acq_next := Suc (acq_next ?s0)\<rparr>"
  from assms False have "ingest_command sha decimal parse_time uid (acq_source ?s0 (acq_next ?s0)) ?digest b ?s1 =
      Inr (v, t)"
    unfolding ingest_def fresh_def
    by (cases "existing_batch s uid (pb_id b)") (auto simp: Let_def split: option.splits)
  then obtain provider r s2 w s3 status where r: "insert_batch r ?s1 = Inr s2"
    and w: "ingest_records sha decimal parse_time uid provider (acq_source ?s0 (acq_next ?s0)) (pb_received b) 0
      (pb_records b) s2 = Inr (w, s3)"
    and t: "t = set_batch_status (acq_source ?s0 (acq_next ?s0)) status s3"
    unfolding ingest_command_def bindR_eq_Inr by auto
  have "R s ?s0" using artifact [of s] same by (simp add: register_artifact_def)
  also have "R ?s0 ?s1" by (rule tick)
  also have "R ?s1 s2" using r batches [of ?s1] by (auto simp: insert_batch_def constrained_def)
  also have "R s2 s3" by (rule ingest_records [OF w])
  also have "R s3 t" unfolding t set_batch_status_def by (rule batches)
  finally show ?thesis .
qed

lemma correct_quote:
  assumes "correct_quote decimal l batch index price volume received s = Inr (v, t)"
  shows "R s t"
proof -
  let ?s1 = "s\<lparr>acq_next := Suc (acq_next s)\<rparr>"
  from assms obtain c q where c: "current_quotes ?s1 l = [c]"
    and q: "insert_quote q (retract_current l ?s1) = Inr t" "qv_lineage q = l"
      "qv_version q = qv_version c + 1" "qv_current q"
    by (fastforce simp: correct_quote_def fresh_def bindR_eq_Inr one_eq_Inr)
  then have "R ?s1 t" using correction [of ?s1 q c t] by simp
  then show ?thesis using chain tick by blast
qed

lemma record_bars: "record_bars uid bs s = Inr (n, t) \<Longrightarrow> R s t"
proof (induction bs arbitrary: s n)
  case Nil
  then show ?case using same by simp
next
  case (Cons b bs)
  from Cons.prems obtain k s1 m where b: "record_bar uid b s = Inr (k, s1)" and "record_bars uid bs s1 = Inr (m, t)"
    by (auto simp: bindR_eq_Inr)
  moreover have "R s s1"
  proof -
    from b obtain r where "insert_bar r (s\<lparr>acq_next := Suc (acq_next s)\<rparr>) = (k, s1)"
      unfolding record_bar_def fresh_def by (auto simp: bindR_eq_Inr)
    then have "R (s\<lparr>acq_next := Suc (acq_next s)\<rparr>) s1"
      using bar [of "s\<lparr>acq_next := Suc (acq_next s)\<rparr>" "[r]"] same by (simp add: insert_bar_def split: if_splits)
    then show ?thesis using chain tick by blast
  qed
  ultimately show ?case using Cons.IH chain by blast
qed

end

section \<open>The invariant and what stays\<close>

text \<open>The versions of a lineage, oldest first: numbered from one without gaps, the last one current.\<close>

definition quote_chain :: "quote_version_row list \<Rightarrow> bool" where
  "quote_chain qs \<longleftrightarrow> map qv_version qs = map int [1..<Suc (List.length qs)] \<and>
     map qv_current qs = map (\<lambda>i. Suc i = List.length qs) [0..<List.length qs]"

definition versions_of :: "string \<Rightarrow> acquisition \<Rightarrow> quote_version_row list" where
  "versions_of l s = filter (\<lambda>q. qv_lineage q = l) (acq_quotes s)"

definition active_epochs :: "acquisition \<Rightarrow> epoch_row list" where
  "active_epochs s = filter (\<lambda>e. so_status e = ''ACTIVE'') (acq_epochs s)"

definition epochs_inv :: "acquisition \<Rightarrow> bool" where
  "epochs_inv s \<longleftrightarrow> distinct (map so_uid (acq_epochs s)) \<and> distinct (map so_provider (active_epochs s)) \<and>
     (\<forall>e \<in> set (acq_epochs s). (so_status e = ''ACTIVE'') = (so_ended e = None) \<and>
        (\<forall>i. so_ended e = Some i \<longrightarrow> so_started e < i))"

definition mark_key :: "mark_row \<Rightarrow> string \<times> string" where
  "mark_key w = (wm_epoch w, wm_capability w)"

definition marks_inv :: "acquisition \<Rightarrow> bool" where
  "marks_inv s \<longleftrightarrow> distinct (map mark_key (acq_marks s)) \<and> (\<forall>w \<in> set (acq_marks s). 1 \<le> wm_version w)"

definition quotes_inv :: "acquisition \<Rightarrow> bool" where
  "quotes_inv s \<longleftrightarrow> distinct (map ql_key (acq_lineages s)) \<and> (\<forall>l. quote_chain (versions_of l s))"

definition acquisition_inv :: "acquisition \<Rightarrow> bool" where
  "acquisition_inv s \<longleftrightarrow> epochs_inv s \<and> marks_inv s \<and> quotes_inv s"

text \<open>Rows stay; of a quote version only the current flag is ever changed, and watermarks only rise.\<close>

definition unflagged :: "quote_version_row \<Rightarrow> quote_version_row" where
  "unflagged q = q\<lparr>qv_current := False\<rparr>"

definition mark_le :: "mark_row \<Rightarrow> mark_row \<Rightarrow> bool" where
  "mark_le w v \<longleftrightarrow> mark_key w = mark_key v \<and> wm_event w \<le> wm_event v \<and> wm_version w \<le> wm_version v"

definition epoch_le :: "epoch_row \<Rightarrow> epoch_row \<Rightarrow> bool" where
  "epoch_le e f \<longleftrightarrow> so_uid e = so_uid f \<and> so_provider e = so_provider f \<and> so_fingerprint e = so_fingerprint f \<and>
     so_started e = so_started f \<and> (so_status e \<noteq> ''ACTIVE'' \<longrightarrow> e = f)"

text \<open>A table that grew: the old rows, each possibly advanced, and new ones behind them.\<close>

definition grown :: "('r \<Rightarrow> 'r \<Rightarrow> bool) \<Rightarrow> 'r list \<Rightarrow> 'r list \<Rightarrow> bool" where
  "grown le rs ts \<longleftrightarrow> List.length rs \<le> List.length ts \<and> list_all2 le rs (take (List.length rs) ts)"

definition extends :: "acquisition \<Rightarrow> acquisition \<Rightarrow> bool" where
  "extends s t \<longleftrightarrow> grown epoch_le (acq_epochs s) (acq_epochs t) \<and> grown mark_le (acq_marks s) (acq_marks t) \<and>
     prefix (acq_reports s) (acq_reports t) \<and> prefix (acq_raws s) (acq_raws t) \<and>
     prefix (acq_lineages s) (acq_lineages t) \<and>
     prefix (map unflagged (acq_quotes s)) (map unflagged (acq_quotes t)) \<and>
     prefix (acq_issues s) (acq_issues t) \<and> prefix (acq_bars s) (acq_bars t)"

lemma grown_refl: "(\<And>r. le r r) \<Longrightarrow> grown le rs rs"
  by (simp add: grown_def list_all2_refl)

lemma grown_append: "(\<And>r. le r r) \<Longrightarrow> grown le rs (rs @ us)"
  by (simp add: grown_def list_all2_refl)

lemma grown_map: "(\<And>r. r \<in> set rs \<Longrightarrow> le r (f r)) \<Longrightarrow> grown le rs (map f rs)"
  by (simp add: grown_def list_all2_conv_all_nth)

lemma grown_trans:
  assumes "\<And>x y z. le x y \<Longrightarrow> le y z \<Longrightarrow> le x z" and "grown le rs ts" and "grown le ts us"
  shows "grown le rs us"
  using assms unfolding grown_def list_all2_conv_all_nth by (auto simp: min_def)

lemma mark_le_refl: "mark_le w w" and epoch_le_refl: "epoch_le e e"
  by (simp_all add: mark_le_def epoch_le_def)

lemma mark_le_trans: "mark_le x y \<Longrightarrow> mark_le y z \<Longrightarrow> mark_le x z"
  by (auto simp: mark_le_def)

lemma epoch_le_trans: "epoch_le x y \<Longrightarrow> epoch_le y z \<Longrightarrow> epoch_le x z"
  by (auto simp: epoch_le_def)

lemma extends_refl: "extends s s"
  by (simp add: extends_def grown_refl mark_le_refl epoch_le_refl)

lemma extends_trans:
  assumes "extends s t" and "extends t u"
  shows "extends s u"
proof -
  have "grown epoch_le xs zs" if "grown epoch_le xs ys" "grown epoch_le ys zs" for xs ys zs
    by (rule grown_trans [OF _ that]) (rule epoch_le_trans)
  moreover have "grown mark_le xs zs" if "grown mark_le xs ys" "grown mark_le ys zs" for xs ys zs
    by (rule grown_trans [OF _ that]) (rule mark_le_trans)
  ultimately show ?thesis
    using assms unfolding extends_def by (meson prefix_order.trans)
qed

lemmas grown_refls = grown_refl [of epoch_le, OF epoch_le_refl] grown_refl [of mark_le, OF mark_le_refl]
  grown_append [of epoch_le, OF epoch_le_refl] grown_append [of mark_le, OF mark_le_refl]

lemma quote_chain_Nil: "quote_chain []"
  by (simp add: quote_chain_def)

lemma quote_chain_next:
  assumes "quote_chain qs" and "qv_version q = int (Suc (List.length qs))" and "qv_current q"
  shows "quote_chain (map unflagged qs @ [q])"
proof -
  have "map qv_version (map unflagged qs) = map qv_version qs" by (simp add: unflagged_def comp_def)
  moreover have "map qv_current (map unflagged qs) = map (\<lambda>i. False) [0..<List.length qs]"
    by (rule nth_equalityI) (simp_all add: unflagged_def)
  ultimately show ?thesis
    using assms unfolding quote_chain_def by simp
qed

lemma quote_chain_current:
  assumes "quote_chain qs"
  shows "filter qv_current qs = (if qs = [] then [] else [last qs])"
    and "qs \<noteq> [] \<Longrightarrow> qv_version (last qs) = int (List.length qs)"
    and "map (\<lambda>q. if qv_current q then q\<lparr>qv_current := False\<rparr> else q) qs = map unflagged qs"
proof -
  have c: "qv_current (qs ! i) \<longleftrightarrow> Suc i = List.length qs" and v: "qv_version (qs ! i) = int (Suc i)"
    if "i < List.length qs" for i
    using assms that unfolding quote_chain_def list_eq_iff_nth_eq by (simp_all del: upt_Suc)
  show "map (\<lambda>q. if qv_current q then q\<lparr>qv_current := False\<rparr> else q) qs = map unflagged qs"
    by (simp add: unflagged_def)
  show "qv_version (last qs) = int (List.length qs)" if "qs \<noteq> []"
    using that v [of "List.length qs - 1"] by (simp add: last_conv_nth)
  show "filter qv_current qs = (if qs = [] then [] else [last qs])"
  proof (cases "qs = []")
    case False
    then have "qs = butlast qs @ [last qs]" by simp
    moreover have "\<not> qv_current q" if "q \<in> set (butlast qs)" for q
      using that c by (auto simp: in_set_conv_nth nth_butlast)
    moreover have "qv_current (last qs)" using False c [of "List.length qs - 1"] by (simp add: last_conv_nth)
    ultimately show ?thesis by (metis (no_types, lifting) False filter.simps filter_False filter_append self_append_conv2)
  qed simp
qed

section \<open>Every statement keeps it\<close>

definition keeps_acquisition :: "acquisition \<Rightarrow> acquisition \<Rightarrow> bool" where
  "keeps_acquisition s t \<longleftrightarrow> (acquisition_inv s \<longrightarrow> acquisition_inv t \<and> extends s t)"

lemmas acquisition_parts = keeps_acquisition_def acquisition_inv_def extends_def epochs_inv_def active_epochs_def
  marks_inv_def quotes_inv_def versions_of_def grown_refls constrained_def absent_iff

lemma keeps_insert_epoch:
  "insert_epoch e s = Inr t \<Longrightarrow> so_status e = ''ACTIVE'' \<Longrightarrow> so_ended e = None \<Longrightarrow> keeps_acquisition s t"
proof -
  assume run: "insert_epoch e s = Inr t" and e: "so_status e = ''ACTIVE''" "so_ended e = None"
  then have t: "t = s\<lparr>acq_epochs := acq_epochs s @ [e]\<rparr>" and uid: "so_uid e \<notin> so_uid ` set (acq_epochs s)"
    and free: "so_provider e \<notin> so_provider ` set (active_epochs s)"
    by (auto simp: insert_epoch_def constrained_def absent_iff active_epochs_def)
  then show "keeps_acquisition s t"
    using e by (simp add: acquisition_parts)
qed

lemma keeps_retire:
  assumes one: "filter (\<lambda>e. so_provider e = provider \<and> so_status e = ''ACTIVE'') (acq_epochs s) = [e]"
    and run: "retire_epoch (so_uid e) instant s = Inr t"
  shows "keeps_acquisition s t"
  unfolding keeps_acquisition_def
proof
  assume inv: "acquisition_inv s"
  let ?f = "\<lambda>x. if so_uid x = so_uid e then x\<lparr>so_status := ''RETIRED'', so_ended := Some instant, so_rewarm := True\<rparr> else x"
  let ?g = "\<lambda>w. if wm_epoch w = so_uid e then w\<lparr>wm_rewarm := True, wm_version := wm_version w + 1\<rparr> else w"
  have e: "e \<in> set (acq_epochs s)" "so_status e = ''ACTIVE''" using arg_cong [OF one, of set] by auto
  have t: "t = s\<lparr>acq_marks := map ?g (acq_marks s), acq_epochs := map ?f (acq_epochs s)\<rparr>"
    and started: "\<forall>x \<in> set (acq_epochs s). so_uid x = so_uid e \<longrightarrow> so_started x < instant"
    using run by (auto simp: retire_epoch_def constrained_def list_all_iff)
  have dist: "distinct (map so_uid (acq_epochs s))" "distinct (map so_provider (active_epochs s))"
    using inv by (simp_all add: acquisition_inv_def epochs_inv_def)
  have same: "x = e" if "x \<in> set (acq_epochs s)" "so_uid x = so_uid e" for x
    using dist(1) e(1) that by (simp add: distinct_map inj_on_def)
  have "filter (\<lambda>x. so_status x = ''ACTIVE'') (map ?f xs) =
      filter (\<lambda>x. so_uid x \<noteq> so_uid e) (filter (\<lambda>x. so_status x = ''ACTIVE'') xs)" for xs
    by (induction xs) auto
  then have "active_epochs t = filter (\<lambda>x. so_uid x \<noteq> so_uid e) (active_epochs s)"
    by (simp add: active_epochs_def t)
  then have "distinct (map so_provider (active_epochs t))" using dist(2) by (simp add: distinct_map_filter)
  moreover have uids: "map so_uid (acq_epochs t) = map so_uid (acq_epochs s)" by (simp add: t)
  have "distinct (map so_uid (acq_epochs t))" unfolding uids by (rule dist(1))
  moreover have "\<forall>x \<in> set (acq_epochs t). (so_status x = ''ACTIVE'') = (so_ended x = None) \<and>
      (\<forall>i. so_ended x = Some i \<longrightarrow> so_started x < i)"
    using inv started by (auto simp: t acquisition_inv_def epochs_inv_def)
  ultimately have "epochs_inv t" unfolding epochs_inv_def by blast
  moreover have keys: "map mark_key (acq_marks t) = map mark_key (acq_marks s)" by (simp add: t mark_key_def)
  have "distinct (map mark_key (acq_marks t))" unfolding keys using inv by (simp add: acquisition_inv_def marks_inv_def)
  then have "marks_inv t" using inv by (auto simp: t marks_inv_def acquisition_inv_def)
  moreover have "quotes_inv t" using inv by (simp add: t acquisition_inv_def quotes_inv_def versions_of_def)
  moreover have "grown epoch_le (acq_epochs s) (acq_epochs t)"
    unfolding t by simp (rule grown_map, use same e in \<open>auto simp: epoch_le_def\<close>)
  moreover have "grown mark_le (acq_marks s) (acq_marks t)"
    unfolding t by simp (rule grown_map, auto simp: mark_le_def mark_key_def)
  ultimately show "acquisition_inv t \<and> extends s t" by (simp add: acquisition_inv_def extends_def t)
qed

lemma keeps_insert_report: "insert_report r s = Inr t \<Longrightarrow> keeps_acquisition s t"
  by (auto simp: insert_report_def acquisition_parts)

lemma keeps_insert_mark: "insert_mark w s = Inr t \<Longrightarrow> keeps_acquisition s t"
  by (auto simp: insert_mark_def acquisition_parts mark_key_def image_iff)

lemma keeps_insert_raw: "insert_raw r s = Inr t \<Longrightarrow> keeps_acquisition s t"
  by (auto simp: insert_raw_def acquisition_parts)

lemma keeps_insert_lineage: "insert_lineage l s = Inr t \<Longrightarrow> keeps_acquisition s t"
  by (auto simp: insert_lineage_def acquisition_parts)

lemma keeps_insert_issue: "insert_issue i s = Inr t \<Longrightarrow> keeps_acquisition s t"
  by (auto simp: insert_issue_def acquisition_parts)

lemma keeps_advance:
  assumes run: "advance_watermark epoch capability event received s = Inr (v, t)"
    and found: "marks_of s epoch capability \<noteq> []"
  shows "keeps_acquisition s t"
proof -
  from run found obtain w where w: "marks_of s epoch capability = [w]"
    by (auto simp: advance_watermark_def bindR_eq_Inr one_or_none_def split: list.splits)
  show ?thesis
  proof (cases "event \<le> wm_event w")
    case True
    then show ?thesis
      using run w by (simp add: advance_watermark_def one_or_none_def keeps_acquisition_def extends_refl)
  next
    case False
    let ?f = "\<lambda>x. if wm_epoch x = epoch \<and> wm_capability x = capability
      then x\<lparr>wm_event := event, wm_received := received, wm_version := wm_version w + 1\<rparr> else x"
    have t: "t = s\<lparr>acq_marks := map ?f (acq_marks s)\<rparr>"
      using run w False by (simp add: advance_watermark_def one_or_none_def Let_def)
    have "x = w" if "x \<in> set (acq_marks s)" "wm_epoch x = epoch" "wm_capability x = capability" for x
      using that arg_cong [OF w, of set] by (auto simp: marks_of_def)
    then have "grown mark_le (acq_marks s) (map ?f (acq_marks s))"
      using False by (intro grown_map) (auto simp: mark_le_def mark_key_def)
    moreover have "w \<in> set (acq_marks s)" using arg_cong [OF w, of set] by (auto simp: marks_of_def)
    moreover have "map mark_key (map ?f (acq_marks s)) = map mark_key (acq_marks s)" by (simp add: mark_key_def)
    ultimately show ?thesis
      by (simp add: t acquisition_parts del: map_map) fastforce
  qed
qed

lemma keeps_insert_quote:
  assumes run: "insert_quote q s = Inr t" and v: "qv_version q = 1" "qv_current q"
  shows "keeps_acquisition s t"
  unfolding keeps_acquisition_def
proof
  assume inv: "acquisition_inv s"
  from run have t: "t = s\<lparr>acq_quotes := acq_quotes s @ [q]\<rparr>"
    and fresh_version: "(qv_lineage q, 1) \<notin> (\<lambda>x. (qv_lineage x, qv_version x)) ` set (acq_quotes s)"
    using v by (auto simp: insert_quote_def constrained_def absent_iff)
  let ?qs = "versions_of (qv_lineage q) s"
  have chain: "quote_chain (versions_of l s)" for l using inv by (simp add: acquisition_inv_def quotes_inv_def)
  have "?qs = []"
  proof (rule ccontr)
    assume "?qs \<noteq> []"
    then have "?qs ! 0 \<in> set ?qs" "qv_version (?qs ! 0) = 1"
      using chain [of "qv_lineage q"] unfolding quote_chain_def list_eq_iff_nth_eq by (simp_all del: upt_Suc)
    then have "(qv_lineage q, 1) = (qv_lineage (?qs ! 0), qv_version (?qs ! 0))" "?qs ! 0 \<in> set (acq_quotes s)"
      by (simp_all add: versions_of_def)
    then show False using fresh_version by (metis (no_types, lifting) image_eqI)
  qed
  then have "quote_chain (versions_of l t)" for l
    using chain [of l] quote_chain_next [OF quote_chain_Nil, of q] v by (auto simp: t versions_of_def)
  then show "acquisition_inv t \<and> extends s t"
    using inv extends_refl [of s] by (simp add: t acquisition_inv_def quotes_inv_def epochs_inv_def marks_inv_def
      active_epochs_def extends_def)
qed

lemma keeps_correction:
  assumes c: "current_quotes s (qv_lineage q) = [c]"
    and run: "insert_quote q (retract_current (qv_lineage q) s) = Inr t"
    and v: "qv_version q = qv_version c + 1" "qv_current q"
  shows "keeps_acquisition s t"
  unfolding keeps_acquisition_def
proof
  assume inv: "acquisition_inv s"
  let ?l = "qv_lineage q" and ?f = "\<lambda>x. if qv_lineage x = qv_lineage q \<and> qv_current x then x\<lparr>qv_current := False\<rparr> else x"
  let ?qs = "versions_of ?l s"
  have t: "t = s\<lparr>acq_quotes := map ?f (acq_quotes s) @ [q]\<rparr>"
    using run by (auto simp: insert_quote_def constrained_def retract_current_def)
  have chain: "quote_chain (versions_of l s)" for l using inv by (simp add: acquisition_inv_def quotes_inv_def)
  have "filter qv_current ?qs = [c]" using c by (simp add: current_quotes_def versions_of_def conj_commute)
  then have last: "?qs \<noteq> []" "c = last ?qs" using quote_chain_current(1) [OF chain [of ?l]] by (auto split: if_splits)
  have other: "filter (\<lambda>x. qv_lineage x = l) (map ?f xs) = filter (\<lambda>x. qv_lineage x = l) xs" if "l \<noteq> ?l" for l xs
    using that by (induction xs) auto
  have own: "filter (\<lambda>x. qv_lineage x = ?l) (map ?f xs) =
      map (\<lambda>x. if qv_current x then x\<lparr>qv_current := False\<rparr> else x) (filter (\<lambda>x. qv_lineage x = ?l) xs)" for xs
    by (induction xs) auto
  have "quote_chain (map unflagged ?qs @ [q])"
    using quote_chain_next [OF chain] quote_chain_current(2) [OF chain last(1)] last v by simp
  moreover have "versions_of ?l t = map unflagged ?qs @ [q]"
    using own [of "acq_quotes s"] unfolding quote_chain_current(3) [OF chain [of ?l], symmetric]
    by (simp add: t versions_of_def)
  ultimately have "quote_chain (versions_of ?l t)" by simp
  moreover have "quote_chain (versions_of l t)" if "l \<noteq> ?l" for l
    using chain [of l] other [OF that, of "acq_quotes s"] that by (simp add: t versions_of_def)
  ultimately have chained: "quote_chain (versions_of l t)" for l by (cases "l = ?l") simp_all
  have flags: "map unflagged (acq_quotes t) = map unflagged (acq_quotes s) @ [unflagged q]"
    by (simp add: t unflagged_def)
  have rest: "acq_epochs t = acq_epochs s" "acq_marks t = acq_marks s" "acq_lineages t = acq_lineages s"
    "acq_reports t = acq_reports s" "acq_raws t = acq_raws s" "acq_issues t = acq_issues s" "acq_bars t = acq_bars s"
    by (simp_all add: t)
  have "quotes_inv t" using inv chained rest by (simp add: acquisition_inv_def quotes_inv_def)
  moreover have "epochs_inv t" "marks_inv t"
    using inv rest by (simp_all add: acquisition_inv_def epochs_inv_def marks_inv_def active_epochs_def)
  moreover have "extends s t" unfolding extends_def rest flags by (simp add: grown_refls)
  ultimately show "acquisition_inv t \<and> extends s t" by (simp add: acquisition_inv_def)
qed

interpretation acquired: acquisition_writes keeps_acquisition
proof unfold_locales
  show "keeps_acquisition s u" if "keeps_acquisition s t" "keeps_acquisition t u" for s t u
    using that extends_trans unfolding keeps_acquisition_def by blast
qed (simp_all add: keeps_insert_epoch keeps_retire keeps_insert_report keeps_insert_mark keeps_advance
    keeps_insert_raw keeps_insert_lineage keeps_insert_quote keeps_insert_issue keeps_correction,
  simp_all add: acquisition_parts)

end
