(* ===== verification/Acquisition_Theorems.thy ===== *)
theory Acquisition_Theorems
  imports Acquisition_Properties
begin

text \<open>
  The acquisition services in any order: \<open>acquisition_step\<close> is one successful call of a service, or any
  change of the reference data. What holds in every reachable state of the tables and of every
  continuation.
\<close>

inductive acquisition_step ::
    "(string \<Rightarrow> string) \<Rightarrow> (string \<Rightarrow> rat option) \<Rightarrow> (string \<Rightarrow> int option) \<Rightarrow> acquisition \<Rightarrow> acquisition \<Rightarrow> bool"
  for sha decimal parse_time where
  step_epoch: "start_epoch provider fingerprint started s = Inr (uid, t) \<Longrightarrow> acquisition_step sha decimal parse_time s t"
| step_health: "record_health h uid capability coverage latency observed s = Inr (v, t) \<Longrightarrow>
    acquisition_step sha decimal parse_time s t"
| step_mark: "advance_watermark uid capability event received s = Inr (m, t) \<Longrightarrow>
    acquisition_step sha decimal parse_time s t"
| step_ingest: "ingest sha decimal parse_time uid b s = Inr (r, t) \<Longrightarrow> acquisition_step sha decimal parse_time s t"
| step_correct: "correct_quote decimal l batch index price volume received s = Inr (q, t) \<Longrightarrow>
    acquisition_step sha decimal parse_time s t"
| step_bars: "record_bars uid bars s = Inr (n, t) \<Longrightarrow> acquisition_step sha decimal parse_time s t"
| step_reference: "acquisition_step sha decimal parse_time s (s\<lparr>acq_instruments := is, acq_mappings := ms\<rparr>)"

inductive acquisition_run ::
    "(string \<Rightarrow> string) \<Rightarrow> (string \<Rightarrow> rat option) \<Rightarrow> (string \<Rightarrow> int option) \<Rightarrow> acquisition \<Rightarrow> acquisition \<Rightarrow> bool"
  for sha decimal parse_time where
  run_start: "acquisition_run sha decimal parse_time s s"
| run_more: "acquisition_run sha decimal parse_time s t \<Longrightarrow> acquisition_step sha decimal parse_time t u \<Longrightarrow>
    acquisition_run sha decimal parse_time s u"

definition no_acquisition :: "(nat \<Rightarrow> string) \<Rightarrow> acquisition" where
  "no_acquisition uids = \<lparr>acq_source = uids, acq_next = 0, acq_instruments = [], acq_mappings = [],
     acq_epochs = [], acq_reports = [], acq_marks = [], acq_artifacts = [], acq_batches = [], acq_raws = [],
     acq_lineages = [], acq_quotes = [], acq_issues = [], acq_bars = []\<rparr>"

lemma no_acquisition_inv: "acquisition_inv (no_acquisition uids)"
  by (simp add: no_acquisition_def acquisition_parts quote_chain_Nil)

lemma step_keeps: "acquisition_step sha decimal parse_time s t \<Longrightarrow> keeps_acquisition s t"
proof (induction rule: acquisition_step.induct)
  case (step_reference s "is" ms)
  then show ?case by (simp add: acquisition_parts)
qed (fact acquired.start_epoch acquired.record_health acquired.advance_watermark acquired.ingest
    acquired.correct_quote acquired.record_bars)+

lemma run_keeps: "acquisition_run sha decimal parse_time s t \<Longrightarrow> keeps_acquisition s t"
  by (induction rule: acquisition_run.induct) (use acquired.same acquired.chain step_keeps in blast)+

text \<open>C1: in every state reached from empty tables, each provider has at most one active source epoch, each
  lineage's quote versions are numbered from one without gaps and exactly the last one is current; and
  whatever happens afterwards (\<open>extends\<close>), no report, raw record, lineage, bar or quote version is lost or
  changed but for the current flag, a retired epoch stays as it is, and a watermark's event time and
  version never go back.\<close>

theorem acquisition_reachable:
  assumes "acquisition_run sha decimal parse_time (no_acquisition uids) s"
    and "acquisition_run sha decimal parse_time s t"
  shows "distinct (map so_provider (active_epochs t)) \<and> extends s t \<and>
    map qv_version (quote_history t l) = map int [1..<Suc (List.length (quote_history t l))] \<and>
    filter qv_current (quote_history t l) = (if quote_history t l = [] then [] else [last (quote_history t l)])"
proof -
  have inv: "acquisition_inv t" and ext: "extends s t"
    using run_keeps [OF assms(1)] run_keeps [OF assms(2)] no_acquisition_inv
    by (simp_all add: keeps_acquisition_def)
  from inv have chain: "quote_chain (versions_of l t)" by (simp add: acquisition_inv_def quotes_inv_def)
  have "sorted (map qv_version (versions_of l t))"
    using chain unfolding quote_chain_def by (simp add: sorted_map sorted_wrt_upt del: upt_Suc)
  then have "quote_history t l = versions_of l t"
    unfolding quote_history_def versions_of_def by (rule sort_key_id_if_sorted)
  then show ?thesis
    using inv ext chain quote_chain_current(1) [OF chain] unfolding quote_chain_def
    by (simp add: acquisition_inv_def epochs_inv_def del: upt_Suc)
qed

section \<open>A run\<close>

text \<open>An epoch starts, a batch with one record arrives, and its quote is corrected.\<close>

definition sample_uids :: "nat \<Rightarrow> string" where
  "sample_uids n = replicate n CHR ''u''"

definition sample_batch :: provider_batch where
  "sample_batch = \<lparr>pb_id = ''b1'', pb_received = ''2024'', pb_records =
     [\<lparr>pv_code = ''1:600000'', pv_source_time = None, pv_price = None, pv_volume = Some 100, pv_raw = JNull\<rparr>]\<rparr>"

definition sample_reference :: acquisition where
  "sample_reference = (no_acquisition sample_uids)\<lparr>acq_instruments := [(''i1'', ''STOCK'')], acq_mappings :=
     [\<lparr>pm_uid = ''m1'', pm_provider = ''TDX'', pm_code = ''1:600000'', pm_kind = ''INSTRUMENT'',
       pm_instrument = Some ''i1'', pm_status = ''RESOLVED'', pm_from = 0, pm_until = None\<rparr>]\<rparr>"

definition sample_started :: acquisition where
  "sample_started = sample_reference\<lparr>acq_next := 1, acq_epochs := [\<lparr>so_uid = [], so_provider = ''TDX'',
     so_fingerprint = ''f1'', so_started = 0, so_ended = None, so_status = ''ACTIVE'', so_rewarm = False\<rparr>]\<rparr>"

lemmas sample_states = sample_started_def sample_reference_def no_acquisition_def sample_uids_def

lemmas sample_tables = fresh_def one_or_none_def one_def constrained_def absent_def present_def Let_def

lemma sample_start: "start_epoch ''TDX'' ''f1'' 0 sample_reference = Inr ([], sample_started)"
  by (simp add: start_epoch_def insert_epoch_def sample_states sample_tables)

definition sample_version :: quote_version_row where
  "sample_version = quote_version ''uuu'' ''uu'' 1 ''u'' 0 ''2024'' None None (None, ''MISSING'') (Some 100)"

definition sample_ingested :: acquisition where
  "sample_ingested = sample_started\<lparr>acq_next := 4, acq_artifacts := [''h''],
     acq_batches := [\<lparr>mb_uid = ''u'', mb_epoch = [], mb_provider_id = ''b1'', mb_artifact = ''h'',
       mb_received = ''2024'', mb_status = ''NORMALIZED''\<rparr>],
     acq_raws := [\<lparr>rm_batch = ''u'', rm_index = 0, rm_code = ''1:600000'', rm_source_time = None,
       rm_status = ''RESOLVED''\<rparr>],
     acq_lineages := [\<lparr>ql_uid = ''uu'', ql_epoch = [], ql_instrument = ''i1'', ql_source = ''RECEIVED:2024'',
       ql_kind = ''LAST'', ql_key = ''h''\<rparr>], acq_quotes := [sample_version]\<rparr>"

lemma sample_ingest:
  "\<exists>r. ingest (\<lambda>_. ''h'') (\<lambda>_. None) (\<lambda>_. None) [] sample_batch sample_started = Inr (r, sample_ingested)"
proof -
  have "format_rfc3339 0 \<le> ''2024''" by code_simp
  then show ?thesis
    by (simp add: sample_ingested_def sample_version_def sample_batch_def sample_states sample_tables ingest_def
      ingest_command_def existing_batch_def register_artifact_def canonical_hash_def insert_batch_def
      ingest_record_def mapping_for_def newest_def insert_raw_def lineage_for_def insert_lineage_def
      current_quotes_def first_quote_def quote_version_def insert_quote_def price_of_def
      validate_source_time_def volume_status_def source_key_def set_batch_status_def)
qed

lemma sample_correct:
  "\<exists>t. correct_quote (\<lambda>_. None) ''uu'' ''u'' 0 None (Some 200) ''2025'' sample_ingested = Inr (''uuuu'', t) \<and>
     List.length (quote_history t ''uu'') = 2"
  by (simp add: correct_quote_def sample_ingested_def sample_version_def sample_states sample_tables
    current_quotes_def quote_version_def insert_quote_def price_of_def volume_status_def retract_current_def
    quote_history_def eval_nat_numeral)

theorem acquisition_reachable_witness:
  "\<exists>t. acquisition_run (\<lambda>_. ''h'') (\<lambda>_. None) (\<lambda>_. None) sample_ingested t \<and> extends sample_ingested t \<and>
     map qv_version (quote_history t ''uu'') = [1, 2]"
proof -
  let ?run = "acquisition_run (\<lambda>_. ''h'') (\<lambda>_. None) (\<lambda>_. None)"
  have "?run (no_acquisition sample_uids) sample_reference"
    unfolding sample_reference_def by (intro run_more [OF run_start] step_reference)
  then have before: "?run (no_acquisition sample_uids) sample_ingested"
    using run_more step_epoch [OF sample_start] step_ingest sample_ingest by metis
  obtain t where t: "correct_quote (\<lambda>_. None) ''uu'' ''u'' 0 None (Some 200) ''2025'' sample_ingested = Inr (''uuuu'', t)"
    and two: "List.length (quote_history t ''uu'') = 2"
    using sample_correct by blast
  have after: "?run sample_ingested t" by (rule run_more [OF run_start step_correct [OF t]])
  show ?thesis
    using acquisition_reachable [OF before after, of "''uu''"] after two by (intro exI [of _ t]) (simp add: numeral_2_eq_2)
qed

end
