(* ===== verification/Snapshot_Manifest.thy ===== *)
theory Snapshot_Manifest
  imports Acquisition
begin

text \<open>
  \<open>snapshots.py\<close>, first half: the input manifest. Its parts are normalised, checked against the acquired
  data and frozen as a canonical JSON document in the artifact store; \<open>replay_manifest\<close> reads it back and
  the \<open>replay_\<close> functions check what they read. A row that reading by identifier does not find is absent
  from the result, as in the code; the times of quotes and bars are those of \<open>Acquisition\<close>.
\<close>

section \<open>The store\<close>

record manifest_entry =
  mf_uid :: string
  mf_hash :: string
  mf_artifact :: string
  mf_as_of :: int

record quality_entry =
  qx_uid :: string
  qx_health :: string
  qx_fitness :: string
  qx_evidence :: string
  qx_coverage :: int
  qx_max_age :: int
  qx_observed :: int

record snapshot_entry =
  es_uid :: string
  es_subject :: string
  es_manifest :: string
  es_bundle :: string
  es_quality :: string
  es_as_of :: int
  es_max_skew :: int
  es_disposition :: string
  es_status :: string
  es_hash :: string
  es_sealed :: "int option"

record capability_entry =
  cs_snapshot :: string
  cs_capability :: string
  cs_epoch :: string
  cs_report :: "string option"
  cs_health :: string
  cs_fitness :: string
  cs_coverage :: int
  cs_latency :: int
  cs_required :: bool

record snapshot_store =
  ss_inputs :: acquisition
  ss_subjects :: "string list"
  ss_references :: "(string \<times> string \<times> string) list"
  ss_bundles :: "(string \<times> string) list"
  ss_bundle_entries :: "(string \<times> string \<times> string \<times> string) list"
  ss_files :: "string \<rightharpoonup> artifact_file"
  ss_manifests :: "manifest_entry list"
  ss_qualities :: "quality_entry list"
  ss_snapshots :: "snapshot_entry list"
  ss_capabilities :: "capability_entry list"

type_synonym 'a stored = "('a \<times> snapshot_store) result"

definition store_fresh :: "snapshot_store \<Rightarrow> string \<times> snapshot_store" where
  "store_fresh s = (case fresh (ss_inputs s) of (uid, a) \<Rightarrow> (uid, s\<lparr>ss_inputs := a\<rparr>))"

text \<open>\<open>_rows_for_identifiers\<close>: identifiers are looked up in batches of 500.\<close>

definition read_batches :: "string list \<Rightarrow> string list list" where
  "read_batches ids = map (\<lambda>k. take 500 (drop (k * 500) ids)) [0..<(List.length ids + 499) div 500]"

definition rows_for :: "('r \<Rightarrow> string) \<Rightarrow> 'r list \<Rightarrow> string list \<Rightarrow> 'r list" where
  "rows_for key rows ids = concat (map (\<lambda>batch. filter (\<lambda>r. key r \<in> set batch) rows) (read_batches ids))"

text \<open>Quotes joined with their lineage: the version, its epoch and its instrument.\<close>

type_synonym quote_join = "quote_version_row \<times> string \<times> string"

definition quote_joins :: "acquisition \<Rightarrow> quote_join list" where
  "quote_joins a = concat (map (\<lambda>q. map (\<lambda>l. (q, ql_epoch l, ql_instrument l))
     (filter (\<lambda>l. ql_uid l = qv_lineage q) (acq_lineages a))) (acq_quotes a))"

definition quote_rows :: "acquisition \<Rightarrow> string list \<Rightarrow> quote_join list" where
  "quote_rows a ids = rows_for (\<lambda>(q, _, _). qv_uid q) (quote_joins a) ids"

definition bar_rows :: "acquisition \<Rightarrow> string list \<Rightarrow> bar_row list" where
  "bar_rows a ids = rows_for br_uid (acq_bars a) ids"

section \<open>Normalisation\<close>

record primary_status =
  ps_instrument :: string
  ps_quote :: "string option"
  ps_status :: string

definition primary_statuses :: "string list" where
  "primary_statuses = [''VALID'', ''MISSING'', ''SUSPENDED'', ''NO_VALID_QUOTE'']"

definition primary_status_check :: "primary_status \<Rightarrow> primary_status result" where
  "primary_status_check p =
     guardR (ps_instrument p = []) (ValueError ''primary quote status requires an instrument UID'')
    (guardR (ps_status p \<notin> set primary_statuses) (ValueError ''unknown primary quote status'')
    (guardR ((ps_status p = ''VALID'') \<noteq> (ps_quote p \<noteq> None))
       (ValueError ''only VALID primary quote status may have a quote UID'')
    (guardR (ps_quote p = Some []) (ValueError ''primary quote status quote UID must not be empty'') (Inr p))))"

text \<open>\<open>sorted(set(values))\<close>.\<close>

definition sorted_set :: "'a :: linorder list \<Rightarrow> 'a list" where
  "sorted_set xs = sort (remdups xs)"

definition normalize_statuses :: "primary_status list \<Rightarrow> primary_status list result" where
  "normalize_statuses statuses =
     guardR (\<not> distinct (map ps_instrument statuses))
       (ValueError ''primary quote statuses must not duplicate an instrument'')
       (Inr (sort_key ps_instrument statuses))"

type_synonym windows = "(string \<times> string list) list"

definition normalize_window :: "string \<times> string list \<Rightarrow> (string \<times> string list) result" where
  "normalize_window = (\<lambda>(name, values).
     guardR (name = []) (ValueError ''historical windows require named string identities'')
    (guardR ([] \<in> set values) (ValueError ''historical window identities must be non-empty strings'')
    (guardR (\<not> distinct values) (ValueError ''historical window identities must not duplicate'')
       (Inr (name, sort values)))))"

definition normalize_windows :: "windows option \<Rightarrow> windows result" where
  "normalize_windows ws = (case ws of None \<Rightarrow> Inr [] | Some w \<Rightarrow> mapR normalize_window (sort_key fst w))"

section \<open>The minute cohort\<close>

definition cohort_counts :: "string list" where
  "cohort_counts = [''expected_primary_count'', ''known_suspended_count'', ''valid_latest_complete_count'',
     ''missing_or_invalid_count'', ''coverage_ppm'', ''request_count'', ''worker_count'', ''duration_ms'']"

definition cohort_keys :: "string list" where
  "cohort_keys = ''targets'' # ''source_time_integrity'' # ''failure_counts'' # cohort_counts"

definition cohort_target :: "json \<Rightarrow> (int \<times> string) result" where
  "cohort_target j =
     (case j of
        JObj ps \<Rightarrow>
          (case (map_of ps ''market'', map_of ps ''source_time'') of
             (Some (JInt m), Some (JStr t)) \<Rightarrow>
               guardR (m \<notin> {0, 1} \<or> canonical_instant t = None)
                 (ValueError ''realtime minute cohort targets are invalid'') (Inr (m, t))
           | _ \<Rightarrow> Inl (ValueError ''realtime minute cohort targets are invalid''))
      | _ \<Rightarrow> Inl (ValueError ''realtime minute cohort targets are invalid''))"

definition cohort_targets :: "json option \<Rightarrow> (int \<times> string) list result" where
  "cohort_targets j =
     (case j of
        Some (JArr ts) \<Rightarrow>
          guardR (ts = []) (ValueError ''realtime minute cohort targets are invalid'')
         (bindR (mapR cohort_target ts) (\<lambda>targets.
          guardR (\<not> distinct (map fst targets)) (ValueError ''realtime minute cohort targets are invalid'')
            (Inr (sort_key fst targets))))
      | _ \<Rightarrow> Inl (ValueError ''realtime minute cohort targets are invalid''))"

definition cohort_count :: "json option \<Rightarrow> int result" where
  "cohort_count j =
     (case j of
        Some (JInt n) \<Rightarrow> guardR (n < 0) (ValueError ''realtime minute cohort counts are invalid'') (Inr n)
      | _ \<Rightarrow> Inl (ValueError ''realtime minute cohort counts are invalid''))"

definition cohort_failures :: "json option \<Rightarrow> (string \<times> json) list result" where
  "cohort_failures j =
     (case j of
        Some (JObj ps) \<Rightarrow>
          guardR (list_ex (\<lambda>(name, v). name = [] \<or> (case v of JInt n \<Rightarrow> n < 0 | _ \<Rightarrow> True)) ps)
            (ValueError ''realtime minute cohort failure counts are invalid'') (Inr (sort_key fst ps))
      | _ \<Rightarrow> Inl (ValueError ''realtime minute cohort failure counts are invalid''))"

definition target_json :: "int \<times> string \<Rightarrow> json" where
  "target_json = (\<lambda>(m, t). JObj [(''market'', JInt m), (''source_time'', JStr t)])"

definition coverage_of :: "int \<Rightarrow> int \<Rightarrow> int" where
  "coverage_of valid tradable = (if tradable = 0 then 0 else valid * 1000000 div tradable)"

definition normalize_cohort :: "json \<Rightarrow> string list \<Rightarrow> primary_status list \<Rightarrow> json result" where
  "normalize_cohort j bars statuses =
     (case j of
        JObj ps \<Rightarrow>
          guardR (set (map fst ps) \<noteq> set cohort_keys) (ValueError ''realtime minute cohort schema is invalid'')
         (bindR (cohort_targets (map_of ps ''targets'')) (\<lambda>targets.
          bindR (mapR (\<lambda>name. bindR (cohort_count (map_of ps name)) (\<lambda>n. Inr (name, n))) cohort_counts) (\<lambda>counts.
          let integer = (\<lambda>name. the (map_of counts name));
              expected = integer ''expected_primary_count''; suspended = integer ''known_suspended_count'';
              valid = integer ''valid_latest_complete_count''; missing = integer ''missing_or_invalid_count'';
              tradable = expected - suspended
          in guardR (tradable < 0 \<or> valid + missing \<noteq> tradable)
               (ValueError ''realtime minute cohort counts are inconsistent'')
            (guardR (integer ''coverage_ppm'' \<noteq> coverage_of valid tradable \<or> valid \<noteq> int (List.length bars))
               (ValueError ''realtime minute cohort coverage is inconsistent'')
            (guardR (statuses \<noteq> [] \<and> (expected \<noteq> int (List.length statuses) \<or>
                 suspended \<noteq> int (List.length (filter (\<lambda>p. ps_status p = ''SUSPENDED'') statuses))))
               (ValueError ''realtime minute cohort quote status denominator is inconsistent'')
            (guardR (map_of ps ''source_time_integrity'' \<noteq> Some (JStr ''EXACT_TARGET''))
               (ValueError ''realtime minute cohort source-time integrity is invalid'')
            (bindR (cohort_failures (map_of ps ''failure_counts'')) (\<lambda>failures.
             Inr (JObj ((''targets'', JArr (map target_json targets)) #
               map (\<lambda>(name, n). (name, JInt n)) counts @
               [(''source_time_integrity'', JStr ''EXACT_TARGET''), (''failure_counts'', JObj failures)]))))))))))
      | _ \<Rightarrow> Inl (ValueError ''realtime minute cohort schema is invalid''))"

section \<open>Validation against the data\<close>

definition validate_manifest_bars :: "acquisition \<Rightarrow> string list \<Rightarrow> int \<Rightarrow> unit result" where
  "validate_manifest_bars a bars instant =
     (if bars = [] then Inr ()
      else let rows = bar_rows a bars in
        guardR (List.length rows \<noteq> List.length bars) (LookupError ''manifest contains an unknown bar UID'')
       (guardR (list_ex (\<lambda>r. instant < br_source r) rows)
          (FutureInputError ''manifest cannot include a bar after as-of time'') (Inr ())))"

definition validate_current_bars :: "acquisition \<Rightarrow> string list \<Rightarrow> unit result" where
  "validate_current_bars a bars =
     (let rows = bar_rows a bars in
      guardR (List.length rows \<noteq> List.length bars \<or> list_ex (\<lambda>r. br_interval r \<noteq> ''1m'') rows)
        (ValueError ''realtime current bar UIDs must identify 1m canonical bars'') (Inr ()))"

definition validate_statuses :: "acquisition \<Rightarrow> primary_status list \<Rightarrow> quote_join list \<Rightarrow> unit result" where
  "validate_statuses a statuses rows =
     (if statuses = [] then Inr ()
      else guardR (set (map fst (rows_for fst (acq_instruments a) (map ps_instrument statuses))) \<noteq>
          set (map ps_instrument statuses)) (LookupError ''primary quote status contains an unknown instrument UID'')
       (let instruments = pydict (map (\<lambda>(q, _, i). (qv_uid q, i)) rows) in
        guardR (set (List.map_filter ps_quote statuses) \<noteq> set (map (\<lambda>(q, _, _). qv_uid q) rows))
          (ValueError ''version-2 primary statuses must represent every manifest quote'')
       (guardR (list_ex (\<lambda>p. case ps_quote p of None \<Rightarrow> False | Some u \<Rightarrow> instruments u \<noteq> Some (ps_instrument p)) statuses)
          (ValueError ''VALID primary quote status must match the quote instrument'') (Inr ()))))"

section \<open>Creating a manifest\<close>

record manifest_request =
  mr_quotes :: "string list"
  mr_as_of :: int
  mr_bars :: "string list"
  mr_context :: "string list option"
  mr_rt_quotes :: "string list option"
  mr_rt_bars :: "string list option"
  mr_cohort :: "json option"
  mr_shadow :: "string option"
  mr_statuses :: "primary_status list"
  mr_windows :: "windows option"

definition or_empty :: "'a list option \<Rightarrow> 'a list" where
  "or_empty v = (case v of None \<Rightarrow> [] | Some xs \<Rightarrow> xs)"

text \<open>The normalised parts of a request.\<close>

record normal_parts =
  mp_as_of :: int
  mp_quotes :: "string list"
  mp_context :: "string list"
  mp_bars :: "string list"
  mp_rt_quotes :: "string list"
  mp_rt_bars :: "string list"
  mp_statuses :: "primary_status list"
  mp_windows :: windows
  mp_cohort :: "json option"
  mp_shadow :: "string option"
  mp_version :: int

definition request_version :: "manifest_request \<Rightarrow> int" where
  "request_version r =
     (if mr_cohort r \<noteq> None then 5
      else if mr_rt_quotes r \<noteq> None \<or> mr_rt_bars r \<noteq> None then 4
      else if mr_context r \<noteq> None then 3
      else if mr_bars r \<noteq> [] \<or> mr_statuses r \<noteq> [] \<or> mr_windows r \<noteq> None then 2 else 1)"

definition manifest_parts :: "manifest_request \<Rightarrow> normal_parts result" where
  "manifest_parts r =
     (let quotes = sorted_set (mr_quotes r); context_quotes = sorted_set (or_empty (mr_context r));
          bars = sorted_set (mr_bars r); rt_quotes = sorted_set (or_empty (mr_rt_quotes r));
          rt_bars = sorted_set (or_empty (mr_rt_bars r)); version = request_version r
      in guardR (quotes = []) (ValueError ''manifest requires at least one quote'')
        (guardR (mr_shadow r = Some []) (ValueError ''shadow round UID must be a non-empty string'')
        (guardR (set quotes \<inter> set context_quotes \<noteq> {})
           (ValueError ''context quote UIDs must not duplicate Primary quote UIDs'')
        (bindR (normalize_statuses (mr_statuses r)) (\<lambda>statuses.
         bindR (normalize_windows (mr_windows r)) (\<lambda>windows.
         guardR (4 \<le> version \<and> (mr_rt_quotes r = None \<or> mr_rt_bars r = None))
           (ValueError ''realtime quote and current bar UIDs must be supplied together'')
        (guardR (4 \<le> version \<and> set rt_quotes \<noteq> set (quotes @ context_quotes))
           (ValueError ''realtime quote UIDs must include every live manifest quote'')
        (guardR (4 \<le> version \<and> rt_bars = []) (ValueError ''realtime current bar UIDs must not be empty'')
        (guardR (4 \<le> version \<and> \<not> set rt_bars \<subseteq> set bars)
           (ValueError ''realtime current bar UIDs must belong to manifest bars'')
        (bindR (case mr_cohort r of None \<Rightarrow> Inr None
            | Some j \<Rightarrow> bindR (normalize_cohort j rt_bars statuses) (\<lambda>c. Inr (Some c))) (\<lambda>cohort.
         Inr \<lparr>mp_as_of = mr_as_of r, mp_quotes = quotes, mp_context = context_quotes, mp_bars = bars,
              mp_rt_quotes = rt_quotes, mp_rt_bars = rt_bars, mp_statuses = statuses, mp_windows = windows,
              mp_cohort = cohort, mp_shadow = mr_shadow r, mp_version = version\<rparr>)))))))))))"

text \<open>
  The checks against the database, made before the artifact is written (bars first) and again in the
  transaction (quotes first).
\<close>

definition check_before :: "acquisition \<Rightarrow> normal_parts \<Rightarrow> unit result" where
  "check_before a p =
     (let all_quotes = mp_quotes p @ mp_context p; instant = format_rfc3339 (mp_as_of p);
          rows = quote_rows a all_quotes
      in bindR (validate_manifest_bars a (mp_bars p) (mp_as_of p)) (\<lambda>_.
         bindR (if 4 \<le> mp_version p then validate_current_bars a (mp_rt_bars p) else Inr ()) (\<lambda>_.
         guardR (List.length rows \<noteq> List.length all_quotes) (LookupError ''manifest contains an unknown quote UID'')
        (guardR (list_ex (\<lambda>(q, _, _). instant < qv_received q) rows)
           (FutureInputError ''manifest cannot include a quote received after as-of time'')
        (validate_statuses a (mp_statuses p)
           (filter (\<lambda>(q, _, _). qv_uid q \<in> set (mp_quotes p)) rows))))))"

definition check_parts :: "acquisition \<Rightarrow> normal_parts \<Rightarrow> unit result" where
  "check_parts a p =
     (let all_quotes = mp_quotes p @ mp_context p; instant = format_rfc3339 (mp_as_of p);
          rows = quote_rows a all_quotes
      in guardR (List.length rows \<noteq> List.length all_quotes) (LookupError ''manifest contains an unknown quote UID'')
        (guardR (list_ex (\<lambda>(q, _, _). instant < qv_received q) rows)
           (FutureInputError ''manifest cannot include a quote received after as-of time'')
        (bindR (validate_manifest_bars a (mp_bars p) (mp_as_of p)) (\<lambda>_.
         bindR (if 4 \<le> mp_version p then validate_current_bars a (mp_rt_bars p) else Inr ()) (\<lambda>_.
         validate_statuses a (mp_statuses p)
           (filter (\<lambda>(q, _, _). qv_uid q \<in> set (mp_quotes p)) rows))))))"

definition status_json :: "primary_status \<Rightarrow> json" where
  "status_json p = JObj [(''instrument_uid'', JStr (ps_instrument p)), (''quote_uid'', JOpt (ps_quote p)),
     (''status'', JStr (ps_status p))]"

definition strings_json :: "string list \<Rightarrow> json" where
  "strings_json xs = JArr (map JStr xs)"

definition manifest_document :: "normal_parts \<Rightarrow> json" where
  "manifest_document p = JObj
     ([(''as_of_time'', JStr (format_rfc3339 (mp_as_of p))), (''quote_uids'', strings_json (mp_quotes p))] @
      (if 2 \<le> mp_version p
       then [(''schema_version'', JInt (mp_version p)), (''bar_uids'', strings_json (mp_bars p)),
         (''primary_quote_statuses'', JArr (map status_json (mp_statuses p))),
         (''historical_windows'', JObj (map (\<lambda>(name, values). (name, strings_json values)) (mp_windows p)))]
       else []) @
      (if 3 \<le> mp_version p then [(''context_quote_uids'', strings_json (mp_context p))] else []) @
      (if 4 \<le> mp_version p
       then [(''realtime_quote_uids'', strings_json (mp_rt_quotes p)),
         (''realtime_current_bar_uids'', strings_json (mp_rt_bars p))] else []) @
      (case mp_cohort p of None \<Rightarrow> [] | Some c \<Rightarrow> [(''realtime_minute_cohort'', c)]) @
      (case mp_shadow p of None \<Rightarrow> [] | Some u \<Rightarrow> [(''shadow_round_uid'', JStr u)]))"

text \<open>
  \<open>put_bytes\<close> and \<open>register\<close>: the content address is the hash of the document's canonical bytes; a file
  already there is verified.
\<close>

definition put_json :: "string \<Rightarrow> json \<Rightarrow> snapshot_store \<Rightarrow> snapshot_store result" where
  "put_json digest j s =
     bindR (case ss_files s digest of
         None \<Rightarrow> Inr (s\<lparr>ss_files := (ss_files s)(digest \<mapsto> JsonFile (sort_keys j))\<rparr>)
       | Some Tampered \<Rightarrow> Inl (ArtifactError ''artifact hash mismatch'')
       | Some _ \<Rightarrow> Inr s) (\<lambda>s'.
     Inr (s'\<lparr>ss_inputs := (ss_inputs s')\<lparr>acq_artifacts := List.insert digest (acq_artifacts (ss_inputs s'))\<rparr>\<rparr>))"

definition insert_manifest :: "manifest_entry \<Rightarrow> snapshot_store \<Rightarrow> snapshot_store result" where
  "insert_manifest m s =
     guardR (\<not> (absent mf_uid (ss_manifests s) (mf_uid m) \<and> absent mf_hash (ss_manifests s) (mf_hash m) \<and>
         mf_artifact m \<in> set (acq_artifacts (ss_inputs s))))
       (IntegrityError ''input_manifest'') (Inr (s\<lparr>ss_manifests := ss_manifests s @ [m]\<rparr>))"

definition manifest_command :: "normal_parts \<Rightarrow> string \<Rightarrow> string \<Rightarrow> snapshot_store \<Rightarrow> string stored" where
  "manifest_command p uid digest s =
     bindR (check_parts (ss_inputs s) p) (\<lambda>_.
     bindR (insert_manifest \<lparr>mf_uid = uid, mf_hash = digest, mf_artifact = digest, mf_as_of = mp_as_of p\<rparr> s)
       (\<lambda>s'. Inr (uid, s')))"

definition create_manifest :: "(string \<Rightarrow> string) \<Rightarrow> manifest_request \<Rightarrow> snapshot_store \<Rightarrow> string stored" where
  "create_manifest sha r s =
     bindR (manifest_parts r) (\<lambda>p.
     bindR (check_before (ss_inputs s) p) (\<lambda>_.
     let document = manifest_document p; digest = canonical_hash sha document in
     bindR (one_or_none (filter (\<lambda>m. mf_hash m = digest) (ss_manifests s))) (\<lambda>existing.
     case existing of
       Some m \<Rightarrow> Inr (mf_uid m, s)
     | None \<Rightarrow>
         bindR (put_json digest document s) (\<lambda>s1.
         case store_fresh s1 of (uid, s2) \<Rightarrow> manifest_command p uid digest s2))))"

section \<open>Replaying a manifest\<close>

definition replay_manifest :: "snapshot_store \<Rightarrow> string \<Rightarrow> (string \<times> json) list result" where
  "replay_manifest s uid =
     bindR (one_or_none (filter (\<lambda>m. mf_uid m = uid) (ss_manifests s))) (\<lambda>row.
     case row of
       None \<Rightarrow> Inl (LookupError uid)
     | Some m \<Rightarrow>
         (case ss_files s (mf_artifact m) of
            Some (JsonFile (JObj ps)) \<Rightarrow> Inr ps
          | Some (JsonFile _) \<Rightarrow> Inl (SnapshotError ''manifest Artifact is not an object'')
          | Some NotJson \<Rightarrow> Inl (ValueError ''Expecting value'')
          | Some Tampered \<Rightarrow> Inl (ArtifactError ''artifact hash mismatch'')
          | None \<Rightarrow> Inl (ArtifactError ''artifact file is missing'')))"

definition manifest_schema_version :: "(string \<times> json) list \<Rightarrow> int result" where
  "manifest_schema_version ps =
     (case map_of ps ''schema_version'' of
        None \<Rightarrow> Inr 1
      | Some (JInt v) \<Rightarrow> guardR (v \<notin> {1, 2, 3, 4, 5}) (SnapshotError ''unsupported manifest schema version'') (Inr v)
      | Some _ \<Rightarrow> Inl (SnapshotError ''unsupported manifest schema version''))"

fun json_strings :: "json list \<Rightarrow> string list option" where
  "json_strings [] = Some []"
| "json_strings (JStr s # js) = map_option ((#) s) (json_strings js)"
| "json_strings (_ # js) = None"

definition string_list :: "json option \<Rightarrow> string list option" where
  "string_list j = (case j of Some (JArr js) \<Rightarrow> json_strings js | _ \<Rightarrow> None)"

text \<open>\<open>set(xs)\<close> equality and order as the replay functions test them.\<close>

definition replay_context_quotes :: "(string \<times> json) list \<Rightarrow> string list \<Rightarrow> string list result" where
  "replay_context_quotes ps primary =
     (case string_list (map_of ps ''context_quote_uids'') of
        None \<Rightarrow> Inl (SnapshotError ''manifest context_quote_uids are invalid'')
      | Some xs \<Rightarrow>
          guardR ([] \<in> set xs \<or> \<not> distinct xs \<or> set xs \<inter> set primary \<noteq> {})
            (SnapshotError ''manifest context_quote_uids are invalid'') (Inr (sort xs)))"

definition replay_rt_quotes :: "(string \<times> json) list \<Rightarrow> string list \<Rightarrow> string list result" where
  "replay_rt_quotes ps all_quotes =
     (case string_list (map_of ps ''realtime_quote_uids'') of
        None \<Rightarrow> Inl (SnapshotError ''manifest realtime quote UIDs are invalid'')
      | Some xs \<Rightarrow>
          guardR ([] \<in> set xs \<or> xs \<noteq> sort xs \<or> set xs \<noteq> set all_quotes)
            (SnapshotError ''manifest realtime quote UIDs are invalid'') (Inr xs))"

definition replay_rt_bars :: "(string \<times> json) list \<Rightarrow> string list \<Rightarrow> string list result" where
  "replay_rt_bars ps bars =
     (case string_list (map_of ps ''realtime_current_bar_uids'') of
        None \<Rightarrow> Inl (SnapshotError ''manifest realtime current bar UIDs are invalid'')
      | Some xs \<Rightarrow>
          guardR (xs = [] \<or> [] \<in> set xs \<or> xs \<noteq> sort xs \<or> \<not> set xs \<subseteq> set bars)
            (SnapshotError ''manifest realtime current bar UIDs are invalid'') (Inr xs))"

text \<open>\<open>except ValueError: raise SnapshotError\<close>.\<close>

definition as_snapshot_error :: "'a result \<Rightarrow> 'a result" where
  "as_snapshot_error r = (case r of Inl (ValueError m) \<Rightarrow> Inl (SnapshotError m) | _ \<Rightarrow> r)"

definition replay_cohort :: "(string \<times> json) list \<Rightarrow> string list \<Rightarrow> primary_status list \<Rightarrow> json result" where
  "replay_cohort ps bars statuses =
     (case map_of ps ''realtime_minute_cohort'' of
        None \<Rightarrow> Inl (SnapshotError ''manifest realtime minute cohort is missing'')
      | Some JNull \<Rightarrow> Inl (SnapshotError ''manifest realtime minute cohort is missing'')
      | Some j \<Rightarrow> as_snapshot_error (normalize_cohort j bars statuses))"

definition bad_statuses :: exc where
  "bad_statuses = SnapshotError ''manifest primary_quote_statuses are invalid''"

text \<open>One status entry of the document: instrument, quote if it is text, and the status.\<close>

definition replay_status :: "json \<Rightarrow> (string \<times> string option) result" where
  "replay_status j =
     (case j of
        JObj ps \<Rightarrow>
          (case map_of ps ''instrument_uid'' of
             Some (JStr i) \<Rightarrow>
               guardR (i = []) bad_statuses
              (let quote_uid = (case map_of ps ''quote_uid'' of Some (JStr u) \<Rightarrow> Some u | _ \<Rightarrow> None) in
               case map_of ps ''status'' of
                 Some (JStr st) \<Rightarrow>
                   guardR (st \<notin> set primary_statuses \<or> (st = ''VALID'') \<noteq> (quote_uid \<noteq> None)) bad_statuses
                     (Inr (i, quote_uid))
               | Some (JArr _) \<Rightarrow> Inl (TypeError ''unhashable type'')
               | Some (JObj _) \<Rightarrow> Inl (TypeError ''unhashable type'')
               | _ \<Rightarrow> Inl bad_statuses)
           | _ \<Rightarrow> Inl bad_statuses)
      | _ \<Rightarrow> Inl bad_statuses)"

fun replay_statuses :: "json list \<Rightarrow> string list \<Rightarrow> (string \<times> string option) list result" where
  "replay_statuses [] seen = Inr []"
| "replay_statuses (j # js) seen =
     bindR (replay_status j) (\<lambda>(i, u).
     guardR (i \<in> set seen) (SnapshotError ''manifest primary_quote_statuses must not duplicate an instrument'')
    (bindR (replay_statuses js (i # seen)) (\<lambda>rest. Inr ((i, u) # rest))))"

definition replay_window_ok :: "string \<times> json \<Rightarrow> bool" where
  "replay_window_ok = (\<lambda>(name, j). name \<noteq> [] \<and>
     (case string_list (Some j) of None \<Rightarrow> False | Some xs \<Rightarrow> [] \<notin> set xs \<and> distinct xs))"

definition validate_replay :: "(string \<times> json) list \<Rightarrow> string list \<Rightarrow> unit result" where
  "validate_replay ps quote_ids =
     guardR (\<not> distinct quote_ids) (SnapshotError ''manifest quote_uids must not duplicate'')
    (bindR (case map_of ps ''primary_quote_statuses'' of Some (JArr js) \<Rightarrow> replay_statuses js [] | _ \<Rightarrow> Inl bad_statuses)
       (\<lambda>entries.
     guardR (set (List.map_filter snd entries) \<noteq> set quote_ids)
       (SnapshotError ''manifest primary_quote_statuses must represent every quote'')
    (case map_of ps ''historical_windows'' of
       Some (JObj ws) \<Rightarrow>
         guardR (\<not> list_all replay_window_ok ws) (SnapshotError ''manifest historical_windows are invalid'') (Inr ())
     | _ \<Rightarrow> Inl (SnapshotError ''manifest historical_windows are invalid''))))"

text \<open>The \<open>PrimaryQuoteStatus\<close> built from an entry that \<open>validate_replay\<close> let pass.\<close>

definition status_of_json :: "json \<Rightarrow> primary_status result" where
  "status_of_json j =
     (case j of
        JObj ps \<Rightarrow>
          (case (map_of ps ''instrument_uid'', map_of ps ''quote_uid'', map_of ps ''status'') of
             (Some (JStr i), Some q, Some (JStr st)) \<Rightarrow>
               primary_status_check \<lparr>ps_instrument = i,
                 ps_quote = (case q of JNull \<Rightarrow> None | JStr u \<Rightarrow> Some u | _ \<Rightarrow> Some (render q)), ps_status = st\<rparr>
           | _ \<Rightarrow> Inl (KeyError ''quote_uid''))
      | _ \<Rightarrow> Inl bad_statuses)"

text \<open>Everything \<open>create_snapshot\<close> takes from a replayed document.\<close>

record replayed =
  rp_version :: int
  rp_quotes :: "string list"
  rp_context :: "string list"
  rp_bars :: "string list"
  rp_rt_quotes :: "string list"
  rp_rt_bars :: "string list"
  rp_statuses :: "primary_status list"
  rp_cohort :: "json option"

definition replay_parts :: "(string \<times> json) list \<Rightarrow> bool \<Rightarrow> replayed result" where
  "replay_parts ps age_given =
     bindR (manifest_schema_version ps) (\<lambda>version.
     bindR (require (SnapshotError ''manifest quote_uids are invalid'') (string_list (map_of ps ''quote_uids'')))
       (\<lambda>quote_ids.
     bindR (if 2 \<le> version
        then bindR (require (SnapshotError ''manifest bar_uids are invalid'') (string_list (map_of ps ''bar_uids'')))
           (\<lambda>bars. bindR (validate_replay ps quote_ids) (\<lambda>_.
           bindR (case map_of ps ''primary_quote_statuses'' of Some (JArr js) \<Rightarrow> mapR status_of_json js | _ \<Rightarrow> Inl bad_statuses)
             (\<lambda>statuses. Inr (bars, statuses))))
        else Inr ([], [])) (\<lambda>(bars, statuses).
     bindR (if 3 \<le> version then replay_context_quotes ps quote_ids else Inr []) (\<lambda>context_quotes.
     bindR (if 4 \<le> version
        then guardR (\<not> age_given) (SnapshotError ''realtime manifest requires an explicit max_age_ms'')
          (bindR (replay_rt_quotes ps (quote_ids @ context_quotes)) (\<lambda>rq.
           bindR (replay_rt_bars ps bars) (\<lambda>rb. Inr (rq, rb))))
        else Inr ([], [])) (\<lambda>(rt_quotes, rt_bars).
     bindR (if version = 5 then bindR (replay_cohort ps rt_bars statuses) (\<lambda>c. Inr (Some c)) else Inr None)
       (\<lambda>cohort.
     Inr \<lparr>rp_version = version, rp_quotes = quote_ids, rp_context = context_quotes, rp_bars = bars,
          rp_rt_quotes = rt_quotes, rp_rt_bars = rt_bars, rp_statuses = statuses, rp_cohort = cohort\<rparr>))))))"

end
