(* ===== verification/Snapshot_Builder.thy ===== *)
theory Snapshot_Builder
  imports Snapshot_Manifest
begin

text \<open>
  \<open>snapshots.py\<close>, second half: reference bundles, the snapshot built from a replayed manifest with its
  freshness, skew and capability gates, and sealing. Milliseconds are computed in binary floating point as
  \<open>timedelta.total_seconds() * 1000\<close> is, and cut off by \<open>int\<close>.
\<close>

section \<open>Reference bundles\<close>

definition reference_kinds :: "string list" where
  "reference_kinds = [''INSTRUMENT'', ''SECTOR'', ''MEMBERSHIP'', ''MAPPING'', ''CALENDAR'']"

definition reference_entry_exists :: "snapshot_store \<Rightarrow> string \<times> string \<times> string \<Rightarrow> bool result" where
  "reference_entry_exists s entry =
     guardR (fst entry \<notin> set reference_kinds) (ValueError ''unsupported reference entity kind'')
       (Inr (List.length (filter (\<lambda>e. e = entry) (ss_references s)) = 1))"

fun check_references :: "snapshot_store \<Rightarrow> (string \<times> string \<times> string) list \<Rightarrow> unit result" where
  "check_references s [] = Inr ()"
| "check_references s (e # es) =
     bindR (reference_entry_exists s e) (\<lambda>found.
     guardR (\<not> found) (LookupError ''unknown reference version'') (check_references s es))"

definition insert_bundle ::
    "string \<Rightarrow> string \<Rightarrow> (string \<times> string \<times> string) list \<Rightarrow> snapshot_store \<Rightarrow> snapshot_store result" where
  "insert_bundle uid digest entries s =
     guardR (\<not> (absent fst (ss_bundles s) uid \<and> absent snd (ss_bundles s) digest \<and>
         distinct (map (\<lambda>(kind, entity, _). (kind, entity)) entries)))
       (IntegrityError ''reference_version_bundle'')
       (Inr (s\<lparr>ss_bundles := ss_bundles s @ [(uid, digest)],
          ss_bundle_entries := ss_bundle_entries s @ map (\<lambda>e. (uid, e)) entries\<rparr>))"

definition entry_json :: "string \<times> string \<times> string \<Rightarrow> json" where
  "entry_json = (\<lambda>(kind, entity, version). strings_json [kind, entity, version])"

definition create_bundle ::
    "(string \<Rightarrow> string) \<Rightarrow> (string \<times> string \<times> string) list \<Rightarrow> snapshot_store \<Rightarrow> string stored" where
  "create_bundle sha entries s =
     (let normalized = sorted_set entries in
      guardR (normalized = [] \<or> list_ex (\<lambda>(kind, entity, version). kind = [] \<or> entity = [] \<or> version = []) normalized)
        (ValueError ''reference bundle entries must be non-empty stable identifiers'')
     (bindR (check_references s normalized) (\<lambda>_.
      let digest = canonical_hash sha (JArr (map entry_json normalized)) in
      bindR (one_or_none (filter (\<lambda>b. snd b = digest) (ss_bundles s))) (\<lambda>existing.
      case existing of
        Some b \<Rightarrow> Inr (fst b, s)
      | None \<Rightarrow>
          (case store_fresh s of (uid, s1) \<Rightarrow>
           bindR (insert_bundle uid digest normalized s1) (\<lambda>s2. Inr (uid, s2)))))))"

section \<open>Source times\<close>

definition truncate :: "rat \<Rightarrow> int" where
  "truncate x = (if x < 0 then - \<lfloor>- x\<rfloor> else \<lfloor>x\<rfloor>)"

definition milliseconds :: "int \<Rightarrow> int" where
  "milliseconds microseconds = truncate (fround (fround (of_int microseconds / 10 ^ 6) * 1000))"

text \<open>A row of either kind: its epoch and its source time.\<close>

definition quote_time :: "quote_join \<Rightarrow> int option" where
  "quote_time = (\<lambda>(q, _, _). qv_source q)"

definition quote_epoch :: "quote_join \<Rightarrow> string" where
  "quote_epoch = (\<lambda>(_, e, _). e)"

text \<open>\<open>parse_rfc3339(str(None))\<close> raises.\<close>

fun any_later :: "int \<Rightarrow> int option list \<Rightarrow> bool result" where
  "any_later as_of [] = Inr False"
| "any_later as_of (t # ts) =
     bindR (require (ValueError ''Invalid isoformat string'') t) (\<lambda>u.
     if as_of < u then Inr True else any_later as_of ts)"

definition known_times :: "int option list \<Rightarrow> int list result" where
  "known_times ts = mapR (require (ValueError ''Invalid isoformat string'')) ts"

text \<open>
  The market of a bar's instrument: the number before the colon of the code its epoch's provider mapped to
  it when the epoch started.
\<close>

definition code_market :: "string \<Rightarrow> int" where
  "code_market code =
     (if CHR '':'' \<in> set code then digits_int (takeWhile is_digit (takeWhile (\<lambda>c. c \<noteq> CHR '':'') code)) else 0)"

definition bar_market :: "acquisition \<Rightarrow> bar_row \<Rightarrow> int option" where
  "bar_market a b =
     map_option (\<lambda>(m, _). code_market (pm_code m)) (newest (\<lambda>(m, _). pm_from m)
       (filter (\<lambda>(m, e). so_uid e = br_epoch b \<and> pm_instrument m = Some (br_instrument b) \<and>
           pm_kind m = ''INSTRUMENT'' \<and> pm_status m = ''RESOLVED'' \<and> so_provider e = pm_provider m \<and>
           pm_from m \<le> so_started e \<and> (case pm_until m of None \<Rightarrow> True | Some u \<Rightarrow> so_started e < u))
         (List.product (acq_mappings a) (acq_epochs a))))"

definition json_targets :: "json \<Rightarrow> (int \<times> int) list" where
  "json_targets cohort =
     (case cohort of
        JObj ps \<Rightarrow> (case map_of ps ''targets'' of
          Some (JArr ts) \<Rightarrow> map (\<lambda>t. case cohort_target t of
            Inr (m, text) \<Rightarrow> (m, the (canonical_instant text)) | Inl _ \<Rightarrow> (0, 0)) ts
        | _ \<Rightarrow> [])
      | _ \<Rightarrow> [])"

definition validate_cohort_bars :: "acquisition \<Rightarrow> bar_row list \<Rightarrow> json \<Rightarrow> primary_status list \<Rightarrow> unit result" where
  "validate_cohort_bars a bars cohort statuses =
     (let targets = pydict (json_targets cohort) in
      guardR (\<not> distinct (map br_instrument bars) \<or>
          \<not> set (map br_instrument bars) \<subseteq> set (map ps_instrument statuses) \<or>
          list_ex (\<lambda>b. case bar_market a b of None \<Rightarrow> True | Some m \<Rightarrow> targets m \<noteq> Some (br_source b)) bars)
        (SnapshotFreshnessError ''realtime current bar does not cover the legal minute cohort for its market target'')
        (Inr ()))"

text \<open>\<open>bar_by_uid[uid] for uid in uids\<close>.\<close>

definition rows_by_uid :: "('r \<Rightarrow> string) \<Rightarrow> 'r list \<Rightarrow> string list \<Rightarrow> 'r list result" where
  "rows_by_uid key rows uids =
     mapR (\<lambda>u. require (KeyError u) (pydict (map (\<lambda>r. (key r, r)) rows) u)) uids"

text \<open>The source times that count, after the checks of a realtime manifest.\<close>

definition realtime_times ::
    "acquisition \<Rightarrow> replayed \<Rightarrow> quote_join list \<Rightarrow> bar_row list \<Rightarrow> int \<Rightarrow> int list result" where
  "realtime_times a p qs bs as_of =
     bindR (rows_by_uid br_uid bs (rp_rt_bars p)) (\<lambda>current.
     guardR (list_ex (\<lambda>b. br_interval b \<noteq> ''1m'') current) (SnapshotError ''realtime current bars must be 1m'')
    (bindR (any_later as_of (map quote_time qs)) (\<lambda>later.
     guardR later
       (SnapshotFreshnessError ''realtime quote source time is after as-of'')
    (guardR (list_ex (\<lambda>b. as_of < br_source b) current)
       (SnapshotFreshnessError ''realtime current bar is not complete at as-of'')
    (bindR (case rp_cohort p of None \<Rightarrow> Inr () | Some c \<Rightarrow> validate_cohort_bars a current c (rp_statuses p)) (\<lambda>_.
     bindR (rows_by_uid (\<lambda>(q, _, _). qv_uid q) qs (rp_rt_quotes p)) (\<lambda>_.
     bindR (known_times (map quote_time qs)) (\<lambda>quote_times.
     Inr (quote_times @ map br_source (filter (\<lambda>b. br_uid b \<in> set (rp_rt_bars p)) bs))))))))))"

definition plain_times :: "quote_join list \<Rightarrow> bar_row list \<Rightarrow> int list" where
  "plain_times qs bs = List.map_filter quote_time qs @ map br_source bs"

text \<open>The age of the oldest source in milliseconds, if skew and age are within their limits.\<close>

definition check_ages :: "int list \<Rightarrow> int \<Rightarrow> int \<Rightarrow> int option \<Rightarrow> int result" where
  "check_ages instants as_of max_skew max_age =
     (if instants = [] then Inr 0
      else let oldest = Min (set instants); age = max 0 (milliseconds (as_of - oldest)) in
        guardR (max_skew < milliseconds (Max (set instants) - oldest))
          (SnapshotSkewError ''quote source-time skew exceeds the request limit'')
       (guardR (case max_age of None \<Rightarrow> False | Some limit \<Rightarrow> limit < age)
          (SnapshotFreshnessError ''realtime source age exceeds request limit'') (Inr age)))"

section \<open>Capabilities\<close>

record capture =
  cp_name :: string
  cp_report :: "string option"
  cp_health :: string
  cp_fitness :: string
  cp_coverage :: int
  cp_latency :: int
  cp_required :: bool

definition capture_capability :: "acquisition \<Rightarrow> string \<Rightarrow> int \<Rightarrow> bool \<Rightarrow> string \<Rightarrow> capture" where
  "capture_capability a epoch as_of required name =
     (let unknown = \<lparr>cp_name = name, cp_report = None, cp_health = ''UNKNOWN'', cp_fitness = ''UNKNOWN'',
          cp_coverage = 0, cp_latency = 0, cp_required = required\<rparr>
      in case report_at a epoch name as_of of
           None \<Rightarrow> unknown
         | Some r \<Rightarrow> if hr_valid_until r < as_of then unknown
             else \<lparr>cp_name = name, cp_report = Some (hr_uid r), cp_health = hr_health r,
               cp_fitness = hr_fitness r, cp_coverage = hr_coverage r, cp_latency = hr_latency r,
               cp_required = required\<rparr>)"

definition capture_failed :: "capture \<Rightarrow> bool" where
  "capture_failed c \<longleftrightarrow> cp_required c \<and>
     (cp_health c \<in> {''UNKNOWN'', ''UNHEALTHY''} \<or> cp_fitness c \<in> {''UNKNOWN'', ''UNFIT''})"

definition health_rank :: "string \<Rightarrow> nat" where
  "health_rank h = (if h = ''HEALTHY'' then 0 else if h = ''DEGRADED'' then 1 else if h = ''UNKNOWN'' then 2 else 3)"

definition fitness_rank :: "string \<Rightarrow> nat" where
  "fitness_rank f = (if f = ''FIT'' then 0 else if f = ''FIT_WITH_LIMITATIONS'' then 1
     else if f = ''UNKNOWN'' then 2 else 3)"

text \<open>Health, fitness, evidence and coverage of the whole snapshot.\<close>

definition aggregate_quality :: "capture list \<Rightarrow> string \<times> string \<times> string \<times> int" where
  "aggregate_quality captures =
     (case captures of
        [] \<Rightarrow> (''UNKNOWN'', ''UNKNOWN'', ''UNKNOWN'', 0)
      | c # cs \<Rightarrow>
          let health = cp_health (pymax_key (health_rank \<circ> cp_health) c cs);
              fitness = cp_fitness (pymax_key (fitness_rank \<circ> cp_fitness) c cs)
          in (health, fitness, if health = ''HEALTHY'' \<and> fitness = ''FIT'' then ''HIGH'' else ''MEDIUM'',
              Min (set (map cp_coverage captures))))"

section \<open>Creating and sealing a snapshot\<close>

record snapshot_request =
  sr_subject :: string
  sr_manifest :: string
  sr_bundle :: string
  sr_disposition :: string
  sr_required :: "string list"
  sr_optional :: "string list"
  sr_max_skew :: int
  sr_max_age :: "int option"

definition capture_json :: "capture \<Rightarrow> json" where
  "capture_json c = JArr [JStr (cp_name c), JOpt (cp_report c), JStr (cp_health c), JStr (cp_fitness c),
     JInt (cp_coverage c), JInt (cp_latency c), JBool (cp_required c)]"

definition snapshot_document :: "snapshot_request \<Rightarrow> int \<Rightarrow> capture list \<Rightarrow> json" where
  "snapshot_document r as_of captures = JObj
     ([(''subject_uid'', JStr (sr_subject r)), (''manifest_uid'', JStr (sr_manifest r)),
       (''bundle_uid'', JStr (sr_bundle r)), (''as_of_time'', JStr (format_rfc3339 as_of)),
       (''max_skew_ms'', JInt (sr_max_skew r)), (''evaluation_disposition'', JStr (sr_disposition r)),
       (''capabilities'', JArr (map capture_json captures))] @
      (case sr_max_age r of None \<Rightarrow> [] | Some n \<Rightarrow> [(''max_age_ms'', JInt n)]))"

text \<open>Everything that is settled before the transaction.\<close>

record prepared =
  pp_as_of :: int
  pp_epoch :: string
  pp_age :: int
  pp_captures :: "capture list"

text \<open>The rows a replayed manifest names, with the checks on them.\<close>

definition load_rows :: "snapshot_store \<Rightarrow> replayed \<Rightarrow> (quote_join list \<times> bar_row list) result" where
  "load_rows s p =
     (let a = ss_inputs s; qs = quote_rows a (rp_quotes p @ rp_context p); bs = bar_rows a (rp_bars p) in
      bindR (if rp_statuses p = [] then Inr ()
         else case validate_statuses a (rp_statuses p) (filter (\<lambda>(q, _, _). qv_uid q \<in> set (rp_quotes p)) qs) of
             Inl (ValueError m) \<Rightarrow> Inl (SnapshotError m)
           | Inl (LookupError m) \<Rightarrow> Inl (SnapshotError m)
           | r \<Rightarrow> r) (\<lambda>_.
      guardR (rp_bars p \<noteq> [] \<and> List.length bs \<noteq> List.length (rp_bars p))
        (SnapshotError ''manifest contains an unknown bar UID'') (Inr (qs, bs))))"

definition prepare_snapshot :: "snapshot_store \<Rightarrow> snapshot_request \<Rightarrow> prepared result" where
  "prepare_snapshot s r =
     guardR (sr_max_skew r < 0) (ValueError ''max_skew_ms must be non-negative'')
    (guardR (case sr_max_age r of None \<Rightarrow> False | Some n \<Rightarrow> n < 0) (ValueError ''max_age_ms must be non-negative'')
    (let required = sorted_set (sr_required r);
         optional = sorted_set (filter (\<lambda>c. c \<notin> set required) (sr_optional r)); a = ss_inputs s
     in bindR (replay_manifest s (sr_manifest r)) (\<lambda>ps.
        bindR (replay_parts ps (sr_max_age r \<noteq> None)) (\<lambda>p.
        bindR (one (filter (\<lambda>m. mf_uid m = sr_manifest r) (ss_manifests s))) (\<lambda>manifest.
        bindR (load_rows s p) (\<lambda>(qs, bs).
        guardR (absent fst (ss_bundles s) (sr_bundle r)) (LookupError ''reference bundle does not exist'')
       (let as_of = mf_as_of manifest; epochs = sorted_set (map quote_epoch qs @ map br_epoch bs) in
        guardR (List.length epochs \<noteq> 1)
          (SnapshotError ''one snapshot currently requires exactly one source epoch'')
       (bindR (if 4 \<le> rp_version p then realtime_times a p qs bs as_of else Inr (plain_times qs bs)) (\<lambda>instants.
        bindR (check_ages instants as_of (sr_max_skew r) (sr_max_age r)) (\<lambda>age.
        let captures = map (\<lambda>c. capture_capability a (hd epochs) as_of (c \<in> set required) c) (required @ optional) in
        guardR (list_ex capture_failed captures)
          (RequiredCapabilityError ''required capabilities are unavailable'')
          (Inr \<lparr>pp_as_of = as_of, pp_epoch = hd epochs, pp_age = age, pp_captures = captures\<rparr>)))))))))))"

definition snapshot_dispositions :: "string list" where
  "snapshot_dispositions = dispositions"

definition insert_quality :: "quality_entry \<Rightarrow> snapshot_store \<Rightarrow> snapshot_store result" where
  "insert_quality q s =
     guardR (\<not> (absent qx_uid (ss_qualities s) (qx_uid q) \<and> 0 \<le> qx_coverage q \<and> qx_coverage q \<le> 1000000 \<and>
         0 \<le> qx_max_age q \<and> (qx_health q \<noteq> ''UNHEALTHY'' \<or> qx_fitness q \<in> {''UNFIT'', ''UNKNOWN''})))
       (IntegrityError ''quality_context'') (Inr (s\<lparr>ss_qualities := ss_qualities s @ [q]\<rparr>))"

definition insert_snapshot :: "snapshot_entry \<Rightarrow> snapshot_store \<Rightarrow> snapshot_store result" where
  "insert_snapshot e s =
     guardR (\<not> (absent es_uid (ss_snapshots s) (es_uid e) \<and> es_subject e \<in> set (ss_subjects s) \<and>
         present mf_uid (ss_manifests s) (es_manifest e) \<and> present fst (ss_bundles s) (es_bundle e) \<and>
         present qx_uid (ss_qualities s) (es_quality e) \<and> 0 \<le> es_max_skew e \<and>
         es_disposition e \<in> set snapshot_dispositions \<and> absent es_hash (ss_snapshots s) (es_hash e) \<and>
         (es_status e = ''SEALED'') = (es_sealed e \<noteq> None)))
       (IntegrityError ''evaluation_snapshot'') (Inr (s\<lparr>ss_snapshots := ss_snapshots s @ [e]\<rparr>))"

definition insert_capability :: "capability_entry \<Rightarrow> snapshot_store \<Rightarrow> snapshot_store result" where
  "insert_capability c s =
     guardR (\<not> (absent (\<lambda>x. (cs_snapshot x, cs_capability x)) (ss_capabilities s) (cs_snapshot c, cs_capability c) \<and>
         present es_uid (ss_snapshots s) (cs_snapshot c) \<and>
         present so_uid (acq_epochs (ss_inputs s)) (cs_epoch c)))
       (IntegrityError ''capability_snapshot'') (Inr (s\<lparr>ss_capabilities := ss_capabilities s @ [c]\<rparr>))"

fun insert_captures :: "string \<Rightarrow> string \<Rightarrow> capture list \<Rightarrow> snapshot_store \<Rightarrow> snapshot_store result" where
  "insert_captures uid epoch [] s = Inr s"
| "insert_captures uid epoch (c # cs) s =
     bindR (insert_capability \<lparr>cs_snapshot = uid, cs_capability = cp_name c, cs_epoch = epoch,
         cs_report = cp_report c, cs_health = cp_health c, cs_fitness = cp_fitness c,
         cs_coverage = cp_coverage c, cs_latency = cp_latency c, cs_required = cp_required c\<rparr> s)
       (insert_captures uid epoch cs)"

definition snapshot_command ::
    "snapshot_request \<Rightarrow> prepared \<Rightarrow> string \<Rightarrow> string \<Rightarrow> string \<Rightarrow> snapshot_store \<Rightarrow> string stored" where
  "snapshot_command r p quality_uid uid digest s =
     (case aggregate_quality (pp_captures p) of (health, fitness, evidence, coverage) \<Rightarrow>
      bindR (insert_quality \<lparr>qx_uid = quality_uid, qx_health = health, qx_fitness = fitness,
          qx_evidence = evidence, qx_coverage = coverage, qx_max_age = pp_age p, qx_observed = pp_as_of p\<rparr> s) (\<lambda>s1.
      bindR (insert_snapshot \<lparr>es_uid = uid, es_subject = sr_subject r, es_manifest = sr_manifest r,
          es_bundle = sr_bundle r, es_quality = quality_uid, es_as_of = pp_as_of p,
          es_max_skew = sr_max_skew r, es_disposition = sr_disposition r, es_status = ''DRAFT'',
          es_hash = digest, es_sealed = None\<rparr> s1) (\<lambda>s2.
      bindR (insert_captures uid (pp_epoch p) (pp_captures p) s2) (\<lambda>s3. Inr (uid, s3)))))"

definition create_snapshot :: "(string \<Rightarrow> string) \<Rightarrow> snapshot_request \<Rightarrow> snapshot_store \<Rightarrow> string stored" where
  "create_snapshot sha r s =
     bindR (prepare_snapshot s r) (\<lambda>p.
     let digest = canonical_hash sha (snapshot_document r (pp_as_of p) (pp_captures p)) in
     bindR (one_or_none (filter (\<lambda>e. es_hash e = digest) (ss_snapshots s))) (\<lambda>existing.
     case existing of
       Some e \<Rightarrow> Inr (es_uid e, s)
     | None \<Rightarrow>
         (case store_fresh s of (quality_uid, s1) \<Rightarrow>
          case store_fresh s1 of (uid, s2) \<Rightarrow> snapshot_command r p quality_uid uid digest s2)))"

definition seal :: "string \<Rightarrow> snapshot_store \<Rightarrow> snapshot_store result" where
  "seal uid s =
     bindR (one (filter (\<lambda>e. es_uid e = uid) (ss_snapshots s))) (\<lambda>e.
     if es_status e = ''SEALED'' then Inr s
     else guardR (es_status e \<noteq> ''DRAFT'') (SnapshotError ''only a draft snapshot can be sealed'')
       (Inr (s\<lparr>ss_snapshots := map (\<lambda>x. if es_uid x = uid
            then x\<lparr>es_status := ''SEALED'', es_sealed := Some (es_as_of e)\<rparr> else x) (ss_snapshots s)\<rparr>)))"

end
