(* ===== verification/Snapshot_Properties.thy ===== *)
theory Snapshot_Properties
  imports Snapshot_Builder
begin

text \<open>
  Lemmas on manifests and snapshots: reading by identifier, the document of a manifest and what is read back
  from it, the normal form of the minute cohort, and the captured capabilities.
\<close>

section \<open>Reading back a document\<close>

definition document_fields :: "normal_parts \<Rightarrow> (string \<times> json) list" where
  "document_fields p = (case manifest_document p of JObj ps \<Rightarrow> ps | _ \<Rightarrow> [])"

definition stored_fields :: "(string \<times> json) list \<Rightarrow> (string \<times> json) list" where
  "stored_fields ps = sort_key fst (map (\<lambda>(k, v). (k, sort_keys v)) ps)"

lemma sort_keys_JObj: "sort_keys (JObj ps) = JObj (stored_fields ps)"
  by (simp add: stored_fields_def)

lemma map_of_stored:
  assumes "distinct (map fst ps)"
  shows "map_of (stored_fields ps) k = map_option sort_keys (map_of ps k)"
proof -
  have keys: "map fst (map (\<lambda>(k, v). (k, sort_keys v)) ps) = map fst ps" by (simp add: case_prod_beta comp_def)
  have "map_of (stored_fields ps) = map_of (map (\<lambda>(k, v). (k, sort_keys v)) ps)"
    unfolding stored_fields_def
    by (rule map_of_perm [symmetric]) (simp_all only: keys assms mset_sort)
  then show ?thesis by (simp add: map_of_map)
qed

lemma manifest_document_fields: "manifest_document p = JObj (document_fields p)"
  by (simp add: document_fields_def manifest_document_def)

lemma document_keys_distinct: "distinct (map fst (document_fields p))"
  by (cases "2 \<le> mp_version p"; cases "3 \<le> mp_version p"; cases "4 \<le> mp_version p"; cases "mp_cohort p"; cases "mp_shadow p";
      simp add: document_fields_def manifest_document_def)

lemma document_lookup:
  "map_of (document_fields p) ''quote_uids'' = Some (strings_json (mp_quotes p))"
  "map_of (document_fields p) ''schema_version'' = (if 2 \<le> mp_version p then Some (JInt (mp_version p)) else None)"
  "2 \<le> mp_version p \<Longrightarrow> map_of (document_fields p) ''bar_uids'' = Some (strings_json (mp_bars p))"
  "2 \<le> mp_version p \<Longrightarrow>
    map_of (document_fields p) ''primary_quote_statuses'' = Some (JArr (map status_json (mp_statuses p)))"
  "2 \<le> mp_version p \<Longrightarrow> map_of (document_fields p) ''historical_windows'' =
    Some (JObj (map (\<lambda>(name, values). (name, strings_json values)) (mp_windows p)))"
  "3 \<le> mp_version p \<Longrightarrow> map_of (document_fields p) ''context_quote_uids'' = Some (strings_json (mp_context p))"
  "4 \<le> mp_version p \<Longrightarrow> map_of (document_fields p) ''realtime_quote_uids'' = Some (strings_json (mp_rt_quotes p))"
  "4 \<le> mp_version p \<Longrightarrow>
    map_of (document_fields p) ''realtime_current_bar_uids'' = Some (strings_json (mp_rt_bars p))"
  "map_of (document_fields p) ''realtime_minute_cohort'' = mp_cohort p"
  by (cases "mp_cohort p"; cases "mp_shadow p"; simp add: document_fields_def manifest_document_def)+

lemma json_strings_map [simp]: "json_strings (map JStr xs) = Some xs"
  by (induction xs) simp_all

lemma string_list_json [simp]: "string_list (Some (sort_keys (strings_json xs))) = Some xs"
  "string_list (Some (strings_json xs)) = Some xs"
  by (simp_all add: string_list_def strings_json_def comp_def)

lemma sorted_set_simps [simp]: "set (sorted_set xs) = set xs" "distinct (sorted_set xs)" "sorted (sorted_set xs)"
  "sort (sorted_set xs) = sorted_set xs"
  by (simp_all add: sorted_set_def sort_key_id_if_sorted)

lemma distinct_map_sort_key: "distinct (map f (sort_key g xs)) \<longleftrightarrow> distinct (map f xs)"
proof -
  have "mset (map f (sort_key g xs)) = mset (map f xs)" by simp
  then show ?thesis by (rule mset_eq_imp_distinct_iff)
qed

section \<open>The minute cohort has a normal form\<close>

lemma cohort_target_json: "cohort_target j = Inr t \<Longrightarrow> cohort_target (sort_keys (target_json t)) = Inr t"
  by (auto simp: cohort_target_def target_json_def split: json.splits option.splits)

lemma mapR_Inr_elem: "mapR f xs = Inr ys \<Longrightarrow> y \<in> set ys \<Longrightarrow> \<exists>x \<in> set xs. f x = Inr y"
  unfolding mapR_Inr_iff by (metis (no_types, lifting) image_iff image_set)

lemma cohort_targets_json:
  assumes "cohort_targets j = Inr ts"
  shows "cohort_targets (Some (sort_keys (JArr (map target_json ts)))) = Inr ts"
proof -
  from assms obtain js us where us: "mapR cohort_target js = Inr us" "distinct (map fst us)" "ts = sort_key fst us"
    and ne: "js \<noteq> []"
    by (auto simp: cohort_targets_def bindR_eq_Inr split: option.splits json.splits)
  have "cohort_target (sort_keys (target_json t)) = Inr t" if "t \<in> set ts" for t
    using mapR_Inr_elem [OF us(1), of t] that us(3) cohort_target_json [of _ t] by auto
  then have "mapR cohort_target (map (sort_keys \<circ> target_json) ts) = Inr ts"
    by (simp add: mapR_Inr_iff)
  moreover have "ts \<noteq> []" using us ne by (auto simp: mapR_Inr_iff) (metis length_0_conv length_map length_sort)
  moreover have "distinct (map fst ts)" "sort_key fst ts = ts"
    using us by (auto simp: sort_key_id_if_sorted distinct_map_sort_key)
  ultimately show ?thesis by (simp add: cohort_targets_def)
qed

lemma cohort_failures_json:
  assumes "cohort_failures j = Inr fs"
  shows "cohort_failures (Some (sort_keys (JObj fs))) = Inr fs"
proof -
  from assms obtain gs where ok: "\<not> list_ex (\<lambda>(name, v). name = [] \<or> (case v of JInt n \<Rightarrow> n < 0 | _ \<Rightarrow> True)) gs"
    and fs: "fs = sort_key fst gs"
    by (auto simp: cohort_failures_def split: option.splits json.splits)
  then have elem: "\<exists>name n. f = (name, JInt n) \<and> name \<noteq> [] \<and> 0 \<le> n" if "f \<in> set fs" for f
    using that by (cases f) (auto simp: list_ex_iff split: json.splits)
  then have "map (\<lambda>(k, v). (k, sort_keys v)) fs = fs" by (intro map_idI) fastforce
  then have "stored_fields fs = fs" using fs by (simp add: stored_fields_def sort_key_id_if_sorted)
  moreover have "\<not> list_ex (\<lambda>(name, v). name = [] \<or> (case v of JInt n \<Rightarrow> n < 0 | _ \<Rightarrow> True)) fs"
    using ok fs by (simp add: list_ex_iff)
  ultimately show ?thesis
    using fs by (simp add: cohort_failures_def sort_keys_JObj sort_key_id_if_sorted del: sort_keys.simps)
qed

lemma cohort_counts_values:
  assumes "mapR (\<lambda>name. bindR (cohort_count (map_of ps name)) (\<lambda>n. Inr (name, n))) names = Inr counts"
  shows "map fst counts = names" and "\<And>c. c \<in> set counts \<Longrightarrow> 0 \<le> snd c"
proof -
  have "map fst counts = names \<and> (\<forall>c \<in> set counts. 0 \<le> snd c)"
    using assms
  proof (induction names arbitrary: counts)
    case (Cons n ns)
    then show ?case
      by (force simp: bindR_eq_Inr cohort_count_def split: option.splits json.splits)
  qed simp
  then show "map fst counts = names" and "\<And>c. c \<in> set counts \<Longrightarrow> 0 \<le> snd c" by blast+
qed

lemma cohort_counts_again:
  assumes "\<And>c. c \<in> set counts \<Longrightarrow> look (fst c) = Some (JInt (snd c)) \<and> 0 \<le> snd c"
  shows "mapR (\<lambda>name. bindR (cohort_count (look name)) (\<lambda>n. Inr (name, n))) (map fst counts) = Inr counts"
  using assms
proof (induction counts)
  case (Cons a counts)
  have "look (fst a) = Some (JInt (snd a)) \<and> 0 \<le> snd a" by (rule Cons.prems) simp
  then have head: "cohort_count (look (fst a)) = Inr (snd a)" by (simp add: cohort_count_def guardR_def)
  have "mapR (\<lambda>name. bindR (cohort_count (look name)) (\<lambda>n. Inr (name, n))) (map fst counts) = Inr counts"
    by (rule Cons.IH) (rule Cons.prems, simp)
  with head show ?case by simp
qed simp

definition cohort_fields :: "(int \<times> string) list \<Rightarrow> (string \<times> int) list \<Rightarrow> (string \<times> json) list \<Rightarrow> (string \<times> json) list" where
  "cohort_fields targets counts failures =
     (''targets'', JArr (map target_json targets)) # map (\<lambda>(name, n). (name, JInt n)) counts @
       [(''source_time_integrity'', JStr ''EXACT_TARGET''), (''failure_counts'', JObj failures)]"

lemma cohort_fields_lookup:
  assumes "map fst counts = cohort_counts"
  shows "distinct (map fst (cohort_fields targets counts failures))"
    and "set (map fst (cohort_fields targets counts failures)) = set cohort_keys"
    and "map_of (cohort_fields targets counts failures) ''targets'' = Some (JArr (map target_json targets))"
    and "map_of (cohort_fields targets counts failures) ''source_time_integrity'' = Some (JStr ''EXACT_TARGET'')"
    and "map_of (cohort_fields targets counts failures) ''failure_counts'' = Some (JObj failures)"
    and "\<And>c. c \<in> set counts \<Longrightarrow> map_of (cohort_fields targets counts failures) (fst c) = Some (JInt (snd c))"
proof -
  have keys: "map fst (cohort_fields targets counts failures) =
      ''targets'' # cohort_counts @ [''source_time_integrity'', ''failure_counts'']"
    using assms by (simp add: cohort_fields_def case_prod_beta comp_def)
  show dist: "distinct (map fst (cohort_fields targets counts failures))"
    unfolding keys by (simp add: cohort_counts_def)
  show "set (map fst (cohort_fields targets counts failures)) = set cohort_keys"
    unfolding keys by (auto simp: cohort_keys_def)
  show "map_of (cohort_fields targets counts failures) ''targets'' = Some (JArr (map target_json targets))"
    by (simp add: cohort_fields_def)
  show "map_of (cohort_fields targets counts failures) ''source_time_integrity'' = Some (JStr ''EXACT_TARGET'')"
    by (rule map_of_is_SomeI [OF dist]) (simp add: cohort_fields_def)
  show "map_of (cohort_fields targets counts failures) ''failure_counts'' = Some (JObj failures)"
    by (rule map_of_is_SomeI [OF dist]) (simp add: cohort_fields_def)
  show "map_of (cohort_fields targets counts failures) (fst c) = Some (JInt (snd c))" if "c \<in> set counts" for c
    by (rule map_of_is_SomeI [OF dist]) (use that in \<open>force simp: cohort_fields_def\<close>)
qed

text \<open>A normalised cohort, stored and read back, is normalised to itself.\<close>

lemma normalize_cohort_stored:
  assumes "normalize_cohort j bars statuses = Inr c"
  shows "normalize_cohort (sort_keys c) bars statuses = Inr c"
proof -
  from assms obtain ps where j: "j = JObj ps" by (auto simp: normalize_cohort_def split: json.splits)
  from assms [unfolded j] obtain targets counts failures where
    t: "cohort_targets (map_of ps ''targets'') = Inr targets" and
    n: "mapR (\<lambda>name. bindR (cohort_count (map_of ps name)) (\<lambda>n. Inr (name, n))) cohort_counts = Inr counts" and
    f: "cohort_failures (map_of ps ''failure_counts'') = Inr failures" and
    c: "c = JObj (cohort_fields targets counts failures)"
    by (auto simp: normalize_cohort_def bindR_eq_Inr Let_def cohort_fields_def)
  note counts = cohort_counts_values [OF n]
  note look = cohort_fields_lookup [OF counts(1), where targets = targets and failures = failures]
  let ?look = "map_of (stored_fields (cohort_fields targets counts failures))"
  have stored: "?look k = map_option sort_keys (map_of (cohort_fields targets counts failures) k)" for k
    by (rule map_of_stored [OF look(1)])
  have "set (map fst (stored_fields (cohort_fields targets counts failures))) = set cohort_keys"
    unfolding look(2) [symmetric] stored_fields_def by (force simp: case_prod_beta)
  moreover have "cohort_targets (?look ''targets'') = Inr targets"
    using cohort_targets_json [OF t] by (simp only: stored look(3) option.map)
  moreover have "mapR (\<lambda>name. bindR (cohort_count (?look name)) (\<lambda>n. Inr (name, n))) (map fst counts) = Inr counts"
    by (rule cohort_counts_again) (simp add: stored look(6) counts(2))
  moreover have "cohort_failures (?look ''failure_counts'') = Inr failures"
    using cohort_failures_json [OF f] by (simp only: stored look(5) option.map)
  moreover have "?look ''source_time_integrity'' = Some (JStr ''EXACT_TARGET'')"
    by (simp add: stored look(4))
  ultimately show ?thesis
    using assms [unfolded j] t n f unfolding c sort_keys_JObj counts(1) normalize_cohort_def
    by (simp add: Let_def cohort_fields_def)
qed

section \<open>Reading by identifier\<close>

lemma concat_read_batches: "concat (read_batches ids) = ids"
proof -
  have prefix: "concat (map (\<lambda>k. take 500 (drop (k * 500) ids)) [0..<n]) = take (n * 500) ids" for n
  proof (induction n)
    case (Suc n)
    have "take (n * 500) ids @ take 500 (drop (n * 500) ids) = take (n * 500 + 500) ids" by (rule take_add [symmetric])
    with Suc show ?case by (simp add: add.commute)
  qed simp
  show ?thesis unfolding read_batches_def prefix by (rule take_all) simp
qed

lemma keyed_batches:
  "set (concat (map (\<lambda>b. filter (\<lambda>r. key r \<in> set b) rows) bs)) = {r \<in> set rows. key r \<in> set (concat bs)}"
  "distinct (map key rows) \<Longrightarrow> distinct (concat bs) \<Longrightarrow>
    distinct (map key (concat (map (\<lambda>b. filter (\<lambda>r. key r \<in> set b) rows) bs)))"
proof -
  show all: "set (concat (map (\<lambda>b. filter (\<lambda>r. key r \<in> set b) rows) bs)) = {r \<in> set rows. key r \<in> set (concat bs)}" for bs
    by (induction bs) auto
  assume d: "distinct (map key rows)"
  show "distinct (concat bs) \<Longrightarrow> distinct (map key (concat (map (\<lambda>b. filter (\<lambda>r. key r \<in> set b) rows) bs)))"
  proof (induction bs)
    case (Cons b bs)
    then have "distinct (map key (concat (map (\<lambda>b. filter (\<lambda>r. key r \<in> set b) rows) bs)))" by simp
    moreover have "distinct (map key (filter (\<lambda>r. key r \<in> set b) rows))" using d by (rule distinct_map_filter)
    moreover have "set b \<inter> set (concat bs) = {}" using Cons.prems by simp
    ultimately show ?case using all [of bs] by (auto simp del: set_concat)
  qed simp
qed

lemma set_rows_for: "set (rows_for key rows ids) = {r \<in> set rows. key r \<in> set ids}"
  using keyed_batches(1) [of key rows "read_batches ids"] by (simp only: rows_for_def concat_read_batches)

lemma distinct_rows_for:
  "distinct (map key rows) \<Longrightarrow> distinct ids \<Longrightarrow> distinct (map key (rows_for key rows ids))"
  using keyed_batches(2) [of key rows "read_batches ids"] by (simp only: rows_for_def concat_read_batches)

text \<open>As many rows as identifiers: every identifier is found.\<close>

lemma rows_for_complete:
  assumes "distinct (map key rows)" and "distinct ids" and "List.length (rows_for key rows ids) = List.length ids"
  shows "key ` set (rows_for key rows ids) = set ids" and "set ids \<subseteq> key ` set rows"
proof -
  let ?found = "rows_for key rows ids"
  have "card (key ` set ?found) = card (set ids)"
    using distinct_card [OF distinct_rows_for [OF assms(1,2)]] distinct_card [OF assms(2)] assms(3) by simp
  moreover have "key ` set ?found \<subseteq> set ids" by (auto simp: set_rows_for)
  ultimately show all: "key ` set ?found = set ids" by (simp add: card_subset_eq)
  show "set ids \<subseteq> key ` set rows" unfolding all [symmetric] by (auto simp: set_rows_for)
qed

section \<open>What the checks of a manifest settle\<close>

text \<open>Identifiers of quotes and bars are primary keys and never empty.\<close>

definition rows_keyed :: "acquisition \<Rightarrow> bool" where
  "rows_keyed a \<longleftrightarrow> distinct (map (\<lambda>(q, _, _). qv_uid q) (quote_joins a)) \<and> distinct (map br_uid (acq_bars a)) \<and>
     [] \<notin> (\<lambda>(q, _, _). qv_uid q) ` set (quote_joins a) \<and> [] \<notin> br_uid ` set (acq_bars a)"

text \<open>Both orders of the checks let the same manifests pass.\<close>

lemma check_before_ok: "check_before a p = Inr () \<longleftrightarrow> check_parts a p = Inr ()"
  by (auto simp: check_before_def check_parts_def Let_def bindR_eq_Inr)

lemma checked_parts:
  assumes "check_parts a p = Inr ()" and "rows_keyed a"
    and "distinct (mp_quotes p @ mp_context p)" and "distinct (mp_bars p)"
  shows "[] \<notin> set (mp_quotes p @ mp_context p)" and "[] \<notin> set (mp_bars p)"
    and "mp_statuses p \<noteq> [] \<Longrightarrow> set (List.map_filter ps_quote (mp_statuses p)) = set (mp_quotes p)"
proof -
  let ?key = "\<lambda>(q, _, _). qv_uid q" and ?ids = "mp_quotes p @ mp_context p"
  let ?rows = "quote_rows a ?ids"
  have len: "List.length ?rows = List.length ?ids" and bars: "validate_manifest_bars a (mp_bars p) (mp_as_of p) = Inr ()"
    and st: "validate_statuses a (mp_statuses p) (filter (\<lambda>(q, _, _). qv_uid q \<in> set (mp_quotes p)) ?rows) = Inr ()"
    using assms(1) by (auto simp: check_parts_def Let_def bindR_eq_Inr)
  have quote_keys: "distinct (map ?key (quote_joins a))" "[] \<notin> ?key ` set (quote_joins a)"
    and bar_keys: "distinct (map br_uid (acq_bars a))" "[] \<notin> br_uid ` set (acq_bars a)"
    using assms(2) by (simp_all add: rows_keyed_def)
  note found = rows_for_complete [OF quote_keys(1) assms(3) len [unfolded quote_rows_def]]
  show "[] \<notin> set ?ids" using found(2) quote_keys(2) by blast
  show "[] \<notin> set (mp_bars p)"
  proof (cases "mp_bars p = []")
    case False
    then have "List.length (bar_rows a (mp_bars p)) = List.length (mp_bars p)"
      using bars by (simp add: validate_manifest_bars_def Let_def)
    then show ?thesis
      using rows_for_complete(2) [OF bar_keys(1) assms(4)] bar_keys(2) unfolding bar_rows_def by blast
  qed simp
  assume "mp_statuses p \<noteq> []"
  then have "set (List.map_filter ps_quote (mp_statuses p)) =
      ?key ` {r \<in> set ?rows. ?key r \<in> set (mp_quotes p)}"
    using st by (simp add: validate_statuses_def Let_def case_prod_beta)
  also have "\<dots> = ?key ` set ?rows \<inter> set (mp_quotes p)" by blast
  also have "\<dots> = set (mp_quotes p)" using found(1) by (auto simp: quote_rows_def)
  finally show "set (List.map_filter ps_quote (mp_statuses p)) = set (mp_quotes p)" .
qed

section \<open>The parts a request is normalised to\<close>

lemma set_sorted_set_empty [simp]: "sorted_set [] = []" "sorted_set xs = [] \<longleftrightarrow> xs = []"
  by (auto simp: sorted_set_def)

lemma normalised_windows:
  assumes "normalize_windows ws = Inr out"
  shows "list_all (\<lambda>(name, values). name \<noteq> [] \<and> [] \<notin> set values \<and> distinct values) out"
proof (cases ws)
  case None
  with assms show ?thesis by (simp add: normalize_windows_def)
next
  case (Some w)
  then have run: "mapR normalize_window (sort_key fst w) = Inr out" using assms by (simp add: normalize_windows_def)
  show ?thesis
    unfolding list_all_iff
  proof
    fix x assume "x \<in> set out"
    then obtain y where "normalize_window y = Inr x" using mapR_Inr_elem [OF run] by blast
    then show "case x of (name, values) \<Rightarrow> name \<noteq> [] \<and> [] \<notin> set values \<and> distinct values"
      by (cases y) (auto simp: normalize_window_def)
  qed
qed

lemma normalised_parts:
  assumes "manifest_parts r = Inr p"
  shows "mp_version p = request_version r" and "mp_as_of p = mr_as_of r"
    and "sorted (mp_quotes p)" and "distinct (mp_quotes p @ mp_context p)" and "sorted (mp_context p)"
    and "distinct (mp_bars p)" and "sorted (mp_rt_quotes p)" and "sorted (mp_rt_bars p)"
    and "set (mp_statuses p) = set (mr_statuses r)" and "distinct (map ps_instrument (mp_statuses p))"
    and "list_all (\<lambda>(name, values). name \<noteq> [] \<and> [] \<notin> set values \<and> distinct values) (mp_windows p)"
    and "4 \<le> mp_version p \<Longrightarrow> set (mp_rt_quotes p) = set (mp_quotes p @ mp_context p) \<and>
      mp_rt_bars p \<noteq> [] \<and> set (mp_rt_bars p) \<subseteq> set (mp_bars p)"
    and "mp_version p < 2 \<Longrightarrow> mp_bars p = [] \<and> mp_statuses p = []"
    and "mp_version p < 3 \<Longrightarrow> mp_context p = []"
    and "mp_version p < 4 \<Longrightarrow> mp_rt_quotes p = [] \<and> mp_rt_bars p = []"
    and "mp_version p = 5 \<longleftrightarrow> mp_cohort p \<noteq> None"
    and "mp_cohort p = Some c \<Longrightarrow> \<exists>j. normalize_cohort j (mp_rt_bars p) (mp_statuses p) = Inr c"
    and "mp_version p \<in> {1, 2, 3, 4, 5}"
  using assms normalised_windows [of "mr_windows r"]
  by (auto simp: manifest_parts_def Let_def bindR_eq_Inr normalize_statuses_def request_version_def or_empty_def
      distinct_map_sort_key split: option.splits if_splits)

end
