(* ===== verification/Snapshot_Theorems.thy ===== *)
theory Snapshot_Theorems
  imports Snapshot_Properties Acquisition_Theorems
begin

text \<open>
  What snapshots promise: a created manifest is read back as exactly the parts the request was normalised
  to, and a snapshot rests only on what was known at its as-of time.
\<close>

section \<open>The document of a manifest is replayed\<close>

lemma JOpt_simps [simp]: "JOpt None = JNull" "JOpt (Some u) = JStr u"
  by (simp_all add: JOpt_def)

lemma sort_keys_JOpt [simp]: "sort_keys (JOpt v) = JOpt v"
  by (cases v) simp_all

definition status_fields :: "primary_status \<Rightarrow> (string \<times> json) list" where
  "status_fields p = [(''instrument_uid'', JStr (ps_instrument p)), (''quote_uid'', JOpt (ps_quote p)),
     (''status'', JStr (ps_status p))]"

lemma stored_status: "sort_keys (status_json p) = JObj (stored_fields (status_fields p))"
  unfolding status_json_def status_fields_def by (rule sort_keys_JObj)

lemma status_lookup:
  "map_of (stored_fields (status_fields p)) ''instrument_uid'' = Some (JStr (ps_instrument p))"
  "map_of (stored_fields (status_fields p)) ''quote_uid'' = Some (JOpt (ps_quote p))"
  "map_of (stored_fields (status_fields p)) ''status'' = Some (JStr (ps_status p))"
  by (subst map_of_stored; simp add: status_fields_def)+

lemma status_of_stored: "primary_status_check p = Inr p \<Longrightarrow> status_of_json (sort_keys (status_json p)) = Inr p"
  by (cases p; cases "ps_quote p") (simp_all add: status_of_json_def stored_status status_lookup)

lemma replay_status_stored:
  "primary_status_check p = Inr p \<Longrightarrow> replay_status (sort_keys (status_json p)) = Inr (ps_instrument p, ps_quote p)"
  by (cases "ps_quote p") (auto simp: replay_status_def stored_status status_lookup primary_status_check_def Let_def)

lemma replay_statuses_stored:
  assumes "\<forall>p \<in> set ps. primary_status_check p = Inr p" and "distinct (map ps_instrument ps)"
    and "ps_instrument ` set ps \<inter> set seen = {}"
  shows "replay_statuses (map (sort_keys \<circ> status_json) ps) seen =
    Inr (map (\<lambda>p. (ps_instrument p, ps_quote p)) ps)"
  using assms by (induction ps arbitrary: seen) (auto simp: replay_status_stored)

lemma stored_document_lookup:
  "map_of (stored_fields (document_fields p)) k = map_option sort_keys (map_of (document_fields p) k)"
  by (rule map_of_stored [OF document_keys_distinct])

lemma replay_window_stored:
  assumes "list_all (\<lambda>(name, values). name \<noteq> [] \<and> [] \<notin> set values \<and> distinct values) ws"
  shows "list_all replay_window_ok (stored_fields (map (\<lambda>(name, values). (name, strings_json values)) ws))"
  using assms by (auto simp: stored_fields_def list_all_iff replay_window_ok_def)

text \<open>What is read back.\<close>

definition replayed_parts :: "normal_parts \<Rightarrow> replayed" where
  "replayed_parts p = \<lparr>rp_version = mp_version p, rp_quotes = mp_quotes p, rp_context = mp_context p,
     rp_bars = mp_bars p, rp_rt_quotes = mp_rt_quotes p, rp_rt_bars = mp_rt_bars p,
     rp_statuses = mp_statuses p, rp_cohort = mp_cohort p\<rparr>"

text \<open>A request whose statuses are well formed and there whenever the version needs them.\<close>

definition proper_request :: "manifest_request \<Rightarrow> bool" where
  "proper_request r \<longleftrightarrow> (\<forall>p \<in> set (mr_statuses r). primary_status_check p = Inr p) \<and>
     (2 \<le> request_version r \<longrightarrow> mr_statuses r \<noteq> [])"

lemma document_replayed:
  assumes parts: "manifest_parts r = Inr p" and checked: "check_parts a p = Inr ()"
    and keyed: "rows_keyed a" and proper: "proper_request r"
  shows "replay_parts (stored_fields (document_fields p)) True = Inr (replayed_parts p)"
proof -
  note ok = checked_parts [OF checked keyed normalised_parts(4) [OF parts] normalised_parts(6) [OF parts]]
  note norm = normalised_parts [OF parts]
  note found = stored_document_lookup document_lookup
  let ?ps = "stored_fields (document_fields p)"
  have good: "\<forall>x \<in> set (mp_statuses p). primary_status_check x = Inr x"
    using proper norm(9) by (simp add: proper_request_def)
  have version: "manifest_schema_version ?ps = Inr (mp_version p)"
    using norm(18) by (auto simp: manifest_schema_version_def found)
  have quotes: "string_list (map_of ?ps ''quote_uids'') = Some (mp_quotes p)" by (simp add: found)
  have second: "string_list (map_of ?ps ''bar_uids'') = Some (mp_bars p) \<and> validate_replay ?ps (mp_quotes p) = Inr () \<and>
      map_of ?ps ''primary_quote_statuses'' = Some (JArr (map (sort_keys \<circ> status_json) (mp_statuses p))) \<and>
      mapR status_of_json (map (sort_keys \<circ> status_json) (mp_statuses p)) = Inr (mp_statuses p)"
    if "2 \<le> mp_version p"
  proof -
    have "mp_statuses p \<noteq> []" using that proper norm(1,9) by (auto simp: proper_request_def)
    then have cover: "set (List.map_filter ps_quote (mp_statuses p)) = set (mp_quotes p)" by (rule ok(3))
    have entries: "map_of ?ps ''primary_quote_statuses'' = Some (JArr (map (sort_keys \<circ> status_json) (mp_statuses p)))"
      using that by (simp add: found)
    have windows: "map_of ?ps ''historical_windows'' =
        Some (JObj (stored_fields (map (\<lambda>(name, values). (name, strings_json values)) (mp_windows p))))"
      using that by (simp add: found sort_keys_JObj del: sort_keys.simps)
    have same: "List.map_filter snd (map (\<lambda>x. (ps_instrument x, ps_quote x)) (mp_statuses p)) =
        List.map_filter ps_quote (mp_statuses p)"
      by (simp add: List.map_filter_def filter_map comp_def)
    have "validate_replay ?ps (mp_quotes p) = Inr ()"
      using replay_statuses_stored [OF good norm(10), of "[]"] cover norm(4)
        replay_window_stored [OF norm(11)] by (simp add: validate_replay_def entries windows same)
    moreover have "mapR status_of_json (map (sort_keys \<circ> status_json) (mp_statuses p)) = Inr (mp_statuses p)"
      using good by (simp add: mapR_Inr_iff status_of_stored)
    moreover have "string_list (map_of ?ps ''bar_uids'') = Some (mp_bars p)" using that by (simp add: found)
    ultimately show ?thesis using entries by simp
  qed
  have context_read: "replay_context_quotes ?ps (mp_quotes p) = Inr (mp_context p)" if "3 \<le> mp_version p"
    using that norm(4,5) ok(1) by (auto simp: replay_context_quotes_def found sorted_sort_id)
  have rt: "replay_rt_quotes ?ps (mp_quotes p @ mp_context p) = Inr (mp_rt_quotes p) \<and>
      replay_rt_bars ?ps (mp_bars p) = Inr (mp_rt_bars p)" if "4 \<le> mp_version p"
    using norm(12) [OF that] norm(7,8) ok(1,2) that
    by (auto simp: replay_rt_quotes_def replay_rt_bars_def found sorted_sort_id)
  have cohort: "replay_cohort ?ps (mp_rt_bars p) (mp_statuses p) = Inr c" if some: "mp_cohort p = Some c" for c
  proof -
    obtain j where j: "normalize_cohort j (mp_rt_bars p) (mp_statuses p) = Inr c" using norm(17) [OF some] by blast
    then obtain fs where "c = JObj fs" by (auto simp: normalize_cohort_def bindR_eq_Inr Let_def split: json.splits)
    then show ?thesis
      using normalize_cohort_stored [OF j] by (simp add: replay_cohort_def found some as_snapshot_error_def)
  qed
  show ?thesis
    using version quotes second context_read rt cohort norm(13,14,15,16,18)
    by (cases "mp_cohort p") (auto simp: replay_parts_def replayed_parts_def)
qed

section \<open>The store keeps what is created\<close>

text \<open>
  A file at the content address of a document holds that document or fails its hash check; a manifest is
  found at its own hash, in a file that passes.
\<close>

definition manifests_kept :: "(string \<Rightarrow> string) \<Rightarrow> snapshot_store \<Rightarrow> bool" where
  "manifests_kept sha s \<longleftrightarrow>
     (\<forall>j f. ss_files s (canonical_hash sha j) = Some f \<longrightarrow> f = Tampered \<or> f = JsonFile (sort_keys j)) \<and>
     (\<forall>m \<in> set (ss_manifests s). mf_artifact m = mf_hash m \<and>
        (\<exists>j. mf_hash m = canonical_hash sha j \<and> ss_files s (mf_hash m) = Some (JsonFile (sort_keys j)))) \<and>
     distinct (map mf_uid (ss_manifests s)) \<and> distinct (map mf_hash (ss_manifests s))"

lemma canonical_hash_inj:
  "inj sha \<Longrightarrow> canonical_hash sha i = canonical_hash sha j \<longleftrightarrow> sort_keys i = sort_keys j"
  by (simp add: canonical_hash_def inj_eq canonical_bytes_inj)

lemma put_json_kept:
  assumes "put_json (canonical_hash sha j) j s = Inr t" and "manifests_kept sha s" and "inj sha"
  shows "manifests_kept sha t" and "ss_files t (canonical_hash sha j) = Some (JsonFile (sort_keys j))"
    and "ss_manifests t = ss_manifests s"
    and "ss_inputs t = (ss_inputs s)\<lparr>acq_artifacts := List.insert (canonical_hash sha j) (acq_artifacts (ss_inputs s))\<rparr>"
proof -
  have stored: "ss_files t = (ss_files s)(canonical_hash sha j \<mapsto> JsonFile (sort_keys j)) \<and> ss_manifests t = ss_manifests s \<and>
    ss_inputs t = (ss_inputs s)\<lparr>acq_artifacts := List.insert (canonical_hash sha j) (acq_artifacts (ss_inputs s))\<rparr>"
  proof (cases "ss_files s (canonical_hash sha j)")
    case None
    then show ?thesis using assms(1) by (auto simp: put_json_def)
  next
    case (Some f)
    then have "f = Tampered \<or> f = JsonFile (sort_keys j)" using assms(2) by (simp add: manifests_kept_def)
    then show ?thesis using assms(1) Some by (auto simp: put_json_def fun_upd_idem)
  qed
  then show "ss_files t (canonical_hash sha j) = Some (JsonFile (sort_keys j))"
    and "ss_manifests t = ss_manifests s"
    and "ss_inputs t = (ss_inputs s)\<lparr>acq_artifacts := List.insert (canonical_hash sha j) (acq_artifacts (ss_inputs s))\<rparr>"
    by simp_all
  show "manifests_kept sha t"
    using stored assms(2) canonical_hash_inj [OF assms(3)] unfolding manifests_kept_def by auto
qed

lemma check_parts_inputs:
  assumes "acq_instruments a = acq_instruments b" and "acq_lineages a = acq_lineages b"
    and "acq_quotes a = acq_quotes b" and "acq_bars a = acq_bars b"
  shows "check_parts a p = check_parts b p"
proof -
  have "quote_rows a ids = quote_rows b ids" "bar_rows a ids = bar_rows b ids" for ids
    using assms by (simp_all add: quote_rows_def quote_joins_def bar_rows_def)
  then show ?thesis
    by (simp only: check_parts_def validate_manifest_bars_def validate_current_bars_def validate_statuses_def assms(1))
qed

lemma one_of_distinct:
  "distinct (map key rows) \<Longrightarrow> r \<in> set rows \<Longrightarrow> one_or_none (filter (\<lambda>x. key x = key r) rows) = Inr (Some r)"
  by (simp add: one_or_none_eq_Some filter_unique)

lemma replay_kept:
  assumes "manifests_kept sha s" and "m \<in> set (ss_manifests s)" and "mf_hash m = canonical_hash sha (JObj ps)" and "inj sha"
  shows "replay_manifest s (mf_uid m) = Inr (stored_fields ps)"
proof -
  have "distinct (map mf_uid (ss_manifests s))" "mf_artifact m = mf_hash m"
    using assms(1,2) by (simp_all add: manifests_kept_def)
  moreover obtain j where "mf_hash m = canonical_hash sha j" "ss_files s (mf_hash m) = Some (JsonFile (sort_keys j))"
    using assms(1,2) by (auto simp: manifests_kept_def)
  moreover from this have "sort_keys j = sort_keys (JObj ps)" using assms(3) canonical_hash_inj [OF assms(4)] by simp
  ultimately show ?thesis
    using assms(2) by (simp add: replay_manifest_def one_of_distinct sort_keys_JObj del: sort_keys.simps)
qed

text \<open>What \<open>create_manifest\<close> leaves: a manifest of the normalised parts' document.\<close>

lemma created_manifest:
  assumes "create_manifest sha r s = Inr (uid, t)" and "manifests_kept sha s" and "inj sha"
  obtains p m where "manifest_parts r = Inr p" and "check_parts (ss_inputs s) p = Inr ()"
    and "check_parts (ss_inputs t) p = Inr ()" and "manifests_kept sha t"
    and "m \<in> set (ss_manifests t)" and "mf_uid m = uid" and "mf_hash m = canonical_hash sha (manifest_document p)"
proof -
  from assms(1) obtain p e where parts: "manifest_parts r = Inr p" and checked: "check_parts (ss_inputs s) p = Inr ()"
    and e: "one_or_none (filter (\<lambda>m. mf_hash m = canonical_hash sha (manifest_document p)) (ss_manifests s)) = Inr e"
    and rest: "(case e of Some m \<Rightarrow> Inr (mf_uid m, s)
      | None \<Rightarrow> bindR (put_json (canonical_hash sha (manifest_document p)) (manifest_document p) s) (\<lambda>s1.
         case store_fresh s1 of (uid, s2) \<Rightarrow>
           manifest_command p uid (canonical_hash sha (manifest_document p)) s2)) = Inr (uid, t)"
    by (auto simp: create_manifest_def bindR_eq_Inr Let_def check_before_ok)
  show ?thesis
  proof (cases e)
    case (Some m)
    then have "m \<in> set (ss_manifests s)" "mf_hash m = canonical_hash sha (manifest_document p)"
      using e by (auto simp: one_or_none_eq_Some filter_eq_Cons_iff)
    then show ?thesis using that [OF parts checked] Some rest checked assms(2) by auto
  next
    case None
    let ?digest = "canonical_hash sha (manifest_document p)"
    from None rest obtain s1 where put: "put_json ?digest (manifest_document p) s = Inr s1"
      and run: "(case store_fresh s1 of (u, s2) \<Rightarrow> manifest_command p u ?digest s2) = Inr (uid, t)"
      by (auto simp: bindR_eq_Inr)
    note kept = put_json_kept [OF put assms(2,3)]
    obtain s2 where s2: "s2 = s1\<lparr>ss_inputs := (ss_inputs s1)\<lparr>acq_next := Suc (acq_next (ss_inputs s1))\<rparr>\<rparr>" by simp
    let ?m = "\<lparr>mf_uid = uid, mf_hash = ?digest, mf_artifact = ?digest, mf_as_of = mp_as_of p\<rparr>"
    from run have ins: "insert_manifest ?m s2 = Inr t"
      by (auto simp: store_fresh_def fresh_def s2 manifest_command_def bindR_eq_Inr)
    then have t: "t = s2\<lparr>ss_manifests := ss_manifests s @ [?m]\<rparr>"
      and new: "uid \<notin> mf_uid ` set (ss_manifests s)" "?digest \<notin> mf_hash ` set (ss_manifests s)"
      by (auto simp: insert_manifest_def s2 kept(3) absent_iff)
    have "manifests_kept sha t"
      using kept(1,2) new unfolding t s2 manifests_kept_def by (auto simp: kept(3))
    moreover have "check_parts (ss_inputs t) p = Inr ()"
      using checked check_parts_inputs [of "ss_inputs t" "ss_inputs s" p] unfolding t s2 by (simp add: kept(4))
    ultimately show ?thesis using that [OF parts checked, of ?m] t by simp
  qed
qed

lemma create_again:
  assumes "manifest_parts r = Inr p" and "check_parts (ss_inputs t) p = Inr ()" and "manifests_kept sha t"
    and "m \<in> set (ss_manifests t)" and "mf_hash m = canonical_hash sha (manifest_document p)"
  shows "create_manifest sha r t = Inr (mf_uid m, t)"
proof -
  have "distinct (map mf_hash (ss_manifests t))" using assms(3) by (simp add: manifests_kept_def)
  from one_of_distinct [OF this assms(4)] show ?thesis
    using assms(1,2,5) by (simp add: create_manifest_def check_before_ok [THEN iffD2])
qed

text \<open>C1: a manifest is read back as it was created. For an injective hash, a store whose files are content
  addressed and a request with well-formed statuses, \<open>create_manifest\<close> returns the identifier of a manifest
  whose replayed document gives exactly the parts the request was normalised to (sorted identifiers,
  statuses, cohort and version), keeps the store content addressed, and creating the same request again
  returns the same manifest and changes nothing.\<close>

theorem manifest_round_trip:
  assumes "create_manifest sha r s = Inr (uid, t)" and "inj sha" and "manifests_kept sha s"
    and "rows_keyed (ss_inputs s)" and "proper_request r"
  shows "\<exists>p fields. manifest_parts r = Inr p \<and> replay_manifest t uid = Inr fields \<and>
    replay_parts fields True = Inr (replayed_parts p) \<and> manifests_kept sha t \<and>
    create_manifest sha r t = Inr (uid, t)"
proof -
  obtain p m where parts: "manifest_parts r = Inr p" and checked: "check_parts (ss_inputs s) p = Inr ()"
    and after: "check_parts (ss_inputs t) p = Inr ()" and kept: "manifests_kept sha t"
    and m: "m \<in> set (ss_manifests t)" "mf_uid m = uid" "mf_hash m = canonical_hash sha (manifest_document p)"
    by (rule created_manifest [OF assms(1,3,2)])
  have "replay_manifest t uid = Inr (stored_fields (document_fields p))"
    using replay_kept [OF kept m(1) m(3) [unfolded manifest_document_fields] assms(2)] m(2) by simp
  moreover have "create_manifest sha r t = Inr (uid, t)" using create_again [OF parts after kept m(1,3)] m(2) by simp
  ultimately show ?thesis using document_replayed [OF parts checked assms(4,5)] parts kept by blast
qed

section \<open>A manifest\<close>

definition sample_quote :: quote_version_row where
  "sample_quote = quote_version ''q'' ''l'' 1 ''b'' 0 ''1970'' None (Some 0) (Some 5, ''VALID'') (Some 100)"

definition sample_store :: snapshot_store where
  "sample_store = \<lparr>ss_inputs = (no_acquisition sample_uids)\<lparr>acq_instruments := [(''i'', ''STOCK'')],
       acq_lineages := [\<lparr>ql_uid = ''l'', ql_epoch = ''e'', ql_instrument = ''i'', ql_source = ''RECEIVED:1970'',
         ql_kind = ''LAST'', ql_key = ''k''\<rparr>], acq_quotes := [sample_quote]\<rparr>,
     ss_subjects = [''s''], ss_references = [], ss_bundles = [(''rb'', ''h'')], ss_bundle_entries = [],
     ss_files = Map.empty, ss_manifests = [], ss_qualities = [], ss_snapshots = [], ss_capabilities = []\<rparr>"

definition sample_manifest :: manifest_request where
  "sample_manifest = \<lparr>mr_quotes = [''q''], mr_as_of = 1000000, mr_bars = [], mr_context = None, mr_rt_quotes = None,
     mr_rt_bars = None, mr_cohort = None, mr_shadow = None,
     mr_statuses = [\<lparr>ps_instrument = ''i'', ps_quote = Some ''q'', ps_status = ''VALID''\<rparr>], mr_windows = None\<rparr>"

definition sample_parts :: normal_parts where
  "sample_parts = \<lparr>mp_as_of = 1000000, mp_quotes = [''q''], mp_context = [], mp_bars = [], mp_rt_quotes = [],
     mp_rt_bars = [], mp_statuses = [\<lparr>ps_instrument = ''i'', ps_quote = Some ''q'', ps_status = ''VALID''\<rparr>],
     mp_windows = [], mp_cohort = None, mp_shadow = None, mp_version = 2\<rparr>"

lemma sample_parts: "manifest_parts sample_manifest = Inr sample_parts"
  by (simp add: manifest_parts_def sample_manifest_def sample_parts_def request_version_def or_empty_def
    normalize_statuses_def normalize_windows_def sorted_set_def Let_def)

lemma sample_rows: "quote_rows (ss_inputs sample_store) [''q''] = [(sample_quote, ''e'', ''i'')]"
  by (simp add: quote_rows_def quote_joins_def rows_for_def read_batches_def sample_store_def sample_quote_def
    quote_version_def no_acquisition_def)

lemma sample_checked:
  assumes "ss_inputs t = (ss_inputs sample_store)\<lparr>acq_artifacts := xs, acq_next := n\<rparr>"
  shows "check_parts (ss_inputs t) sample_parts = Inr ()"
proof -
  have "\<not> format_rfc3339 1000000 < ''1970''" by code_simp
  then have "check_parts (ss_inputs sample_store) sample_parts = Inr ()"
    by (simp add: check_parts_def sample_parts_def sample_rows validate_manifest_bars_def validate_statuses_def
      rows_for_def read_batches_def pydict_def List.map_filter_def)
       (auto simp: sample_store_def sample_quote_def quote_version_def)
  moreover have "check_parts (ss_inputs t) sample_parts = check_parts (ss_inputs sample_store) sample_parts"
    by (rule check_parts_inputs) (simp_all add: assms)
  ultimately show ?thesis by simp
qed

definition sample_filed :: snapshot_store where
  "sample_filed = (let digest = canonical_hash id (manifest_document sample_parts) in
     sample_store\<lparr>ss_inputs := (ss_inputs sample_store)\<lparr>acq_artifacts := [digest], acq_next := 1\<rparr>,
       ss_files := [digest \<mapsto> JsonFile (sort_keys (manifest_document sample_parts))],
       ss_manifests := [\<lparr>mf_uid = [], mf_hash = digest, mf_artifact = digest, mf_as_of = 1000000\<rparr>]\<rparr>)"

lemma sample_created: "create_manifest id sample_manifest sample_store = Inr ([], sample_filed)"
proof -
  let ?digest = "canonical_hash id (manifest_document sample_parts)"
  let ?s1 = "sample_store\<lparr>ss_inputs := (ss_inputs sample_store)\<lparr>acq_artifacts := [?digest], acq_next := 1\<rparr>,
    ss_files := [?digest \<mapsto> JsonFile (sort_keys (manifest_document sample_parts))]\<rparr>"
  have "check_parts (ss_inputs sample_store) sample_parts = Inr ()"
    using sample_checked [where t = sample_store and xs = "[]" and n = 0] by (simp add: sample_store_def no_acquisition_def)
  moreover have "check_parts (ss_inputs ?s1) sample_parts = Inr ()" by (rule sample_checked) simp
  moreover have "acq_source (ss_inputs sample_store) 0 = []" "acq_next (ss_inputs sample_store) = 0"
    "acq_artifacts (ss_inputs sample_store) = []" "ss_files sample_store = Map.empty" "ss_manifests sample_store = []"
    by (simp_all add: sample_store_def no_acquisition_def sample_uids_def)
  moreover have "mp_as_of sample_parts = 1000000" by (simp add: sample_parts_def)
  ultimately show ?thesis
    by (simp add: create_manifest_def check_before_ok [THEN iffD2] sample_parts put_json_def store_fresh_def fresh_def manifest_command_def
      insert_manifest_def absent_def one_or_none_def sample_filed_def Let_def List.insert_def)
qed

lemma sample_store_ok: "manifests_kept id sample_store" "rows_keyed (ss_inputs sample_store)" "proper_request sample_manifest"
  by (simp_all add: manifests_kept_def rows_keyed_def proper_request_def quote_joins_def sample_store_def no_acquisition_def
    sample_manifest_def sample_quote_def quote_version_def primary_status_check_def primary_statuses_def)

theorem manifest_round_trip_witness:
  "\<exists>fields. replay_manifest sample_filed [] = Inr fields \<and> replay_parts fields True = Inr (replayed_parts sample_parts) \<and>
     create_manifest id sample_manifest sample_filed = Inr ([], sample_filed)"
  using manifest_round_trip [OF sample_created inj_on_id sample_store_ok] sample_parts by auto

section \<open>What a snapshot rests on\<close>

lemma newest_Some:
  assumes "newest key rows = Some r"
  shows "r \<in> set rows \<and> (\<forall>x \<in> set rows. key x \<le> key r)"
  using assms
proof (induction rows arbitrary: r rule: rev_induct)
  case (snoc x xs)
  show ?case
  proof (cases "newest key xs")
    case None
    then have "xs = []" by (cases xs rule: rev_cases) (auto simp: newest_def split: option.splits if_splits)
    then show ?thesis using snoc.prems by (simp add: newest_def)
  next
    case (Some b)
    then have "r = (if key b \<le> key x then x else b)" using snoc.prems by (simp add: newest_def split: if_splits)
    then show ?thesis using snoc.IH [OF Some] by (auto split: if_splits)
  qed
qed (simp add: newest_def)

text \<open>
  A report stands behind a capture: the last one of its capability in the epoch that was observed by the
  as-of time, not expired then.
\<close>

definition reported :: "acquisition \<Rightarrow> string \<Rightarrow> int \<Rightarrow> capture \<Rightarrow> bool" where
  "reported a epoch as_of c \<longleftrightarrow> (\<exists>h \<in> set (acq_reports a). hr_epoch h = epoch \<and> hr_capability h = cp_name c \<and>
     hr_observed h \<le> as_of \<and> as_of \<le> hr_valid_until h \<and> cp_report c = Some (hr_uid h) \<and>
     cp_health c = hr_health h \<and> cp_fitness c = hr_fitness h \<and> cp_coverage c = hr_coverage h \<and>
     (\<forall>k \<in> set (acq_reports a). hr_epoch k = epoch \<and> hr_capability k = cp_name c \<and> hr_observed k \<le> as_of \<longrightarrow>
        hr_observed k \<le> hr_observed h))"

lemma captured_report:
  assumes "cp_report (capture_capability a epoch as_of req name) \<noteq> None"
  shows "reported a epoch as_of (capture_capability a epoch as_of req name)"
proof -
  from assms obtain h where h: "report_at a epoch name as_of = Some h" "as_of \<le> hr_valid_until h"
    by (auto simp: capture_capability_def Let_def split: option.splits if_splits)
  then have "capture_capability a epoch as_of req name = \<lparr>cp_name = name, cp_report = Some (hr_uid h),
      cp_health = hr_health h, cp_fitness = hr_fitness h, cp_coverage = hr_coverage h, cp_latency = hr_latency h,
      cp_required = req\<rparr>"
    by (simp add: capture_capability_def Let_def)
  then show ?thesis
    using newest_Some [OF h(1) [unfolded report_at_def]] h(2) by (auto simp: reported_def intro!: bexI [of _ h])
qed

lemma captured_unknown:
  "cp_report (capture_capability a epoch as_of req name) = None \<Longrightarrow>
    cp_health (capture_capability a epoch as_of req name) = ''UNKNOWN''"
  by (auto simp: capture_capability_def Let_def split: option.splits if_splits)

lemma capture_fields [simp]:
  "cp_name (capture_capability a epoch as_of req name) = name"
  "cp_required (capture_capability a epoch as_of req name) = req"
  by (simp_all add: capture_capability_def Let_def split: option.splits)

text \<open>Reports observed later are not looked at.\<close>

definition with_reports :: "report_row list \<Rightarrow> snapshot_store \<Rightarrow> snapshot_store" where
  "with_reports hs s = s\<lparr>ss_inputs := (ss_inputs s)\<lparr>acq_reports := acq_reports (ss_inputs s) @ hs\<rparr>\<rparr>"

lemma capture_later:
  assumes "\<forall>h \<in> set hs. as_of < hr_observed h"
  shows "capture_capability (a\<lparr>acq_reports := acq_reports a @ hs\<rparr>) epoch as_of req name =
    capture_capability a epoch as_of req name"
proof -
  have "filter (\<lambda>r. hr_epoch r = epoch \<and> hr_capability r = name \<and> hr_observed r \<le> as_of) hs = []"
    using assms by (auto simp: filter_empty_conv)
  then show ?thesis by (simp add: capture_capability_def report_at_def)
qed

lemma with_reports_reads:
  "replay_manifest (with_reports hs s) uid = replay_manifest s uid"
  "ss_manifests (with_reports hs s) = ss_manifests s" "ss_bundles (with_reports hs s) = ss_bundles s"
  "load_rows (with_reports hs s) p = load_rows s p"
  "realtime_times (ss_inputs (with_reports hs s)) p qs bs as_of = realtime_times (ss_inputs s) p qs bs as_of"
proof -
  let ?t = "with_reports hs s" and ?a = "ss_inputs s" and ?b = "ss_inputs (with_reports hs s)"
  have same: "ss_files ?t = ss_files s" "acq_instruments ?b = acq_instruments ?a" "acq_lineages ?b = acq_lineages ?a"
    "acq_quotes ?b = acq_quotes ?a" "acq_bars ?b = acq_bars ?a" "acq_mappings ?b = acq_mappings ?a"
    "acq_epochs ?b = acq_epochs ?a"
    by (simp_all add: with_reports_def)
  show manifests: "ss_manifests ?t = ss_manifests s" and "ss_bundles ?t = ss_bundles s" by (simp_all add: with_reports_def)
  show "replay_manifest ?t uid = replay_manifest s uid" by (simp only: replay_manifest_def manifests same)
  have "validate_statuses ?b sts rows = validate_statuses ?a sts rows" for sts rows
    by (simp only: validate_statuses_def same)
  moreover have "quote_rows ?b ids = quote_rows ?a ids" "bar_rows ?b ids = bar_rows ?a ids" for ids
    by (simp_all only: quote_rows_def quote_joins_def bar_rows_def same)
  ultimately show "load_rows ?t p = load_rows s p" by (simp only: load_rows_def Let_def)
  have "bar_market ?b = bar_market ?a" by (simp only: fun_eq_iff bar_market_def same simp_thms)
  then show "realtime_times ?b p qs bs as_of = realtime_times ?a p qs bs as_of"
    by (simp only: realtime_times_def validate_cohort_bars_def)
qed

lemma health_ranks: "pymax_key (f \<circ> g) b xs = x \<Longrightarrow> f (g x) = Max (set (map (f \<circ> g) (b # xs)))"
  using pymax_key_ge [of _ b xs "f \<circ> g"] pymax_key_in [of "f \<circ> g" b xs]
  by (intro Max_eqI [symmetric]) auto

lemma aggregate_worst:
  assumes "cs \<noteq> []"
  shows "case aggregate_quality cs of (health, fitness, evidence, coverage) \<Rightarrow>
    health_rank health = Max (set (map (health_rank \<circ> cp_health) cs)) \<and>
    fitness_rank fitness = Max (set (map (fitness_rank \<circ> cp_fitness) cs)) \<and>
    coverage = Min (set (map cp_coverage cs)) \<and>
    (evidence = ''HIGH'' \<longleftrightarrow> health = ''HEALTHY'' \<and> fitness = ''FIT'')"
  using assms health_ranks [of health_rank cp_health "hd cs" "tl cs", OF refl]
    health_ranks [of fitness_rank cp_fitness "hd cs" "tl cs", OF refl]
  by (cases cs) (simp_all add: aggregate_quality_def Let_def del: set_map)

lemma prepared:
  assumes "prepare_snapshot s r = Inr p"
  obtains fields q m qs bs epoch instants where "replay_manifest s (sr_manifest r) = Inr fields"
    and "replay_parts fields (sr_max_age r \<noteq> None) = Inr q"
    and "one (filter (\<lambda>m. mf_uid m = sr_manifest r) (ss_manifests s)) = Inr m"
    and "load_rows s q = Inr (qs, bs)" and "sorted_set (map quote_epoch qs @ map br_epoch bs) = [epoch]"
    and "(if 4 \<le> rp_version q then realtime_times (ss_inputs s) q qs bs (mf_as_of m) else Inr (plain_times qs bs)) =
      Inr instants"
    and "check_ages instants (mf_as_of m) (sr_max_skew r) (sr_max_age r) = Inr (pp_age p)"
    and "pp_as_of p = mf_as_of m" and "pp_epoch p = epoch"
    and "pp_captures p = map (\<lambda>c. capture_capability (ss_inputs s) epoch (mf_as_of m) (c \<in> set (sr_required r)) c)
      (sorted_set (sr_required r) @ sorted_set (filter (\<lambda>c. c \<notin> set (sr_required r)) (sr_optional r)))"
    and "\<not> list_ex capture_failed (pp_captures p)" and "0 \<le> sr_max_skew r"
    and "\<forall>n. sr_max_age r = Some n \<longrightarrow> 0 \<le> n" and "\<not> absent fst (ss_bundles s) (sr_bundle r)"
  using assms that
  by (fastforce simp: prepare_snapshot_def bindR_eq_Inr Let_def length_Suc_conv split: prod.splits option.splits)

lemma prepare_later:
  assumes "prepare_snapshot s r = Inr p"
    and "\<forall>m \<in> set (ss_manifests s). mf_uid m = sr_manifest r \<longrightarrow> (\<forall>h \<in> set hs. mf_as_of m < hr_observed h)"
  shows "prepare_snapshot (with_reports hs s) r = Inr p"
proof -
  obtain fields q m qs bs epoch instants where
    a: "replay_manifest s (sr_manifest r) = Inr fields"
      "replay_parts fields (sr_max_age r \<noteq> None) = Inr q" and
    m: "one (filter (\<lambda>m. mf_uid m = sr_manifest r) (ss_manifests s)) = Inr m" and
    b: "load_rows s q = Inr (qs, bs)" "sorted_set (map quote_epoch qs @ map br_epoch bs) = [epoch]"
      "(if 4 \<le> rp_version q then realtime_times (ss_inputs s) q qs bs (mf_as_of m) else Inr (plain_times qs bs)) =
        Inr instants" and
    age: "check_ages instants (mf_as_of m) (sr_max_skew r) (sr_max_age r) = Inr (pp_age p)" and
    at: "pp_as_of p = mf_as_of m" "pp_epoch p = epoch" and
    c: "pp_captures p = map (\<lambda>c. capture_capability (ss_inputs s) epoch (mf_as_of m) (c \<in> set (sr_required r)) c)
      (sorted_set (sr_required r) @ sorted_set (filter (\<lambda>c. c \<notin> set (sr_required r)) (sr_optional r)))" and
    d: "\<not> list_ex capture_failed (pp_captures p)" "0 \<le> sr_max_skew r"
      "\<forall>n. sr_max_age r = Some n \<longrightarrow> 0 \<le> n" "\<not> absent fst (ss_bundles s) (sr_bundle r)"
    by (rule prepared [OF assms(1)])
  have "m \<in> set (ss_manifests s)" "mf_uid m = sr_manifest r" using m by (auto simp: one_eq_Inr filter_eq_Cons_iff)
  with assms(2) have later: "\<forall>h \<in> set hs. mf_as_of m < hr_observed h" by blast
  have "capture_capability (ss_inputs (with_reports hs s)) epoch (mf_as_of m) req name =
      capture_capability (ss_inputs s) epoch (mf_as_of m) req name" for req name
    using capture_later [OF later] by (simp add: with_reports_def)
  then have caps: "map (\<lambda>c. capture_capability (ss_inputs (with_reports hs s)) epoch (mf_as_of m)
      (c \<in> set (sr_required r)) c)
      (sorted_set (sr_required r) @ sorted_set (filter (\<lambda>c. c \<notin> set (sr_required r)) (sr_optional r))) = pp_captures p"
    by (simp add: c)
  have "\<not> (case sr_max_age r of None \<Rightarrow> False | Some n \<Rightarrow> n < 0)" using d(3) by (cases "sr_max_age r") auto
  then show ?thesis
    using a b age at d(1,2,4) m caps
    by (cases p; cases "4 \<le> rp_version q") (simp_all add: prepare_snapshot_def with_reports_reads Let_def del: map_append set_append)
qed

text \<open>C1: a snapshot rests on what was known at its as-of time. When a snapshot can be prepared, its as-of
  time is the manifest's; it captures exactly the required capabilities and then the optional ones; a
  captured report is the last of its capability in the one source epoch observed by the as-of time and was
  still valid then; every required capability has one, with usable health and fitness; the source age is
  within the limit; the quality stored is the worst of the captures; and reports observed after the as-of
  time, whenever they arrive, change nothing of it.\<close>

theorem snapshot_point_in_time:
  assumes "prepare_snapshot s r = Inr p"
    and "\<forall>m \<in> set (ss_manifests s). mf_uid m = sr_manifest r \<longrightarrow> (\<forall>h \<in> set hs. mf_as_of m < hr_observed h)"
  shows "(\<exists>m \<in> set (ss_manifests s). mf_uid m = sr_manifest r \<and> pp_as_of p = mf_as_of m) \<and>
    map cp_name (pp_captures p) = sorted_set (sr_required r) @
      sorted_set (filter (\<lambda>c. c \<notin> set (sr_required r)) (sr_optional r)) \<and>
    (\<forall>c \<in> set (pp_captures p). cp_report c \<noteq> None \<longrightarrow> reported (ss_inputs s) (pp_epoch p) (pp_as_of p) c) \<and>
    (\<forall>c \<in> set (pp_captures p). cp_name c \<in> set (sr_required r) \<longrightarrow> cp_report c \<noteq> None \<and>
      cp_health c \<notin> {''UNKNOWN'', ''UNHEALTHY''} \<and> cp_fitness c \<notin> {''UNKNOWN'', ''UNFIT''}) \<and>
    (\<forall>n. sr_max_age r = Some n \<longrightarrow> pp_age p \<le> n) \<and>
    (pp_captures p \<noteq> [] \<longrightarrow> (case aggregate_quality (pp_captures p) of (health, fitness, evidence, coverage) \<Rightarrow>
      health_rank health = Max (set (map (health_rank \<circ> cp_health) (pp_captures p))) \<and>
      fitness_rank fitness = Max (set (map (fitness_rank \<circ> cp_fitness) (pp_captures p))) \<and>
      coverage = Min (set (map cp_coverage (pp_captures p))) \<and>
      (evidence = ''HIGH'' \<longleftrightarrow> health = ''HEALTHY'' \<and> fitness = ''FIT''))) \<and>
    prepare_snapshot (with_reports hs s) r = Inr p"
proof -
  obtain fields q m qs bs epoch instants where
    a: "replay_manifest s (sr_manifest r) = Inr fields"
      "replay_parts fields (sr_max_age r \<noteq> None) = Inr q" and
    m: "one (filter (\<lambda>m. mf_uid m = sr_manifest r) (ss_manifests s)) = Inr m" and
    b: "load_rows s q = Inr (qs, bs)" "sorted_set (map quote_epoch qs @ map br_epoch bs) = [epoch]"
      "(if 4 \<le> rp_version q then realtime_times (ss_inputs s) q qs bs (mf_as_of m) else Inr (plain_times qs bs)) =
        Inr instants" and
    age: "check_ages instants (mf_as_of m) (sr_max_skew r) (sr_max_age r) = Inr (pp_age p)" and
    at: "pp_as_of p = mf_as_of m" "pp_epoch p = epoch" and
    c: "pp_captures p = map (\<lambda>c. capture_capability (ss_inputs s) epoch (mf_as_of m) (c \<in> set (sr_required r)) c)
      (sorted_set (sr_required r) @ sorted_set (filter (\<lambda>c. c \<notin> set (sr_required r)) (sr_optional r)))" and
    d: "\<not> list_ex capture_failed (pp_captures p)" "0 \<le> sr_max_skew r"
      "\<forall>n. sr_max_age r = Some n \<longrightarrow> 0 \<le> n" "\<not> absent fst (ss_bundles s) (sr_bundle r)"
    by (rule prepared [OF assms(1)])
  have there: "m \<in> set (ss_manifests s)" "mf_uid m = sr_manifest r" using m by (auto simp: one_eq_Inr filter_eq_Cons_iff)
  have names: "map cp_name (pp_captures p) = sorted_set (sr_required r) @
      sorted_set (filter (\<lambda>c. c \<notin> set (sr_required r)) (sr_optional r))"
    by (simp add: c comp_def)
  have found: "\<forall>x \<in> set (pp_captures p). cp_report x \<noteq> None \<longrightarrow> reported (ss_inputs s) (pp_epoch p) (pp_as_of p) x"
    unfolding c at by (auto simp del: sorted_set_simps(1) intro!: captured_report)
  have usable: "\<forall>x \<in> set (pp_captures p). cp_name x \<in> set (sr_required r) \<longrightarrow> cp_report x \<noteq> None \<and>
      cp_health x \<notin> {''UNKNOWN'', ''UNHEALTHY''} \<and> cp_fitness x \<notin> {''UNKNOWN'', ''UNFIT''}"
  proof (intro ballI impI)
    fix x assume x: "x \<in> set (pp_captures p)" "cp_name x \<in> set (sr_required r)"
    then obtain name where name: "x = capture_capability (ss_inputs s) epoch (mf_as_of m) (name \<in> set (sr_required r)) name"
      unfolding c set_map by blast
    have "\<not> capture_failed x" using d(1) x(1) by (auto simp: list_ex_iff)
    moreover have "cp_required x" using x(2) name by simp
    ultimately show "cp_report x \<noteq> None \<and> cp_health x \<notin> {''UNKNOWN'', ''UNHEALTHY''} \<and> cp_fitness x \<notin> {''UNKNOWN'', ''UNFIT''}"
      using captured_unknown name unfolding capture_failed_def by blast
  qed
  have fresh_enough: "\<forall>n. sr_max_age r = Some n \<longrightarrow> pp_age p \<le> n"
    using age d(3) by (auto simp: check_ages_def Let_def split: if_splits)
  show ?thesis
    by (intro conjI) (use there at(1) in blast, fact names, fact found, fact usable, fact fresh_enough,
      intro impI aggregate_worst, assumption, rule prepare_later [OF assms])
qed

section \<open>A snapshot\<close>

definition sample_report :: "string \<Rightarrow> int \<Rightarrow> report_row" where
  "sample_report uid observed = \<lparr>hr_uid = uid, hr_epoch = ''e'', hr_capability = ''c'', hr_health = ''HEALTHY'',
     hr_fitness = ''FIT'', hr_coverage = 1000000, hr_latency = 5, hr_observed = observed, hr_valid_until = observed + 10000000\<rparr>"

definition sample_reported :: snapshot_store where
  "sample_reported = with_reports [sample_report ''h'' 0] sample_filed"

definition sample_snapshot :: snapshot_request where
  "sample_snapshot = \<lparr>sr_subject = ''s'', sr_manifest = [], sr_bundle = ''rb'', sr_disposition = ''OFFICIAL'',
     sr_required = [''c''], sr_optional = [], sr_max_skew = 0, sr_max_age = Some 1000\<rparr>"

lemma sample_replay:
  "\<exists>fields. replay_manifest sample_filed [] = Inr fields \<and> replay_parts fields True = Inr (replayed_parts sample_parts)"
proof -
  let ?m = "\<lparr>mf_uid = [], mf_hash = canonical_hash id (manifest_document sample_parts),
    mf_artifact = canonical_hash id (manifest_document sample_parts), mf_as_of = 1000000\<rparr>"
  have m: "?m \<in> set (ss_manifests sample_filed)" by (simp add: sample_filed_def Let_def)
  have "manifests_kept id sample_filed"
    using created_manifest [OF sample_created sample_store_ok(1) inj_on_id] by blast
  from replay_kept [OF this m _ inj_on_id]
  have "replay_manifest sample_filed [] = Inr (stored_fields (document_fields sample_parts))"
    by (simp add: manifest_document_fields)
  moreover have "check_parts (ss_inputs sample_store) sample_parts = Inr ()"
    using sample_checked [where t = sample_store and xs = "[]" and n = 0] by (simp add: sample_store_def no_acquisition_def)
  ultimately show ?thesis using document_replayed [OF sample_parts _ sample_store_ok(2,3)] by blast
qed

lemma sample_rows_loaded: "load_rows sample_filed (replayed_parts sample_parts) = Inr ([(sample_quote, ''e'', ''i'')], [])"
proof -
  let ?a = "ss_inputs sample_filed"
  have tables: "acq_instruments ?a = [(''i'', ''STOCK'')]" "acq_bars ?a = []"
    "acq_lineages ?a = acq_lineages (ss_inputs sample_store)" "acq_quotes ?a = acq_quotes (ss_inputs sample_store)"
    by (simp_all add: sample_filed_def sample_store_def no_acquisition_def Let_def)
  have rows: "quote_rows ?a [''q''] = [(sample_quote, ''e'', ''i'')]"
    unfolding sample_rows [symmetric] by (simp only: quote_rows_def quote_joins_def tables)
  have "qv_uid sample_quote = ''q''" by (simp add: sample_quote_def quote_version_def)
  then have "validate_statuses ?a (mp_statuses sample_parts) [(sample_quote, ''e'', ''i'')] = Inr ()"
    by (simp add: validate_statuses_def tables sample_parts_def rows_for_def read_batches_def pydict_def List.map_filter_def)
  moreover have "rp_statuses (replayed_parts sample_parts) = mp_statuses sample_parts" "mp_statuses sample_parts \<noteq> []"
    "rp_quotes (replayed_parts sample_parts) = [''q'']" "rp_context (replayed_parts sample_parts) = []"
    "rp_bars (replayed_parts sample_parts) = []"
    by (simp_all add: replayed_parts_def sample_parts_def)
  ultimately show ?thesis
    using \<open>qv_uid sample_quote = ''q''\<close>
    by (simp add: load_rows_def rows Let_def bar_rows_def rows_for_def read_batches_def)
qed

lemma sample_prepared: "\<exists>p. prepare_snapshot sample_reported sample_snapshot = Inr p"
proof -
  obtain fields where fields: "replay_manifest sample_filed [] = Inr fields"
    "replay_parts fields True = Inr (replayed_parts sample_parts)" using sample_replay by blast
  have ms: "ss_manifests sample_filed = [\<lparr>mf_uid = [], mf_hash = canonical_hash id (manifest_document sample_parts),
      mf_artifact = canonical_hash id (manifest_document sample_parts), mf_as_of = 1000000\<rparr>]"
    and bundles: "ss_bundles sample_filed = [(''rb'', ''h'')]"
    by (simp_all add: sample_filed_def sample_store_def Let_def)
  have "milliseconds 0 = 0" "milliseconds 1000000 = 1000" by code_simp+
  then have "check_ages [0] 1000000 0 (Some 1000) = Inr 1000" by (simp add: check_ages_def Let_def)
  moreover have "plain_times [(sample_quote, ''e'', ''i'')] [] = [0]" "quote_epoch (sample_quote, ''e'', ''i'') = ''e''"
    by (simp_all add: plain_times_def quote_time_def quote_epoch_def sample_quote_def quote_version_def List.map_filter_def)
  moreover have "\<not> capture_failed (capture_capability (ss_inputs sample_reported) ''e'' 1000000 True ''c'')"
    by (simp add: sample_reported_def with_reports_def capture_capability_def report_at_def newest_def sample_report_def
      sample_filed_def sample_store_def no_acquisition_def capture_failed_def Let_def)
  moreover have "rp_version (replayed_parts sample_parts) = 2" by (simp add: replayed_parts_def sample_parts_def)
  ultimately show ?thesis
    by (simp add: prepare_snapshot_def sample_snapshot_def sample_reported_def with_reports_reads fields ms bundles
      sample_rows_loaded one_def absent_def sorted_set_def Let_def)
qed

theorem snapshot_point_in_time_witness:
  "\<exists>p. prepare_snapshot sample_reported sample_snapshot = Inr p \<and> map cp_name (pp_captures p) = [''c''] \<and>
     pp_age p \<le> 1000 \<and>
     prepare_snapshot (with_reports [sample_report ''k'' 1000001] sample_reported) sample_snapshot = Inr p"
proof -
  obtain p where p: "prepare_snapshot sample_reported sample_snapshot = Inr p" using sample_prepared by blast
  have "\<forall>m \<in> set (ss_manifests sample_reported). mf_uid m = sr_manifest sample_snapshot \<longrightarrow>
      (\<forall>h \<in> set [sample_report ''k'' 1000001]. mf_as_of m < hr_observed h)"
    by (simp add: sample_reported_def with_reports_reads sample_filed_def sample_report_def Let_def)
  note all = snapshot_point_in_time [OF p this]
  have "sr_max_age sample_snapshot = Some 1000" "sorted_set (sr_required sample_snapshot) = [''c'']"
    "sr_optional sample_snapshot = []"
    by (simp_all add: sample_snapshot_def sorted_set_def)
  then show ?thesis using p all by (intro exI [of _ p]) simp
qed

text \<open>A millisecond may be lost: 1001 ms count as 1000, so a limit of 1000 ms lets them pass.\<close>

lemma milliseconds_cut: "milliseconds 1001000 = 1000" "check_ages [0] 1001000 0 (Some 1000) = Inr 1000"
proof -
  show cut: "milliseconds 1001000 = 1000" by code_simp
  have "milliseconds 0 = 0" by code_simp
  then show "check_ages [0] 1001000 0 (Some 1000) = Inr 1000" using cut by (simp add: check_ages_def Let_def)
qed

end
