(* ===== verification/Spec2Isabelle.thy ===== *)
theory Spec2Isabelle
  imports Metric_Theorems Decision_Theorems Registry_Theorems Evidence_Theorems Commit_Theorems Delivery_Progress
    Clock_Theorems Tdx_Theorems Acquisition_Theorems Snapshot_Theorems
begin

text \<open>
  Verification library of the market monitor (\<open>src/\<close>).

  \<^bold>\<open>The program.\<close> A monitor of the Chinese stock market. Providers deliver quotes and minute data, which
  are sealed into snapshots; from a sealed snapshot the analysis computes metrics, records them as facts,
  evaluates a lifecycle state, a Guardian (risk) and a Scout (opportunity) decision under versioned
  thresholds, and commits all of it as one OFFICIAL analysis commit with market events and notification
  intents; a worker delivers the intents. All state lives in one SQLite database behind a single writer
  queue, so that every command is one serialised transaction; it either commits or leaves no trace.

  \<^bold>\<open>Conventions.\<close> An exception is a constructor of \<open>exc\<close>, fallible code returns \<open>exc + 'a\<close> (\<open>Prelude\<close>), a
  command is a function \<open>db \<Rightarrow> exc + ('a \<times> db)\<close> (\<open>Store\<close>), where \<open>Inl\<close> is the rollback. Instants are integers,
  microseconds since the epoch. Fresh identifiers come from a source in the database (\<open>uid_source\<close>), about
  which nothing is assumed except where a property names it. SHA-256 is a parameter \<open>sha\<close>. Python's
  \<open>Decimal\<close> is exact rational arithmetic with the context's rounding applied after every operation, and
  binary floating point, where the code uses it, is modelled with its rounding.

  \<^bold>\<open>Theories.\<close>
  \<^item> \<open>Prelude\<close>: exceptions, results, dictionaries and \<open>max\<close> with a key, lists and sorting.
  \<^item> \<open>Rounding\<close>, \<open>Decimal_Arith\<close>: correctly rounded decimals of 28 digits and binary doubles.
  \<^item> \<open>Metric_Input\<close>, \<open>Metric_Formulas\<close>, \<open>Metric_Producer\<close> (\<open>market_metrics.py\<close>): inputs with their construction
    checks, the formulas, the value table, the quality gate and the evaluation. \<open>Metric_Properties\<close> and
    \<open>Metric_Order\<close> hold the lemmas, \<open>Metric_Theorems\<close> the properties: totality, gate, fitness, independence
    of the input order, head group, monotonicity, PPM round trip.
  \<^item> \<open>Canonical\<close> (\<open>canonical.py\<close>): canonical JSON, its hash, and that it is injective on documents.
  \<^item> \<open>Guardian_Rules\<close>, \<open>Scout_Rules\<close> (\<open>guardian.py\<close>, \<open>scout.py\<close>): rules and decisions; \<open>Decision_Theorems\<close>.
  \<^item> \<open>Store\<close>, \<open>Tables\<close> (\<open>migrations/\<close>): rows, the database, commands, and one operation per SQL statement with
    the keys, CHECKs, foreign keys and triggers of the schema; the locale \<open>command_order\<close> says what a preorder
    on databases needs so that sequencing keeps it.
  \<^item> \<open>Thresholds\<close>, \<open>Activation_Evidence\<close> (\<open>thresholds.py\<close>): the registry; \<open>Registry_Properties\<close> (locale
    \<open>registry_writes\<close>), \<open>Registry_Theorems\<close>, \<open>Evidence_Theorems\<close>.
  \<^item> \<open>Time_Text\<close> (\<open>values.py\<close>): canonical RFC 3339 texts over the proleptic calendar.
  \<^item> \<open>Lifecycle\<close>, \<open>Commit_State\<close> (\<open>state.py\<close>, \<open>_insert_state\<close>): the state machine, its projection under optimistic
    locking, and the invariant \<open>lifecycle_inv\<close>.
  \<^item> \<open>Facts\<close> (\<open>facts.py\<close>), \<open>Decision_Services\<close> (the services of \<open>guardian.py\<close> and \<open>scout.py\<close>).
  \<^item> \<open>Commit_Decision\<close>, \<open>Commit_Events\<close>, \<open>Analysis_Commit\<close> (\<open>analysis_commit.py\<close>): the gate and the lineage
    checks before the transaction (\<open>commit_prepare\<close>), the transaction (\<open>commit_command\<close>) with decisions,
    frozen context, events, intents and audit. \<open>Commit_Writes\<close> groups the written rows into locales and
    interprets them at the relations that the properties use; \<open>Commit_Chain\<close>, \<open>Event_Properties\<close> hold the
    invariants of the rows, \<open>Sample_Commit\<close> a concrete market, \<open>Commit_Theorems\<close> the properties of one commit.
  \<^item> \<open>Delivery\<close> (\<open>notifications/worker.py\<close>, \<open>recovery.py\<close>): claim, lease, retry, finish, restore, and the
    relation \<open>worker_step\<close> of interleaved workers; \<open>Delivery_Properties\<close> its invariant.
  \<^item> \<open>Market\<close>: the components over one database, \<open>market_step\<close>, and the composition of their invariants
    (\<open>market_inv\<close>); \<open>Market_Theorems\<close> what holds in every reachable state; \<open>Delivery_Protocol\<close> the abstract
    delivery protocol and its refinement; \<open>Delivery_Progress\<close> the polls of the delivery loop
    (\<open>runtime.py\<close>), their bound, and restores.
  \<^item> \<open>Clock\<close> (\<open>clock.py\<close>): calendar import, phases, coverage and market minutes; \<open>Clock_Properties\<close> relates
    them to the list of legal minutes, \<open>Clock_Theorems\<close> states the properties.

  \<^bold>\<open>Interleaving.\<close> \<open>market_step\<close> interleaves transactions, as the writer queue serialises them: a worker step, a
  service command, input rows written by the acquisition side (\<open>new_inputs\<close>: sealed snapshots stay), the
  preparation of a commit, and the transaction of a commit prepared earlier on an older database.

  \<^bold>\<open>Bounds and fuel.\<close> No definition uses fuel. Recursion is structural except for \<open>nat_digits\<close>, \<open>missing_dates\<close>
  and \<open>minutes_down\<close>, whose termination is proved by measures.

  \<^bold>\<open>Hypotheses.\<close> Properties of reachable states start from any well-formed state; an empty database is one
  (\<open>market_inv_fresh\<close>). The counting properties of the clock assume ordered, disjoint sessions on whole
  minutes, which the import does not check.

  \<^bold>\<open>Not modelled.\<close> SQLite, threads and files (\<open>writer.py\<close>, \<open>database.py\<close>, \<open>backup.py\<close>, \<open>maintenance.py\<close>): a
  command is one transaction. The network: adapters return any outcome, providers any rows. The HTTP
  layer, the operator scripts and the web client.
\<close>

end
